(* ===== verification/Lium_Prelude.thy ===== *)
theory Lium_Prelude
  imports Complex_Main "HOL-Library.AList" "HOL-Library.List_Lexorder"
begin

text \<open>
  Shared vocabulary of the development: Python exceptions as values, Python dictionaries as
  association lists in insertion order, and the string operations the modelled code uses.
  A Python string is a \<^typ>\<open>string\<close>, one \<^typ>\<open>char\<close> per code point below 256 (Latin-1).
  The dash of a few message texts is outside that range and is written as a hyphen.
\<close>

named_theorems dict_simps \<open>lookup laws of dictionaries\<close>
named_theorems str_simps \<open>laws of the string operations\<close>

section \<open>Exceptions\<close>

datatype py_exc =
    KeyError
  | ValueError
  | TypeError
  | AttributeError
  | ZeroDivisionError
  | RuntimeError string
  | Cancelled
  | OtherError string string  \<comment> \<open>class name and message of any other exception\<close>

type_synonym 'a res = "py_exc + 'a"

section \<open>Dictionaries\<close>

text \<open>
  A dictionary keeps its keys in insertion order and holds each key once. \<^const>\<open>AList.update\<close>
  overwrites in place and appends a new key at the end, as Python does; \<^const>\<open>AList.delete\<close> is
  \<open>pop\<close> with a default.
\<close>

type_synonym ('k, 'v) dict = "('k \<times> 'v) list"

abbreviation dget :: "('k, 'v) dict \<Rightarrow> 'k \<Rightarrow> 'v option" where
  "dget d k \<equiv> map_of d k"

abbreviation dset :: "'k \<Rightarrow> 'v \<Rightarrow> ('k, 'v) dict \<Rightarrow> ('k, 'v) dict" where
  "dset k v d \<equiv> AList.update k v d"

abbreviation dpop :: "'k \<Rightarrow> ('k, 'v) dict \<Rightarrow> ('k, 'v) dict" where
  "dpop k d \<equiv> AList.delete k d"

definition dget_or :: "'v \<Rightarrow> ('k, 'v) dict \<Rightarrow> 'k \<Rightarrow> 'v" where
  "dget_or v d k = (case dget d k of None \<Rightarrow> v | Some x \<Rightarrow> x)"

definition dsetdefault :: "'k \<Rightarrow> 'v \<Rightarrow> ('k, 'v) dict \<Rightarrow> ('k, 'v) dict" where
  "dsetdefault k v d = (case dget d k of None \<Rightarrow> dset k v d | Some _ \<Rightarrow> d)"

text \<open>\<open>{**d, **e}\<close> and \<open>d.update(e)\<close>: every entry of \<open>e\<close> is stored in \<open>d\<close>, in order.\<close>

fun dmerge :: "('k, 'v) dict \<Rightarrow> ('k, 'v) dict \<Rightarrow> ('k, 'v) dict" where
  "dmerge d [] = d"
| "dmerge d ((k, v) # e) = dmerge (dset k v d) e"

definition is_dict :: "('k, 'v) dict \<Rightarrow> bool" where
  "is_dict d \<longleftrightarrow> distinct (map fst d)"

text \<open>What a client of a keyed store relies on.\<close>

locale keyed_store =
  fixes lookup :: "'m \<Rightarrow> 'k \<Rightarrow> 'v option"
    and put :: "'k \<Rightarrow> 'v \<Rightarrow> 'm \<Rightarrow> 'm"
    and del :: "'k \<Rightarrow> 'm \<Rightarrow> 'm"
  assumes lookup_put: "lookup (put k v m) j = (if j = k then Some v else lookup m j)"
    and lookup_del: "lookup (del k m) j = (if j = k then None else lookup m j)"
begin

lemma put_put_lookup: "lookup (put k v (put k w m)) = lookup (put k v m)"
  by (rule ext) (simp add: lookup_put)

lemma put_swap_lookup: "k \<noteq> j \<Longrightarrow> lookup (put k v (put j w m)) = lookup (put j w (put k v m))"
  by (rule ext) (simp add: lookup_put)

lemma del_put_lookup: "lookup (del k (put k v m)) = lookup (del k m)"
  by (rule ext) (simp add: lookup_put lookup_del)

text \<open>Folding puts over keys none of which is \<open>k\<close> keeps the entry of \<open>k\<close>.\<close>

lemma foldl_put_other:
  "k \<notin> set ks \<Longrightarrow> lookup (foldl (\<lambda>m j. put j (f j m) m) m0 ks) k = lookup m0 k"
  by (induction ks arbitrary: m0) (auto simp: lookup_put)

end

lemma dget_dset [simp, dict_simps]: "dget (dset k v d) j = (if j = k then Some v else dget d j)"
  by (simp add: update_conv')

lemma dget_dpop [simp, dict_simps]: "dget (dpop k d) j = (if j = k then None else dget d j)"
  by (simp add: delete_conv')

interpretation py_dict: keyed_store "map_of" "AList.update" "AList.delete"
  by unfold_locales auto

lemma is_dict_dset [simp, intro]: "is_dict d \<Longrightarrow> is_dict (dset k v d)"
  by (simp add: is_dict_def distinct_update)

lemma is_dict_dpop [simp, intro]: "is_dict d \<Longrightarrow> is_dict (dpop k d)"
  by (simp add: is_dict_def distinct_delete)

lemma is_dict_Nil [simp]: "is_dict []"
  by (simp add: is_dict_def)

lemma dget_or_simps [simp, dict_simps]:
  "dget_or v [] k = v"
  "dget_or v (dset j w d) k = (if k = j then w else dget_or v d k)"
  by (auto simp: dget_or_def)

lemma dget_dsetdefault [dict_simps]:
  "dget (dsetdefault k v d) j = (if j = k \<and> dget d k = None then Some v else dget d j)"
  by (auto simp: dsetdefault_def split: option.splits)

lemma dget_dmerge [dict_simps]:
  "is_dict e \<Longrightarrow> dget (dmerge d e) j = (case dget e j of None \<Rightarrow> dget d j | Some v \<Rightarrow> Some v)"
proof (induction d e rule: dmerge.induct)
  case (2 d k v e)
  then have "is_dict e" "dget e k = None" by (auto simp: is_dict_def map_of_eq_None_iff)
  with "2.IH" show ?case by (auto split: option.splits)
qed simp

lemma is_dict_dmerge [intro]: "is_dict d \<Longrightarrow> is_dict (dmerge d e)"
  by (induction d e rule: dmerge.induct) auto

lemma keys_dset: "fst ` set (dset k v d) = insert k (fst ` set d)"
  by (simp add: dom_map_of_conv_image_fst [symmetric] update_conv')

lemma keys_dpop: "fst ` set (dpop k d) = fst ` set d - {k}"
  by (auto simp: dom_map_of_conv_image_fst [symmetric] delete_conv' split: if_splits)

lemma dget_None_iff: "dget d k = None \<longleftrightarrow> k \<notin> fst ` set d"
  by (rule map_of_eq_None_iff)

lemma set_dset_subset: "set (dset k v d) \<subseteq> insert (k, v) (set d)"
  by (induction d) auto

lemma dget_Some_in: "dget d k = Some v \<Longrightarrow> (k, v) \<in> set d"
  by (rule map_of_SomeD)

section \<open>Strings\<close>

definition is_space :: "char \<Rightarrow> bool" where
  "is_space c \<longleftrightarrow> c \<in> {CHR 0x20, CHR 0x09, CHR 0x0A, CHR 0x0B, CHR 0x0C, CHR 0x0D,
                        CHR 0x1C, CHR 0x1D, CHR 0x1E, CHR 0x1F, CHR 0x85, CHR 0xA0}"

definition py_strip :: "string \<Rightarrow> string" where
  "py_strip s = rev (dropWhile is_space (rev (dropWhile is_space s)))"

fun py_split :: "char \<Rightarrow> string \<Rightarrow> string list" where
  "py_split c [] = [[]]"
| "py_split c (x # xs) =
     (if x = c then [] # py_split c xs
      else case py_split c xs of [] \<Rightarrow> [[x]] | p # ps \<Rightarrow> (x # p) # ps)"

fun py_join :: "string \<Rightarrow> string list \<Rightarrow> string" where
  "py_join sep [] = []"
| "py_join sep [s] = s"
| "py_join sep (s # t # ts) = s @ sep @ py_join sep (t # ts)"

definition lower_char :: "char \<Rightarrow> char" where
  "lower_char c = (let n = of_char c :: nat in
     if (65 \<le> n \<and> n \<le> 90) \<or> (192 \<le> n \<and> n \<le> 222 \<and> n \<noteq> 215) then char_of (n + 32) else c)"

definition py_lower :: "string \<Rightarrow> string" where
  "py_lower s = map lower_char s"

definition starts_with :: "string \<Rightarrow> string \<Rightarrow> bool" where
  "starts_with p s \<longleftrightarrow> take (length p) s = p"

fun contains_sub :: "string \<Rightarrow> string \<Rightarrow> bool" where
  "contains_sub p [] = (p = [])"
| "contains_sub p (x # xs) = (starts_with p (x # xs) \<or> contains_sub p xs)"

text \<open>\<open>s.rpartition(c)\<close> and \<open>s.rsplit(c, 1)\<close> cut at the last occurrence of \<open>c\<close>.\<close>

definition rcut :: "char \<Rightarrow> string \<Rightarrow> (string \<times> string) option" where
  "rcut c s = (if c \<in> set s
     then Some (rev (tl (dropWhile (\<lambda>x. x \<noteq> c) (rev s))), rev (takeWhile (\<lambda>x. x \<noteq> c) (rev s)))
     else None)"

lemma rcut_append [str_simps]: "c \<notin> set t \<Longrightarrow> rcut c (s @ c # t) = Some (s, t)"
proof -
  assume c: "c \<notin> set t"
  then have "takeWhile (\<lambda>x. x \<noteq> c) (rev t @ c # rev s) = rev t"
    and "dropWhile (\<lambda>x. x \<noteq> c) (rev t @ c # rev s) = c # rev s"
    by (subst takeWhile_append2, auto) (subst dropWhile_append2, auto)
  then show ?thesis by (simp add: rcut_def)
qed

lemma py_split_nonempty [simp]: "py_split c s \<noteq> []"
  by (induction s) (auto split: list.splits)

lemma py_join_split: "py_join [c] (py_split c s) = s"
proof (induction s)
  case (Cons x xs)
  then show ?case
    by (cases "py_split c xs") (auto split: list.splits, (cases "tl (py_split c xs)"; simp)+)
qed simp

subsection \<open>Decimal and hexadecimal integers\<close>

definition digit_char :: "nat \<Rightarrow> char" where
  "digit_char n = char_of (48 + n)"

fun str_of_nat :: "nat \<Rightarrow> string" where
  "str_of_nat n = (if n < 10 then [digit_char n] else str_of_nat (n div 10) @ [digit_char (n mod 10)])"

declare str_of_nat.simps [simp del]

definition str_of_int :: "int \<Rightarrow> string" where
  "str_of_int i = (if i < 0 then CHR ''-'' # str_of_nat (nat (- i)) else str_of_nat (nat i))"

definition digit_val :: "nat \<Rightarrow> char \<Rightarrow> nat option" where
  "digit_val b c = (let n = of_char c :: nat;
      v = (if 48 \<le> n \<and> n \<le> 57 then n - 48
           else if 97 \<le> n \<and> n \<le> 122 then n - 87
           else if 65 \<le> n \<and> n \<le> 90 then n - 55 else 36)
    in if v < b then Some v else None)"

text \<open>
  The digits of \<open>int(s, base)\<close>: at least one digit, an underscore only between two digits.
  \<open>after\<close> says whether the previous character was a digit.
\<close>

fun parse_digits :: "nat \<Rightarrow> bool \<Rightarrow> int \<Rightarrow> string \<Rightarrow> int option" where
  "parse_digits b after acc [] = (if after then Some acc else None)"
| "parse_digits b after acc (c # cs) =
     (if c = CHR ''_'' then (if after \<and> cs \<noteq> [] then parse_digits b False acc cs else None)
      else case digit_val b c of None \<Rightarrow> None | Some d \<Rightarrow> parse_digits b True (acc * int b + int d) cs)"

definition drop_hex_prefix :: "string \<Rightarrow> string" where
  "drop_hex_prefix s =
     (if take 2 s = ''0x'' \<or> take 2 s = ''0X''
      then (if take 1 (drop 2 s) = ''_'' then drop 3 s else drop 2 s) else s)"

definition parse_int_base :: "nat \<Rightarrow> string \<Rightarrow> int option" where
  "parse_int_base b s = (let t = py_strip s;
      (neg, u) = (case t of [] \<Rightarrow> (False, t)
                  | c # cs \<Rightarrow> if c = CHR ''-'' then (True, cs) else if c = CHR ''+'' then (False, cs) else (False, t));
      v = (if b = 16 then drop_hex_prefix u else u)
    in map_option (\<lambda>n. if neg then - n else n) (parse_digits b False 0 v))"

abbreviation parse_int :: "string \<Rightarrow> int option" where
  "parse_int \<equiv> parse_int_base 10"

lemma of_char_digit: "n < 10 \<Longrightarrow> of_char (digit_char n) = 48 + n"
  by (simp add: digit_char_def)

lemma digit_val_digit [str_simps]: "n < 10 \<Longrightarrow> digit_val 10 (digit_char n) = Some n"
  by (simp add: digit_val_def of_char_digit Let_def)

lemma digit_char_neq [str_simps]:
  assumes "n < 10" "of_char c < (48::nat) \<or> 57 < (of_char c :: nat)"
  shows "digit_char n \<noteq> c"
  using assms of_char_digit [of n] by auto

lemma set_str_of_nat: "set (str_of_nat n) \<subseteq> digit_char ` {..<10}"
proof (induction n rule: str_of_nat.induct)
  case (1 n)
  show ?case
    using "1" by (subst str_of_nat.simps) auto
qed

lemma str_of_nat_nonempty [simp]: "str_of_nat n \<noteq> []"
  by (subst str_of_nat.simps) simp

lemma parse_digits_snoc:
  assumes "c \<noteq> CHR ''_''" "digit_val b c = Some d"
  shows "parse_digits b a acc xs = Some m \<Longrightarrow> xs \<noteq> []
   \<Longrightarrow> parse_digits b a acc (xs @ [c]) = Some (m * int b + int d)"
proof (induction xs arbitrary: a acc)
  case (Cons x xs)
  with assms show ?case by (cases "xs = []") (simp_all split: if_split_asm option.split_asm)
qed simp

lemma parse_str_of_nat: "parse_digits 10 False 0 (str_of_nat n) = Some (int n)"
proof (induction n rule: str_of_nat.induct)
  case (1 n)
  show ?case
  proof (cases "n < 10")
    case True
    then have "digit_char n \<noteq> CHR ''_''" by (intro digit_char_neq) auto
    with True show ?thesis by (subst str_of_nat.simps) (simp add: str_simps)
  next
    case False
    with "1" have "parse_digits 10 False 0 (str_of_nat (n div 10)) = Some (int (n div 10))" by simp
    moreover have "digit_char (n mod 10) \<noteq> CHR ''_''" by (intro digit_char_neq) auto
    ultimately show ?thesis
      using False parse_digits_snoc [of "digit_char (n mod 10)" 10 "n mod 10" False 0]
        div_mult_mod_eq [of "int n" 10]
      by (subst str_of_nat.simps) (simp add: digit_val_digit zdiv_int zmod_int)
  qed
qed

lemma digit_not_space: "n < 10 \<Longrightarrow> \<not> is_space (digit_char n)"
  by (auto simp: is_space_def dest!: arg_cong [where f = "of_char :: char \<Rightarrow> nat"] simp: of_char_digit)

lemma str_of_nat_strip [str_simps]: "py_strip (str_of_nat n) = str_of_nat n"
proof -
  have "\<forall>c \<in> set (str_of_nat n). \<not> is_space c"
    using set_str_of_nat [of n] digit_not_space by blast
  then have "dropWhile is_space (str_of_nat n) = str_of_nat n"
    "dropWhile is_space (rev (str_of_nat n)) = rev (str_of_nat n)"
    by (metis dropWhile_eq_self_iff list.set_sel(1), metis dropWhile_eq_self_iff list.set_sel(1) set_rev)
  then show ?thesis by (simp add: py_strip_def)
qed

lemma minus_not_digit: "CHR ''-'' \<notin> set (str_of_nat n)" "CHR ''+'' \<notin> set (str_of_nat n)"
  using set_str_of_nat [of n] digit_char_neq [of _ "CHR ''-''"] digit_char_neq [of _ "CHR ''+''"]
  by fastforce+

lemma parse_int_unsigned:
  assumes "py_strip s = s" "s \<noteq> []" "CHR ''-'' \<notin> set s" "CHR ''+'' \<notin> set s"
    and "parse_digits 10 False 0 s = Some n"
  shows "parse_int s = Some n"
proof -
  obtain c cs where s: "s = c # cs" using assms(2) by (cases s) simp_all
  with assms(3,4) have "c \<noteq> CHR ''-''" "c \<noteq> CHR ''+''" by auto
  then show ?thesis
    unfolding parse_int_base_def Let_def assms(1) using assms(5) s
    by (simp only: list.case if_False prod.case) simp
qed

text \<open>\<open>int(str(n)) == n\<close> for a natural number.\<close>

lemma parse_int_str_of_nat [str_simps]: "parse_int (str_of_nat n) = Some (int n)"
  by (rule parse_int_unsigned) (rule str_of_nat_strip str_of_nat_nonempty minus_not_digit parse_str_of_nat)+

text \<open>A bucket number or a port printed with \<open>str\<close> holds digits only.\<close>

lemma str_of_nat_avoids: "of_char c < (48::nat) \<or> 57 < (of_char c :: nat) \<Longrightarrow> c \<notin> set (str_of_nat n)"
  using set_str_of_nat [of n] digit_char_neq [of _ c] by fastforce

end
