(* ===== verification/Py_Float.thy ===== *)
theory Py_Float
  imports Lium_Prelude "HOL-Library.Log_Nat"
begin

text \<open>
  Python floats. A finite binary64 value is the rational it denotes; an arithmetic operation
  computes exactly and rounds with \<open>fl\<close>, round to nearest with ties to even at 53 bits of
  mantissa and the least exponent -1074. Overflow to infinity, infinities and NaN are not
  represented: the code modelled here works on prices, rates, counts and shares far below
  the range limit. The locale \<open>rounding\<close> states what the numeric components rely on; it is
  interpreted on \<open>fl\<close> as \<open>b64\<close>.
\<close>

section \<open>Rounding to binary64\<close>

definition rne :: "rat \<Rightarrow> int" where
  "rne y = (let f = \<lfloor>y\<rfloor>; d = y - of_int f
            in if d < 1/2 then f else if 1/2 < d then f + 1 else if even f then f else f + 1)"

definition binade :: "rat \<Rightarrow> int" where
  "binade x = (let (a, b) = quotient_of x; k = bitlen a - bitlen b
               in if 2 powi k \<le> x then k else k - 1)"

definition grid :: "rat \<Rightarrow> int" where
  "grid x = max (-1074) (binade \<bar>x\<bar> - 52)"

definition fl :: "rat \<Rightarrow> rat" where
  "fl x = (if x = 0 then 0 else of_int (rne (x / 2 powi grid x)) * 2 powi grid x)"

section \<open>Laws of the rounding\<close>

lemma rne_of_int [simp]: "rne (of_int n) = n"
  by (simp add: rne_def)

lemma rne_floor: "\<lfloor>y\<rfloor> \<le> rne y" and rne_floor_Suc: "rne y \<le> \<lfloor>y\<rfloor> + 1"
  by (auto simp: rne_def Let_def)

lemma rne_mono: assumes "x \<le> y" shows "rne x \<le> rne y"
proof (cases "\<lfloor>x\<rfloor> = \<lfloor>y\<rfloor>")
  case True
  with assms show ?thesis by (auto simp: rne_def Let_def)
next
  case False
  then have "\<lfloor>x\<rfloor> + 1 \<le> \<lfloor>y\<rfloor>" using floor_mono [OF assms] by simp
  then show ?thesis using rne_floor_Suc [of x] rne_floor [of y] by linarith
qed

lemma rne_minus: "rne (- y) = - rne y"
proof (cases "y = of_int \<lfloor>y\<rfloor>")
  case True
  then show ?thesis by (metis of_int_minus rne_of_int)
next
  case False
  then have "of_int \<lfloor>y\<rfloor> < y" using of_int_floor_le [of y] by linarith
  then have f: "\<lfloor>- y\<rfloor> = - \<lfloor>y\<rfloor> - 1"
    using floor_correct [of y] by (intro floor_unique) auto
  show ?thesis unfolding rne_def Let_def f by auto
qed

lemma powi_two_pos [simp]: "0 < (2::rat) powi k"
  by simp

lemma powi_two_le_iff: "(2::rat) powi j \<le> 2 powi k \<longleftrightarrow> j \<le> k"
  by (meson one_less_numeral_iff power_int_increasing power_int_strict_increasing
      linorder_not_le order_less_imp_le semiring_norm(76) one_le_numeral)

lemma powi_two_less_iff: "(2::rat) powi j < 2 powi k \<longleftrightarrow> j < k"
  by (simp add: powi_two_le_iff not_le [symmetric])

lemma bitlen_bracket:
  assumes "0 < (a::int)"
  shows "2 powi (bitlen a - 1) \<le> (of_int a :: rat)" and "(of_int a :: rat) < 2 powi (bitlen a)"
proof -
  have b: "0 < bitlen a"
  proof (rule ccontr)
    assume "\<not> 0 < bitlen a"
    then have "a < 1" using bitlen_bounds [OF assms] by simp
    with assms show False by simp
  qed
  have "2 ^ nat (bitlen a - 1) \<le> a" "a < 2 ^ nat (bitlen a)"
    using bitlen_bounds [OF assms] by auto
  then have "(of_int (2 ^ nat (bitlen a - 1)) :: rat) \<le> of_int a"
    "(of_int a :: rat) < of_int (2 ^ nat (bitlen a))"
    by (simp_all only: of_int_le_iff of_int_less_iff)
  then show "2 powi (bitlen a - 1) \<le> (of_int a :: rat)" "(of_int a :: rat) < 2 powi (bitlen a)"
    using b by (simp_all add: power_int_def)
qed

lemma binade_bracket:
  assumes "0 < x"
  shows "2 powi binade x \<le> x" and "x < 2 powi (binade x + 1)"
proof -
  obtain a b where q: "quotient_of x = (a, b)" by (cases "quotient_of x")
  have b: "0 < b" using q by (rule quotient_of_denom_pos)
  have x: "x = of_int a / of_int b" using q by (rule quotient_of_div)
  with assms b have a: "0 < a" by (simp add: zero_less_divide_iff)
  let ?k = "bitlen a - bitlen b"
  have "x < 2 powi bitlen a / 2 powi (bitlen b - 1)"
    unfolding x using bitlen_bracket [OF a] bitlen_bracket [OF b] a b
    by (intro frac_less) auto
  also have "\<dots> = 2 powi (?k + 1)"
    by (subst power_int_diff [symmetric]) (auto simp: algebra_simps)
  finally have up: "x < 2 powi (?k + 1)" .
  have "2 powi (bitlen a - 1) / 2 powi bitlen b \<le> x"
    unfolding x using bitlen_bracket [OF a] bitlen_bracket [OF b] a b
    by (intro frac_le) auto
  moreover have "(2::rat) powi (bitlen a - 1) / 2 powi bitlen b = 2 powi (?k - 1)"
    by (subst power_int_diff [symmetric]) (auto simp: algebra_simps)
  ultimately have lo: "2 powi (?k - 1) \<le> x" by simp
  show "2 powi binade x \<le> x" "x < 2 powi (binade x + 1)"
    using up lo by (auto simp: binade_def q Let_def)
qed

lemma binade_mono:
  assumes "0 < x" "x \<le> y" shows "binade x \<le> binade y"
proof -
  have "(2::rat) powi binade x < 2 powi (binade y + 1)"
    using binade_bracket [of x] binade_bracket [of y] assms by linarith
  then show ?thesis by (simp add: powi_two_less_iff)
qed


lemma powi_two_int: "0 \<le> k \<Longrightarrow> \<exists>n. (2::rat) powi k = of_int n"
  by (rule exI [of _ "2 ^ nat k"]) (simp add: power_int_def)

lemma grid_minus [simp]: "grid (- x) = grid x"
  by (simp add: grid_def)

lemma fl_0 [simp]: "fl 0 = 0"
  by (simp add: fl_def)

lemma fl_minus: "fl (- x) = - fl x"
  by (simp add: fl_def rne_minus)

lemma fl_alt: "fl x = of_int (rne (x / 2 powi grid x)) * 2 powi grid x"
  using rne_of_int [of 0] by (simp add: fl_def)

lemma fl_on_grid:
  assumes "x = of_int m * 2 powi k" "grid x \<le> k"
  shows "fl x = x"
proof -
  obtain n where n: "(2::rat) powi (k - grid x) = of_int n"
    using powi_two_int [of "k - grid x"] assms(2) by auto
  have "x / 2 powi grid x = of_int m * 2 powi (k - grid x)"
    by (simp add: assms(1) power_int_diff)
  also have "\<dots> = of_int (m * n)" by (simp add: n)
  finally have q: "x / 2 powi grid x = of_int (m * n)" .
  then have "rne (x / 2 powi grid x) = m * n" by (simp only: rne_of_int)
  moreover have "of_int (m * n) * 2 powi grid x = x"
    unfolding q [symmetric] by simp
  ultimately show ?thesis by (simp add: fl_alt)
qed

lemma abs_bracket:
  assumes "x \<noteq> 0"
  shows "2 powi binade \<bar>x\<bar> \<le> \<bar>x\<bar>" and "\<bar>x\<bar> < 2 powi (binade \<bar>x\<bar> + 1)"
  using binade_bracket [of "\<bar>x\<bar>"] assms by auto

lemma fl_exact:
  assumes "\<bar>m\<bar> \<le> 2 ^ 53" "-1074 \<le> k"
  shows "fl (of_int m * 2 powi k) = of_int m * 2 powi k"
proof (cases "\<bar>m\<bar> = 2 ^ 53 \<or> m = 0")
  case False
  let ?x = "of_int m * 2 powi k :: rat"
  from False assms have m: "\<bar>m\<bar> < 2 ^ 53" "m \<noteq> 0" by auto
  then have x: "?x \<noteq> 0" by simp
  have "\<bar>?x\<bar> = of_int \<bar>m\<bar> * 2 powi k" by (simp add: abs_mult)
  also have "\<dots> < of_int (2 ^ 53) * 2 powi k"
    using m(1) by (intro mult_strict_right_mono) (simp_all only: of_int_less_iff powi_two_pos)
  also have "\<dots> = 2 powi (k + 53)" by (simp add: power_int_add)
  finally have "(2::rat) powi binade \<bar>?x\<bar> < 2 powi (k + 53)"
    using abs_bracket(1) [OF x] by linarith
  then have "grid ?x \<le> k" using assms(2) by (simp add: grid_def powi_two_less_iff)
  then show ?thesis using fl_on_grid by blast
next
  case True
  show ?thesis
  proof (cases "m = 0")
    case False
    let ?x = "of_int m * 2 powi k :: rat"
    define s where "s = sgn m"
    have m: "m = s * 2 ^ 53" using True False by (auto simp: s_def sgn_if split: if_splits)
    have x: "?x \<noteq> 0" using False by simp
    have eq: "?x = of_int (s * 2 ^ 52) * 2 powi (k + 1)"
      by (simp add: m power_int_add)
    have "\<bar>?x\<bar> = of_int \<bar>m\<bar> * 2 powi k" by (simp add: abs_mult)
    also have "\<dots> = 2 powi (k + 53)" using True False by (simp add: power_int_add)
    finally have "(2::rat) powi binade \<bar>?x\<bar> \<le> 2 powi (k + 53)"
      using abs_bracket(1) [OF x] by linarith
    then have "grid ?x \<le> k + 1" using assms(2) by (simp add: grid_def powi_two_le_iff)
    then show ?thesis using fl_on_grid [OF eq] by simp
  qed simp
qed

lemma fl_mantissa: "\<bar>rne (x / 2 powi grid x)\<bar> \<le> 2 ^ 53"
proof (cases "x = 0")
  case False
  have "\<bar>x\<bar> \<le> 2 powi (grid x + 53)"
  proof -
    have "(2::rat) powi (binade \<bar>x\<bar> + 1) \<le> 2 powi (grid x + 53)"
      by (simp add: powi_two_le_iff grid_def)
    then show ?thesis using abs_bracket(2) [OF False] by linarith
  qed
  then have "\<bar>x\<bar> / 2 powi grid x \<le> 2 ^ 53"
    by (simp add: power_int_add divide_le_eq mult.commute)
  then have "\<bar>x / 2 powi grid x\<bar> \<le> of_int (2 ^ 53)" by simp
  then have "- of_int (2 ^ 53) \<le> x / 2 powi grid x" "x / 2 powi grid x \<le> of_int (2 ^ 53)"
    by (simp_all only: abs_le_iff) linarith
  from rne_mono [OF this(1)] rne_mono [OF this(2)]
  show ?thesis unfolding rne_minus rne_of_int abs_le_iff by linarith
qed (use rne_of_int [of 0] in simp)

lemma grid_ge: "-1074 \<le> grid x"
  by (simp add: grid_def)

lemma fl_fl [simp]: "fl (fl x) = fl x"
  unfolding fl_alt [of x] using fl_exact [OF fl_mantissa grid_ge] .

lemma fl_of_int: "\<bar>n\<bar> \<le> 2 ^ 53 \<Longrightarrow> fl (of_int n) = of_int n"
  using fl_exact [of n 0] by simp

lemma fl_mono_pos:
  assumes "0 < x" "x \<le> y"
  shows "fl x \<le> fl y"
proof (cases "grid x = grid y")
  case True
  have "x / 2 powi grid y \<le> y / 2 powi grid y" using assms(2) by (simp add: divide_right_mono)
  then have "rne (x / 2 powi grid y) \<le> rne (y / 2 powi grid y)" by (rule rne_mono)
  then show ?thesis by (simp add: fl_alt True)
next
  case False
  have le: "binade x \<le> binade y" using assms by (rule binade_mono)
  with False assms have g: "grid y = binade y - 52" "grid x \<le> binade y - 53" "binade x < binade y"
    by (auto simp: grid_def max_def split: if_splits)
  let ?B = "2 powi binade y :: rat"
  have "x < 2 powi (binade x + 1)" using binade_bracket(2) assms(1) by blast
  also have "\<dots> \<le> ?B" using g(3) by (simp add: powi_two_le_iff)
  finally have xB: "x \<le> ?B" by simp
  obtain n where n: "(2::rat) powi (binade y - grid x) = of_int n"
    using powi_two_int [of "binade y - grid x"] g(2) by auto
  have "x / 2 powi grid x \<le> of_int n"
    unfolding n [symmetric] using xB by (simp add: power_int_diff divide_right_mono)
  then have "rne (x / 2 powi grid x) \<le> n" using rne_mono rne_of_int by metis
  then have "fl x \<le> of_int n * 2 powi grid x"
    by (simp add: fl_alt mult_right_mono)
  also have "\<dots> = ?B" unfolding n [symmetric] by (simp add: power_int_diff)
  finally have 1: "fl x \<le> ?B" .
  have "of_int (2 ^ 52) \<le> y / 2 powi grid y"
    using binade_bracket(1) [of y] assms by (simp add: g(1) power_int_diff field_simps)
  then have "2 ^ 52 \<le> rne (y / 2 powi grid y)" using rne_mono rne_of_int by metis
  then have "(of_int (2 ^ 52) :: rat) * 2 powi grid y \<le> fl y"
    unfolding fl_alt by (intro mult_right_mono) (simp_all only: of_int_le_iff, simp)
  moreover have "(of_int (2 ^ 52) :: rat) * 2 powi grid y = ?B"
    by (simp add: g(1) power_int_diff)
  ultimately show ?thesis using 1 by linarith
qed

lemma fl_nonneg: "0 \<le> x \<Longrightarrow> 0 \<le> fl x"
  using rne_mono [of 0 "x / 2 powi grid x"] rne_of_int [of 0] by (simp add: fl_alt)

lemma fl_mono: "x \<le> y \<Longrightarrow> fl x \<le> fl y"
proof -
  assume le: "x \<le> y"
  consider "0 < x" | "x \<le> 0" "0 \<le> y" | "y < 0" using le by linarith
  then show ?thesis
  proof cases
    case 2
    then have "fl x \<le> 0" using fl_nonneg [of "- x"] by (simp add: fl_minus)
    then show ?thesis using fl_nonneg [OF 2(2)] by linarith
  next
    case 3
    then show ?thesis using fl_mono_pos [of "- y" "- x"] le by (simp add: fl_minus)
  qed (use le fl_mono_pos in blast)
qed

section \<open>Float operations\<close>

definition fadd :: "rat \<Rightarrow> rat \<Rightarrow> rat" where
  "fadd x y = fl (x + y)"

definition fsub :: "rat \<Rightarrow> rat \<Rightarrow> rat" where
  "fsub x y = fl (x - y)"

definition fmul :: "rat \<Rightarrow> rat \<Rightarrow> rat" where
  "fmul x y = fl (x * y)"

text \<open>The caller excludes a zero divisor, for which Python raises.\<close>

definition fdiv :: "rat \<Rightarrow> rat \<Rightarrow> rat" where
  "fdiv x y = fl (x / y)"

text \<open>\<open>float(n)\<close> of an integer, and the exact value of a decimal literal of the source.\<close>

definition fint :: "int \<Rightarrow> rat" where
  "fint n = fl (of_int n)"

text \<open>\<open>round(x, n)\<close> is the double nearest to the decimal that is nearest to \<open>x\<close>.\<close>

definition py_round :: "rat \<Rightarrow> nat \<Rightarrow> rat" where
  "py_round x n = fl (of_int (rne (x * 10 ^ n)) / 10 ^ n)"

definition trunc :: "rat \<Rightarrow> int" where
  "trunc x = (if 0 \<le> x then \<lfloor>x\<rfloor> else \<lceil>x\<rceil>)"

text \<open>\<open>sum\<close> of a sequence of floats, a left fold that starts from the integer 0.\<close>

fun fsum_from :: "rat \<Rightarrow> rat list \<Rightarrow> rat" where
  "fsum_from acc [] = acc"
| "fsum_from acc (x # xs) = fsum_from (fadd acc x) xs"

definition fsum :: "rat list \<Rightarrow> rat" where
  "fsum xs = fsum_from 0 xs"

section \<open>What clients rely on\<close>

locale rounding =
  fixes rnd :: "rat \<Rightarrow> rat"
  assumes mono: "x \<le> y \<Longrightarrow> rnd x \<le> rnd y"
    and idem: "rnd (rnd x) = rnd x"
    and odd: "rnd (- x) = - rnd x"
    and small_int: "\<bar>n\<bar> \<le> 2 ^ 53 \<Longrightarrow> rnd (of_int n) = of_int n"
begin

lemma zero: "rnd 0 = 0"
  using small_int [of 0] by simp

lemma one: "rnd 1 = 1"
  using small_int [of 1] by simp

lemma nonneg: "0 \<le> x \<Longrightarrow> 0 \<le> rnd x"
  using mono [of 0 x] by (simp add: zero)

lemma nonpos: "x \<le> 0 \<Longrightarrow> rnd x \<le> 0"
  using mono [of x 0] by (simp add: zero)

text \<open>Rounding does not cross a representable bound.\<close>

lemma le_bound: "x \<le> b \<Longrightarrow> rnd b = b \<Longrightarrow> rnd x \<le> b"
  using mono [of x b] by simp

lemma ge_bound: "b \<le> x \<Longrightarrow> rnd b = b \<Longrightarrow> b \<le> rnd x"
  using mono [of b x] by simp

lemma scale_down: "0 \<le> x \<Longrightarrow> rnd x = x \<Longrightarrow> f \<le> 1 \<Longrightarrow> rnd (x * f) \<le> x"
  by (rule le_bound) (auto intro: mult_left_le)

lemma ratio_unit: "0 \<le> a \<Longrightarrow> a \<le> b \<Longrightarrow> 0 \<le> rnd (a / b) \<and> rnd (a / b) \<le> 1"
  using le_bound [of "a / b" 1] by (cases "b = 0") (auto intro: nonneg simp: one zero divide_le_eq_1)

lemma diff_le: "0 \<le> y \<Longrightarrow> rnd x = x \<Longrightarrow> rnd (x - y) \<le> x"
  by (rule le_bound) auto

lemma add_ge: "0 \<le> y \<Longrightarrow> rnd x = x \<Longrightarrow> x \<le> rnd (x + y)"
  by (rule ge_bound) auto

text \<open>The remainder of a rounded difference is never negative and never exceeds the whole.\<close>

lemma diff_unit: "0 \<le> y \<Longrightarrow> y \<le> x \<Longrightarrow> rnd x = x \<Longrightarrow> 0 \<le> rnd (x - y) \<and> rnd (x - y) \<le> x"
  by (auto intro: nonneg diff_le)

end

interpretation b64: rounding fl
  by unfold_locales (simp_all add: fl_mono fl_minus fl_of_int)

definition is_float :: "rat \<Rightarrow> bool" where
  "is_float x \<longleftrightarrow> fl x = x"

lemma is_float_ops [simp]:
  "is_float (fadd x y)" "is_float (fsub x y)" "is_float (fmul x y)" "is_float (fdiv x y)"
  "is_float (fint n)" "is_float (fl x)" "is_float (py_round x k)" "is_float 0" "is_float 1"
  by (simp_all add: is_float_def fadd_def fsub_def fmul_def fdiv_def fint_def py_round_def b64.one)

lemma fmul_nonneg [simp]: "0 \<le> x \<Longrightarrow> 0 \<le> y \<Longrightarrow> 0 \<le> fmul x y"
  by (simp add: fmul_def b64.nonneg)

lemma fadd_nonneg [simp]: "0 \<le> x \<Longrightarrow> 0 \<le> y \<Longrightarrow> 0 \<le> fadd x y"
  by (simp add: fadd_def b64.nonneg)

lemma fdiv_nonneg [simp]: "0 \<le> x \<Longrightarrow> 0 \<le> y \<Longrightarrow> 0 \<le> fdiv x y"
  by (simp add: fdiv_def b64.nonneg)

lemma fsub_nonneg [simp]: "y \<le> x \<Longrightarrow> 0 \<le> fsub x y"
  by (simp add: fsub_def b64.nonneg)

lemma fint_nonneg [simp]: "0 \<le> n \<Longrightarrow> 0 \<le> fint n"
  by (simp add: fint_def b64.nonneg)

lemma fmul_zero [simp]: "fmul 0 y = 0" "fmul x 0 = 0"
  by (simp_all add: fmul_def)

lemma fmul_le: "0 \<le> x \<Longrightarrow> is_float x \<Longrightarrow> f \<le> 1 \<Longrightarrow> fmul x f \<le> x"
  by (simp add: fmul_def is_float_def b64.scale_down)

lemma fmul_mono: "0 \<le> x \<Longrightarrow> x \<le> x' \<Longrightarrow> 0 \<le> y \<Longrightarrow> y \<le> y' \<Longrightarrow> fmul x y \<le> fmul x' y'"
  by (auto simp: fmul_def intro!: b64.mono mult_mono)

lemma fdiv_unit: "0 \<le> a \<Longrightarrow> a \<le> b \<Longrightarrow> fdiv a b \<le> 1"
  using b64.ratio_unit by (auto simp: fdiv_def)

lemma fsub_le: "0 \<le> y \<Longrightarrow> is_float x \<Longrightarrow> fsub x y \<le> x"
  by (simp add: fsub_def is_float_def b64.diff_le)

lemma fadd_ge: "0 \<le> y \<Longrightarrow> is_float x \<Longrightarrow> x \<le> fadd x y"
  by (simp add: fadd_def is_float_def b64.add_ge)

lemma fsum_from_ge:
  "\<forall>x \<in> set xs. 0 \<le> x \<Longrightarrow> 0 \<le> acc \<Longrightarrow> is_float acc \<Longrightarrow> acc \<le> fsum_from acc xs"
proof (induction xs arbitrary: acc)
  case (Cons x xs)
  then have "acc \<le> fadd acc x" by (simp add: fadd_ge)
  moreover have "fadd acc x \<le> fsum_from (fadd acc x) xs" using Cons by simp
  ultimately show ?case by simp
qed simp

lemma fsum_float: "is_float (fsum xs)"
proof -
  have "is_float acc \<Longrightarrow> is_float (fsum_from acc xs)" for acc
    by (induction acc xs rule: fsum_from.induct) simp_all
  then show ?thesis by (simp add: fsum_def)
qed

lemma fsum_nonneg: "\<forall>x \<in> set xs. 0 \<le> x \<Longrightarrow> 0 \<le> fsum xs"
  using fsum_from_ge [of xs 0] by (simp add: fsum_def)

lemma py_round_nonneg [simp]: "0 \<le> x \<Longrightarrow> 0 \<le> py_round x n"
  using rne_floor [of "x * 10 ^ n"]
  by (simp add: py_round_def b64.nonneg zero_le_floor order_trans [of 0 "\<lfloor>x * 10 ^ n\<rfloor>"])

end
