(* ===== verification/Ssh_Runner.thy ===== *)
theory Ssh_Runner
  imports Py_Float
begin

text \<open>
  The SSH command runner of the validator (services/task/runner.py): the record a command
  returns and the retry loop of \<open>SSHCommandRunner.run\<close>. The SSH library, the clock and the
  id generator are inputs: attempt \<open>i\<close> of a run reads \<open>env i\<close>, which says how the remote call
  ended and what the clocks showed. The loop also returns the number of attempts made and the
  pauses between them.
\<close>

section \<open>Data\<close>

record ssh_command_result =
  command :: string
  command_id :: string
  exit_code :: int
  r_stdout :: string
  r_stderr :: string
  duration_ms :: int
  started_at :: int
  finished_at :: int
  r_success :: bool
  error_type :: "string option"
  error_message :: "string option"

text \<open>
  How one awaited remote call ends: it returns (with or without an exit status), it exceeds the
  timeout, the SSH library raises, any other exception is raised, or the task is cancelled
  (a cancellation is no \<open>Exception\<close> and passes through every handler of the loop).
\<close>

datatype ssh_outcome =
    Returned "int option" string string
  | TimedOut string
  | SshError string string
  | OtherExc string string
  | TaskCancelled

record attempt_env =
  ae_outcome :: ssh_outcome
  ae_cid :: string
  ae_start :: int
  ae_finish :: int
  ae_t0 :: rat
  ae_t1 :: rat

record ssh_run =
  sr_result :: "ssh_command_result res"
  sr_attempts :: nat
  sr_sleeps :: "rat list"

definition NO_EXIT_STATUS :: string where
  "NO_EXIT_STATUS = ''no_exit_status''"

section \<open>The retry loop\<close>

definition elapsed_ms :: "attempt_env \<Rightarrow> int" where
  "elapsed_ms e = trunc (fmul (fsub (ae_t1 e) (ae_t0 e)) 1000)"

definition failed_result :: "string \<Rightarrow> attempt_env \<Rightarrow> string \<Rightarrow> string \<Rightarrow> string \<Rightarrow> string \<Rightarrow> ssh_command_result" where
  "failed_result cmd e out err ty msg =
     \<lparr> command = cmd, command_id = ae_cid e, exit_code = - 1, r_stdout = out, r_stderr = err,
       duration_ms = elapsed_ms e, started_at = ae_start e, finished_at = ae_finish e,
       r_success = False, error_type = Some ty, error_message = Some msg \<rparr>"

text \<open>What one pass through the loop body decides: return, raise, or pause and go round.\<close>

datatype attempt_step = Return ssh_command_result | Raise py_exc | Retry rat

definition run_attempt :: "int \<Rightarrow> string \<Rightarrow> bool \<Rightarrow> bool \<Rightarrow> attempt_env \<Rightarrow> int \<Rightarrow> attempt_step" where
  "run_attempt max_retries cmd check retryable e attempt =
     (case ae_outcome e of
        Returned None out err \<Rightarrow>
          if \<not> retryable \<or> attempt > max_retries
          then Return (failed_result cmd e (py_strip out) (py_strip err) NO_EXIT_STATUS
                 ''the SSH channel closed without an exit status'')
          else Retry (fmul (1 / 2) (fint attempt))
      | Returned (Some code) out err \<Rightarrow>
          if check \<and> code \<noteq> 0
          then Return (failed_result cmd e [] [] ''RuntimeError''
                 (''Command failed with exit code '' @ str_of_int code @ '': '' @ cmd))
          else Return \<lparr> command = cmd, command_id = ae_cid e, exit_code = code,
                 r_stdout = py_strip out, r_stderr = py_strip err, duration_ms = elapsed_ms e,
                 started_at = ae_start e, finished_at = ae_finish e, r_success = (code = 0),
                 error_type = None, error_message = None \<rparr>
      | TimedOut msg \<Rightarrow>
          if \<not> retryable \<or> attempt > max_retries
          then Return (failed_result cmd e [] [] ''timeout'' msg)
          else Retry (fmul 1 (fint attempt))
      | SshError cls msg \<Rightarrow>
          if \<not> retryable \<or> attempt > max_retries
          then Return (failed_result cmd e [] [] cls msg)
          else Retry (fmul (1 / 2) (fint attempt))
      | OtherExc cls msg \<Rightarrow> Return (failed_result cmd e [] [] cls msg)
      | TaskCancelled \<Rightarrow> Raise Cancelled)"

text \<open>
  \<open>attempt\<close> is the counter before the loop test; \<open>last\<close> is the exception the final \<open>raise\<close>
  would re-raise.
\<close>

function run_loop :: "int \<Rightarrow> string \<Rightarrow> bool \<Rightarrow> bool \<Rightarrow> (nat \<Rightarrow> attempt_env) \<Rightarrow> int \<Rightarrow> py_exc option
    \<Rightarrow> nat \<Rightarrow> rat list \<Rightarrow> ssh_run" where
  "run_loop max_retries cmd check retryable env attempt last_exc n sleeps =
     (if attempt \<le> max_retries
      then case run_attempt max_retries cmd check retryable (env n) (attempt + 1) of
          Return r \<Rightarrow> \<lparr> sr_result = Inr r, sr_attempts = Suc n, sr_sleeps = sleeps \<rparr>
        | Raise e \<Rightarrow> \<lparr> sr_result = Inl e, sr_attempts = Suc n, sr_sleeps = sleeps \<rparr>
        | Retry p \<Rightarrow> run_loop max_retries cmd check retryable env (attempt + 1)
            (case ae_outcome (env n) of
               TimedOut msg \<Rightarrow> Some (OtherError ''TimeoutError'' msg)
             | SshError cls msg \<Rightarrow> Some (OtherError cls msg)
             | _ \<Rightarrow> last_exc) (Suc n) (sleeps @ [p])
      else \<lparr> sr_result = Inl (case last_exc of Some e \<Rightarrow> e
               | None \<Rightarrow> RuntimeError (''Unknown SSH error for cmd: '' @ cmd)),
             sr_attempts = n, sr_sleeps = sleeps \<rparr>)"
  by auto
termination
  by (relation "measure (\<lambda>(m, _, _, _, _, a, _). nat (m + 1 - a))") auto

declare run_loop.simps [simp del]

definition run :: "int \<Rightarrow> string \<Rightarrow> bool \<Rightarrow> bool \<Rightarrow> (nat \<Rightarrow> attempt_env) \<Rightarrow> ssh_run" where
  "run max_retries cmd check retryable env = run_loop max_retries cmd check retryable env 0 None 0 []"

section \<open>Correctness\<close>

text \<open>Outcomes the loop retries while it may.\<close>

definition transient :: "ssh_outcome \<Rightarrow> bool" where
  "transient out = (case out of Returned None _ _ \<Rightarrow> True | TimedOut _ \<Rightarrow> True | SshError _ _ \<Rightarrow> True | _ \<Rightarrow> False)"

lemma run_attempt_retry_iff:
  "(\<exists>p. run_attempt m cmd check retryable e a = Retry p) \<longleftrightarrow>
     transient (ae_outcome e) \<and> retryable \<and> a \<le> m"
  by (cases "ae_outcome e") (auto simp: run_attempt_def transient_def split: option.splits)

lemma run_attempt_success:
  "run_attempt m cmd check retryable e a = Return r \<Longrightarrow> r_success r \<longleftrightarrow> exit_code r = 0"
  by (auto simp: run_attempt_def failed_result_def split: ssh_outcome.splits option.splits if_splits)

text \<open>The attempt at which the loop ends: the first that is not retried.\<close>

fun decisive :: "int \<Rightarrow> bool \<Rightarrow> (nat \<Rightarrow> attempt_env) \<Rightarrow> nat \<Rightarrow> nat \<Rightarrow> nat" where
  "decisive m retryable env n 0 = n"
| "decisive m retryable env n (Suc fuel) =
     (if transient (ae_outcome (env n)) \<and> retryable \<and> int n + 1 \<le> m
      then decisive m retryable env (Suc n) fuel else n)"

lemma decisive_ge: "n \<le> decisive m retryable env n fuel"
  by (induction fuel arbitrary: n) (auto intro: Suc_leD)

lemma decisive_le: "int n \<le> m \<Longrightarrow> int (decisive m retryable env n fuel) \<le> m"
  by (induction fuel arbitrary: n) auto

lemma decisive_before:
  "n \<le> i \<Longrightarrow> i < decisive m retryable env n fuel \<Longrightarrow> transient (ae_outcome (env i)) \<and> retryable"
proof (induction fuel arbitrary: n)
  case (Suc fuel)
  then show ?case using Suc.IH [of "Suc n"] by (cases "i = n") (auto split: if_splits)
qed simp

lemma decisive_final:
  "int n \<le> m \<Longrightarrow> m \<le> int n + int fuel \<Longrightarrow> d = decisive m retryable env n fuel
   \<Longrightarrow> \<not> (transient (ae_outcome (env d)) \<and> retryable \<and> int d + 1 \<le> m)"
  by (induction fuel arbitrary: n) (auto split: if_splits)

lemma run_loop_decisive:
  assumes "int n \<le> m" "m \<le> int n + int fuel" "d = decisive m retryable env n fuel"
  shows "\<exists>sl. run_loop m cmd check retryable env (int n) le n sleeps =
     (case run_attempt m cmd check retryable (env d) (int d + 1) of
        Return r \<Rightarrow> \<lparr> sr_result = Inr r, sr_attempts = Suc d, sr_sleeps = sl \<rparr>
      | Raise e \<Rightarrow> \<lparr> sr_result = Inl e, sr_attempts = Suc d, sr_sleeps = sl \<rparr>
      | Retry p \<Rightarrow> undefined) \<and> length sl = length sleeps + (d - n)"
  using assms
proof (induction fuel arbitrary: n le sleeps)
  case 0
  then have d: "d = n" and "\<not> int n + 1 \<le> m" by auto
  then have "\<nexists>p. run_attempt m cmd check retryable (env n) (int n + 1) = Retry p"
    by (simp add: run_attempt_retry_iff)
  then show ?case
    using 0 d by (subst run_loop.simps) (auto split: attempt_step.splits)
next
  case (Suc fuel)
  show ?case
  proof (cases "transient (ae_outcome (env n)) \<and> retryable \<and> int n + 1 \<le> m")
    case True
    then obtain p where p: "run_attempt m cmd check retryable (env n) (int n + 1) = Retry p"
      using run_attempt_retry_iff by blast
    let ?le = "case ae_outcome (env n) of TimedOut msg \<Rightarrow> Some (OtherError ''TimeoutError'' msg)
        | SshError cls msg \<Rightarrow> Some (OtherError cls msg) | _ \<Rightarrow> le"
    have d: "int (Suc n) \<le> m" "m \<le> int (Suc n) + int fuel" "d = decisive m retryable env (Suc n) fuel"
      using Suc.prems True by auto
    have "run_loop m cmd check retryable env (int n) le n sleeps =
        run_loop m cmd check retryable env (int (Suc n)) ?le (Suc n) (sleeps @ [p])"
      using Suc.prems p by (subst run_loop.simps) (simp add: add.commute)
    moreover have "Suc n \<le> d" unfolding d(3) by (rule decisive_ge)
    ultimately show ?thesis
      using Suc.IH [OF d, of ?le "sleeps @ [p]"] by force
  next
    case False
    then have "d = n" using Suc.prems by auto
    moreover have "\<nexists>p. run_attempt m cmd check retryable (env n) (int n + 1) = Retry p"
      using False by (auto simp: run_attempt_retry_iff)
    ultimately show ?thesis
      using Suc.prems by (subst run_loop.simps) (auto split: attempt_step.splits)
  qed
qed

lemma run_decisive:
  assumes "0 \<le> m" "d = decisive m retryable env 0 (nat m)"
  shows "\<exists>sl. run m cmd check retryable env =
     (case run_attempt m cmd check retryable (env d) (int d + 1) of
        Return r \<Rightarrow> \<lparr> sr_result = Inr r, sr_attempts = Suc d, sr_sleeps = sl \<rparr>
      | Raise e \<Rightarrow> \<lparr> sr_result = Inl e, sr_attempts = Suc d, sr_sleeps = sl \<rparr>
      | Retry p \<Rightarrow> undefined) \<and> length sl = d"
  using run_loop_decisive [of 0 m "nat m" d retryable env cmd check None "[]"] assms
  by (simp add: run_def)

text \<open>
  Claim C1. With a non-negative retry budget and no cancellation, \<open>run\<close> always returns a result
  and never raises. It makes at most \<open>max_retries + 1\<close> attempts and pauses once between two
  attempts. Every attempt before the last ended in a transient failure of a retryable command,
  the last one did not (or exhausted the budget), and the result reports success exactly when
  that last attempt returned exit status 0.
\<close>

theorem run_returns:
  assumes "0 \<le> max_retries" "\<forall>i. ae_outcome (env i) \<noteq> TaskCancelled"
  shows "\<exists>r d. sr_result (run max_retries cmd check retryable env) = Inr r
     \<and> sr_attempts (run max_retries cmd check retryable env) = Suc d
     \<and> length (sr_sleeps (run max_retries cmd check retryable env)) = d
     \<and> int d \<le> max_retries
     \<and> (\<forall>i < d. transient (ae_outcome (env i)) \<and> retryable)
     \<and> (int d = max_retries \<or> \<not> retryable \<or> \<not> transient (ae_outcome (env d)))
     \<and> command_id r = ae_cid (env d)
     \<and> (r_success r \<longleftrightarrow> (\<exists>out err. ae_outcome (env d) = Returned (Some 0) out err))"
proof -
  define d where "d = decisive max_retries retryable env 0 (nat max_retries)"
  have fin: "\<not> (transient (ae_outcome (env d)) \<and> retryable \<and> int d + 1 \<le> max_retries)"
    by (rule decisive_final [of 0 _ "nat max_retries"]) (use assms(1) d_def in auto)
  then have "\<nexists>p. run_attempt max_retries cmd check retryable (env d) (int d + 1) = Retry p"
    by (simp add: run_attempt_retry_iff)
  moreover have "\<nexists>x. run_attempt max_retries cmd check retryable (env d) (int d + 1) = Raise x"
    using assms(2) by (auto simp: run_attempt_def split: ssh_outcome.splits option.splits if_splits)
  ultimately obtain r where r: "run_attempt max_retries cmd check retryable (env d) (int d + 1) = Return r"
    by (cases "run_attempt max_retries cmd check retryable (env d) (int d + 1)") auto
  have le: "int d \<le> max_retries" using decisive_le [of 0 max_retries retryable env] assms(1) by (simp add: d_def)
  have before: "\<forall>i < d. transient (ae_outcome (env i)) \<and> retryable"
    using decisive_before d_def by blast
  have "command_id r = ae_cid (env d)
     \<and> (r_success r \<longleftrightarrow> (\<exists>out err. ae_outcome (env d) = Returned (Some 0) out err))"
    using r by (auto simp: run_attempt_def failed_result_def split: ssh_outcome.splits option.splits if_splits)
  then show ?thesis
    using run_decisive [OF assms(1) d_def, of cmd check] r le before fin by auto
qed

definition flaky_env :: "nat \<Rightarrow> attempt_env" where
  "flaky_env i = \<lparr> ae_outcome = (if i = 0 then TimedOut [] else Returned (Some 0) ''ok'' []),
     ae_cid = str_of_nat i, ae_start = 0, ae_finish = 1, ae_t0 = 0, ae_t1 = 1 / 4 \<rparr>"

theorem run_returns_witness:
  "0 \<le> (1::int) \<and> (\<forall>i. ae_outcome (flaky_env i) \<noteq> TaskCancelled)
   \<and> (\<exists>r. sr_result (run 1 ''df'' False True flaky_env) = Inr r
      \<and> sr_attempts (run 1 ''df'' False True flaky_env) = 2 \<and> r_success r)"
proof -
  have c: "\<forall>i. ae_outcome (flaky_env i) \<noteq> TaskCancelled" by (simp add: flaky_env_def)
  from run_returns [of 1 flaky_env "''df''" False True, OF _ c] obtain r d where
    "sr_result (run 1 ''df'' False True flaky_env) = Inr r"
    "sr_attempts (run 1 ''df'' False True flaky_env) = Suc d" "int d \<le> 1"
    "int d = 1 \<or> \<not> transient (ae_outcome (flaky_env d))"
    "r_success r \<longleftrightarrow> (\<exists>out err. ae_outcome (flaky_env d) = Returned (Some 0) out err)"
    by auto
  with c show ?thesis by (cases d) (auto simp: flaky_env_def transient_def)
qed

end
