(* ===== verification/Py_Value.thy ===== *)
theory Py_Value
  imports Py_Float
begin

text \<open>
  Dynamically typed Python data: what a JSON report, a \<open>specs\<close> dictionary or an event's
  \<open>what_we_saw\<close> holds. \<open>py_eq\<close> is Python's \<open>==\<close> on such values (numbers and booleans compare by
  value, dictionaries ignore order), \<open>truthy\<close> is Python's truth test.
\<close>

datatype pv =
    PNone
  | PBool bool
  | PInt int
  | PFloat rat
  | PStr string
  | PList "pv list"
  | PDict "(string \<times> pv) list"

type_synonym pdict = "(string, pv) dict"

definition num_of :: "pv \<Rightarrow> rat option" where
  "num_of v = (case v of PBool b \<Rightarrow> Some (if b then 1 else 0) | PInt i \<Rightarrow> Some (of_int i)
     | PFloat x \<Rightarrow> Some x | _ \<Rightarrow> None)"

fun py_eq :: "pv \<Rightarrow> pv \<Rightarrow> bool"
  and eq_list :: "pv list \<Rightarrow> pv list \<Rightarrow> bool"
  and eq_items :: "pdict \<Rightarrow> pdict \<Rightarrow> bool" where
  "py_eq a b =
     (case a of
        PNone \<Rightarrow> b = PNone
      | PStr s \<Rightarrow> b = PStr s
      | PList xs \<Rightarrow> (case b of PList ys \<Rightarrow> eq_list xs ys | _ \<Rightarrow> False)
      | PDict d \<Rightarrow> (case b of PDict e \<Rightarrow> length d = length e \<and> eq_items d e | _ \<Rightarrow> False)
      | PBool p \<Rightarrow> num_of b = Some (if p then 1 else 0)
      | PInt i \<Rightarrow> num_of b = Some (of_int i)
      | PFloat x \<Rightarrow> num_of b = Some x)"
| "eq_list [] ys = (ys = [])"
| "eq_list (x # xs) ys = (case ys of [] \<Rightarrow> False | y # ys' \<Rightarrow> py_eq x y \<and> eq_list xs ys')"
| "eq_items [] e = True"
| "eq_items ((k, v) # d) e =
     (case dget e k of None \<Rightarrow> False | Some w \<Rightarrow> py_eq v w \<and> eq_items d e)"

declare py_eq.simps [simp del]

definition truthy :: "pv \<Rightarrow> bool" where
  "truthy v = (case v of PNone \<Rightarrow> False | PBool b \<Rightarrow> b | PInt i \<Rightarrow> i \<noteq> 0 | PFloat x \<Rightarrow> x \<noteq> 0
     | PStr s \<Rightarrow> s \<noteq> [] | PList xs \<Rightarrow> xs \<noteq> [] | PDict d \<Rightarrow> d \<noteq> [])"

definition pv_of_opt :: "('a \<Rightarrow> pv) \<Rightarrow> 'a option \<Rightarrow> pv" where
  "pv_of_opt f x = (case x of None \<Rightarrow> PNone | Some y \<Rightarrow> f y)"

text \<open>\<open>d.get(k)\<close> on a dictionary of values: a missing key reads as \<open>None\<close>.\<close>

definition pget :: "pdict \<Rightarrow> string \<Rightarrow> pv" where
  "pget d k = dget_or PNone d k"

text \<open>
  \<open>str(v)\<close> and the text of an f-string field, for the scalar values the code formats. A float
  is printed by a parameter: its shortest decimal form is not modelled.
\<close>

definition str_of_pv :: "(rat \<Rightarrow> string) \<Rightarrow> pv \<Rightarrow> string option" where
  "str_of_pv show_float v = (case v of PNone \<Rightarrow> Some ''None'' | PBool b \<Rightarrow> Some (if b then ''True'' else ''False'')
     | PInt i \<Rightarrow> Some (str_of_int i) | PFloat x \<Rightarrow> Some (show_float x) | PStr s \<Rightarrow> Some s | _ \<Rightarrow> None)"

section \<open>Equality laws\<close>

text \<open>Every dictionary inside the value holds each key once, as a Python dictionary does.\<close>

fun wf_pv :: "pv \<Rightarrow> bool" and wf_items :: "pdict \<Rightarrow> bool" where
  "wf_pv (PList xs) = list_all wf_pv xs"
| "wf_pv (PDict d) = (distinct (map fst d) \<and> wf_items d)"
| "wf_pv _ = True"
| "wf_items [] = True"
| "wf_items ((k, v) # d) = (wf_pv v \<and> wf_items d)"

lemma wf_items_iff: "wf_items d \<longleftrightarrow> (\<forall>(k, v) \<in> set d. wf_pv v)"
  by (induction d) auto

lemma eq_items_iff: "eq_items d e \<longleftrightarrow> (\<forall>(k, v) \<in> set d. \<exists>w. dget e k = Some w \<and> py_eq v w)"
  by (induction d) (auto split: option.splits)

lemma eq_list_iff: "eq_list xs ys \<longleftrightarrow> list_all2 py_eq xs ys"
  by (induction xs arbitrary: ys) (auto simp: list_all2_Cons1 split: list.splits)

lemma py_eq_refl: "wf_pv v \<Longrightarrow> py_eq v v"
proof (induction v)
  case (PList xs)
  then show ?case
    by (subst py_eq.simps) (auto simp: eq_list_iff list_all2_same list_all_iff)
next
  case (PDict d)
  then have "\<forall>(k, v) \<in> set d. dget d k = Some v \<and> py_eq v v"
    by (fastforce simp: wf_items_iff)
  then show ?case by (subst py_eq.simps) (auto simp: eq_items_iff)
qed (subst py_eq.simps; simp add: num_of_def)+

section \<open>Floats that may be infinite or not a number\<close>

text \<open>A number parsed from a JSON reply, where \<open>Infinity\<close> and \<open>NaN\<close> can occur.\<close>

datatype xfloat = Fin rat | PInf | NInf | NaN

definition xge :: "xfloat \<Rightarrow> rat \<Rightarrow> bool" where
  "xge x y = (case x of Fin r \<Rightarrow> y \<le> r | PInf \<Rightarrow> True | NInf \<Rightarrow> False | NaN \<Rightarrow> False)"

definition xgt :: "xfloat \<Rightarrow> rat \<Rightarrow> bool" where
  "xgt x y = (case x of Fin r \<Rightarrow> y < r | PInf \<Rightarrow> True | NInf \<Rightarrow> False | NaN \<Rightarrow> False)"

definition fin_val :: "xfloat \<Rightarrow> rat option" where
  "fin_val x = (case x of Fin r \<Rightarrow> Some r | _ \<Rightarrow> None)"

end
