(* ===== verification/Rented_Data.thy ===== *)
theory Rented_Data
  imports Py_Value
begin

text \<open>
  The data the backend sends a cycle (protocol/vc_protocol/compute_requests.py): rented pods,
  rented executors, the whole reply and its lookups, with the field validators that run while
  the reply is parsed. With it, the executor's own description (datura/requests/miner_requests.py),
  the pod states the validator reports (validator_requests.py) and the executor image policy
  (services/executor_image_policy.py). Times are microseconds since the epoch.
\<close>

section \<open>Container names\<close>

definition POD_CONTAINER_PREFIX :: string where "POD_CONTAINER_PREFIX = ''pod_''"

definition FILLER_CONTAINER_PREFIX :: string where "FILLER_CONTAINER_PREFIX = ''filler_''"

definition executor_key :: "string \<Rightarrow> string" where
  "executor_key executor_id = py_lower (py_strip executor_id)"

section \<open>Pods and executors\<close>

record rented_pod =
  rp_pod_id :: string
  rp_container_name :: string
  rp_rented_ports :: "int list"
  rp_created_at :: "int option"
  rp_gpu_count :: "int option"
  rp_ssh_port :: "int option"
  rp_status :: "string option"

text \<open>The two validators of a pod, run on the raw fields of the reply.\<close>

definition container_name_not_null :: "string option \<Rightarrow> string" where
  "container_name_not_null v = (case v of None \<Rightarrow> [] | Some s \<Rightarrow> s)"

definition ssh_port_in_range :: "int option \<Rightarrow> int option" where
  "ssh_port_in_range v = (case v of None \<Rightarrow> None
     | Some p \<Rightarrow> if \<not> (1 \<le> p \<and> p \<le> 65535) then None else Some p)"

definition container_name_pending :: "rented_pod \<Rightarrow> bool" where
  "container_name_pending p \<longleftrightarrow> py_strip (rp_container_name p) = []"

definition docker_container_name :: "rented_pod \<Rightarrow> string" where
  "docker_container_name p = (let n = py_strip (rp_container_name p) in
     if n \<noteq> [] then n else POD_CONTAINER_PREFIX @ rp_pod_id p)"

record rented_executor =
  re_miner_hotkey :: string
  re_ip_address :: string
  re_ip_port :: string
  re_pods :: "rented_pod list"
  re_owner_flag :: bool
  re_self_rent :: bool

definition get_rented_ports :: "rented_executor \<Rightarrow> int list" where
  "get_rented_ports e = sort (concat (map rp_rented_ports (re_pods e)))"

record network_ema =
  ema_download_speed :: "rat option"
  ema_upload_speed :: "rat option"
  ema_verifyx_download_speed :: "rat option"
  ema_verifyx_upload_speed :: "rat option"

record manual_rental_info =
  mr_gpu_model :: string
  mr_gpu_count :: int

definition FILLER_REVENUE_WINDOW_HOURS :: int where "FILLER_REVENUE_WINDOW_HOURS = 24"

record filler_revenue =
  fr_base_model :: string
  fr_gpu_count :: int
  fr_usd_per_gpu_hour :: xfloat
  fr_gpu_hours :: xfloat

section \<open>The reply\<close>

record rented_data =
  rd_executors :: "(string, rented_executor) dict"
  rd_filler_containers_by_executor :: "(string, string) dict"
  rd_all_filler_containers_by_executor :: "(string, string list) dict"
  rd_filler_ports_by_executor :: "(string, int list) dict"
  rd_banned_guids :: "string list"
  rd_banned_hotkeys :: "string list"
  rd_banned_coldkeys :: "string list"
  rd_banned_provider_guids :: "string list"
  rd_gpu_splitting_config :: "(string, int) dict"
  rd_network_ema :: "(string, network_ema) dict"
  rd_spot_executor_ids :: "string list"
  rd_provider_spot_executor_ids :: "string list"
  rd_new_rentals_paused_executor_ids :: "string list"
  rd_filler_create_kill_executor_ids :: "string list"
  rd_provider_discord_connected_executor_ids :: "string list option"
  rd_provider_email_held_executor_ids :: "string list"
  rd_maintenance_executor_ids :: "string list"
  rd_maintenance_windows_by_executor :: "(string, int \<times> int) dict"
  rd_default_job_owner_by_executor :: "(string, string) dict"
  rd_manual_rental_executors :: "(string, manual_rental_info) dict"
  rd_filler_revenue_by_gpu_config :: "filler_revenue list"
  rd_executor_owner_hotkeys :: "(string, string) dict"
  rd_banned_executor_ids :: "string list"
  rd_retained_container_names :: "string list"

definition empty_rented_data :: rented_data where
  "empty_rented_data = \<lparr> rd_executors = [], rd_filler_containers_by_executor = [],
     rd_all_filler_containers_by_executor = [], rd_filler_ports_by_executor = [], rd_banned_guids = [],
     rd_banned_hotkeys = [], rd_banned_coldkeys = [], rd_banned_provider_guids = [],
     rd_gpu_splitting_config = [], rd_network_ema = [], rd_spot_executor_ids = [],
     rd_provider_spot_executor_ids = [], rd_new_rentals_paused_executor_ids = [],
     rd_filler_create_kill_executor_ids = [], rd_provider_discord_connected_executor_ids = None,
     rd_provider_email_held_executor_ids = [], rd_maintenance_executor_ids = [],
     rd_maintenance_windows_by_executor = [], rd_default_job_owner_by_executor = [],
     rd_manual_rental_executors = [], rd_filler_revenue_by_gpu_config = [],
     rd_executor_owner_hotkeys = [], rd_banned_executor_ids = [], rd_retained_container_names = [] \<rparr>"

subsection \<open>Lookups\<close>

fun filler_revenue_lookup :: "filler_revenue list \<Rightarrow> string \<Rightarrow> int \<Rightarrow> rat \<Rightarrow> rat option" where
  "filler_revenue_lookup [] base n min_hours = None"
| "filler_revenue_lookup (e # es) base n min_hours =
     (if fr_base_model e \<noteq> base \<or> fr_gpu_count e \<noteq> n then filler_revenue_lookup es base n min_hours
      else if \<not> xge (fr_gpu_hours e) min_hours then None
      else if \<not> (xgt (fr_usd_per_gpu_hour e) 0 \<and> fin_val (fr_usd_per_gpu_hour e) \<noteq> None) then None
      else fin_val (fr_usd_per_gpu_hour e))"

definition get_filler_revenue_per_gpu_hour :: "rented_data \<Rightarrow> string option \<Rightarrow> int \<Rightarrow> rat \<Rightarrow> rat option" where
  "get_filler_revenue_per_gpu_hour rd base_model n min_hours =
     (case base_model of None \<Rightarrow> None
      | Some b \<Rightarrow> if b = [] then None
          else filler_revenue_lookup (rd_filler_revenue_by_gpu_config rd) b n min_hours)"

definition filler_hourly_totals :: "filler_revenue list \<Rightarrow> string \<Rightarrow> rat \<Rightarrow> rat list" where
  "filler_hourly_totals es base min_hours =
     concat (map (\<lambda>e. case (fin_val (fr_usd_per_gpu_hour e), fin_val (fr_gpu_hours e)) of
         (Some usd, Some hours) \<Rightarrow>
           if fr_base_model e = base \<and> min_hours \<le> hours \<and> 0 < usd
           then [fdiv (fmul usd hours) (fint FILLER_REVENUE_WINDOW_HOURS)] else []
       | _ \<Rightarrow> []) es)"

definition get_filler_revenue_usd_per_hour :: "rented_data \<Rightarrow> string option \<Rightarrow> rat \<Rightarrow> rat option" where
  "get_filler_revenue_usd_per_hour rd base_model min_hours =
     (case base_model of None \<Rightarrow> None
      | Some b \<Rightarrow> if b = [] then None
          else let totals = filler_hourly_totals (rd_filler_revenue_by_gpu_config rd) b min_hours
               in if totals \<noteq> [] then Some (fsum totals) else None)"

definition is_provider_banned_in :: "rented_data \<Rightarrow> string \<Rightarrow> string option \<Rightarrow> string list \<Rightarrow> string option \<Rightarrow> bool" where
  "is_provider_banned_in rd miner_hotkey miner_coldkey gpu_uuids executor_uuid \<longleftrightarrow>
     miner_hotkey \<in> set (rd_banned_hotkeys rd)
     \<or> (case executor_uuid of None \<Rightarrow> False
        | Some u \<Rightarrow> u \<noteq> [] \<and> executor_key u \<in> executor_key ` set (rd_banned_executor_ids rd))
     \<or> (case miner_coldkey of None \<Rightarrow> False | Some c \<Rightarrow> c \<noteq> [] \<and> c \<in> set (rd_banned_coldkeys rd))
     \<or> list_ex (\<lambda>g. g \<in> set (rd_banned_provider_guids rd)) gpu_uuids"

definition get_filler_containers :: "rented_data \<Rightarrow> string \<Rightarrow> string list" where
  "get_filler_containers rd u =
     (case dget (rd_all_filler_containers_by_executor rd) u of
        Some (c # cs) \<Rightarrow> c # cs
      | _ \<Rightarrow> (case dget (rd_filler_containers_by_executor rd) u of
               Some s \<Rightarrow> if s \<noteq> [] then [s] else [] | None \<Rightarrow> []))"

definition get_filler_container :: "rented_data \<Rightarrow> string \<Rightarrow> string option" where
  "get_filler_container rd u = (case get_filler_containers rd u of [] \<Rightarrow> None | c # _ \<Rightarrow> Some c)"

definition get_filler_ports :: "rented_data \<Rightarrow> string \<Rightarrow> int list" where
  "get_filler_ports rd u = dget_or [] (rd_filler_ports_by_executor rd) u"

definition get_default_job_owner :: "rented_data \<Rightarrow> string \<Rightarrow> string option" where
  "get_default_job_owner rd u = dget (rd_default_job_owner_by_executor rd) u"

definition get_manual_rental_info :: "rented_data \<Rightarrow> string \<Rightarrow> manual_rental_info option" where
  "get_manual_rental_info rd u = dget (rd_manual_rental_executors rd) u"

subsection \<open>Field validators of the reply\<close>

text \<open>\<open>validate\<close> is the parse of one entry by the data-validation library; \<open>None\<close> is its error.\<close>

definition drop_invalid_filler_revenue_entries :: "(pv \<Rightarrow> filler_revenue option) \<Rightarrow> pv \<Rightarrow> filler_revenue list" where
  "drop_invalid_filler_revenue_entries validate v =
     (case v of PNone \<Rightarrow> [] | PList items \<Rightarrow> List.map_filter validate items | _ \<Rightarrow> [])"

definition read_malformed_provider_spot_as_empty :: "pv \<Rightarrow> string list" where
  "read_malformed_provider_spot_as_empty v =
     (case v of PNone \<Rightarrow> []
      | PList items \<Rightarrow> concat (map (\<lambda>i. case i of PStr s \<Rightarrow> [s] | _ \<Rightarrow> []) items)
      | _ \<Rightarrow> [])"

definition keep_only_filler_containers :: "(string, string) dict \<Rightarrow> (string, string) dict" where
  "keep_only_filler_containers d = filter (\<lambda>(_, name). starts_with FILLER_CONTAINER_PREFIX name) d"

definition keep_only_filler_container_lists :: "(string, string list) dict \<Rightarrow> (string, string list) dict" where
  "keep_only_filler_container_lists d =
     filter (\<lambda>(_, names). names \<noteq> [])
       (map (\<lambda>(u, names). (u, filter (starts_with FILLER_CONTAINER_PREFIX) names)) d)"

text \<open>The reply after the two filters over the filler maps.\<close>

definition validated_fillers :: "rented_data \<Rightarrow> rented_data" where
  "validated_fillers rd = rd
     \<lparr> rd_filler_containers_by_executor := keep_only_filler_containers (rd_filler_containers_by_executor rd),
       rd_all_filler_containers_by_executor :=
         keep_only_filler_container_lists (rd_all_filler_containers_by_executor rd) \<rparr>"

section \<open>The executor as the miner describes it\<close>

record executor_ssh_info =
  ex_uuid :: string
  ex_address :: string
  ex_port :: int
  ex_ssh_username :: string
  ex_ssh_port :: int
  ex_python_path :: string
  ex_root_dir :: string
  ex_port_range :: "string option"
  ex_port_mappings :: "string option"
  ex_price_per_gpu :: "rat option"
  ex_ssh_host_key :: "string option"
  ex_tdx_quote :: "string option"
  ex_nvidia_payload :: "string option"
  ex_expected_ssh_host_key :: "string option"

section \<open>Pod states reported to the backend\<close>

datatype container_state = RUNNING | EXITED | ABSENT | UNKNOWN | REAPED

record pod_container_state =
  ps_pod_id :: string
  ps_container_state :: container_state
  ps_observed_at :: int

definition POD_STATES_MAX_ITEMS :: nat where "POD_STATES_MAX_ITEMS = 256"

definition bound_pod_states :: "pod_container_state list \<Rightarrow> pod_container_state list" where
  "bound_pod_states states = take POD_STATES_MAX_ITEMS states"

text \<open>\<open>range(0, len(states), 256)\<close> as a recursion on the start index.\<close>

function chunks_from :: "nat \<Rightarrow> pod_container_state list \<Rightarrow> pod_container_state list list" where
  "chunks_from start states =
     (if start < length states
      then take POD_STATES_MAX_ITEMS (drop start states) # chunks_from (start + POD_STATES_MAX_ITEMS) states
      else [])"
  by auto
termination
  by (relation "measure (\<lambda>(start, states). length states - start)") (auto simp: POD_STATES_MAX_ITEMS_def)

declare chunks_from.simps [simp del]

definition chunk_pod_states :: "pod_container_state list \<Rightarrow> pod_container_state list list" where
  "chunk_pod_states states = chunks_from 0 states"

section \<open>Executor image policy\<close>

datatype image_verdict = CURRENT | OUTDATED

record executor_image_report =
  ir_status :: image_verdict
  ir_observed_digest :: "string option"
  ir_expected_ref :: string
  ir_expected_digest :: string

record expected_image =
  ei_ref :: string
  ei_digest :: string

record expected_image_snapshot =
  is_executor :: "expected_image option"
  is_executor_ref :: string

definition hex_digit :: "char \<Rightarrow> bool" where
  "hex_digit c \<longleftrightarrow> (let n = of_char c :: nat in (48 \<le> n \<and> n \<le> 57) \<or> (97 \<le> n \<and> n \<le> 102))"

definition is_sha256_digest :: "string \<Rightarrow> bool" where
  "is_sha256_digest s \<longleftrightarrow> starts_with ''sha256:'' s \<and> length s = 71 \<and> list_all hex_digit (drop 7 s)"

definition mk_expected_image :: "string \<Rightarrow> string \<Rightarrow> expected_image res" where
  "mk_expected_image ref digest =
     (if \<not> is_sha256_digest digest then Inl ValueError else Inr \<lparr> ei_ref = ref, ei_digest = digest \<rparr>)"

definition image_report_as_dict :: "executor_image_report \<Rightarrow> pdict" where
  "image_report_as_dict r =
     [(''status'', PStr (case ir_status r of CURRENT \<Rightarrow> ''CURRENT'' | OUTDATED \<Rightarrow> ''OUTDATED'')),
      (''observed_digest'', pv_of_opt PStr (ir_observed_digest r)),
      (''expected_ref'', PStr (ir_expected_ref r)),
      (''expected_digest'', PStr (ir_expected_digest r))]"

definition snapshot_report :: "expected_image_snapshot \<Rightarrow> string option \<Rightarrow> executor_image_report res" where
  "snapshot_report s observed_digest =
     (case is_executor s of
        None \<Rightarrow> Inl ValueError
      | Some e \<Rightarrow> Inr \<lparr> ir_status = (if observed_digest = Some (ei_digest e) then CURRENT else OUTDATED),
                      ir_observed_digest = observed_digest, ir_expected_ref = is_executor_ref s,
                      ir_expected_digest = ei_digest e \<rparr>)"

definition normalize_sha256_digest :: "pv \<Rightarrow> string option" where
  "normalize_sha256_digest v =
     (case v of PStr s \<Rightarrow> (let d = py_lower (py_strip s) in if is_sha256_digest d then Some d else None)
      | _ \<Rightarrow> None)"

definition build_expected_image_snapshot :: "string \<Rightarrow> string option \<Rightarrow> expected_image_snapshot res" where
  "build_expected_image_snapshot executor_image_ref digest =
     (case normalize_sha256_digest (pv_of_opt PStr digest) of
        None \<Rightarrow> Inr \<lparr> is_executor = None, is_executor_ref = executor_image_ref \<rparr>
      | Some d \<Rightarrow> (case mk_expected_image executor_image_ref d of
            Inl e \<Rightarrow> Inl e
          | Inr i \<Rightarrow> Inr \<lparr> is_executor = Some i, is_executor_ref = executor_image_ref \<rparr>))"

section \<open>Lemmas\<close>

lemma docker_container_name_nonempty: "docker_container_name p \<noteq> []"
  by (simp add: docker_container_name_def Let_def POD_CONTAINER_PREFIX_def)

lemma filler_revenue_lookup_sound:
  "filler_revenue_lookup es b n h = Some u \<Longrightarrow>
     \<exists>e \<in> set es. fr_base_model e = b \<and> fr_gpu_count e = n \<and> xge (fr_gpu_hours e) h
        \<and> fr_usd_per_gpu_hour e = Fin u \<and> 0 < u"
proof (induction es b n h rule: filler_revenue_lookup.induct)
  case (2 e es b n h)
  then show ?case
    by (cases "fr_usd_per_gpu_hour e") (auto simp: xgt_def fin_val_def split: if_splits)
qed simp

lemma filler_revenue_pos: "get_filler_revenue_per_gpu_hour rd b n h = Some u \<Longrightarrow> 0 < u"
  using filler_revenue_lookup_sound
  by (fastforce simp: get_filler_revenue_per_gpu_hour_def split: option.splits if_splits)

lemma map_of_filter_value:
  "map_of (filter (\<lambda>(_, v). P v) d) k = Some v \<Longrightarrow> P v"
  by (induction d) (auto split: if_splits)

lemma get_filler_containers_prefixed:
  assumes "c \<in> set (get_filler_containers (validated_fillers rd) u)"
  shows "starts_with FILLER_CONTAINER_PREFIX c"
proof -
  consider cs where "dget (rd_all_filler_containers_by_executor (validated_fillers rd)) u = Some cs" "c \<in> set cs"
    | "dget (rd_filler_containers_by_executor (validated_fillers rd)) u = Some c"
    using assms by (auto simp: get_filler_containers_def split: option.splits list.splits if_splits)
  then show ?thesis
  proof cases
    case 1
    then have "(u, cs) \<in> set (rd_all_filler_containers_by_executor (validated_fillers rd))"
      by (simp add: dget_Some_in)
    with 1 show ?thesis by (auto simp: validated_fillers_def keep_only_filler_container_lists_def)
  next
    case 2
    then show ?thesis
      by (auto simp: validated_fillers_def keep_only_filler_containers_def dest: map_of_filter_value)
  qed
qed

lemma chunks_from_concat: "concat (chunks_from start states) = drop start states"
proof (induction start states rule: chunks_from.induct)
  case (1 start states)
  show ?case
  proof (cases "start < length states")
    case True
    with 1 have "concat (chunks_from (start + POD_STATES_MAX_ITEMS) states) = drop (start + POD_STATES_MAX_ITEMS) states"
      by simp
    then show ?thesis
      using append_take_drop_id [of POD_STATES_MAX_ITEMS "drop start states"]
      by (subst chunks_from.simps) (simp add: True add.commute)
  qed (subst chunks_from.simps, simp)
qed

lemma chunks_from_sizes: "c \<in> set (chunks_from start states) \<Longrightarrow> c \<noteq> [] \<and> length c \<le> POD_STATES_MAX_ITEMS"
proof (induction start states rule: chunks_from.induct)
  case (1 start states)
  then show ?case
    by (subst (asm) (2) chunks_from.simps) (auto simp: POD_STATES_MAX_ITEMS_def split: if_splits)
qed

end
