(* ===== verification/Validation_Model.thy ===== *)
theory Validation_Model
  imports Rented_Data Ssh_Runner
begin

text \<open>
  The data of a validation run: the structured event and its message templates
  (protocol/vc_protocol/validator_requests.py, services/task/models.py, services/task/messages.py),
  the state and the context a check reads and the result it returns
  (services/task/pipeline.py). Two stamps of an event, its random trace id and its time, are
  left out: no modelled code reads them. Of the context the live handles (the SSH connection, the
  command runner, the service objects), the configuration and the secrets are left out: they reach
  a check through the function that models it.
\<close>

section \<open>Events\<close>

definition AVAILABILITY_CATEGORY :: string where "AVAILABILITY_CATEGORY = ''availability''"

record validation_event =
  ev_event :: string
  ev_reason_code :: string
  ev_severity :: string
  ev_category :: string
  ev_impact :: string
  ev_remediation :: "string option"
  ev_what_we_saw :: pdict
  ev_warnings :: "string list"
  ev_help_uri :: "string option"
  ev_check_id :: "string option"
  ev_pipeline_id :: "string option"
  ev_context :: pdict

definition is_availability_error :: "validation_event \<Rightarrow> bool" where
  "is_availability_error e \<longleftrightarrow> ev_category e = AVAILABILITY_CATEGORY"

definition build_msg :: "string \<Rightarrow> string \<Rightarrow> string \<Rightarrow> string \<Rightarrow> string \<Rightarrow> string \<Rightarrow> pdict
    \<Rightarrow> string option \<Rightarrow> string \<Rightarrow> string option \<Rightarrow> pdict \<Rightarrow> validation_event" where
  "build_msg event reason severity category impact remediation what help_uri check_id pipeline_id ctx =
     \<lparr> ev_event = event, ev_reason_code = reason, ev_severity = severity, ev_category = category,
       ev_impact = impact, ev_remediation = Some remediation, ev_what_we_saw = what, ev_warnings = [],
       ev_help_uri = help_uri, ev_check_id = Some check_id, ev_pipeline_id = pipeline_id,
       ev_context = ctx \<rparr>"

record message_template =
  mt_event :: string
  mt_reason :: string
  mt_severity :: string
  mt_category :: string
  mt_impact :: string
  mt_remediation :: "string option"
  mt_help_uri :: "string option"

definition REASON_CODE_DOCS_URL :: string where
  "REASON_CODE_DOCS_URL = ''https://docs.lium.io/providers/troubleshooting#6-validator-reason-codes''"

section \<open>Context state\<close>

record dind_log_cause =
  dc_code :: string
  dc_message :: string
  dc_dockerd_line :: "string option"

record memory_health_read =
  mh_run :: ssh_command_result
  mh_report :: pdict

record context_state =
  st_upload_local_dir :: "string option"
  st_upload_remote_dir :: "string option"
  st_remote_dir :: "string option"
  st_specs :: "pdict"
  st_gpu_model :: "string option"
  st_gpu_count :: "int option"
  st_gpu_details :: "pdict list"
  st_gpu_processes :: "pdict list"
  st_sysbox_runtime :: "bool"
  st_supports_gpu_splitting :: "bool"
  st_gpu_splitting_min_count :: "int option"
  st_gpu_model_count :: "string option"
  st_gpu_uuids :: "string option"
  st_kernel_gpu_uuids :: "string list option"
  st_kernel_gpu_uuids_read_attempted :: "bool"
  st_kernel_gpu_foreign_mounts :: "string list"
  st_verified_port_count :: "int"
  st_probed_port_count :: "int option"
  st_declared_port_count :: "int option"
  st_orphaned_containers :: "string list"
  st_verified_port_pairs :: "(int \<times> int) list"
  st_port_check_deferred :: "bool"
  st_dind_probe_error :: "dind_log_cause option"
  st_externally_unreachable :: "bool"
  st_host_runtime_fault :: "bool"
  st_external_probe_blocked :: "bool"
  st_pod_states :: "pod_container_state list"
  st_rented_data :: "rented_data option"
  st_memory_health :: "memory_health_read option"
  st_gpu_metrics :: "pdict option"
  st_inspector_event :: "pdict option"
  st_recommended_image_cached :: "bool option"
  st_recommended_image_digest_match :: "bool option"
  st_executor_image_report :: "executor_image_report option"
  st_local_verify :: "pv"
  st_verifyx_cold_retry :: "pv"

definition initial_state :: context_state where
  "initial_state = \<lparr> st_upload_local_dir = None, st_upload_remote_dir = None,
     st_remote_dir = None, st_specs = [], st_gpu_model = None, st_gpu_count = None,
     st_gpu_details = [], st_gpu_processes = [], st_sysbox_runtime = False,
     st_supports_gpu_splitting = False, st_gpu_splitting_min_count = None, st_gpu_model_count =
     None, st_gpu_uuids = None, st_kernel_gpu_uuids = None, st_kernel_gpu_uuids_read_attempted
     = False, st_kernel_gpu_foreign_mounts = [], st_verified_port_count = 0,
     st_probed_port_count = None, st_declared_port_count = None, st_orphaned_containers = [],
     st_verified_port_pairs = [], st_port_check_deferred = False, st_dind_probe_error = None,
     st_externally_unreachable = False, st_host_runtime_fault = False,
     st_external_probe_blocked = False, st_pod_states = [], st_rented_data = None,
     st_memory_health = None, st_gpu_metrics = None, st_inspector_event = None,
     st_recommended_image_cached = None, st_recommended_image_digest_match = None,
     st_executor_image_report = None, st_local_verify = PNone, st_verifyx_cold_retry = PNone
     \<rparr>"

section \<open>Context\<close>

record pipeline_context =
  cx_pipeline_id :: string
  cx_started_at_monotonic :: rat
  cx_executor :: executor_ssh_info
  cx_miner_hotkey :: string
  cx_miner_coldkey :: "string option"
  cx_miner_address :: string
  cx_miner_port :: int
  cx_verified :: pdict
  cx_default_extra :: pdict
  cx_state :: context_state
  cx_clear_verified_job_info :: bool
  cx_clear_verified_job_reason :: "string option"
  cx_clear_verified_job_evidence :: "pdict option"
  cx_gpu_reanchor :: bool
  cx_collateral_deposited :: bool
  cx_contract_version :: "string option"
  cx_is_rental_succeed :: bool
  cx_rented :: bool
  cx_renting_in_progress :: bool
  cx_ssh_pub_keys :: "string list option"
  cx_port_count :: int
  cx_score :: rat
  cx_job_score :: rat
  cx_score_warning :: "string option"
  cx_log_status :: string
  cx_log_text :: "string option"
  cx_success :: bool
  cx_is_provider_banned :: bool
  cx_tdx_attestation_passed :: bool
  cx_cpu_truth_passed :: bool
  cx_provider_side_load_passed :: bool
  cx_inspector_blind_streak_passed :: bool
  cx_rented_pod_resources_passed :: bool
  cx_rented_throughput_passed :: bool
  cx_rented_throughput_not_run :: bool
  cx_gpu_attestation_identity_passed :: bool
  cx_cc_vbios_passed :: bool
  cx_gpu_fingerprint_passed :: bool
  cx_hardware_identity_passed :: bool
  cx_inspector_host_write_passed :: bool
  cx_kernel_gpu_view_passed :: bool
  cx_gpu_kernel_count_passed :: bool
  cx_gpu_attestation_passed :: "bool option"

text \<open>The fields with their defaults; the remaining arguments identify the run.\<close>

definition new_context :: "string \<Rightarrow> executor_ssh_info \<Rightarrow> string \<Rightarrow> pipeline_context" where
  "new_context pid ex hotkey = \<lparr> cx_pipeline_id = pid, cx_started_at_monotonic = 0,
     cx_executor = ex, cx_miner_hotkey = hotkey, cx_miner_coldkey = None, cx_miner_address =
     [], cx_miner_port = 0, cx_verified = [], cx_default_extra = [], cx_state = initial_state,
     cx_clear_verified_job_info = False, cx_clear_verified_job_reason = None,
     cx_clear_verified_job_evidence = None, cx_gpu_reanchor = False, cx_collateral_deposited =
     False, cx_contract_version = None, cx_is_rental_succeed = False, cx_rented = False,
     cx_renting_in_progress = False, cx_ssh_pub_keys = None, cx_port_count = 0, cx_score = 0,
     cx_job_score = 0, cx_score_warning = None, cx_log_status = ''info'', cx_log_text = None,
     cx_success = False, cx_is_provider_banned = False, cx_tdx_attestation_passed = False,
     cx_cpu_truth_passed = True, cx_provider_side_load_passed = True,
     cx_inspector_blind_streak_passed = True, cx_rented_pod_resources_passed = True,
     cx_rented_throughput_passed = True, cx_rented_throughput_not_run = False,
     cx_gpu_attestation_identity_passed = True, cx_cc_vbios_passed = True,
     cx_gpu_fingerprint_passed = True, cx_hardware_identity_passed = True,
     cx_inspector_host_write_passed = True, cx_kernel_gpu_view_passed = True,
     cx_gpu_kernel_count_passed = True, cx_gpu_attestation_passed = None \<rparr>"

text \<open>
  A check's \<open>updates\<close> is a dictionary from field names to new values; one constructor per field
  that can be updated. \<open>model_copy\<close> applies its entries.
\<close>

datatype ctx_update =
    U_default_extra pdict
  | U_state context_state
  | U_clear_verified_job_info bool
  | U_clear_verified_job_reason "string option"
  | U_clear_verified_job_evidence "pdict option"
  | U_gpu_reanchor bool
  | U_collateral_deposited bool
  | U_contract_version "string option"
  | U_is_rental_succeed bool
  | U_rented bool
  | U_renting_in_progress bool
  | U_ssh_pub_keys "string list option"
  | U_port_count int
  | U_score rat
  | U_job_score rat
  | U_score_warning "string option"
  | U_log_status string
  | U_log_text "string option"
  | U_success bool
  | U_is_provider_banned bool
  | U_tdx_attestation_passed bool
  | U_cpu_truth_passed bool
  | U_provider_side_load_passed bool
  | U_inspector_blind_streak_passed bool
  | U_rented_pod_resources_passed bool
  | U_rented_throughput_passed bool
  | U_rented_throughput_not_run bool
  | U_gpu_attestation_identity_passed bool
  | U_cc_vbios_passed bool
  | U_gpu_fingerprint_passed bool
  | U_hardware_identity_passed bool
  | U_inspector_host_write_passed bool
  | U_kernel_gpu_view_passed bool
  | U_gpu_kernel_count_passed bool
  | U_gpu_attestation_passed "bool option"

definition apply_update :: "ctx_update \<Rightarrow> pipeline_context \<Rightarrow> pipeline_context" where
  "apply_update u c = (case u of
       U_default_extra x \<Rightarrow> c\<lparr>cx_default_extra := x\<rparr>
     | U_state x \<Rightarrow> c\<lparr>cx_state := x\<rparr>
     | U_clear_verified_job_info x \<Rightarrow> c\<lparr>cx_clear_verified_job_info := x\<rparr>
     | U_clear_verified_job_reason x \<Rightarrow> c\<lparr>cx_clear_verified_job_reason := x\<rparr>
     | U_clear_verified_job_evidence x \<Rightarrow> c\<lparr>cx_clear_verified_job_evidence := x\<rparr>
     | U_gpu_reanchor x \<Rightarrow> c\<lparr>cx_gpu_reanchor := x\<rparr>
     | U_collateral_deposited x \<Rightarrow> c\<lparr>cx_collateral_deposited := x\<rparr>
     | U_contract_version x \<Rightarrow> c\<lparr>cx_contract_version := x\<rparr>
     | U_is_rental_succeed x \<Rightarrow> c\<lparr>cx_is_rental_succeed := x\<rparr>
     | U_rented x \<Rightarrow> c\<lparr>cx_rented := x\<rparr>
     | U_renting_in_progress x \<Rightarrow> c\<lparr>cx_renting_in_progress := x\<rparr>
     | U_ssh_pub_keys x \<Rightarrow> c\<lparr>cx_ssh_pub_keys := x\<rparr>
     | U_port_count x \<Rightarrow> c\<lparr>cx_port_count := x\<rparr>
     | U_score x \<Rightarrow> c\<lparr>cx_score := x\<rparr>
     | U_job_score x \<Rightarrow> c\<lparr>cx_job_score := x\<rparr>
     | U_score_warning x \<Rightarrow> c\<lparr>cx_score_warning := x\<rparr>
     | U_log_status x \<Rightarrow> c\<lparr>cx_log_status := x\<rparr>
     | U_log_text x \<Rightarrow> c\<lparr>cx_log_text := x\<rparr>
     | U_success x \<Rightarrow> c\<lparr>cx_success := x\<rparr>
     | U_is_provider_banned x \<Rightarrow> c\<lparr>cx_is_provider_banned := x\<rparr>
     | U_tdx_attestation_passed x \<Rightarrow> c\<lparr>cx_tdx_attestation_passed := x\<rparr>
     | U_cpu_truth_passed x \<Rightarrow> c\<lparr>cx_cpu_truth_passed := x\<rparr>
     | U_provider_side_load_passed x \<Rightarrow> c\<lparr>cx_provider_side_load_passed := x\<rparr>
     | U_inspector_blind_streak_passed x \<Rightarrow> c\<lparr>cx_inspector_blind_streak_passed := x\<rparr>
     | U_rented_pod_resources_passed x \<Rightarrow> c\<lparr>cx_rented_pod_resources_passed := x\<rparr>
     | U_rented_throughput_passed x \<Rightarrow> c\<lparr>cx_rented_throughput_passed := x\<rparr>
     | U_rented_throughput_not_run x \<Rightarrow> c\<lparr>cx_rented_throughput_not_run := x\<rparr>
     | U_gpu_attestation_identity_passed x \<Rightarrow> c\<lparr>cx_gpu_attestation_identity_passed := x\<rparr>
     | U_cc_vbios_passed x \<Rightarrow> c\<lparr>cx_cc_vbios_passed := x\<rparr>
     | U_gpu_fingerprint_passed x \<Rightarrow> c\<lparr>cx_gpu_fingerprint_passed := x\<rparr>
     | U_hardware_identity_passed x \<Rightarrow> c\<lparr>cx_hardware_identity_passed := x\<rparr>
     | U_inspector_host_write_passed x \<Rightarrow> c\<lparr>cx_inspector_host_write_passed := x\<rparr>
     | U_kernel_gpu_view_passed x \<Rightarrow> c\<lparr>cx_kernel_gpu_view_passed := x\<rparr>
     | U_gpu_kernel_count_passed x \<Rightarrow> c\<lparr>cx_gpu_kernel_count_passed := x\<rparr>
     | U_gpu_attestation_passed x \<Rightarrow> c\<lparr>cx_gpu_attestation_passed := x\<rparr>)"

definition model_copy :: "pipeline_context \<Rightarrow> ctx_update list \<Rightarrow> pipeline_context" where
  "model_copy c us = fold apply_update us c"

definition is_state_update :: "ctx_update \<Rightarrow> bool" where
  "is_state_update u = (case u of U_state _ \<Rightarrow> True | _ \<Rightarrow> False)"

section \<open>Check results and message rendering\<close>

record check_result =
  cr_passed :: bool
  cr_event :: validation_event
  cr_updates :: "ctx_update list"
  cr_halt :: bool
  cr_fatal :: "bool option"
  cr_extra_events :: "validation_event list"

definition or_else :: "string option \<Rightarrow> string \<Rightarrow> string" where
  "or_else x d = (case x of Some s \<Rightarrow> if s \<noteq> [] then s else d | None \<Rightarrow> d)"

text \<open>The optional keyword arguments of \<open>render_message\<close>.\<close>

record render_args =
  ra_what :: pdict
  ra_severity :: "string option"
  ra_category :: "string option"
  ra_impact :: "string option"
  ra_remediation :: "string option"
  ra_help_uri :: "string option"
  ra_extra :: pdict

definition no_args :: render_args where
  "no_args = \<lparr> ra_what = [], ra_severity = None, ra_category = None, ra_impact = None,
     ra_remediation = None, ra_help_uri = None, ra_extra = [] \<rparr>"

definition render_message :: "message_template \<Rightarrow> pipeline_context option \<Rightarrow> string \<Rightarrow> render_args \<Rightarrow> validation_event" where
  "render_message t ctx check_id a =
     (let severity = or_else (ra_severity a) (mt_severity t);
          help_uri = (case ra_help_uri a of
              Some u \<Rightarrow> if u \<noteq> [] then Some u else mt_help_uri t
            | None \<Rightarrow> mt_help_uri t);
          help_uri = (if help_uri = None \<and> severity \<in> {''error'', ''warning''}
                      then Some REASON_CODE_DOCS_URL else help_uri);
          remediation = (case ra_remediation a of Some r \<Rightarrow> r
            | None \<Rightarrow> (case mt_remediation t of Some r \<Rightarrow> r | None \<Rightarrow> []))
      in build_msg (mt_event t) (mt_reason t) severity (or_else (ra_category a) (mt_category t))
           (or_else (ra_impact a) (mt_impact t)) remediation (ra_what a) help_uri check_id
           (map_option cx_pipeline_id ctx)
           (dmerge (case ctx of Some c \<Rightarrow> cx_default_extra c | None \<Rightarrow> []) (ra_extra a)))"

lemma render_message_simps [simp]:
  "ev_event (render_message t ctx cid a) = mt_event t"
  "ev_reason_code (render_message t ctx cid a) = mt_reason t"
  "ev_severity (render_message t ctx cid a) = or_else (ra_severity a) (mt_severity t)"
  "ev_category (render_message t ctx cid a) = or_else (ra_category a) (mt_category t)"
  "ev_what_we_saw (render_message t ctx cid a) = ra_what a"
  "ev_check_id (render_message t ctx cid a) = Some cid"
  by (simp_all add: render_message_def build_msg_def Let_def)

lemma model_copy_Nil [simp]: "model_copy c [] = c"
  by (simp add: model_copy_def)

lemma model_copy_Cons [simp]: "model_copy c (u # us) = model_copy (apply_update u c) us"
  by (simp add: model_copy_def)

lemma model_copy_append: "model_copy c (us @ vs) = model_copy (model_copy c us) vs"
  by (simp add: model_copy_def)

end
