(* ===== verification/Pipeline.thy ===== *)
theory Pipeline
  imports Validation_Model
begin

text \<open>
  The check pipeline (services/task/pipeline.py): the change tracker and the log level of an
  event, the evidence a clearing check attaches, the step summary, the merge of lane states,
  the parallel stage and the run. A check is its id, its default fatality and the function that
  models its \<open>run\<close>, which returns the result with the clock before and after, or raises. The
  interleaving of lanes is a step relation over lane configurations; \<open>stage_runs\<close> relates a stage
  to every result a schedule can produce, and \<open>pipeline_run\<close> takes a function that picks one.
\<close>

section \<open>Status changes and log levels\<close>

type_synonym outcome_key = "string \<times> pv \<times> string"

record status_change_tracker =
  tr_max_entries :: nat
  tr_last :: "(outcome_key, string list) dict"

definition tracker_changed :: "status_change_tracker \<Rightarrow> outcome_key \<Rightarrow> string list
    \<Rightarrow> bool \<times> status_change_tracker" where
  "tracker_changed tr key outcome =
     (let previous = dget (tr_last tr) key;
          last1 = dset key outcome (dpop key (tr_last tr));
          last2 = (if length last1 > tr_max_entries tr then tl last1 else last1)
      in (previous \<noteq> Some outcome, tr\<lparr>tr_last := last2\<rparr>))"

definition PROVIDER_STATE_REASON_CODES :: "string list" where
  "PROVIDER_STATE_REASON_CODES =
     [''EXECUTOR_IMAGE_OUTDATED'', ''PROVIDER_BANNED'', ''PROVIDER_SIDE_LOAD_ABOVE_LIMIT'']"

text \<open>\<open>pystr\<close> is Python's \<open>str\<close>.\<close>

definition vloopback_outcome :: "(pv \<Rightarrow> string) \<Rightarrow> validation_event \<Rightarrow> string" where
  "vloopback_outcome pystr e =
     (case pget (ev_what_we_saw e) ''storage_limit'' of
        PDict limit \<Rightarrow> (case pget limit ''vloopback'' of
            PDict v \<Rightarrow> pystr (pget v ''verdict'') @ '':'' @ pystr (pget v ''reason_code'')
          | _ \<Rightarrow> [])
      | _ \<Rightarrow> [])"

definition is_repeat :: "(pv \<Rightarrow> string) \<Rightarrow> status_change_tracker option \<Rightarrow> validation_event
    \<Rightarrow> bool \<times> status_change_tracker option" where
  "is_repeat pystr tracker e =
     (let executor_uuid = pget (ev_context e) ''executor_uuid'' in
      case tracker of
        None \<Rightarrow> (False, None)
      | Some tr \<Rightarrow>
          if \<not> truthy executor_uuid \<or> or_else (ev_check_id e) [] = [] then (False, Some tr)
          else let hotkey = pget (ev_context e) ''miner_hotkey'';
                   key = (if truthy hotkey then pystr hotkey else [], executor_uuid, or_else (ev_check_id e) []);
                   (changed, tr') = tracker_changed tr key
                     [ev_event e, ev_reason_code e, ev_severity e, vloopback_outcome pystr e]
               in (\<not> changed \<and> dget (ev_what_we_saw e) ''steps_total_s'' = None, Some tr'))"

text \<open>
  \<open>LoggerSink.emit\<close>: the level the event is logged at, whether the line carries the
  provider-state reason, and whether a step-duration line is written first.
\<close>

record log_line =
  ll_level :: string
  ll_provider_state :: bool
  ll_step_duration :: bool

definition emit :: "(pv \<Rightarrow> string) \<Rightarrow> bool \<Rightarrow> status_change_tracker option \<Rightarrow> validation_event
    \<Rightarrow> (log_line \<times> status_change_tracker option) res" where
  "emit pystr debug_enabled tracker e =
     (if ev_severity e \<notin> {''info'', ''warning'', ''error''} then Inl KeyError
      else let provider_state = (ev_severity e = ''warning''
                 \<and> ev_reason_code e \<in> set PROVIDER_STATE_REASON_CODES);
               level = (if provider_state then ''info'' else ev_severity e);
               (rep, tracker') = is_repeat pystr tracker e;
               quiet = (rep \<and> level = ''info'')
           in Inr (\<lparr> ll_level = (if quiet then ''debug'' else level),
                     ll_provider_state = provider_state,
                     ll_step_duration = (quiet \<and> pget (ev_context e) ''execution_time_ms'' \<noteq> PNone
                        \<and> \<not> debug_enabled) \<rparr>, tracker'))"

section \<open>Updates and step summary\<close>

fun clears_verified_job :: "ctx_update list \<Rightarrow> bool" where
  "clears_verified_job [] = False"
| "clears_verified_job (U_clear_verified_job_info b # us) = b"
| "clears_verified_job (_ # us) = clears_verified_job us"

fun attached_evidence :: "ctx_update list \<Rightarrow> pdict" where
  "attached_evidence [] = []"
| "attached_evidence (U_clear_verified_job_evidence e # us) = (case e of None \<Rightarrow> [] | Some d \<Rightarrow> d)"
| "attached_evidence (_ # us) = attached_evidence us"

definition is_evidence_update :: "ctx_update \<Rightarrow> bool" where
  "is_evidence_update u = (case u of U_clear_verified_job_evidence _ \<Rightarrow> True | _ \<Rightarrow> False)"

definition updates_with_clear_verified_job_evidence :: "check_result \<Rightarrow> string \<Rightarrow> ctx_update list" where
  "updates_with_clear_verified_job_evidence r check_id =
     (let updates = cr_updates r in
      if \<not> clears_verified_job updates then updates
      else let evidence = attached_evidence updates;
               evidence = dsetdefault ''reason_code'' (PStr (ev_reason_code (cr_event r))) evidence;
               evidence = dsetdefault ''check_id'' (PStr (or_else (ev_check_id (cr_event r)) check_id)) evidence
           in filter (\<lambda>u. \<not> is_evidence_update u) updates @ [U_clear_verified_job_evidence (Some evidence)])"

definition step_seconds :: "int \<Rightarrow> rat" where
  "step_seconds ms = (if 1000 \<le> ms then py_round (fl (of_int ms / 1000)) 1 else py_round (fl (of_int ms / 1000)) 3)"

definition summarize_steps :: "(string \<times> int) list \<Rightarrow> int \<Rightarrow> string option \<Rightarrow> pdict" where
  "summarize_steps steps elapsed_time_ms failed_check_id =
     [(''steps'', PDict (dmerge [] (map (\<lambda>(cid, ms). (cid, PFloat (step_seconds ms))) steps))),
      (''steps_total_s'', PFloat (py_round (fl (of_int elapsed_time_ms / 1000)) 1))]
     @ (case failed_check_id of None \<Rightarrow> [] | Some c \<Rightarrow> if c \<noteq> [] then [(''steps_failed'', PStr c)] else [])"

section \<open>Merging lane states\<close>

text \<open>\<open>after is before or after == before\<close> on the dictionary-valued fields.\<close>

definition same_pv :: "pv \<Rightarrow> pv \<Rightarrow> bool" where
  "same_pv a b \<longleftrightarrow> a = b \<or> py_eq a b"

definition same_dicts :: "pdict list \<Rightarrow> pdict list \<Rightarrow> bool" where
  "same_dicts a b = same_pv (PList (map PDict a)) (PList (map PDict b))"

definition same_dict_option :: "pdict option \<Rightarrow> pdict option \<Rightarrow> bool" where
  "same_dict_option a b = same_pv (pv_of_opt PDict a) (pv_of_opt PDict b)"

definition same_health :: "memory_health_read option \<Rightarrow> memory_health_read option \<Rightarrow> bool" where
  "same_health a b = (case (a, b) of
      (Some x, Some y) \<Rightarrow> mh_run x = mh_run y \<and> same_pv (PDict (mh_report x)) (PDict (mh_report y))
    | (None, None) \<Rightarrow> True | _ \<Rightarrow> False)"

definition merge_field :: "('a \<Rightarrow> 'a \<Rightarrow> bool) \<Rightarrow> 'a \<Rightarrow> 'a \<Rightarrow> 'a \<Rightarrow> 'a" where
  "merge_field same current before after = (if same after before then current else after)"

definition merge_specs :: "pdict \<Rightarrow> pdict \<Rightarrow> pdict \<Rightarrow> pdict" where
  "merge_specs current before after =
     (let dropped = filter (\<lambda>k. dget after k = None) (map fst before);
          kept = fold dpop dropped current;
          written = filter (\<lambda>(k, v). case dget before k of None \<Rightarrow> True | Some w \<Rightarrow> \<not> py_eq w v) after
      in dmerge kept written)"

definition merge_state :: "context_state \<Rightarrow> context_state \<Rightarrow> context_state \<Rightarrow> context_state" where
  "merge_state current before after = current
     \<lparr>st_upload_local_dir := merge_field (=) (st_upload_local_dir current) (st_upload_local_dir before) (st_upload_local_dir after),
       st_upload_remote_dir := merge_field (=) (st_upload_remote_dir current) (st_upload_remote_dir before) (st_upload_remote_dir after),
       st_remote_dir := merge_field (=) (st_remote_dir current) (st_remote_dir before) (st_remote_dir after),
       st_specs := (if same_pv (PDict (st_specs after)) (PDict (st_specs before)) then st_specs current
         else merge_specs (st_specs current) (st_specs before) (st_specs after)),
       st_gpu_model := merge_field (=) (st_gpu_model current) (st_gpu_model before) (st_gpu_model after),
       st_gpu_count := merge_field (=) (st_gpu_count current) (st_gpu_count before) (st_gpu_count after),
       st_gpu_details := merge_field same_dicts (st_gpu_details current) (st_gpu_details before) (st_gpu_details after),
       st_gpu_processes := merge_field same_dicts (st_gpu_processes current) (st_gpu_processes before) (st_gpu_processes after),
       st_sysbox_runtime := merge_field (=) (st_sysbox_runtime current) (st_sysbox_runtime before) (st_sysbox_runtime after),
       st_supports_gpu_splitting := merge_field (=) (st_supports_gpu_splitting current) (st_supports_gpu_splitting before) (st_supports_gpu_splitting after),
       st_gpu_splitting_min_count := merge_field (=) (st_gpu_splitting_min_count current) (st_gpu_splitting_min_count before) (st_gpu_splitting_min_count after),
       st_gpu_model_count := merge_field (=) (st_gpu_model_count current) (st_gpu_model_count before) (st_gpu_model_count after),
       st_gpu_uuids := merge_field (=) (st_gpu_uuids current) (st_gpu_uuids before) (st_gpu_uuids after),
       st_kernel_gpu_uuids := merge_field (=) (st_kernel_gpu_uuids current) (st_kernel_gpu_uuids before) (st_kernel_gpu_uuids after),
       st_kernel_gpu_uuids_read_attempted := merge_field (=) (st_kernel_gpu_uuids_read_attempted current) (st_kernel_gpu_uuids_read_attempted before) (st_kernel_gpu_uuids_read_attempted after),
       st_kernel_gpu_foreign_mounts := merge_field (=) (st_kernel_gpu_foreign_mounts current) (st_kernel_gpu_foreign_mounts before) (st_kernel_gpu_foreign_mounts after),
       st_verified_port_count := merge_field (=) (st_verified_port_count current) (st_verified_port_count before) (st_verified_port_count after),
       st_probed_port_count := merge_field (=) (st_probed_port_count current) (st_probed_port_count before) (st_probed_port_count after),
       st_declared_port_count := merge_field (=) (st_declared_port_count current) (st_declared_port_count before) (st_declared_port_count after),
       st_orphaned_containers := merge_field (=) (st_orphaned_containers current) (st_orphaned_containers before) (st_orphaned_containers after),
       st_verified_port_pairs := merge_field (=) (st_verified_port_pairs current) (st_verified_port_pairs before) (st_verified_port_pairs after),
       st_port_check_deferred := merge_field (=) (st_port_check_deferred current) (st_port_check_deferred before) (st_port_check_deferred after),
       st_dind_probe_error := merge_field (=) (st_dind_probe_error current) (st_dind_probe_error before) (st_dind_probe_error after),
       st_externally_unreachable := merge_field (=) (st_externally_unreachable current) (st_externally_unreachable before) (st_externally_unreachable after),
       st_host_runtime_fault := merge_field (=) (st_host_runtime_fault current) (st_host_runtime_fault before) (st_host_runtime_fault after),
       st_external_probe_blocked := merge_field (=) (st_external_probe_blocked current) (st_external_probe_blocked before) (st_external_probe_blocked after),
       st_pod_states := merge_field (=) (st_pod_states current) (st_pod_states before) (st_pod_states after),
       st_rented_data := merge_field (=) (st_rented_data current) (st_rented_data before) (st_rented_data after),
       st_memory_health := merge_field same_health (st_memory_health current) (st_memory_health before) (st_memory_health after),
       st_gpu_metrics := merge_field same_dict_option (st_gpu_metrics current) (st_gpu_metrics before) (st_gpu_metrics after),
       st_inspector_event := merge_field same_dict_option (st_inspector_event current) (st_inspector_event before) (st_inspector_event after),
       st_recommended_image_cached := merge_field (=) (st_recommended_image_cached current) (st_recommended_image_cached before) (st_recommended_image_cached after),
       st_recommended_image_digest_match := merge_field (=) (st_recommended_image_digest_match current) (st_recommended_image_digest_match before) (st_recommended_image_digest_match after),
       st_executor_image_report := merge_field (=) (st_executor_image_report current) (st_executor_image_report before) (st_executor_image_report after),
       st_local_verify := merge_field same_pv (st_local_verify current) (st_local_verify before) (st_local_verify after),
       st_verifyx_cold_retry := merge_field same_pv (st_verifyx_cold_retry current) (st_verifyx_cold_retry before) (st_verifyx_cold_retry after) \<rparr>"

section \<open>Checks, lanes and stages\<close>

record check =
  ck_id :: string
  ck_fatal :: bool
  ck_run :: "pipeline_context \<Rightarrow> (check_result \<times> rat \<times> rat) res"

record ran_check =
  rc_check :: check
  rc_result :: check_result
  rc_before_state :: context_state
  rc_started :: rat
  rc_finished :: rat

datatype step = Single check | ParallelStage "check list list"

definition mk_stage :: "check list list \<Rightarrow> step" where
  "mk_stage lanes = ParallelStage (filter (\<lambda>lane. lane \<noteq> []) lanes)"

definition is_fatal :: "check \<Rightarrow> check_result \<Rightarrow> bool" where
  "is_fatal chk r = (case cr_fatal r of Some f \<Rightarrow> f | None \<Rightarrow> ck_fatal chk)"

definition stops_run :: "check \<Rightarrow> check_result \<Rightarrow> bool" where
  "stops_run chk r \<longleftrightarrow> (\<not> cr_passed r \<and> is_fatal chk r) \<or> cr_halt r"

definition run_check :: "check \<Rightarrow> pipeline_context \<Rightarrow> ran_check res" where
  "run_check chk ctx = (case ck_run chk ctx of
      Inl e \<Rightarrow> Inl e
    | Inr (r, started, finished) \<Rightarrow> Inr \<lparr> rc_check = chk, rc_result = r, rc_before_state = cx_state ctx,
        rc_started = started, rc_finished = finished \<rparr>)"

datatype lane_status = LaneRunning | LaneDone | LaneStopped | LaneRaised py_exc

text \<open>The context a lane hands its next check.\<close>

definition lane_context :: "pipeline_context \<Rightarrow> ran_check \<Rightarrow> pipeline_context" where
  "lane_context ctx rk =
     (if cr_updates (rc_result rk) \<noteq> []
      then model_copy ctx (updates_with_clear_verified_job_evidence (rc_result rk) (ck_id (rc_check rk)))
      else ctx)"

fun run_lane :: "check list \<Rightarrow> pipeline_context \<Rightarrow> ran_check list \<times> lane_status" where
  "run_lane [] ctx = ([], LaneDone)"
| "run_lane (chk # lane) ctx =
     (case run_check chk ctx of
        Inl e \<Rightarrow> ([], LaneRaised e)
      | Inr rk \<Rightarrow>
          if stops_run chk (rc_result rk) then ([rk], LaneStopped)
          else let (rans, status) = run_lane lane (lane_context ctx rk) in (rk # rans, status))"

text \<open>One lane in flight: what it still has to run, its context and what it completed.\<close>

record lane_conf =
  lc_todo :: "check list"
  lc_ctx :: pipeline_context
  lc_ran :: "ran_check list"
  lc_status :: lane_status

definition start_lane :: "pipeline_context \<Rightarrow> check list \<Rightarrow> lane_conf" where
  "start_lane ctx lane = \<lparr> lc_todo = lane, lc_ctx = ctx, lc_ran = [], lc_status = LaneRunning \<rparr>"

definition lane_step :: "lane_conf \<Rightarrow> lane_conf" where
  "lane_step l = (case lc_todo l of
      [] \<Rightarrow> l\<lparr>lc_status := LaneDone\<rparr>
    | chk # rest \<Rightarrow> (case run_check chk (lc_ctx l) of
          Inl e \<Rightarrow> l\<lparr>lc_status := LaneRaised e\<rparr>
        | Inr rk \<Rightarrow> l\<lparr>lc_todo := rest, lc_ran := lc_ran l @ [rk],
            lc_ctx := (if stops_run chk (rc_result rk) then lc_ctx l else lane_context (lc_ctx l) rk),
            lc_status := (if stops_run chk (rc_result rk) then LaneStopped else LaneRunning)\<rparr>))"

inductive stage_step :: "lane_conf list \<Rightarrow> lane_conf list \<Rightarrow> bool" where
  advance: "i < length ls \<Longrightarrow> lc_status (ls ! i) = LaneRunning \<Longrightarrow> stage_step ls (ls[i := lane_step (ls ! i)])"

text \<open>
  What \<open>_run_stage\<close> may hand back. It returns when every lane got through, or once a stopped lane
  was seen, with whatever the other lanes had completed when they were cancelled; it raises the
  exception of a lane that raised.
\<close>

inductive stage_runs :: "check list list \<Rightarrow> pipeline_context \<Rightarrow> ran_check list res \<Rightarrow> bool"
  for lanes :: "check list list" and ctx :: pipeline_context where
  all_done: "stage_step\<^sup>*\<^sup>* (map (start_lane ctx) lanes) ls \<Longrightarrow> \<forall>l \<in> set ls. lc_status l = LaneDone
     \<Longrightarrow> stage_runs lanes ctx (Inr (concat (map lc_ran ls)))"
| stopped: "stage_step\<^sup>*\<^sup>* (map (start_lane ctx) lanes) ls \<Longrightarrow> \<exists>l \<in> set ls. lc_status l = LaneStopped
     \<Longrightarrow> stage_runs lanes ctx (Inr (concat (map lc_ran ls)))"
| raised: "stage_step\<^sup>*\<^sup>* (map (start_lane ctx) lanes) ls \<Longrightarrow> \<exists>l \<in> set ls. lc_status l = LaneRaised e
     \<Longrightarrow> stage_runs lanes ctx (Inl e)"

text \<open>One admissible schedule: the lanes one after the other, up to the first that does not get through.\<close>

fun serial_stage :: "check list list \<Rightarrow> pipeline_context \<Rightarrow> ran_check list res" where
  "serial_stage [] ctx = Inr []"
| "serial_stage (lane # lanes) ctx =
     (case run_lane lane ctx of
        (rans, LaneRaised e) \<Rightarrow> Inl e
      | (rans, LaneStopped) \<Rightarrow> Inr rans
      | (rans, _) \<Rightarrow> map_sum id (\<lambda>more. rans @ more) (serial_stage lanes ctx))"

section \<open>The run\<close>

type_synonym stage_resolver = "nat \<Rightarrow> check list list \<Rightarrow> pipeline_context \<Rightarrow> ran_check list res"

definition run_step :: "stage_resolver \<Rightarrow> nat \<Rightarrow> step \<Rightarrow> pipeline_context \<Rightarrow> ran_check list res" where
  "run_step resolve index st ctx = (case st of
      ParallelStage lanes \<Rightarrow> resolve index lanes ctx
    | Single chk \<Rightarrow> map_sum id (\<lambda>rk. [rk]) (run_check chk ctx))"

definition apply_ran :: "pipeline_context \<Rightarrow> ran_check \<Rightarrow> bool \<Rightarrow> pipeline_context" where
  "apply_ran ctx rk parallel =
     (if cr_updates (rc_result rk) = [] then ctx
      else let updates = updates_with_clear_verified_job_evidence (rc_result rk) (ck_id (rc_check rk));
               updates = (if parallel
                 then map (\<lambda>u. case u of U_state s \<Rightarrow> U_state (merge_state (cx_state ctx) (rc_before_state rk) s)
                                | _ \<Rightarrow> u) updates
                 else updates)
           in model_copy ctx updates)"

definition FINGERPRINT_CHECK :: string where "FINGERPRINT_CHECK = ''gpu.validate.fingerprint''"

type_synonym run_result = "(bool \<times> validation_event list \<times> pipeline_context) res"

text \<open>
  \<open>_ended\<close>. The failure is the first event of the fingerprint check and moves to the end; when
  there is none, \<open>next\<close> raises, which a coroutine turns into a \<open>RuntimeError\<close>.
\<close>

definition ended :: "validation_event list \<Rightarrow> pipeline_context \<Rightarrow> run_result" where
  "ended events ctx =
     (if cx_gpu_fingerprint_passed ctx then Inr (True, events, ctx)
      else case dropWhile (\<lambda>e. ev_check_id e \<noteq> Some FINGERPRINT_CHECK) events of
          [] \<Rightarrow> Inl (RuntimeError ''coroutine raised StopIteration'')
        | failure # later \<Rightarrow>
            Inr (False, takeWhile (\<lambda>e. ev_check_id e \<noteq> Some FINGERPRINT_CHECK) events @ later @ [failure],
              model_copy ctx [U_rented False, U_score 0, U_job_score 0, U_success False]))"

type_synonym run_state = "validation_event list \<times> (string \<times> int) list \<times> pipeline_context"

definition ms_between :: "rat \<Rightarrow> rat \<Rightarrow> int" where
  "ms_between t0 t1 = trunc (fmul (fsub t1 t0) 1000)"

definition stamp :: "rat \<Rightarrow> ran_check \<Rightarrow> ran_check \<times> int \<times> int" where
  "stamp start rk =
     (let ex = ms_between (rc_started rk) (rc_finished rk); el = ms_between start (rc_finished rk);
          r = rc_result rk; e = cr_event r;
          e' = e\<lparr>ev_context := dset ''elapsed_time_ms'' (PInt el)
                 (dset ''execution_time_ms'' (PInt ex) (ev_context e))\<rparr>
      in (rk\<lparr>rc_result := r\<lparr>cr_event := e'\<rparr>\<rparr>, ex, el))"

definition failed_ran :: "ran_check \<Rightarrow> bool" where
  "failed_ran rk \<longleftrightarrow> \<not> cr_passed (rc_result rk) \<and> is_fatal (rc_check rk) (rc_result rk)"

definition final_event :: "ran_check \<Rightarrow> (string \<times> int) list \<Rightarrow> int \<Rightarrow> bool \<Rightarrow> validation_event" where
  "final_event rk steps elapsed last_of_run =
     (let r = rc_result rk; e = cr_event r in
      if failed_ran rk \<or> cr_halt r \<or> last_of_run
      then e\<lparr>ev_what_we_saw := dmerge (ev_what_we_saw e) (summarize_steps steps elapsed
               (if failed_ran rk then Some (or_else (ev_check_id e) (ck_id (rc_check rk))) else None))\<rparr>
      else e)"

fun emit_rans :: "bool \<Rightarrow> bool \<Rightarrow> int \<Rightarrow> (ran_check \<times> int \<times> int) list \<Rightarrow> run_state \<Rightarrow> run_state + run_result" where
  "emit_rans parallel last_step stage_ms [] st = Inl st"
| "emit_rans parallel last_step stage_ms ((rk, ex, el) # rest) (events, steps, ctx) =
     (let steps' = steps @ [(ck_id (rc_check rk), ex)];
          ev = final_event rk steps' (if parallel then stage_ms else el) (last_step \<and> rest = []);
          events' = events @ cr_extra_events (rc_result rk) @ [ev];
          ctx' = apply_ran ctx rk parallel
      in if failed_ran rk then Inr (Inr (False, events', ctx'))
         else if cr_halt (rc_result rk) then Inr (ended events' ctx')
         else emit_rans parallel last_step stage_ms rest (events', steps', ctx'))"

definition is_parallel :: "step \<Rightarrow> bool" where
  "is_parallel st = (case st of ParallelStage _ \<Rightarrow> True | Single _ \<Rightarrow> False)"

fun run_steps :: "stage_resolver \<Rightarrow> rat \<Rightarrow> nat \<Rightarrow> step list \<Rightarrow> run_state \<Rightarrow> run_result" where
  "run_steps resolve start index [] (events, steps, ctx) = ended events ctx"
| "run_steps resolve start index (st # sts) (events, steps, ctx) =
     (case run_step resolve index st ctx of
        Inl e \<Rightarrow> Inl e
      | Inr rans \<Rightarrow>
          let stamped = map (stamp start) rans in
          if stamped = [] then Inl ValueError
          else case emit_rans (is_parallel st) (sts = []) (Max (set (map (\<lambda>(_, _, el). el) stamped)))
                 stamped (events, steps, ctx) of
              Inr result \<Rightarrow> result
            | Inl state \<Rightarrow> run_steps resolve start (Suc index) sts state)"

definition pipeline_run :: "stage_resolver \<Rightarrow> rat \<Rightarrow> step list \<Rightarrow> pipeline_context \<Rightarrow> run_result" where
  "pipeline_run resolve start checks ctx = run_steps resolve start 0 checks ([], [], ctx)"

end
