(* ===== verification/Pipeline_Proofs.thy ===== *)
theory Pipeline_Proofs
  imports Pipeline "HOL-Library.Multiset"
begin

text \<open>
  Correctness of the pipeline: the change tracker against its history, the merge of lane states,
  the results a parallel stage can return under any schedule, and the run as a whole.
\<close>

section \<open>The change tracker\<close>

definition feed :: "status_change_tracker \<Rightarrow> (outcome_key \<times> string list) list \<Rightarrow> status_change_tracker" where
  "feed tr hist = fold (\<lambda>(k, out) t. snd (tracker_changed t k out)) hist tr"

definition new_tracker :: "nat \<Rightarrow> status_change_tracker" where
  "new_tracker n = \<lparr> tr_max_entries = n, tr_last = [] \<rparr>"

lemma is_dict_length: "is_dict d \<Longrightarrow> length d = card (fst ` set d)"
  unfolding is_dict_def by (metis card_length distinct_card length_map list.set_map)

lemma is_dict_tl: "is_dict d \<Longrightarrow> is_dict (tl d)"
  by (cases d) (auto simp: is_dict_def)

lemma length_dset_dpop: "length (dset k v (dpop k d)) \<le> Suc (length d)"
  using length_filter_le [of _ d] by (induction d) auto

lemma tracker_changed_inv:
  assumes "is_dict (tr_last tr)" "length (tr_last tr) \<le> tr_max_entries tr"
  shows "is_dict (tr_last (snd (tracker_changed tr k out)))"
    and "length (tr_last (snd (tracker_changed tr k out))) \<le> tr_max_entries tr"
    and "tr_max_entries (snd (tracker_changed tr k out)) = tr_max_entries tr"
  using assms length_dset_dpop [of k out "tr_last tr"]
  by (auto simp: tracker_changed_def Let_def intro: is_dict_tl)

lemma feed_snoc: "feed tr (hist @ [(k, out)]) = snd (tracker_changed (feed tr hist) k out)"
  by (simp add: feed_def)

lemma feed_inv:
  "is_dict (tr_last (feed (new_tracker n) hist))
   \<and> length (tr_last (feed (new_tracker n) hist)) \<le> n \<and> tr_max_entries (feed (new_tracker n) hist) = n"
proof (induction hist rule: rev_induct)
  case Nil
  show ?case by (simp add: feed_def new_tracker_def)
next
  case (snoc x hist)
  then show ?case using tracker_changed_inv [of "feed (new_tracker n) hist"]
    by (cases x) (simp add: feed_snoc)
qed

lemma tracker_keeps:
  assumes "is_dict (tr_last tr)" "card (insert k (fst ` set (tr_last tr))) \<le> tr_max_entries tr"
  shows "tr_last (snd (tracker_changed tr k out)) = dset k out (dpop k (tr_last tr))"
proof -
  have "is_dict (dset k out (dpop k (tr_last tr)))" using assms(1) by simp
  then have "length (dset k out (dpop k (tr_last tr))) = card (insert k (fst ` set (dpop k (tr_last tr))))"
    by (simp only: is_dict_length keys_dset)
  also have "insert k (fst ` set (dpop k (tr_last tr))) = insert k (fst ` set (tr_last tr))"
    by (auto simp: keys_dpop)
  finally show ?thesis using assms(2) by (simp add: tracker_changed_def Let_def)
qed

text \<open>While the keys fit, the tracker holds the last outcome of every key of the history.\<close>

lemma feed_lookup:
  "card (fst ` set hist) \<le> n \<Longrightarrow>
     fst ` set (tr_last (feed (new_tracker n) hist)) = fst ` set hist
     \<and> dget (tr_last (feed (new_tracker n) hist)) = map_of (rev hist)"
proof (induction hist rule: rev_induct)
  case Nil
  show ?case by (simp add: feed_def new_tracker_def)
next
  case (snoc x hist)
  obtain k out where x: "x = (k, out)" by (cases x)
  have "card (fst ` set hist) \<le> n"
    using snoc.prems card_mono [of "fst ` set (hist @ [x])" "fst ` set hist"] by force
  note IH = snoc.IH [OF this]
  have "card (insert k (fst ` set (tr_last (feed (new_tracker n) hist)))) \<le> n"
    using snoc.prems IH x by simp
  then have "tr_last (feed (new_tracker n) (hist @ [x]))
      = dset k out (dpop k (tr_last (feed (new_tracker n) hist)))"
    using feed_inv [of n hist] by (simp add: x feed_snoc tracker_keeps)
  then show ?case
    using IH by (auto simp: x keys_dset keys_dpop fun_eq_iff)
qed

text \<open>
  Claim C2. The tracker never holds more entries than its limit nor a key twice, and as long as
  the keys seen so far fit, it reports a change exactly when the outcome differs from the one last
  reported for the same hotkey, executor and check (or there was none).
\<close>

theorem tracker_reports_changes:
  "length (tr_last (feed (new_tracker n) hist)) \<le> n
   \<and> is_dict (tr_last (feed (new_tracker n) hist))
   \<and> (card (fst ` set hist) \<le> n \<longrightarrow>
       fst (tracker_changed (feed (new_tracker n) hist) k out) = (map_of (rev hist) k \<noteq> Some out))"
  using feed_inv [of n hist] feed_lookup [of hist n] by (auto simp: tracker_changed_def Let_def)

theorem tracker_reports_changes_witness:
  "card (fst ` set [((''hk'', PStr ''u1'', ''c''), [''ok'']), ((''hk'', PStr ''u2'', ''c''), [''bad''])]) \<le> (2::nat)
   \<and> fst (tracker_changed (feed (new_tracker 2)
        [((''hk'', PStr ''u1'', ''c''), [''ok'']), ((''hk'', PStr ''u2'', ''c''), [''bad''])])
        (''hk'', PStr ''u1'', ''c'') [''bad''])"
  using tracker_reports_changes [of 2 "[((''hk'', PStr ''u1'', ''c''), [''ok'']), ((''hk'', PStr ''u2'', ''c''), [''bad''])]"
      "(''hk'', PStr ''u1'', ''c'')" "[''bad'']"]
  by (simp add: card_insert_if)

section \<open>Merging lane states\<close>

text \<open>The fields of a state with the test of \<open>merge_state\<close> that they are unchanged.\<close>

definition field_tests :: "context_state \<Rightarrow> context_state \<Rightarrow> (string \<times> bool) list" where
  "field_tests before after =
     [(''upload_local_dir'', (=) (st_upload_local_dir after) (st_upload_local_dir before)),
      (''upload_remote_dir'', (=) (st_upload_remote_dir after) (st_upload_remote_dir before)),
      (''remote_dir'', (=) (st_remote_dir after) (st_remote_dir before)),
      (''specs'', same_pv (PDict (st_specs after)) (PDict (st_specs before))),
      (''gpu_model'', (=) (st_gpu_model after) (st_gpu_model before)),
      (''gpu_count'', (=) (st_gpu_count after) (st_gpu_count before)),
      (''gpu_details'', same_dicts (st_gpu_details after) (st_gpu_details before)),
      (''gpu_processes'', same_dicts (st_gpu_processes after) (st_gpu_processes before)),
      (''sysbox_runtime'', (=) (st_sysbox_runtime after) (st_sysbox_runtime before)),
      (''supports_gpu_splitting'', (=) (st_supports_gpu_splitting after) (st_supports_gpu_splitting before)),
      (''gpu_splitting_min_count'', (=) (st_gpu_splitting_min_count after) (st_gpu_splitting_min_count before)),
      (''gpu_model_count'', (=) (st_gpu_model_count after) (st_gpu_model_count before)),
      (''gpu_uuids'', (=) (st_gpu_uuids after) (st_gpu_uuids before)),
      (''kernel_gpu_uuids'', (=) (st_kernel_gpu_uuids after) (st_kernel_gpu_uuids before)),
      (''kernel_gpu_uuids_read_attempted'', (=) (st_kernel_gpu_uuids_read_attempted after) (st_kernel_gpu_uuids_read_attempted before)),
      (''kernel_gpu_foreign_mounts'', (=) (st_kernel_gpu_foreign_mounts after) (st_kernel_gpu_foreign_mounts before)),
      (''verified_port_count'', (=) (st_verified_port_count after) (st_verified_port_count before)),
      (''probed_port_count'', (=) (st_probed_port_count after) (st_probed_port_count before)),
      (''declared_port_count'', (=) (st_declared_port_count after) (st_declared_port_count before)),
      (''orphaned_containers'', (=) (st_orphaned_containers after) (st_orphaned_containers before)),
      (''verified_port_pairs'', (=) (st_verified_port_pairs after) (st_verified_port_pairs before)),
      (''port_check_deferred'', (=) (st_port_check_deferred after) (st_port_check_deferred before)),
      (''dind_probe_error'', (=) (st_dind_probe_error after) (st_dind_probe_error before)),
      (''externally_unreachable'', (=) (st_externally_unreachable after) (st_externally_unreachable before)),
      (''host_runtime_fault'', (=) (st_host_runtime_fault after) (st_host_runtime_fault before)),
      (''external_probe_blocked'', (=) (st_external_probe_blocked after) (st_external_probe_blocked before)),
      (''pod_states'', (=) (st_pod_states after) (st_pod_states before)),
      (''rented_data'', (=) (st_rented_data after) (st_rented_data before)),
      (''memory_health'', same_health (st_memory_health after) (st_memory_health before)),
      (''gpu_metrics'', same_dict_option (st_gpu_metrics after) (st_gpu_metrics before)),
      (''inspector_event'', same_dict_option (st_inspector_event after) (st_inspector_event before)),
      (''recommended_image_cached'', (=) (st_recommended_image_cached after) (st_recommended_image_cached before)),
      (''recommended_image_digest_match'', (=) (st_recommended_image_digest_match after) (st_recommended_image_digest_match before)),
      (''executor_image_report'', (=) (st_executor_image_report after) (st_executor_image_report before)),
      (''local_verify'', same_pv (st_local_verify after) (st_local_verify before)),
      (''verifyx_cold_retry'', same_pv (st_verifyx_cold_retry after) (st_verifyx_cold_retry before))]"

text \<open>No field but \<open>specs\<close> was changed by both lanes.\<close>

definition disjoint_changes :: "context_state \<Rightarrow> context_state \<Rightarrow> context_state \<Rightarrow> bool" where
  "disjoint_changes before after1 after2 \<longleftrightarrow>
     list_all2 (\<lambda>(name, same1) (_, same2). name = ''specs'' \<or> same1 \<or> same2)
       (field_tests before after1) (field_tests before after2)"

definition spec_written :: "pdict \<Rightarrow> pdict \<Rightarrow> string \<Rightarrow> bool" where
  "spec_written before after k = (case (dget before k, dget after k) of
     (None, None) \<Rightarrow> False | (Some w, Some v) \<Rightarrow> \<not> py_eq w v | _ \<Rightarrow> True)"

lemma fold_dpop_lookup: "dget (fold dpop ks d) k = (if k \<in> set ks then None else dget d k)"
  by (induction ks arbitrary: d) auto

lemma filter_dict_lookup:
  "is_dict d \<Longrightarrow> dget (filter P d) k = (case dget d k of None \<Rightarrow> None | Some v \<Rightarrow> if P (k, v) then Some v else None)"
proof (induction d)
  case (Cons x d)
  then have "is_dict d" by (simp add: is_dict_def)
  moreover have "dget d (fst x) = None"
    using Cons.prems by (cases x) (auto simp: is_dict_def map_of_eq_None_iff)
  ultimately show ?case using Cons.IH by (cases x) (auto split: option.splits)
qed simp

lemma merge_specs_lookup:
  assumes "is_dict after"
  shows "dget (merge_specs current before after) k =
    (if spec_written before after k then dget after k else dget current k)"
proof -
  have "is_dict (filter P after)" for P using assms by (simp add: is_dict_def distinct_map_filter)
  moreover have "k \<in> set (filter (\<lambda>k. dget after k = None) (map fst before))
      \<longleftrightarrow> dget before k \<noteq> None \<and> dget after k = None"
    by (simp add: dget_None_iff)
  ultimately show ?thesis
    unfolding merge_specs_def Let_def spec_written_def
    by (simp only: dget_dmerge fold_dpop_lookup filter_dict_lookup [OF assms]) (simp split: option.splits)
qed

lemma merge_field_commute:
  "same a1 b \<or> same a2 b \<Longrightarrow>
     merge_field same (merge_field same c b a1) b a2 = merge_field same (merge_field same c b a2) b a1"
  by (auto simp: merge_field_def)

lemma merge_state_specs:
  "st_specs (merge_state c b a) = (if same_pv (PDict (st_specs a)) (PDict (st_specs b)) then st_specs c
     else merge_specs (st_specs c) (st_specs b) (st_specs a))"
  by (simp add: merge_state_def)

lemma merge_state_fields:
  "st_upload_local_dir (merge_state current before after) = merge_field (=) (st_upload_local_dir current) (st_upload_local_dir before) (st_upload_local_dir after)"
  "st_upload_remote_dir (merge_state current before after) = merge_field (=) (st_upload_remote_dir current) (st_upload_remote_dir before) (st_upload_remote_dir after)"
  "st_remote_dir (merge_state current before after) = merge_field (=) (st_remote_dir current) (st_remote_dir before) (st_remote_dir after)"
  "st_gpu_model (merge_state current before after) = merge_field (=) (st_gpu_model current) (st_gpu_model before) (st_gpu_model after)"
  "st_gpu_count (merge_state current before after) = merge_field (=) (st_gpu_count current) (st_gpu_count before) (st_gpu_count after)"
  "st_gpu_details (merge_state current before after) = merge_field same_dicts (st_gpu_details current) (st_gpu_details before) (st_gpu_details after)"
  "st_gpu_processes (merge_state current before after) = merge_field same_dicts (st_gpu_processes current) (st_gpu_processes before) (st_gpu_processes after)"
  "st_sysbox_runtime (merge_state current before after) = merge_field (=) (st_sysbox_runtime current) (st_sysbox_runtime before) (st_sysbox_runtime after)"
  "st_supports_gpu_splitting (merge_state current before after) = merge_field (=) (st_supports_gpu_splitting current) (st_supports_gpu_splitting before) (st_supports_gpu_splitting after)"
  "st_gpu_splitting_min_count (merge_state current before after) = merge_field (=) (st_gpu_splitting_min_count current) (st_gpu_splitting_min_count before) (st_gpu_splitting_min_count after)"
  "st_gpu_model_count (merge_state current before after) = merge_field (=) (st_gpu_model_count current) (st_gpu_model_count before) (st_gpu_model_count after)"
  "st_gpu_uuids (merge_state current before after) = merge_field (=) (st_gpu_uuids current) (st_gpu_uuids before) (st_gpu_uuids after)"
  "st_kernel_gpu_uuids (merge_state current before after) = merge_field (=) (st_kernel_gpu_uuids current) (st_kernel_gpu_uuids before) (st_kernel_gpu_uuids after)"
  "st_kernel_gpu_uuids_read_attempted (merge_state current before after) = merge_field (=) (st_kernel_gpu_uuids_read_attempted current) (st_kernel_gpu_uuids_read_attempted before) (st_kernel_gpu_uuids_read_attempted after)"
  "st_kernel_gpu_foreign_mounts (merge_state current before after) = merge_field (=) (st_kernel_gpu_foreign_mounts current) (st_kernel_gpu_foreign_mounts before) (st_kernel_gpu_foreign_mounts after)"
  "st_verified_port_count (merge_state current before after) = merge_field (=) (st_verified_port_count current) (st_verified_port_count before) (st_verified_port_count after)"
  "st_probed_port_count (merge_state current before after) = merge_field (=) (st_probed_port_count current) (st_probed_port_count before) (st_probed_port_count after)"
  "st_declared_port_count (merge_state current before after) = merge_field (=) (st_declared_port_count current) (st_declared_port_count before) (st_declared_port_count after)"
  "st_orphaned_containers (merge_state current before after) = merge_field (=) (st_orphaned_containers current) (st_orphaned_containers before) (st_orphaned_containers after)"
  "st_verified_port_pairs (merge_state current before after) = merge_field (=) (st_verified_port_pairs current) (st_verified_port_pairs before) (st_verified_port_pairs after)"
  "st_port_check_deferred (merge_state current before after) = merge_field (=) (st_port_check_deferred current) (st_port_check_deferred before) (st_port_check_deferred after)"
  "st_dind_probe_error (merge_state current before after) = merge_field (=) (st_dind_probe_error current) (st_dind_probe_error before) (st_dind_probe_error after)"
  "st_externally_unreachable (merge_state current before after) = merge_field (=) (st_externally_unreachable current) (st_externally_unreachable before) (st_externally_unreachable after)"
  "st_host_runtime_fault (merge_state current before after) = merge_field (=) (st_host_runtime_fault current) (st_host_runtime_fault before) (st_host_runtime_fault after)"
  "st_external_probe_blocked (merge_state current before after) = merge_field (=) (st_external_probe_blocked current) (st_external_probe_blocked before) (st_external_probe_blocked after)"
  "st_pod_states (merge_state current before after) = merge_field (=) (st_pod_states current) (st_pod_states before) (st_pod_states after)"
  "st_rented_data (merge_state current before after) = merge_field (=) (st_rented_data current) (st_rented_data before) (st_rented_data after)"
  "st_memory_health (merge_state current before after) = merge_field same_health (st_memory_health current) (st_memory_health before) (st_memory_health after)"
  "st_gpu_metrics (merge_state current before after) = merge_field same_dict_option (st_gpu_metrics current) (st_gpu_metrics before) (st_gpu_metrics after)"
  "st_inspector_event (merge_state current before after) = merge_field same_dict_option (st_inspector_event current) (st_inspector_event before) (st_inspector_event after)"
  "st_recommended_image_cached (merge_state current before after) = merge_field (=) (st_recommended_image_cached current) (st_recommended_image_cached before) (st_recommended_image_cached after)"
  "st_recommended_image_digest_match (merge_state current before after) = merge_field (=) (st_recommended_image_digest_match current) (st_recommended_image_digest_match before) (st_recommended_image_digest_match after)"
  "st_executor_image_report (merge_state current before after) = merge_field (=) (st_executor_image_report current) (st_executor_image_report before) (st_executor_image_report after)"
  "st_local_verify (merge_state current before after) = merge_field same_pv (st_local_verify current) (st_local_verify before) (st_local_verify after)"
  "st_verifyx_cold_retry (merge_state current before after) = merge_field same_pv (st_verifyx_cold_retry current) (st_verifyx_cold_retry before) (st_verifyx_cold_retry after)"
  by (simp_all add: merge_state_def)

lemma merge_state_other_fields:
  assumes "disjoint_changes b a1 a2"
  shows "(merge_state (merge_state c b a1) b a2)\<lparr>st_specs := []\<rparr>
       = (merge_state (merge_state c b a2) b a1)\<lparr>st_specs := []\<rparr>"
  using assms
  apply (simp (no_asm_use) only: disjoint_changes_def field_tests_def list_all2_Cons prod.case
      list.inject char.inject list.distinct simp_thms)
  apply (elim conjE)
  apply (rule context_state.equality)
  apply (simp_all (no_asm) add: merge_state_fields)
  apply (rule merge_field_commute, assumption)+
  done


text \<open>
  Claim C3. Two lanes that changed disjoint parts of the state (different fields, and different
  keys of \<open>specs\<close>) can be merged in either order: every field of the result agrees and every key
  of \<open>specs\<close> reads the same.
\<close>

theorem merge_state_commutes:
  assumes "disjoint_changes before after1 after2"
    and "is_dict (st_specs after1)" "is_dict (st_specs after2)"
    and "\<forall>k. \<not> (spec_written (st_specs before) (st_specs after1) k
            \<and> spec_written (st_specs before) (st_specs after2) k)"
  shows "(merge_state (merge_state c before after1) before after2)\<lparr>st_specs := []\<rparr>
       = (merge_state (merge_state c before after2) before after1)\<lparr>st_specs := []\<rparr>
     \<and> dget (st_specs (merge_state (merge_state c before after1) before after2)) k
       = dget (st_specs (merge_state (merge_state c before after2) before after1)) k"
  using merge_state_other_fields [OF assms(1), of c] assms(4)
  by (auto simp: merge_state_specs merge_specs_lookup [OF assms(2)] merge_specs_lookup [OF assms(3)])

definition verifyx_lane_state :: context_state where
  "verifyx_lane_state = initial_state\<lparr>st_specs := [(''ram'', PInt 64)], st_gpu_count := Some 8\<rparr>"

definition ports_lane_state :: context_state where
  "ports_lane_state = initial_state\<lparr>st_specs := [(''verified_ports'', PList [PInt 40000])], st_verified_port_count := 1\<rparr>"

theorem merge_state_commutes_witness:
  "disjoint_changes initial_state verifyx_lane_state ports_lane_state
   \<and> dget (st_specs (merge_state (merge_state initial_state initial_state verifyx_lane_state)
        initial_state ports_lane_state)) ''ram''
     = dget (st_specs (merge_state (merge_state initial_state initial_state ports_lane_state)
        initial_state verifyx_lane_state)) ''ram''"
proof -
  have d: "disjoint_changes initial_state verifyx_lane_state ports_lane_state"
    by (simp add: disjoint_changes_def field_tests_def initial_state_def verifyx_lane_state_def
        ports_lane_state_def same_pv_def same_dicts_def same_dict_option_def same_health_def)
  have "is_dict (st_specs verifyx_lane_state)" "is_dict (st_specs ports_lane_state)"
    "\<forall>k. \<not> (spec_written (st_specs initial_state) (st_specs verifyx_lane_state) k
       \<and> spec_written (st_specs initial_state) (st_specs ports_lane_state) k)"
    by (simp_all add: is_dict_def spec_written_def initial_state_def verifyx_lane_state_def ports_lane_state_def)
  with d merge_state_commutes [OF d] show ?thesis by blast
qed

section \<open>Stages\<close>

definition lane_inv :: "check list \<Rightarrow> pipeline_context \<Rightarrow> lane_conf \<Rightarrow> bool" where
  "lane_inv lane ctx l \<longleftrightarrow>
     (if lc_status l = LaneRunning
      then run_lane lane ctx = apfst (append (lc_ran l)) (run_lane (lc_todo l) (lc_ctx l))
      else run_lane lane ctx = (lc_ran l, lc_status l))"

lemma start_lane_inv: "lane_inv lane ctx (start_lane ctx lane)"
  by (cases "run_lane lane ctx") (simp add: lane_inv_def start_lane_def)

lemma lane_step_inv:
  assumes "lane_inv lane ctx l" "lc_status l = LaneRunning"
  shows "lane_inv lane ctx (lane_step l)"
proof (cases "lc_todo l")
  case Nil
  with assms show ?thesis by (simp add: lane_inv_def lane_step_def)
next
  case (Cons chk rest)
  show ?thesis
  proof (cases "run_check chk (lc_ctx l)")
    case (Inr rk)
    with assms Cons show ?thesis
      by (cases "run_lane rest (lane_context (lc_ctx l) rk)")
        (simp add: lane_inv_def lane_step_def)
  qed (use assms Cons in \<open>simp add: lane_inv_def lane_step_def\<close>)
qed

inductive_cases stage_stepE: "stage_step ls ls'"

lemma stage_step_inv:
  assumes "stage_step ls ls'" "list_all2 (\<lambda>lane l. lane_inv lane ctx l) lanes ls"
  shows "list_all2 (\<lambda>lane l. lane_inv lane ctx l) lanes ls'"
  using assms
  by (elim stage_stepE) (auto simp: list_all2_conv_all_nth nth_list_update intro: lane_step_inv)

lemma stage_reach_inv:
  assumes "stage_step\<^sup>*\<^sup>* (map (start_lane ctx) lanes) ls"
  shows "list_all2 (\<lambda>lane l. lane_inv lane ctx l) lanes ls"
  using assms
  by induction (auto simp: list_all2_conv_all_nth start_lane_inv dest: stage_step_inv [unfolded list_all2_conv_all_nth])



lemma run_lane_stopped:
  "run_lane lane ctx = (rks, LaneStopped) \<Longrightarrow> rks \<noteq> [] \<and> stops_run (rc_check (last rks)) (rc_result (last rks))"
proof (induction lane arbitrary: ctx rks)
  case (Cons chk lane)
  then show ?case
    by (fastforce simp: run_check_def split: sum.splits if_splits prod.splits)
qed simp






definition ok_event :: "string \<Rightarrow> validation_event" where
  "ok_event cid = build_msg ''done'' ''OK'' ''info'' ''runtime'' ''Proceed'' [] [] None cid None []"

definition const_check :: "string \<Rightarrow> bool \<Rightarrow> bool \<Rightarrow> ctx_update list \<Rightarrow> check" where
  "const_check cid fatal passed us = \<lparr> ck_id = cid, ck_fatal = fatal, ck_run = (\<lambda>ctx. Inr (
     \<lparr> cr_passed = passed, cr_event = ok_event cid, cr_updates = us, cr_halt = False, cr_fatal = None,
       cr_extra_events = [] \<rparr>, 0, 1)) \<rparr>"

definition example_executor :: executor_ssh_info where
  "example_executor = \<lparr> ex_uuid = ''e1'', ex_address = ''10.0.0.1'', ex_port = 8001, ex_ssh_username = ''root'',
     ex_ssh_port = 22, ex_python_path = ''/usr/bin/python3'', ex_root_dir = ''/root/app'', ex_port_range = None,
     ex_port_mappings = None, ex_price_per_gpu = None, ex_ssh_host_key = None, ex_tdx_quote = None,
     ex_nvidia_payload = None, ex_expected_ssh_host_key = None \<rparr>"

definition example_context :: pipeline_context where
  "example_context = new_context ''p1'' example_executor ''hk''"


lemma lane_inv_prefix:
  assumes "lane_inv lane ctx l"
  shows "\<exists>more. fst (run_lane lane ctx) = lc_ran l @ more"
  using assms by (cases "run_lane (lc_todo l) (lc_ctx l)") (auto simp: lane_inv_def split: if_splits)

lemma stage_returned_prefixes:
  assumes "stage_runs lanes ctx (Inr rks)"
  shows "\<exists>parts. rks = concat parts
     \<and> list_all2 (\<lambda>part lane. \<exists>more. fst (run_lane lane ctx) = part @ more) parts lanes"
proof -
  obtain ls where ls: "stage_step\<^sup>*\<^sup>* (map (start_lane ctx) lanes) ls" "rks = concat (map lc_ran ls)"
    using assms by (auto elim: stage_runs.cases)
  from stage_reach_inv [OF ls(1)] have
    "list_all2 (\<lambda>part lane. \<exists>more. fst (run_lane lane ctx) = part @ more) (map lc_ran ls) lanes"
    using lane_inv_prefix by (auto simp: list_all2_conv_all_nth)
  with ls(2) show ?thesis by blast
qed


section \<open>Runs\<close>

lemma stamp_simps [simp]:
  "rc_check (fst (stamp t rk)) = rc_check rk"
  "cr_passed (rc_result (fst (stamp t rk))) = cr_passed (rc_result rk)"
  "cr_halt (rc_result (fst (stamp t rk))) = cr_halt (rc_result rk)"
  "cr_updates (rc_result (fst (stamp t rk))) = cr_updates (rc_result rk)"
  "cr_fatal (rc_result (fst (stamp t rk))) = cr_fatal (rc_result rk)"
  "cr_extra_events (rc_result (fst (stamp t rk))) = cr_extra_events (rc_result rk)"
  "rc_before_state (fst (stamp t rk)) = rc_before_state rk"
  "ev_check_id (cr_event (rc_result (fst (stamp t rk)))) = ev_check_id (cr_event (rc_result rk))"
  "ev_reason_code (cr_event (rc_result (fst (stamp t rk)))) = ev_reason_code (cr_event (rc_result rk))"
  "ev_severity (cr_event (rc_result (fst (stamp t rk)))) = ev_severity (cr_event (rc_result rk))"
  by (simp_all add: stamp_def Let_def)

lemma failed_ran_stamp [simp]: "failed_ran (fst (stamp t rk)) = failed_ran rk"
  by (simp add: failed_ran_def is_fatal_def)

lemma lane_context_stamp [simp]: "lane_context ctx (fst (stamp t rk)) = lane_context ctx rk"
  by (simp add: lane_context_def updates_with_clear_verified_job_evidence_def Let_def)

lemma apply_ran_serial: "apply_ran ctx rk False = lane_context ctx rk"
  by (simp add: apply_ran_def lane_context_def)

lemma stops_run_iff: "stops_run (rc_check rk) (rc_result rk) \<longleftrightarrow> failed_ran rk \<or> cr_halt (rc_result rk)"
  by (simp add: stops_run_def failed_ran_def)

lemma emit_rans_stamp:
  "emit_rans p l ms (stamp t rk # rest) (events, steps, ctx) =
     (let steps' = steps @ [(ck_id (rc_check rk), fst (snd (stamp t rk)))];
          ev = final_event (fst (stamp t rk)) steps' (if p then ms else snd (snd (stamp t rk))) (l \<and> rest = []);
          events' = events @ cr_extra_events (rc_result rk) @ [ev];
          ctx' = apply_ran ctx (fst (stamp t rk)) p
      in if failed_ran rk then Inr (Inr (False, events', ctx'))
         else if cr_halt (rc_result rk) then Inr (ended events' ctx')
         else emit_rans p l ms rest (events', steps', ctx'))"
  using failed_ran_stamp [of t rk] stamp_simps [of t rk] by (cases "stamp t rk") (simp add: Let_def)




text \<open>What identifies an event of the run apart from its stamps and its step summary.\<close>

definition event_key :: "validation_event \<Rightarrow> string option \<times> string \<times> string" where
  "event_key e = (ev_check_id e, ev_reason_code e, ev_severity e)"

definition ran_events :: "ran_check \<Rightarrow> validation_event list" where
  "ran_events rk = cr_extra_events (rc_result rk) @ [cr_event (rc_result rk)]"

lemma event_key_final [simp]: "event_key (final_event (fst (stamp t rk)) steps el l) = event_key (cr_event (rc_result rk))"
  by (simp add: event_key_def final_event_def Let_def)

lemma run_lane_nonstop: "run_lane lane ctx = (rks, LaneDone) \<Longrightarrow> rk \<in> set rks \<Longrightarrow> \<not> failed_ran rk"
proof (induction lane arbitrary: ctx rks)
  case (Cons chk lane)
  then show ?case
    by (auto simp: run_check_def stops_run_def failed_ran_def split: sum.splits if_splits prod.splits)
qed simp

lemma run_steps_serial:
  assumes "run_lane checks ctx = (rks, status)" "\<forall>e. status \<noteq> LaneRaised e"
  shows "\<exists>events'. map event_key events' = map event_key (concat (map ran_events rks))
     \<and> run_steps resolve t i (map Single checks) (events, steps, ctx) =
        (if status = LaneStopped \<and> failed_ran (last rks)
         then Inr (False, events @ events', foldl lane_context ctx rks)
         else ended (events @ events') (foldl lane_context ctx rks))"
  using assms
proof (induction checks arbitrary: ctx rks i events steps)
  case Nil
  then show ?case by (intro exI [of _ "[]"]) simp
next
  case (Cons chk checks)
  then obtain rk where rk: "run_check chk ctx = Inr rk" by (cases "run_check chk ctx") auto
  then have chk: "rc_check rk = chk" by (auto simp: run_check_def split: sum.splits)
  define ex where "ex = fst (snd (stamp t rk))"
  define ev where "ev = final_event (fst (stamp t rk)) (steps @ [(ck_id chk, ex)]) (snd (snd (stamp t rk))) (checks = [])"
  define evs where "evs = cr_extra_events (rc_result rk) @ [ev]"
  have evs: "map event_key evs = map event_key (ran_events rk)"
    by (simp add: evs_def ev_def ran_events_def)
  have step: "run_steps resolve t i (map Single (chk # checks)) (events, steps, ctx) =
      (if failed_ran rk then Inr (False, events @ evs, lane_context ctx rk)
       else if cr_halt (rc_result rk) then ended (events @ evs) (lane_context ctx rk)
       else run_steps resolve t (Suc i) (map Single checks)
         (events @ evs, steps @ [(ck_id chk, ex)], lane_context ctx rk))"
    using chk by (simp add: run_step_def rk is_parallel_def Let_def emit_rans_stamp apply_ran_serial evs_def ev_def ex_def)
  show ?case
  proof (cases "stops_run chk (rc_result rk)")
    case True
    then have "rks = [rk]" "status = LaneStopped" "failed_ran rk \<or> cr_halt (rc_result rk)"
      using Cons.prems rk stops_run_iff [of rk] chk by auto
    then show ?thesis using step evs by (intro exI [of _ evs]) auto
  next
    case False
    then obtain rks' where rks: "run_lane checks (lane_context ctx rk) = (rks', status)" "rks = rk # rks'"
      using Cons.prems rk by (auto split: prod.splits)
    have ns: "\<not> failed_ran rk" "\<not> cr_halt (rc_result rk)" using False stops_run_iff [of rk] chk by auto
    have last: "status = LaneStopped \<Longrightarrow> last rks = last rks'"
      using run_lane_stopped [of checks "lane_context ctx rk" rks'] rks by simp
    from Cons.IH [OF rks(1) Cons.prems(2), of "Suc i" "events @ evs" "steps @ [(ck_id chk, ex)]"]
    obtain events' where e: "map event_key events' = map event_key (concat (map ran_events rks'))"
      "run_steps resolve t (Suc i) (map Single checks) (events @ evs, steps @ [(ck_id chk, ex)], lane_context ctx rk)
        = (if status = LaneStopped \<and> failed_ran (last rks')
           then Inr (False, (events @ evs) @ events', foldl lane_context (lane_context ctx rk) rks')
           else ended ((events @ evs) @ events') (foldl lane_context (lane_context ctx rk) rks'))"
      by blast
    show ?thesis
      using e step ns last evs rks(2) by (intro exI [of _ "evs @ events'"]) auto
  qed
qed

text \<open>
  Claim C6. A pipeline of single checks runs exactly as one lane: the checks execute in order on the
  context the previous ones left, up to the first that fails fatally or halts; the events are those
  of the executed checks in order, each check's extra events before its own; the context carries
  the updates of all of them; and the verdict is a failure when the last executed check failed
  fatally, otherwise what \<open>_ended\<close> decides.
\<close>

theorem serial_run_is_lane:
  assumes "run_lane checks ctx = (rks, status)" "\<forall>e. status \<noteq> LaneRaised e"
  shows "\<exists>events. map event_key events = map event_key (concat (map ran_events rks))
     \<and> pipeline_run resolve t (map Single checks) ctx =
        (if status = LaneStopped \<and> failed_ran (last rks)
         then Inr (False, events, foldl lane_context ctx rks)
         else ended events (foldl lane_context ctx rks))"
  using run_steps_serial [OF assms, of resolve t 0 "[]" "[]"] by (simp only: append_Nil pipeline_run_def)

lemmas check_eval = const_check_def run_check_def stops_run_def is_fatal_def failed_ran_def ran_events_def
  ok_event_def build_msg_def event_key_def lane_context_def updates_with_clear_verified_job_evidence_def
  apply_update_def

theorem serial_run_is_lane_witness:
  "\<exists>events c. pipeline_run (\<lambda>i. serial_stage) 0
       (map Single [const_check ''a'' True True [], const_check ''b'' True False [U_score 0], const_check ''c'' True True []])
       example_context = Inr (False, events, c)
     \<and> map event_key events = [(Some ''a'', ''OK'', ''info''), (Some ''b'', ''OK'', ''info'')]"
proof -
  let ?checks = "[const_check ''a'' True True [], const_check ''b'' True False [U_score 0], const_check ''c'' True True []]"
  obtain rks status where r: "run_lane ?checks example_context = (rks, status)"
    by (cases "run_lane ?checks example_context")
  moreover have "status = LaneStopped" "failed_ran (last rks)"
    "map event_key (concat (map ran_events rks)) = [(Some ''a'', ''OK'', ''info''), (Some ''b'', ''OK'', ''info'')]"
    using r by (auto simp: check_eval Let_def)
  ultimately show ?thesis
    using serial_run_is_lane [OF r, of "\<lambda>i. serial_stage" 0] by auto
qed

lemma ended_fingerprint:
  assumes "\<not> cx_gpu_fingerprint_passed c" "\<exists>e \<in> set events. ev_check_id e = Some FINGERPRINT_CHECK"
  shows "\<exists>evs. ended events c = Inr (False, evs, model_copy c [U_rented False, U_score 0, U_job_score 0, U_success False])
     \<and> ev_check_id (last evs) = Some FINGERPRINT_CHECK \<and> mset evs = mset events"
proof -
  let ?P = "\<lambda>e. ev_check_id e \<noteq> Some FINGERPRINT_CHECK"
  have "dropWhile ?P events \<noteq> []" using assms(2) by (auto simp: dropWhile_eq_Nil_conv)
  then obtain f later where d: "dropWhile ?P events = f # later" by (cases "dropWhile ?P events") auto
  then have "ev_check_id f = Some FINGERPRINT_CHECK" by (auto simp: dropWhile_eq_Cons_conv)
  moreover have "mset events = mset (takeWhile ?P events) + mset (f # later)"
    using takeWhile_dropWhile_id [of ?P events] d by (metis mset_append)
  ultimately show ?thesis using assms(1) d by (auto simp: ended_def)
qed

text \<open>
  Claim C7. A serial run in which nothing failed fatally but the GPU fingerprint flag ended False
  (a GPU set change under a live rental) is reported as a failure: not rented, both scores 0, not a
  success, with the events of the run kept and the fingerprint event moved to the end.
\<close>

theorem fingerprint_failure_ends_run:
  assumes "run_lane checks ctx = (rks, status)" "\<forall>e. status \<noteq> LaneRaised e"
    and "\<forall>rk \<in> set rks. \<not> failed_ran rk" "\<not> cx_gpu_fingerprint_passed (foldl lane_context ctx rks)"
    and "\<exists>rk \<in> set rks. ev_check_id (cr_event (rc_result rk)) = Some FINGERPRINT_CHECK"
  shows "\<exists>events c. pipeline_run resolve t (map Single checks) ctx = Inr (False, events, c)
     \<and> mset (map event_key events) = mset (map event_key (concat (map ran_events rks)))
     \<and> ev_check_id (last events) = Some FINGERPRINT_CHECK
     \<and> cx_score c = 0 \<and> cx_job_score c = 0 \<and> \<not> cx_rented c \<and> \<not> cx_success c"
proof -
  have "rks \<noteq> []" using assms(5) by auto
  then have "\<not> failed_ran (last rks)" using assms(3) by simp
  then obtain events where e: "map event_key events = map event_key (concat (map ran_events rks))"
    "pipeline_run resolve t (map Single checks) ctx = ended events (foldl lane_context ctx rks)"
    using run_steps_serial [OF assms(1,2), of resolve t 0 "[]" "[]"] by (auto simp: pipeline_run_def)
  have "Some FINGERPRINT_CHECK \<in> fst ` set (map event_key (concat (map ran_events rks)))"
    using assms(5) by (force simp: ran_events_def event_key_def)
  then have "\<exists>x \<in> set events. ev_check_id x = Some FINGERPRINT_CHECK"
    unfolding e(1) [symmetric] by (auto simp: event_key_def)
  from ended_fingerprint [OF assms(4) this] obtain evs where
    "ended events (foldl lane_context ctx rks) = Inr (False, evs, model_copy (foldl lane_context ctx rks)
       [U_rented False, U_score 0, U_job_score 0, U_success False])"
    "ev_check_id (last evs) = Some FINGERPRINT_CHECK" "mset evs = mset events" by blast
  with e show ?thesis by (auto simp: apply_update_def simp flip: e(1))
qed

theorem fingerprint_failure_ends_run_witness:
  "\<exists>events c. pipeline_run (\<lambda>i. serial_stage) 0
       (map Single [const_check FINGERPRINT_CHECK False False [U_gpu_fingerprint_passed False],
          const_check ''score'' False True [U_score 1, U_success True]])
       example_context = Inr (False, events, c)
     \<and> ev_check_id (last events) = Some FINGERPRINT_CHECK \<and> cx_score c = 0 \<and> \<not> cx_success c"
proof -
  let ?checks = "[const_check FINGERPRINT_CHECK False False [U_gpu_fingerprint_passed False],
          const_check ''score'' False True [U_score 1, U_success True]]"
  obtain rks status where r: "run_lane ?checks example_context = (rks, status)"
    by (cases "run_lane ?checks example_context")
  then have "\<forall>e. status \<noteq> LaneRaised e" "\<forall>rk \<in> set rks. \<not> failed_ran rk"
    "\<not> cx_gpu_fingerprint_passed (foldl lane_context example_context rks)"
    "\<exists>rk \<in> set rks. ev_check_id (cr_event (rc_result rk)) = Some FINGERPRINT_CHECK"
    by (auto simp: check_eval Let_def)
  from fingerprint_failure_ends_run [OF r this, of "\<lambda>i. serial_stage" 0] show ?thesis by blast
qed

end
