(* ===== verification/Gpu_Tables.thy ===== *)
theory Gpu_Tables
  imports Py_Value "HOL-Library.Char_ord"
begin

text \<open>
  GPU model tables and the capacity pre-check (services/const.py GPU_MODEL_RATES,
  services/gpu_spec_table.py, services/gpu_reference_table.py, services/gpu_precheck.py): the nominal
  memory sizes and their acceptance windows, name normalisation, the reference model of an unknown
  card, and the pre-check. The prices of the reference table only rank candidates and are compared
  as the decimals of the source; the ratios of the windows and of the band are rounded to binary64.
\<close>

section \<open>Tables\<close>

text \<open>Rates by canonical model name (mining share per model).\<close>

definition GPU_MODEL_RATES :: "(string, rat) dict" where
  "GPU_MODEL_RATES =
     (let rates = [
      (''NVIDIA B300 SXM6 AC'', 1 / 20),
      (''NVIDIA B200'', 1 / 20),
      (''NVIDIA H200'', 14 / 25),
      (''NVIDIA H200 NVL'', 49 / 100),
      (''NVIDIA H100 80GB HBM3'', 1 / 10),
      (''NVIDIA H100 NVL'', 1 / 100),
      (''NVIDIA H100 PCIe'', 1 / 100),
      (''NVIDIA H800 80GB HBM3'', 1 / 50),
      (''NVIDIA H800 NVL'', 1 / 100),
      (''NVIDIA H800 PCIe'', 1 / 100),
      (''NVIDIA GeForce RTX 5080'', 0),
      (''NVIDIA GeForce RTX 5070 Ti'', 0),
      (''NVIDIA GeForce RTX 5070'', 0),
      (''NVIDIA GeForce RTX 5060 Ti'', 0),
      (''NVIDIA GeForce RTX 5060'', 0),
      (''NVIDIA GeForce RTX 5090'', 1 / 40),
      (''NVIDIA GeForce RTX 5090 D'', 0),
      (''NVIDIA GeForce RTX 4080 SUPER'', 0),
      (''NVIDIA GeForce RTX 4080'', 0),
      (''NVIDIA GeForce RTX 4070 Ti'', 0),
      (''NVIDIA GeForce RTX 4070 Ti SUPER'', 0),
      (''NVIDIA GeForce RTX 4070 SUPER'', 0),
      (''NVIDIA GeForce RTX 4070'', 0),
      (''NVIDIA GeForce RTX 4060 Ti'', 0),
      (''NVIDIA GeForce RTX 4060'', 0),
      (''NVIDIA GeForce RTX 4090'', 1 / 20),
      (''NVIDIA GeForce RTX 4090 D'', 1 / 50),
      (''NVIDIA GeForce RTX 4090 48GB'', 0),
      (''NVIDIA RTX PRO 2000 Blackwell'', 0),
      (''NVIDIA RTX PRO 4000 Blackwell'', 0),
      (''NVIDIA RTX PRO 4500 Blackwell'', 0),
      (''NVIDIA RTX PRO 4500 Blackwell Server Edition'', 0),
      (''NVIDIA RTX PRO 5000 Blackwell'', 0),
      (''NVIDIA RTX 4500 Ada Generation'', 0),
      (''NVIDIA RTX 5000 Ada Generation'', 0),
      (''NVIDIA RTX 5880 Ada Generation'', 0),
      (''NVIDIA RTX 6000 Ada Generation'', 1 / 100),
      (''NVIDIA L4'', 1 / 100),
      (''NVIDIA L40S'', 1 / 100),
      (''NVIDIA L40'', 1 / 100),
      (''NVIDIA A100 80GB PCIe'', 1 / 100),
      (''NVIDIA A100-SXM4-80GB'', 1 / 20),
      (''NVIDIA A100-PCIE-40GB'', 0),
      (''NVIDIA A100-SXM4-40GB'', 0),
      (''NVIDIA A800 80GB PCIe'', 0),
      (''NVIDIA CMP 170HX'', 0),
      (''NVIDIA A10 Tensor Core GPU'', 0),
      (''NVIDIA RTX A6000'', 9 / 1000),
      (''NVIDIA RTX PRO 6000 Blackwell Server Edition'', 1 / 40),
      (''NVIDIA RTX PRO 6000 Blackwell Workstation Edition'', 27 / 1000),
      (''NVIDIA RTX PRO 6000 Blackwell Max-Q Workstation Edition'', 3 / 125),
      (''NVIDIA RTX PRO 6000D Blackwell Workstation Edition'', 0),
      (''NVIDIA RTX 6000D'', 0),
      (''NVIDIA RTX A5000'', 1 / 500),
      (''NVIDIA RTX A4500'', 1 / 500),
      (''NVIDIA RTX A4000'', 1 / 500),
      (''NVIDIA RTX A2000'', 0),
      (''NVIDIA T4 Tensor Core GPU'', 0),
      (''NVIDIA Tesla V100 Tensor Core GPU'', 0),
      (''NVIDIA TITAN V'', 0),
      (''NVIDIA GeForce RTX 3090 Ti'', 0),
      (''NVIDIA GeForce RTX 3090'', 1 / 50),
      (''NVIDIA GeForce RTX 3080 Ti'', 0),
      (''NVIDIA GeForce RTX 3080'', 0),
      (''NVIDIA GeForce RTX 3070 Ti'', 0),
      (''NVIDIA GeForce RTX 3070'', 0),
      (''NVIDIA GeForce RTX 3060 Ti'', 0),
      (''NVIDIA GeForce RTX 3060 Laptop GPU'', 0),
      (''NVIDIA GeForce RTX 3060'', 0),
      (''NVIDIA GeForce RTX 3050'', 0),
      (''NVIDIA Quadro RTX 8000'', 0),
      (''NVIDIA Quadro RTX 6000'', 0),
      (''NVIDIA Quadro RTX 5000'', 0),
      (''NVIDIA TITAN RTX'', 0),
      (''NVIDIA GeForce RTX 2080 Ti'', 0),
      (''NVIDIA GeForce RTX 2080 SUPER'', 0),
      (''NVIDIA GeForce RTX 2070 SUPER'', 0),
      (''NVIDIA GeForce RTX 2060 SUPER'', 0),
      (''NVIDIA GeForce RTX 2060'', 0),
      (''NVIDIA GeForce GTX 1660 Ti'', 0),
      (''NVIDIA GeForce GTX 1660 SUPER'', 0),
      (''NVIDIA GeForce GTX 1660'', 0),
      (''NVIDIA Tesla P100'', 0),
      (''NVIDIA Tesla P40'', 0),
      (''NVIDIA Quadro P4000'', 0),
      (''NVIDIA TITAN Xp'', 0),
      (''NVIDIA GeForce GTX 1080 Ti'', 0),
      (''NVIDIA GeForce GTX 1080'', 0),
      (''NVIDIA GeForce GTX 1070 Ti'', 0),
      (''NVIDIA GeForce GTX 1070'', 0),
      (''NVIDIA GeForce GTX 1060'', 0),
      (''NVIDIA Tesla M40'', 0)];
          ac = dget_or 0 rates ''NVIDIA B300 SXM6 AC''
      in dset ''NVIDIA GB300'' ac (dset ''NVIDIA B300 SXM6 PC'' ac rates))"

text \<open>Nominal memory sizes in MB, one per shipping variant.\<close>

definition GPU_VRAM_SIZES_MB :: "(string, int list) dict" where
  "GPU_VRAM_SIZES_MB =
     (let sizes = [
      (''NVIDIA B300 SXM6 AC'', [294912]),
      (''NVIDIA B200'', [196608]),
      (''NVIDIA H200'', [144384]),
      (''NVIDIA H200 NVL'', [144384]),
      (''NVIDIA H100 80GB HBM3'', [81920]),
      (''NVIDIA H100 NVL'', [96256]),
      (''NVIDIA H100 PCIe'', [81920]),
      (''NVIDIA H800 80GB HBM3'', [81920]),
      (''NVIDIA H800 NVL'', [96256]),
      (''NVIDIA H800 PCIe'', [81920]),
      (''NVIDIA GeForce RTX 5090'', [32768]),
      (''NVIDIA GeForce RTX 5090 D'', [32768]),
      (''NVIDIA GeForce RTX 5080'', [16384]),
      (''NVIDIA GeForce RTX 5070 Ti'', [16384]),
      (''NVIDIA GeForce RTX 5070'', [12288]),
      (''NVIDIA GeForce RTX 5060 Ti'', [8192, 16384]),
      (''NVIDIA GeForce RTX 5060'', [8192]),
      (''NVIDIA GeForce RTX 4090'', [24576]),
      (''NVIDIA GeForce RTX 4090 D'', [24576]),
      (''NVIDIA GeForce RTX 4090 48GB'', [49152]),
      (''NVIDIA GeForce RTX 4080 SUPER'', [16384]),
      (''NVIDIA GeForce RTX 4080'', [16384]),
      (''NVIDIA GeForce RTX 4070 Ti SUPER'', [16384]),
      (''NVIDIA GeForce RTX 4070 Ti'', [12288]),
      (''NVIDIA GeForce RTX 4070 SUPER'', [12288]),
      (''NVIDIA GeForce RTX 4070'', [12288]),
      (''NVIDIA GeForce RTX 4060 Ti'', [8192, 16384]),
      (''NVIDIA GeForce RTX 4060'', [8192]),
      (''NVIDIA RTX PRO 2000 Blackwell'', [16384]),
      (''NVIDIA RTX PRO 4000 Blackwell'', [24576]),
      (''NVIDIA RTX PRO 4500 Blackwell'', [32768]),
      (''NVIDIA RTX PRO 4500 Blackwell Server Edition'', [32768]),
      (''NVIDIA RTX PRO 5000 Blackwell'', [49152, 73728]),
      (''NVIDIA RTX PRO 6000 Blackwell Server Edition'', [98304]),
      (''NVIDIA RTX PRO 6000 Blackwell Workstation Edition'', [98304]),
      (''NVIDIA RTX PRO 6000 Blackwell Max-Q Workstation Edition'', [98304]),
      (''NVIDIA RTX PRO 6000D Blackwell Workstation Edition'', [86016]),
      (''NVIDIA RTX 6000D'', [86016]),
      (''NVIDIA RTX 4500 Ada Generation'', [24576]),
      (''NVIDIA RTX 5000 Ada Generation'', [32768]),
      (''NVIDIA RTX 5880 Ada Generation'', [49152]),
      (''NVIDIA RTX 6000 Ada Generation'', [49152]),
      (''NVIDIA L4'', [24576]),
      (''NVIDIA L40S'', [49152]),
      (''NVIDIA L40'', [49152]),
      (''NVIDIA A100 80GB PCIe'', [81920]),
      (''NVIDIA A100-SXM4-80GB'', [81920]),
      (''NVIDIA A100-PCIE-40GB'', [40960]),
      (''NVIDIA A100-SXM4-40GB'', [40960]),
      (''NVIDIA A800 80GB PCIe'', [81920]),
      (''NVIDIA A10 Tensor Core GPU'', [24576]),
      (''NVIDIA CMP 170HX'', [8192, 40960, 65536]),
      (''NVIDIA RTX A6000'', [49152]),
      (''NVIDIA RTX A5000'', [24576]),
      (''NVIDIA RTX A4500'', [20480]),
      (''NVIDIA RTX A4000'', [16384]),
      (''NVIDIA RTX A2000'', [6144, 12288]),
      (''NVIDIA T4 Tensor Core GPU'', [16384]),
      (''NVIDIA Tesla V100 Tensor Core GPU'', [16384, 32768]),
      (''NVIDIA Quadro RTX 8000'', [49152]),
      (''NVIDIA Quadro RTX 6000'', [24576]),
      (''NVIDIA Quadro RTX 5000'', [16384]),
      (''NVIDIA TITAN V'', [12288]),
      (''NVIDIA TITAN RTX'', [24576]),
      (''NVIDIA GeForce RTX 3090 Ti'', [24576]),
      (''NVIDIA GeForce RTX 3090'', [24576]),
      (''NVIDIA GeForce RTX 3080 Ti'', [12288]),
      (''NVIDIA GeForce RTX 3080'', [10240, 12288]),
      (''NVIDIA GeForce RTX 3070 Ti'', [8192]),
      (''NVIDIA GeForce RTX 3070'', [8192]),
      (''NVIDIA GeForce RTX 3060 Ti'', [8192]),
      (''NVIDIA GeForce RTX 3060'', [8192, 12288]),
      (''NVIDIA GeForce RTX 3060 Laptop GPU'', [6144]),
      (''NVIDIA GeForce RTX 3050'', [6144, 8192]),
      (''NVIDIA GeForce RTX 2080 Ti'', [11264]),
      (''NVIDIA GeForce RTX 2080 SUPER'', [8192]),
      (''NVIDIA GeForce RTX 2070 SUPER'', [8192]),
      (''NVIDIA GeForce RTX 2060 SUPER'', [8192]),
      (''NVIDIA GeForce RTX 2060'', [6144, 12288]),
      (''NVIDIA GeForce GTX 1660 Ti'', [6144]),
      (''NVIDIA GeForce GTX 1660 SUPER'', [6144]),
      (''NVIDIA GeForce GTX 1660'', [6144]),
      (''NVIDIA Tesla P100'', [12288, 16384]),
      (''NVIDIA Tesla P40'', [24576]),
      (''NVIDIA Quadro P4000'', [8192]),
      (''NVIDIA TITAN Xp'', [12288]),
      (''NVIDIA GeForce GTX 1080 Ti'', [11264]),
      (''NVIDIA GeForce GTX 1080'', [8192]),
      (''NVIDIA GeForce GTX 1070 Ti'', [8192]),
      (''NVIDIA GeForce GTX 1070'', [8192]),
      (''NVIDIA GeForce GTX 1060'', [3072, 6144]),
      (''NVIDIA Tesla M40'', [12288, 24576])];
          ac = dget_or [] sizes ''NVIDIA B300 SXM6 AC''
      in dset ''NVIDIA GB300'' ac (dset ''NVIDIA B300 SXM6 PC'' ac sizes))"

definition KNOWN_UNRANGED :: "string list" where "KNOWN_UNRANGED = []"

definition NORMALIZATION_MAP :: "(string, string) dict" where
  "NORMALIZATION_MAP = [
      (''Tesla V100-SXM2-16GB'', ''NVIDIA Tesla V100 Tensor Core GPU''),
      (''Tesla V100-SXM2-32GB'', ''NVIDIA Tesla V100 Tensor Core GPU''),
      (''Tesla V100-PCIE-16GB'', ''NVIDIA Tesla V100 Tensor Core GPU''),
      (''Tesla V100-PCIE-32GB'', ''NVIDIA Tesla V100 Tensor Core GPU''),
      (''Tesla H100 80GB HBM3'', ''NVIDIA H100 80GB HBM3''),
      (''Tesla T4'', ''NVIDIA T4 Tensor Core GPU''),
      (''NVIDIA T4'', ''NVIDIA T4 Tensor Core GPU''),
      (''NVIDIA A10'', ''NVIDIA A10 Tensor Core GPU''),
      (''NVIDIA A10G'', ''NVIDIA A10 Tensor Core GPU'')]"

text \<open>Model, machine price per GPU-hour, nominal sizes in GB.\<close>

definition GPU_REFERENCE_TABLE :: "(string \<times> rat \<times> int list) list" where
  "GPU_REFERENCE_TABLE = [
      (''NVIDIA A10 Tensor Core GPU'', 1 / 5, [24]),
      (''NVIDIA A100 80GB PCIe'', 9 / 20, [80]),
      (''NVIDIA A100-SXM4-80GB'', 7 / 10, [80]),
      (''NVIDIA A100-PCIE-40GB'', 37 / 100, [40]),
      (''NVIDIA A100-SXM4-40GB'', 12 / 25, [40]),
      (''NVIDIA A800 80GB PCIe'', 31 / 100, [80]),
      (''NVIDIA B200'', 28 / 5, [192]),
      (''NVIDIA B300 SXM6 AC'', 8, [288]),
      (''NVIDIA B300 SXM6 PC'', 8, [288]),
      (''NVIDIA CMP 170HX'', 3 / 10, [8, 40, 64]),
      (''NVIDIA GB300'', 8, [288]),
      (''NVIDIA GeForce GTX 1060'', 9 / 100, [3, 6]),
      (''NVIDIA GeForce GTX 1070'', 37 / 100, [8]),
      (''NVIDIA GeForce GTX 1070 Ti'', 1 / 25, [8]),
      (''NVIDIA GeForce GTX 1080'', 3 / 100, [8]),
      (''NVIDIA GeForce GTX 1080 Ti'', 1 / 25, [11]),
      (''NVIDIA GeForce GTX 1660'', 7 / 100, [6]),
      (''NVIDIA GeForce GTX 1660 SUPER'', 1 / 20, [6]),
      (''NVIDIA GeForce GTX 1660 Ti'', 7 / 100, [6]),
      (''NVIDIA GeForce RTX 2060'', 1 / 25, [6, 12]),
      (''NVIDIA GeForce RTX 2060 SUPER'', 3 / 50, [8]),
      (''NVIDIA GeForce RTX 2070 SUPER'', 7 / 100, [8]),
      (''NVIDIA GeForce RTX 2080 SUPER'', 37 / 50, [8]),
      (''NVIDIA GeForce RTX 2080 Ti'', 2 / 25, [11]),
      (''NVIDIA GeForce RTX 3050'', 1 / 20, [6, 8]),
      (''NVIDIA GeForce RTX 3060'', 3 / 50, [8, 12]),
      (''NVIDIA GeForce RTX 3060 Laptop GPU'', 2 / 25, [6]),
      (''NVIDIA GeForce RTX 3060 Ti'', 3 / 50, [8]),
      (''NVIDIA GeForce RTX 3070'', 7 / 100, [8]),
      (''NVIDIA GeForce RTX 3070 Ti'', 9 / 100, [8]),
      (''NVIDIA GeForce RTX 3080'', 9 / 100, [10, 12]),
      (''NVIDIA GeForce RTX 3080 Ti'', 1 / 10, [12]),
      (''NVIDIA GeForce RTX 3090'', 4 / 25, [24]),
      (''NVIDIA GeForce RTX 3090 Ti'', 4 / 25, [24]),
      (''NVIDIA GeForce RTX 4060'', 3 / 50, [8]),
      (''NVIDIA GeForce RTX 4060 Ti'', 11 / 100, [8, 16]),
      (''NVIDIA GeForce RTX 4070'', 2 / 25, [12]),
      (''NVIDIA GeForce RTX 4070 SUPER'', 9 / 100, [12]),
      (''NVIDIA GeForce RTX 4070 Ti'', 11 / 100, [12]),
      (''NVIDIA GeForce RTX 4070 Ti SUPER'', 9 / 50, [16]),
      (''NVIDIA GeForce RTX 4080'', 4 / 25, [16]),
      (''NVIDIA GeForce RTX 4080 SUPER'', 4 / 25, [16]),
      (''NVIDIA GeForce RTX 4090'', 3 / 10, [24]),
      (''NVIDIA GeForce RTX 4090 48GB'', 12 / 25, [48]),
      (''NVIDIA GeForce RTX 4090 D'', 11 / 100, [24]),
      (''NVIDIA GeForce RTX 5060'', 11 / 100, [8]),
      (''NVIDIA GeForce RTX 5060 Ti'', 3 / 25, [8, 16]),
      (''NVIDIA GeForce RTX 5070'', 9 / 100, [12]),
      (''NVIDIA GeForce RTX 5070 Ti'', 3 / 25, [16]),
      (''NVIDIA GeForce RTX 5080'', 3 / 20, [16]),
      (''NVIDIA GeForce RTX 5090'', 2 / 5, [32]),
      (''NVIDIA GeForce RTX 5090 D'', 3 / 20, [32]),
      (''NVIDIA H100 80GB HBM3'', 139 / 100, [80]),
      (''NVIDIA H100 NVL'', 111 / 100, [94]),
      (''NVIDIA H100 PCIe'', 13 / 10, [80]),
      (''NVIDIA H200'', 73 / 20, [141]),
      (''NVIDIA H200 NVL'', 29 / 10, [141]),
      (''NVIDIA H800 80GB HBM3'', 22 / 25, [80]),
      (''NVIDIA H800 NVL'', 4 / 5, [94]),
      (''NVIDIA H800 PCIe'', 4 / 5, [80]),
      (''NVIDIA L4'', 11 / 100, [24]),
      (''NVIDIA L40'', 33 / 100, [48]),
      (''NVIDIA L40S'', 19 / 50, [48]),
      (''NVIDIA Quadro P4000'', 1 / 20, [8]),
      (''NVIDIA Quadro RTX 5000'', 7 / 100, [16]),
      (''NVIDIA Quadro RTX 6000'', 13 / 100, [24]),
      (''NVIDIA Quadro RTX 8000'', 21 / 100, [48]),
      (''NVIDIA RTX 4500 Ada Generation'', 1 / 5, [24]),
      (''NVIDIA RTX 5000 Ada Generation'', 27 / 100, [32]),
      (''NVIDIA RTX 5880 Ada Generation'', 17 / 50, [48]),
      (''NVIDIA RTX 6000 Ada Generation'', 3 / 4, [48]),
      (''NVIDIA RTX 6000D'', 41 / 50, [84]),
      (''NVIDIA RTX A2000'', 3 / 50, [6, 12]),
      (''NVIDIA RTX A4000'', 3 / 25, [16]),
      (''NVIDIA RTX A4500'', 13 / 100, [20]),
      (''NVIDIA RTX A5000'', 4 / 25, [24]),
      (''NVIDIA RTX A6000'', 21 / 50, [48]),
      (''NVIDIA RTX PRO 2000 Blackwell'', 17 / 100, [16]),
      (''NVIDIA RTX PRO 4000 Blackwell'', 1 / 5, [24]),
      (''NVIDIA RTX PRO 4500 Blackwell'', 2 / 5, [32]),
      (''NVIDIA RTX PRO 4500 Blackwell Server Edition'', 2 / 5, [32]),
      (''NVIDIA RTX PRO 5000 Blackwell'', 67 / 100, [48, 72]),
      (''NVIDIA RTX PRO 6000 Blackwell Max-Q Workstation Edition'', 119 / 100, [96]),
      (''NVIDIA RTX PRO 6000 Blackwell Server Edition'', 119 / 100, [96]),
      (''NVIDIA RTX PRO 6000 Blackwell Workstation Edition'', 119 / 100, [96]),
      (''NVIDIA RTX PRO 6000D Blackwell Workstation Edition'', 41 / 50, [84]),
      (''NVIDIA T4 Tensor Core GPU'', 3 / 20, [16]),
      (''NVIDIA TITAN RTX'', 3 / 25, [24]),
      (''NVIDIA TITAN V'', 1 / 10, [12]),
      (''NVIDIA TITAN Xp'', 1 / 25, [12]),
      (''NVIDIA Tesla M40'', 2 / 25, [12, 24]),
      (''NVIDIA Tesla P100'', 2 / 25, [12, 16]),
      (''NVIDIA Tesla P40'', 7 / 100, [24]),
      (''NVIDIA Tesla V100 Tensor Core GPU'', 17 / 100, [16, 32])]"

section \<open>Names\<close>

definition VRAM_FLOOR_RATIO :: rat where "VRAM_FLOOR_RATIO = fl (9 / 10)"
definition VRAM_CEIL_RATIO :: rat where "VRAM_CEIL_RATIO = fl (105 / 100)"

definition normalize_gpu_model :: "string option \<Rightarrow> string" where
  "normalize_gpu_model name = (case name of None \<Rightarrow> []
     | Some n \<Rightarrow> if n = [] then [] else dget_or (py_strip n) NORMALIZATION_MAP (py_strip n))"

definition RTX_4090 :: string where "RTX_4090 = ''NVIDIA GeForce RTX 4090''"
definition H100_SXM :: string where "H100_SXM = ''NVIDIA H100 80GB HBM3''"
definition H100_PCIE :: string where "H100_PCIE = ''NVIDIA H100 PCIe''"
definition RTX_4090_48GB :: string where "RTX_4090_48GB = ''NVIDIA GeForce RTX 4090 48GB''"

text \<open>
  The names of the GPU entries of a scrape. A value of the wrong kind raises as Python does:
  \<open>get\<close> on a truthy non-dictionary, iteration over a number, \<open>strip\<close> of a truthy non-string.
\<close>

definition details_of :: "pdict \<Rightarrow> pv list res" where
  "details_of specs =
     (let gpu = pget specs ''gpu'' in
      case (if truthy gpu then gpu else PDict []) of
        PDict d \<Rightarrow> (let details = pget d ''details'' in
            if \<not> truthy details then Inr []
            else case details of PList xs \<Rightarrow> Inr xs | PStr cs \<Rightarrow> Inr (map (\<lambda>c. PStr [c]) cs)
              | PDict e \<Rightarrow> Inr (map (\<lambda>(k, _). PStr k) e) | _ \<Rightarrow> Inl TypeError)
      | _ \<Rightarrow> Inl AttributeError)"

fun canonical_names :: "pv list \<Rightarrow> string list res" where
  "canonical_names [] = Inr []"
| "canonical_names (PDict d # xs) =
     (let name = pget d ''name'' in
      case (if truthy name then name else PStr []) of
        PStr n \<Rightarrow> map_sum id (\<lambda>ns. normalize_gpu_model (Some n) # ns) (canonical_names xs)
      | _ \<Rightarrow> Inl AttributeError)"
| "canonical_names (_ # xs) = canonical_names xs"

definition is_sxm_on_pcie_adapter :: "pdict \<Rightarrow> bool res" where
  "is_sxm_on_pcie_adapter specs =
     (case pget specs ''interconnect'' of
        PDict ic \<Rightarrow>
          if \<not> (pget ic ''nvlink'' = PBool False \<and> py_eq (pget ic ''nvlink_pairs'') (PInt 0)) then Inr False
          else (case details_of specs of
              Inl e \<Rightarrow> Inl e
            | Inr details \<Rightarrow> map_sum id (\<lambda>ns. set ns = {H100_SXM}) (canonical_names details))
      | _ \<Rightarrow> Inr False)"

definition list_sxm_on_pcie_adapter_as_pcie :: "pdict \<Rightarrow> pv list \<Rightarrow> pv list res" where
  "list_sxm_on_pcie_adapter_as_pcie specs gpu_details =
     map_sum id (\<lambda>adapter. if \<not> adapter then gpu_details
       else map (\<lambda>gpu. case gpu of
           PDict d \<Rightarrow> if truthy (pget d ''name'') then PDict (dset ''name'' (PStr H100_PCIE) d) else gpu
         | _ \<Rightarrow> gpu) gpu_details)
     (is_sxm_on_pcie_adapter specs)"

section \<open>Memory windows\<close>

definition vram_window_for_size :: "int \<Rightarrow> int \<times> int" where
  "vram_window_for_size nominal_mb =
     (rne (fmul (fint nominal_mb) VRAM_FLOOR_RATIO), rne (fmul (fint nominal_mb) VRAM_CEIL_RATIO))"

definition classify_gpu_model :: "string option \<Rightarrow> rat option \<Rightarrow> bool \<Rightarrow> string" where
  "classify_gpu_model name capacity_mb rtx_4090_48gb_enabled =
     (let canonical = normalize_gpu_model name;
          canonical = (if canonical = RTX_4090_48GB then RTX_4090 else canonical)
      in case capacity_mb of
          Some cap \<Rightarrow>
            if rtx_4090_48gb_enabled \<and> canonical = RTX_4090
            then (let (low, high) = vram_window_for_size (hd (dget_or [0] GPU_VRAM_SIZES_MB RTX_4090_48GB))
                  in if of_int low \<le> cap \<and> cap \<le> of_int high then RTX_4090_48GB else canonical)
            else canonical
        | None \<Rightarrow> canonical)"

definition get_expected_vram_windows :: "string \<Rightarrow> (int \<times> int) list option" where
  "get_expected_vram_windows canonical_model =
     map_option (map vram_window_for_size) (dget GPU_VRAM_SIZES_MB canonical_model)"

section \<open>The reference model of an unknown card\<close>

definition REFERENCE_VRAM_BAND :: "rat \<times> rat" where "REFERENCE_VRAM_BAND = (fl (9 / 10), fl (11 / 10))"

text \<open>Size in MB, price and name of every candidate variant, in table order.\<close>

definition reference_sizes :: "(int \<times> rat \<times> string) list" where
  "reference_sizes = concat (map (\<lambda>(model, price, sizes_gb). map (\<lambda>gb. (gb * 1024, price, model)) sizes_gb)
     GPU_REFERENCE_TABLE)"

definition cheaper :: "rat \<times> string \<Rightarrow> rat \<times> string \<Rightarrow> bool" where
  "cheaper a b \<longleftrightarrow> fst a < fst b \<or> (fst a = fst b \<and> snd a < snd b)"

text \<open>\<open>min\<close> of a list of pairs, and of a list of triples.\<close>

fun min_pair :: "rat \<times> string \<Rightarrow> (rat \<times> string) list \<Rightarrow> rat \<times> string" where
  "min_pair best [] = best"
| "min_pair best (x # xs) = min_pair (if cheaper x best then x else best) xs"

fun min_triple :: "int \<times> rat \<times> string \<Rightarrow> (int \<times> rat \<times> string) list \<Rightarrow> int \<times> rat \<times> string" where
  "min_triple best [] = best"
| "min_triple best (x # xs) =
     min_triple (if fst x < fst best \<or> (fst x = fst best \<and> cheaper (snd x) (snd best)) then x else best) xs"

definition in_reference_band :: "rat \<Rightarrow> int \<Rightarrow> bool" where
  "in_reference_band vram_mib sz = (let r = fdiv (fint sz) vram_mib in
     fst REFERENCE_VRAM_BAND \<le> r \<and> r \<le> snd REFERENCE_VRAM_BAND)"

definition pick_reference :: "rat option \<Rightarrow> string option" where
  "pick_reference vram = (case vram of None \<Rightarrow> None
     | Some vram_mib \<Rightarrow>
         if vram_mib \<le> 0 then None
         else let in_band = map snd (filter (\<lambda>c. in_reference_band vram_mib (fst c)) reference_sizes)
              in (case in_band of
                    x # xs \<Rightarrow> Some (snd (min_pair x xs))
                  | [] \<Rightarrow> (let below = map (\<lambda>c. (- fst c, snd c))
                                (filter (\<lambda>c. of_int (fst c) < vram_mib) reference_sizes)
                         in case below of x # xs \<Rightarrow> Some (snd (snd (min_triple x xs))) | [] \<Rightarrow> None)))"

definition reference_gpu_model :: "string option \<Rightarrow> rat option \<Rightarrow> string option" where
  "reference_gpu_model name vram_mb =
     (let canonical = normalize_gpu_model name in
      if dget GPU_MODEL_RATES canonical \<noteq> None then Some canonical
      else if \<not> starts_with ''NVIDIA '' canonical then None
      else pick_reference vram_mb)"

definition matmul_probe_vram_mb :: "string option \<Rightarrow> int option \<Rightarrow> int option" where
  "matmul_probe_vram_mb model reported_vram_mb =
     (let canonical = normalize_gpu_model model in
      case dget GPU_VRAM_SIZES_MB canonical of
        Some (x # xs) \<Rightarrow> Some (rne (fmul (fint (foldl min x xs)) VRAM_FLOOR_RATIO))
      | _ \<Rightarrow> (case reported_vram_mb of
            Some r \<Rightarrow> if r \<noteq> 0 \<and> reference_gpu_model (Some canonical) (Some (of_int r)) \<notin> {None, Some []}
                      then Some (rne (fmul (fint r) VRAM_FLOOR_RATIO)) else None
          | None \<Rightarrow> None))"

section \<open>The pre-check\<close>

datatype precheck_error = MissingGpuFieldError | UnsupportedGpuModelError | VramRangeMismatchError

definition precheck_gpu_spec :: "string option \<Rightarrow> int \<Rightarrow> precheck_error + unit" where
  "precheck_gpu_spec gpu_model gpu_capacity_mb =
     (let raw = (case gpu_model of None \<Rightarrow> [] | Some m \<Rightarrow> m);
          normalized = normalize_gpu_model (Some raw)
      in if raw = [] \<or> gpu_capacity_mb \<le> 0 then Inl MissingGpuFieldError
         else if normalized \<in> set KNOWN_UNRANGED then Inr ()
         else case get_expected_vram_windows normalized of
             None \<Rightarrow> if reference_gpu_model (Some normalized) (Some (of_int gpu_capacity_mb)) \<notin> {None, Some []}
                     then Inr () else Inl UnsupportedGpuModelError
           | Some windows \<Rightarrow> if \<not> list_ex (\<lambda>(vmin, vmax). vmin \<le> gpu_capacity_mb \<and> gpu_capacity_mb \<le> vmax) windows
                     then Inl VramRangeMismatchError else Inr ())"

end
