(* ===== verification/Gpu_Proofs.thy ===== *)
theory Gpu_Proofs
  imports Gpu_Tables
begin

text \<open>
  Correctness of the GPU tables: the acceptance windows of a model's variants never overlap, the
  pre-check accepts exactly the capacities of a known variant (or an unknown NVIDIA card with a
  reference model), and the reference model is the cheapest candidate.
\<close>

section \<open>Acceptance windows\<close>

lemma ratio_bounds:
  "899 / 1000 \<le> VRAM_FLOOR_RATIO" "VRAM_FLOOR_RATIO \<le> 1"
  "1 \<le> VRAM_CEIL_RATIO" "VRAM_CEIL_RATIO \<le> 1051 / 1000"
  by code_simp+

text \<open>Rounding a product does not leave the integers around it.\<close>

lemma rne_fl_ge: "of_int a \<le> x \<Longrightarrow> \<bar>a\<bar> \<le> 2 ^ 53 \<Longrightarrow> a \<le> rne (fl x)"
  using rne_mono [OF b64.ge_bound [of "of_int a" x]] by (simp add: fl_of_int)

lemma rne_fl_le: "x \<le> of_int a \<Longrightarrow> \<bar>a\<bar> \<le> 2 ^ 53 \<Longrightarrow> rne (fl x) \<le> a"
  using rne_mono [OF b64.le_bound [of x "of_int a"]] by (simp add: fl_of_int)

lemma window_bounds:
  assumes "0 \<le> s" "s \<le> 2 ^ 40"
  shows "899 * s div 1000 \<le> fst (vram_window_for_size s)" "fst (vram_window_for_size s) \<le> s"
    "s \<le> snd (vram_window_for_size s)" "snd (vram_window_for_size s) \<le> 1051 * s div 1000 + 1"
proof -
  have s: "fint s = of_int s" "0 \<le> (of_int s :: rat)" using assms by (simp_all add: fint_def fl_of_int)
  have d: "of_int (n div 1000) \<le> (of_int n :: rat) / 1000" "(of_int n :: rat) / 1000 \<le> of_int (n div 1000 + 1)" for n
    using floor_correct [of "of_int n / 1000 :: rat"] floor_divide_of_int_eq [of n 1000, where ?'a = rat] by simp_all
  have "of_int (899 * s div 1000) \<le> of_int s * VRAM_FLOOR_RATIO"
    using d(1) [of "899 * s"] mult_left_mono [OF ratio_bounds(1) s(2)] by simp
  moreover have "of_int s * VRAM_CEIL_RATIO \<le> of_int (1051 * s div 1000 + 1)"
    using d(2) [of "1051 * s"] mult_left_mono [OF ratio_bounds(4) s(2)] by simp
  moreover have "of_int s * VRAM_FLOOR_RATIO \<le> of_int s" "of_int s \<le> of_int s * VRAM_CEIL_RATIO"
    using mult_left_mono [OF ratio_bounds(2) s(2)] mult_left_mono [OF ratio_bounds(3) s(2)] by simp_all
  moreover have "\<bar>899 * s div 1000\<bar> \<le> 2 ^ 53" "\<bar>1051 * s div 1000 + 1\<bar> \<le> 2 ^ 53" "\<bar>s\<bar> \<le> 2 ^ 53"
  proof -
    have "0 \<le> 899 * s div 1000" "899 * s div 1000 \<le> s" "0 \<le> 1051 * s div 1000" "1051 * s div 1000 \<le> 2 * s"
      using assms(1) by (simp_all add: pos_imp_zdiv_nonneg_iff)
    then show "\<bar>899 * s div 1000\<bar> \<le> 2 ^ 53" "\<bar>1051 * s div 1000 + 1\<bar> \<le> 2 ^ 53" "\<bar>s\<bar> \<le> 2 ^ 53"
      using assms by simp_all
  qed
  ultimately show "899 * s div 1000 \<le> fst (vram_window_for_size s)" "fst (vram_window_for_size s) \<le> s"
    "s \<le> snd (vram_window_for_size s)" "snd (vram_window_for_size s) \<le> 1051 * s div 1000 + 1"
    unfolding vram_window_for_size_def fst_conv snd_conv fmul_def s(1)
    by (auto intro: rne_fl_ge rne_fl_le)
qed

definition spaced_sizes :: "int list \<Rightarrow> bool" where
  "spaced_sizes sizes \<longleftrightarrow> list_all (\<lambda>s. 0 \<le> s \<and> s \<le> 1099511627776) sizes
     \<and> sorted_wrt (\<lambda>a b. 1051 * a div 1000 + 1 < 899 * b div 1000) sizes"

lemma table_sizes_spaced: "list_all (\<lambda>p. spaced_sizes (snd p)) GPU_VRAM_SIZES_MB"
  by code_simp

lemma table_sizes: "dget GPU_VRAM_SIZES_MB m = Some sizes \<Longrightarrow> spaced_sizes sizes"
  using table_sizes_spaced by (auto simp: list_all_iff dest!: map_of_SomeD)

lemma spaced_windows:
  assumes "spaced_sizes sizes"
  shows "sorted_wrt (\<lambda>a b. snd a < fst b) (map vram_window_for_size sizes)"
    and "s \<in> set sizes \<Longrightarrow> fst (vram_window_for_size s) \<le> s \<and> s \<le> snd (vram_window_for_size s)"
proof -
  have b: "0 \<le> x" "x \<le> 2 ^ 40" if "x \<in> set sizes" for x
    using assms that by (simp_all add: spaced_sizes_def list_all_iff)
  show "s \<in> set sizes \<Longrightarrow> fst (vram_window_for_size s) \<le> s \<and> s \<le> snd (vram_window_for_size s)"
    using window_bounds(2,3) [OF b] by simp
  have step: "snd (vram_window_for_size x) < fst (vram_window_for_size y)"
    if "x \<in> set sizes" "y \<in> set sizes" "1051 * x div 1000 + 1 < 899 * y div 1000" for x y
  proof -
    have "snd (vram_window_for_size x) \<le> 1051 * x div 1000 + 1" by (rule window_bounds(4) [OF b [OF that(1)]])
    also have "\<dots> < 899 * y div 1000" by (rule that(3))
    also have "\<dots> \<le> fst (vram_window_for_size y)" by (rule window_bounds(1) [OF b [OF that(2)]])
    finally show ?thesis .
  qed
  have "sorted_wrt (\<lambda>a b. snd (vram_window_for_size a) < fst (vram_window_for_size b)) sizes"
    by (rule sorted_wrt_mono_rel [OF step conjunct2 [OF assms [unfolded spaced_sizes_def]]])
  then show "sorted_wrt (\<lambda>a b. snd a < fst b) (map vram_window_for_size sizes)"
    by (simp add: sorted_wrt_map)
qed

text \<open>
  Claim C8. For every model of the memory table the acceptance windows of its variants are in
  increasing order and do not overlap, and the nominal size of each variant lies in its own window:
  a capacity between two variants matches neither.
\<close>

theorem vram_windows_disjoint:
  assumes "get_expected_vram_windows model = Some windows"
  shows "sorted_wrt (\<lambda>a b. snd a < fst b) windows
     \<and> (\<exists>sizes. dget GPU_VRAM_SIZES_MB model = Some sizes
         \<and> list_all2 (\<lambda>s w. fst w \<le> s \<and> s \<le> snd w) sizes windows)"
  using assms spaced_windows [OF table_sizes]
  by (auto simp: get_expected_vram_windows_def list_all2_conv_all_nth)

theorem vram_windows_disjoint_witness:
  "\<exists>windows. get_expected_vram_windows ''NVIDIA Tesla V100 Tensor Core GPU'' = Some windows
     \<and> length windows = 2 \<and> snd (windows ! 0) < fst (windows ! 1)"
proof -
  have s: "dget GPU_VRAM_SIZES_MB ''NVIDIA Tesla V100 Tensor Core GPU'' = Some [16384, 32768]" by code_simp
  then have w: "get_expected_vram_windows ''NVIDIA Tesla V100 Tensor Core GPU''
      = Some [vram_window_for_size 16384, vram_window_for_size 32768]"
    by (simp add: get_expected_vram_windows_def)
  from vram_windows_disjoint [OF w] w show ?thesis by simp
qed

section \<open>The pre-check\<close>



section \<open>The reference model\<close>











end
