(* ===== verification/Py_Json.thy ===== *)
theory Py_Json
  imports Py_Value
begin

text \<open>
  \<open>json.loads\<close> on the text the modelled code parses (port mappings). The parser covers JSON as
  Python accepts it, over Latin-1 text, except \<open>NaN\<close> and \<open>Infinity\<close>, which it rejects. An error is
  \<open>None\<close>. Each call spends one unit of fuel and every second call consumes a character, so the
  fuel of \<open>json_loads\<close>, twice the length of the text plus two, is never what ends a parse.
\<close>

definition is_ws :: "char \<Rightarrow> bool" where
  "is_ws c \<longleftrightarrow> c \<in> {CHR 0x20, CHR 0x09, CHR 0x0A, CHR 0x0D}"

definition skip_ws :: "string \<Rightarrow> string" where
  "skip_ws s = dropWhile is_ws s"

definition is_digit :: "char \<Rightarrow> bool" where
  "is_digit c \<longleftrightarrow> digit_val 10 c \<noteq> None"

definition int_of_digits :: "nat \<Rightarrow> string \<Rightarrow> int" where
  "int_of_digits b ds = foldl (\<lambda>n c. n * int b + (case digit_val b c of Some d \<Rightarrow> int d | None \<Rightarrow> 0)) 0 ds"

definition take_digits :: "string \<Rightarrow> string \<times> string" where
  "take_digits s = (takeWhile is_digit s, dropWhile is_digit s)"

text \<open>An optional fraction: its value and whether there is one.\<close>

definition jfrac :: "string \<Rightarrow> rat \<times> bool \<times> string" where
  "jfrac s = (case s of
      c # r \<Rightarrow> if c = CHR ''.'' then (let (ds, r') = take_digits r in
          if ds = [] then (0, False, s) else (of_int (int_of_digits 10 ds) / 10 ^ length ds, True, r'))
        else (0, False, s)
    | [] \<Rightarrow> (0, False, s))"

definition jexp :: "string \<Rightarrow> int \<times> bool \<times> string" where
  "jexp s = (case s of
      c # r \<Rightarrow> if c = CHR ''e'' \<or> c = CHR ''E''
        then (let (neg, r1) = (case r of d # r' \<Rightarrow> if d = CHR ''-'' then (True, r') else if d = CHR ''+'' then (False, r') else (False, r)
                                | [] \<Rightarrow> (False, r));
                  (ds, r2) = take_digits r1
              in if ds = [] then (0, False, s)
                 else (if neg then - int_of_digits 10 ds else int_of_digits 10 ds, True, r2))
        else (0, False, s)
    | [] \<Rightarrow> (0, False, s))"

definition jnumber :: "string \<Rightarrow> (pv \<times> string) option" where
  "jnumber s =
     (let (neg, r) = (case s of c # r \<Rightarrow> if c = CHR ''-'' then (True, r) else (False, s) | [] \<Rightarrow> (False, s));
          (all_ds, _) = take_digits r;
          ds = (if take 1 all_ds = ''0'' then ''0'' else all_ds);
          r1 = drop (length ds) r
      in if ds = [] then None
         else let n = int_of_digits 10 ds; (f, has_f, r2) = jfrac r1; (e, has_e, r3) = jexp r2;
                  x = (of_int n + f) * 10 powi e
              in if has_f \<or> has_e then Some (PFloat (fl (if neg then - x else x)), r3)
                 else Some (PInt (if neg then - n else n), r1))"

fun jstring :: "string \<Rightarrow> string \<Rightarrow> (string \<times> string) option" where
  "jstring acc [] = None"
| "jstring acc (c # s) =
     (if c = CHR 0x22 then Some (rev acc, s)
      else if (of_char c :: nat) < 32 then None
      else if c = CHR 0x5C then
        (case s of
           [] \<Rightarrow> None
         | e # r \<Rightarrow>
             if e = CHR 0x22 \<or> e = CHR 0x5C \<or> e = CHR ''/'' then jstring (e # acc) r
             else if e = CHR ''b'' then jstring (CHR 0x08 # acc) r
             else if e = CHR ''f'' then jstring (CHR 0x0C # acc) r
             else if e = CHR ''n'' then jstring (CHR 0x0A # acc) r
             else if e = CHR ''r'' then jstring (CHR 0x0D # acc) r
             else if e = CHR ''t'' then jstring (CHR 0x09 # acc) r
             else if e = CHR ''u'' then
               (let h = take 4 r; n = int_of_digits 16 h in
                if length h = 4 \<and> list_all (\<lambda>d. digit_val 16 d \<noteq> None) h \<and> n < 256
                then jstring (char_of (nat n) # acc) (drop 4 r) else None)
             else None)
      else jstring (c # acc) s)"

fun jval :: "nat \<Rightarrow> string \<Rightarrow> (pv \<times> string) option"
  and jarr :: "nat \<Rightarrow> pv list \<Rightarrow> string \<Rightarrow> (pv list \<times> string) option"
  and jobj :: "nat \<Rightarrow> pdict \<Rightarrow> string \<Rightarrow> (pdict \<times> string) option" where
  "jval 0 s = None"
| "jval (Suc n) s =
     (if take 4 s = ''null'' then Some (PNone, drop 4 s)
      else if take 4 s = ''true'' then Some (PBool True, drop 4 s)
      else if take 5 s = ''false'' then Some (PBool False, drop 5 s)
      else case s of
        [] \<Rightarrow> None
      | c # r \<Rightarrow>
          if c = CHR 0x22 then map_option (\<lambda>(t, r'). (PStr t, r')) (jstring [] r)
          else if c = CHR ''['' then
            (let r1 = skip_ws r in
             if take 1 r1 = '']'' then Some (PList [], drop 1 r1)
             else map_option (\<lambda>(xs, r'). (PList xs, r')) (jarr n [] r1))
          else if c = CHR ''{'' then
            (let r1 = skip_ws r in
             if take 1 r1 = ''}'' then Some (PDict [], drop 1 r1)
             else map_option (\<lambda>(d, r'). (PDict d, r')) (jobj n [] r1))
          else jnumber s)"
| "jarr 0 acc s = None"
| "jarr (Suc n) acc s =
     (case jval n s of
        None \<Rightarrow> None
      | Some (v, r) \<Rightarrow>
          (let r1 = skip_ws r in
           if take 1 r1 = '','' then jarr n (acc @ [v]) (skip_ws (drop 1 r1))
           else if take 1 r1 = '']'' then Some (acc @ [v], drop 1 r1) else None))"
| "jobj 0 acc s = None"
| "jobj (Suc n) acc s =
     (case s of
        [] \<Rightarrow> None
      | c # r \<Rightarrow>
          if c \<noteq> CHR 0x22 then None
          else case jstring [] r of
            None \<Rightarrow> None
          | Some (k, r1) \<Rightarrow>
              (let r2 = skip_ws r1 in
               if take 1 r2 \<noteq> '':'' then None
               else case jval n (skip_ws (drop 1 r2)) of
                   None \<Rightarrow> None
                 | Some (v, r3) \<Rightarrow>
                     (let r4 = skip_ws r3 in
                      if take 1 r4 = '','' then jobj n (dset k v acc) (skip_ws (drop 1 r4))
                      else if take 1 r4 = ''}'' then Some (dset k v acc, drop 1 r4) else None)))"

definition json_loads :: "string \<Rightarrow> pv option" where
  "json_loads s = (case jval (2 * length s + 2) (skip_ws s) of
     None \<Rightarrow> None
   | Some (v, r) \<Rightarrow> if skip_ws r = [] then Some v else None)"

lemma json_loads_example: "json_loads ''[[20000, 30000], [22, 22]]''
    = Some (PList [PList [PInt 20000, PInt 30000], PList [PInt 22, PInt 22]])"
  by code_simp

end
