(* ===== verification/Ports.thy ===== *)
theory Ports
  imports Validation_Model Py_Json
begin

text \<open>
  Ports of an executor: the declared port pairs (services/port_utils.py,
  services/executor_connectivity/port_selector.py), the tally of declared, probed and answered
  ports, the rental of a node (services/task/checks/rental_owner.py) and the port-count check with
  the listing floor and the split requirement (services/task/checks/port_count.py). Port mappings
  whose members are not integers are outside the model (error \<open>unmodelled\<close>).
\<close>

section \<open>Declared ports\<close>

definition MIN_PORT_COUNT :: int where "MIN_PORT_COUNT = 3"

definition PORT_RANGE_BUCKET_WIDTH :: int where "PORT_RANGE_BUCKET_WIDTH = 5000"

definition DEFAULT_PORT_RANGE_TEXT :: string where "DEFAULT_PORT_RANGE_TEXT = ''20000-65535''"

type_synonym port_pair = "int \<times> int"

fun json_pairs :: "pv list \<Rightarrow> port_pair list res" where
  "json_pairs [] = Inr []"
| "json_pairs (p # ps) =
     (case p of
        PList [PInt i, PInt e] \<Rightarrow> map_sum id (\<lambda>qs. (i, e) # qs) (json_pairs ps)
      | PList [a, b] \<Rightarrow> Inl (OtherError ''unmodelled'' ''port that is not an integer'')
      | PList _ \<Rightarrow> Inl ValueError
      | PStr _ \<Rightarrow> Inl (OtherError ''unmodelled'' ''port that is not an integer'')
      | PDict _ \<Rightarrow> Inl (OtherError ''unmodelled'' ''port that is not an integer'')
      | _ \<Rightarrow> Inl TypeError)"

text \<open>The pairs of a JSON text that must hold a list of pairs.\<close>

definition mapping_pairs :: "string \<Rightarrow> port_pair list res" where
  "mapping_pairs text = (case json_loads text of
      None \<Rightarrow> Inl ValueError
    | Some (PList ps) \<Rightarrow> json_pairs ps
    | Some (PStr _) \<Rightarrow> Inl (OtherError ''unmodelled'' ''port that is not an integer'')
    | Some (PDict d) \<Rightarrow> if d = [] then Inr [] else Inl (OtherError ''unmodelled'' ''port that is not an integer'')
    | Some _ \<Rightarrow> Inl TypeError)"

fun parse_ints :: "string list \<Rightarrow> int list res" where
  "parse_ints [] = Inr []"
| "parse_ints (p # ps) = (case parse_int (py_strip p) of
      None \<Rightarrow> Inl ValueError
    | Some i \<Rightarrow> map_sum id (\<lambda>is. i # is) (parse_ints ps))"

definition py_range :: "int \<Rightarrow> int \<Rightarrow> int list" where
  "py_range a b = [a..b - 1]"

definition given :: "string option \<Rightarrow> string" where
  "given s = (case s of None \<Rightarrow> [] | Some t \<Rightarrow> t)"

definition get_all_ports :: "string option \<Rightarrow> string option \<Rightarrow> int \<Rightarrow> port_pair list res" where
  "get_all_ports port_range port_mappings ssh_port =
     (let range_text = given port_range; mappings = given port_mappings;
          all_ports =
            (if mappings \<noteq> [] then mapping_pairs mappings
             else if range_text \<noteq> [] then
               (if CHR ''-'' \<in> set range_text
                then (case parse_ints (py_split (CHR ''-'') range_text) of
                        Inl e \<Rightarrow> Inl e
                      | Inr [min_port, max_port] \<Rightarrow> Inr (map (\<lambda>p. (p, p)) (py_range min_port (max_port + 1)))
                      | Inr _ \<Rightarrow> Inl ValueError)
                else map_sum id (map (\<lambda>p. (p, p))) (parse_ints (py_split (CHR '','') range_text)))
             else Inr (map (\<lambda>p. (p, p)) (py_range 20000 65536)))
      in map_sum id (\<lambda>ports. sort_key fst (filter (\<lambda>(i, e). i \<noteq> ssh_port \<and> e \<noteq> ssh_port) ports)) all_ports)"

text \<open>The internal port the backend binds for an external one: its first mapping.\<close>

fun first_mapping :: "port_pair list \<Rightarrow> (int, int) dict \<Rightarrow> (int, int) dict" where
  "first_mapping [] d = d"
| "first_mapping ((internal, external) # ps) d = first_mapping ps (dsetdefault external internal d)"

fun pick_pairs :: "(int, int) dict \<Rightarrow> int list \<Rightarrow> int list \<Rightarrow> port_pair list \<Rightarrow> port_pair list" where
  "pick_pairs rental_internal seen_internal seen_external [] = []"
| "pick_pairs rental_internal seen_internal seen_external ((internal, external) # ps) =
     (if dget_or internal rental_internal external \<noteq> internal
      then pick_pairs rental_internal seen_internal seen_external ps
      else if internal \<in> set seen_internal \<or> external \<in> set seen_external
      then pick_pairs rental_internal seen_internal seen_external ps
      else (internal, external)
           # pick_pairs rental_internal (internal # seen_internal) (external # seen_external) ps)"

definition declared_ports :: "executor_ssh_info \<Rightarrow> port_pair list res" where
  "declared_ports ex =
     (let mappings = given (ex_port_mappings ex) in
      case mapping_pairs (if mappings \<noteq> [] then mappings else ''[]'') of
        Inl e \<Rightarrow> Inl e
      | Inr declared \<Rightarrow>
          map_sum id (pick_pairs (first_mapping declared []) [] [])
            (get_all_ports (ex_port_range ex) (ex_port_mappings ex) (ex_ssh_port ex)))"

definition select_ports :: "nat \<Rightarrow> int list \<Rightarrow> port_pair list \<Rightarrow> port_pair list" where
  "select_ports sz unavailable declared = take sz (filter (\<lambda>p. snd p \<notin> set unavailable) declared)"

section \<open>Tally\<close>

record port_range_result =
  pr_first :: int
  pr_last :: int
  pr_declared :: nat
  pr_probed :: nat
  pr_answered :: nat

text \<open>
  The buckets of an ascending list of ports: consecutive ports with the same quotient. As the ports
  ascend, a dictionary from quotient to ports, sorted by key, is the same grouping.
\<close>

fun add_to_bucket :: "int \<Rightarrow> (int, int list) dict \<Rightarrow> (int, int list) dict" where
  "add_to_bucket p d = (let k = p div PORT_RANGE_BUCKET_WIDTH in dset k (dget_or [] d k @ [p]) d)"

definition port_buckets :: "int list \<Rightarrow> (int, int list) dict" where
  "port_buckets ports = fold add_to_bucket ports []"

definition tally :: "int list \<Rightarrow> int list \<Rightarrow> int list \<Rightarrow> port_range_result" where
  "tally probed_ext answered_ext ports =
     \<lparr> pr_first = hd ports, pr_last = last ports, pr_declared = length ports,
       pr_probed = length (filter (\<lambda>e. e \<in> set probed_ext) ports),
       pr_answered = length (filter (\<lambda>e. e \<in> set answered_ext) ports) \<rparr>"

definition valid_externals :: "port_pair list \<Rightarrow> int list" where
  "valid_externals declared = sort (remdups (filter (\<lambda>e. 1 \<le> e \<and> e \<le> 65535) (map snd declared)))"

definition tally_port_ranges :: "port_pair list \<Rightarrow> port_pair list \<Rightarrow> port_pair list \<Rightarrow> port_range_result list" where
  "tally_port_ranges declared probed answered =
     (let probed_ext = map snd probed;
          answered_ext = filter (\<lambda>e. e \<in> set probed_ext) (map snd answered)
      in map (\<lambda>(_, ports). tally probed_ext answered_ext ports)
           (sort_key fst (port_buckets (valid_externals declared))))"

section \<open>The rental of this node\<close>

definition rental_of_validated_miner :: "pipeline_context \<Rightarrow> rented_executor option \<Rightarrow> rented_executor option" where
  "rental_of_validated_miner ctx rented = (case rented of
      None \<Rightarrow> None
    | Some r \<Rightarrow>
        if re_miner_hotkey r = cx_miner_hotkey ctx then Some r
        else if (re_ip_address r, re_ip_port r) = (ex_address (cx_executor ctx), str_of_int (ex_port (cx_executor ctx)))
        then Some r else None)"

definition rental_of_this_node :: "pipeline_context \<Rightarrow> rented_data option \<Rightarrow> rented_executor option" where
  "rental_of_this_node ctx rented =
     (let rented = (case rented of Some r \<Rightarrow> Some r | None \<Rightarrow> st_rented_data (cx_state ctx))
      in rental_of_validated_miner ctx (case rented of
            Some rd \<Rightarrow> dget (rd_executors rd) (ex_uuid (cx_executor ctx)) | None \<Rightarrow> None))"

definition uuid_listed_under_another_miner :: "pipeline_context \<Rightarrow> rented_data option \<Rightarrow> bool" where
  "uuid_listed_under_another_miner ctx rented = (case rented of
      None \<Rightarrow> False
    | Some rd \<Rightarrow> (case dget (rd_executor_owner_hotkeys rd) (ex_uuid (cx_executor ctx)) of
          None \<Rightarrow> False
        | Some owner \<Rightarrow> owner \<noteq> [] \<and> owner \<noteq> cx_miner_hotkey ctx))"

section \<open>The listing floor and the split requirement\<close>

definition port_count_below_listing_floor :: "context_state \<Rightarrow> int option" where
  "port_count_below_listing_floor st = (case pget (st_specs st) ''available_port_count'' of
      PInt available \<Rightarrow> if available < MIN_PORT_COUNT then Some available else None
    | _ \<Rightarrow> None)"

definition split_port_requirement :: "context_state \<Rightarrow> (int \<times> int) option" where
  "split_port_requirement st = (case st_gpu_splitting_min_count st of
      None \<Rightarrow> None
    | Some min_count \<Rightarrow>
        if \<not> st_supports_gpu_splitting st \<or> min_count \<le> 0 then None
        else let max_splits = (case st_gpu_count st of Some n \<Rightarrow> n | None \<Rightarrow> 0) div min_count
             in Some (max_splits, max (max_splits * MIN_PORT_COUNT) MIN_PORT_COUNT))"

definition split_port_shortfall :: "context_state \<Rightarrow> int option \<Rightarrow> (int \<times> int \<times> int) option" where
  "split_port_shortfall st verified_override =
     (case (split_port_requirement st, pget (st_specs st) ''available_port_count'') of
        (Some need, PInt available) \<Rightarrow>
          (let count = (case verified_override of None \<Rightarrow> available | Some v \<Rightarrow> v)
           in if MIN_PORT_COUNT \<le> available \<and> count < snd need then Some (count, need) else None)
      | _ \<Rightarrow> None)"

definition hidden_from_renters_text :: "int \<Rightarrow> string" where
  "hidden_from_renters_text n =
     ''Hidden from renters: only '' @ str_of_int n @ '' verified ports, need '' @ str_of_int MIN_PORT_COUNT"

definition LISTING_PORT_CHECK_CODE :: string where "LISTING_PORT_CHECK_CODE = ''INSUFFICIENT_PORTS''"

definition declares_port_mappings :: "pv \<Rightarrow> bool" where
  "declares_port_mappings raw = (case raw of
      PStr text \<Rightarrow> (case json_loads text of
          Some (PList ms) \<Rightarrow> list_ex (\<lambda>m. case m of PList xs \<Rightarrow> 2 \<le> length xs | _ \<Rightarrow> False) ms
        | _ \<Rightarrow> False)
    | _ \<Rightarrow> False)"

definition port_floor_what :: "context_state \<Rightarrow> int \<Rightarrow> pdict" where
  "port_floor_what st available_port_count =
     [(''available_port_count'', PInt available_port_count),
      (''required'', PInt MIN_PORT_COUNT),
      (''listing_hidden'', PBool True),
      (''listing_check'', PStr LISTING_PORT_CHECK_CODE),
      (''port_range'',
         if declares_port_mappings (pget (st_specs st) ''port_mappings'') then PNone
         else let r = pget (st_specs st) ''port_range'' in if truthy r then r else PStr DEFAULT_PORT_RANGE_TEXT),
      (''probed_port_count'', pv_of_opt PInt (st_probed_port_count st)),
      (''declared_port_count'', pv_of_opt PInt (st_declared_port_count st))]"

section \<open>The port-count check\<close>

definition PORT_COUNT_RECORDED :: message_template where
  "PORT_COUNT_RECORDED = \<lparr> mt_event = ''Port availability inspected'', mt_reason = ''PORT_COUNT_RECORDED'',
     mt_severity = ''info'', mt_category = ''runtime'', mt_impact = ''Proceed'', mt_remediation = None,
     mt_help_uri = None \<rparr>"

definition INSUFFICIENT_PORTS :: message_template where
  "INSUFFICIENT_PORTS = \<lparr> mt_event = ''Insufficient available ports'', mt_reason = ''INSUFFICIENT_PORTS'',
     mt_severity = ''warning'', mt_category = ''runtime'', mt_impact = ''Score set to 0'',
     mt_remediation = Some ''Increase port range or check port mappings configuration.'', mt_help_uri = None \<rparr>"

definition split_ports_event :: "pipeline_context \<Rightarrow> string \<Rightarrow> context_state \<Rightarrow> int \<Rightarrow> int \<times> int \<Rightarrow> validation_event" where
  "split_ports_event ctx check_id st port_count split_need =
     (let (max_splits, required) = split_need in
      render_message INSUFFICIENT_PORTS (Some ctx) check_id (no_args
        \<lparr> ra_category := Some AVAILABILITY_CATEGORY,
          ra_what := dmerge ([(''reach_source'', PStr ''validator''), (''reach_target'', PStr ''executor_ports'')])
            (dmerge (port_floor_what st port_count)
              [(''required'', PInt required), (''max_splits'', PInt max_splits),
               (''gpu_splitting_min_count'', pv_of_opt PInt (st_gpu_splitting_min_count st))]),
          ra_remediation := Some (''Open at least '' @ str_of_int required @ '' renting ports for this node's ''
            @ str_of_int max_splits @ '' GPU splits ('' @ str_of_int MIN_PORT_COUNT
            @ '' per split): widen RENTING_PORT_RANGE or add RENTING_PORT_MAPPINGS, ''
            @ ''then run `docker compose restart executor-runner` in neurons/executor. Edit .env with nano: ''
            @ ''vim and sed -i replace the file, and the running executor keeps the old copy.'') \<rparr>))"

text \<open>\<open>list(v or [])\<close>.\<close>

definition py_list :: "pv \<Rightarrow> pv list res" where
  "py_list v = (if \<not> truthy v then Inr [] else case v of
      PList xs \<Rightarrow> Inr xs | PStr s \<Rightarrow> Inr (map (\<lambda>c. PStr [c]) s) | PDict d \<Rightarrow> Inr (map (\<lambda>(k, _). PStr k) d)
    | _ \<Rightarrow> Inl TypeError)"

definition count_ports :: "pipeline_context \<Rightarrow> rented_data option \<Rightarrow> (int \<times> bool \<times> context_state) res" where
  "count_ports ctx rented =
     (let st = cx_state ctx; deferred = st_port_check_deferred st in
      case (if deferred then Inr [] else py_list (pget (st_specs st) ''verified_ports'')) of
        Inl e \<Rightarrow> Inl e
      | Inr probed \<Rightarrow>
          let held = (case rented of
                Some rd \<Rightarrow> if uuid_listed_under_another_miner ctx rented then []
                           else get_filler_ports rd (ex_uuid (cx_executor ctx))
              | None \<Rightarrow> []);
              held = (if st_externally_unreachable st then [] else held);
              is_rented = (case rental_of_this_node ctx rented of Some r \<Rightarrow> re_pods r \<noteq> [] | None \<Rightarrow> False);
              filler_ports = sort (remdups (filter (\<lambda>p. \<not> list_ex (\<lambda>v. py_eq v (PInt p)) probed) held));
              verified_ports = probed @ map PInt filler_ports;
              port_count = (if deferred then 0 else st_verified_port_count st) + int (length filler_ports);
              specs = dmerge (st_specs st)
                [(''available_port_count'', PInt port_count), (''verified_ports'', PList verified_ports),
                 (''port_range'', pv_of_opt PStr (ex_port_range (cx_executor ctx))),
                 (''port_mappings'', pv_of_opt PStr (ex_port_mappings (cx_executor ctx)))]
          in Inr (port_count, is_rented, st\<lparr>st_specs := specs\<rparr>))"

definition PORT_COUNT_CHECK :: string where "PORT_COUNT_CHECK = ''executor.validate.port_count''"

definition plain_result :: "bool \<Rightarrow> validation_event \<Rightarrow> ctx_update list \<Rightarrow> check_result" where
  "plain_result passed e us = \<lparr> cr_passed = passed, cr_event = e, cr_updates = us, cr_halt = False,
     cr_fatal = None, cr_extra_events = [] \<rparr>"

definition short_of_split_ports :: "bool \<Rightarrow> (int \<times> int) option \<Rightarrow> int \<Rightarrow> bool" where
  "short_of_split_ports is_rented split_need port_count = (case split_need of
      Some need \<Rightarrow> \<not> is_rented \<and> MIN_PORT_COUNT \<le> port_count \<and> port_count < snd need
    | None \<Rightarrow> False)"

definition below_floor_event :: "pipeline_context \<Rightarrow> int \<Rightarrow> context_state \<Rightarrow> validation_event" where
  "below_floor_event ctx port_count updated =
     (let orphaned = st_orphaned_containers (cx_state ctx) in
      render_message INSUFFICIENT_PORTS (Some ctx) PORT_COUNT_CHECK (no_args
        \<lparr> ra_what := dmerge (port_floor_what updated port_count)
            [(''held_by_orphaned_containers'', PList (map PStr orphaned))],
          ra_remediation := (if orphaned \<noteq> []
            then Some (''Ports are held by orphaned rental container(s) '' @ py_join '', '' orphaned
              @ '' that the validator could not remove (docker could not kill the process); no action on the ''
              @ ''port range is needed - the validator retries every cycle; a host reboot frees them at once.'')
            else None) \<rparr>))"

definition exempt_event :: "pipeline_context \<Rightarrow> int \<Rightarrow> context_state \<Rightarrow> validation_event" where
  "exempt_event ctx port_count updated =
     render_message PORT_COUNT_RECORDED (Some ctx) PORT_COUNT_CHECK (no_args
       \<lparr> ra_severity := Some ''warning'',
         ra_impact := Some (hidden_from_renters_text port_count @ ''; the rented portion is scored as rented''),
         ra_what := dmerge (port_floor_what updated port_count) [(''exempt_because_rented'', PBool True)] \<rparr>)"

text \<open>\<open>fresh\<close> is the backend's answer to the re-read; \<open>None\<close> when it failed or gave none.\<close>

definition port_count_check :: "rented_data option \<Rightarrow> pipeline_context \<Rightarrow> check_result res" where
  "port_count_check fresh ctx =
     (let split_need = split_port_requirement (cx_state ctx) in
      case count_ports ctx (st_rented_data (cx_state ctx)) of
        Inl e \<Rightarrow> Inl e
      | Inr (port_count0, is_rented0, updated0) \<Rightarrow>
          (case (if short_of_split_ports is_rented0 split_need port_count0 \<and> fresh \<noteq> None
                 then map_sum id (\<lambda>(n, r, s). (n, r, s\<lparr>st_rented_data := fresh\<rparr>)) (count_ports ctx fresh)
                 else Inr (port_count0, is_rented0, updated0)) of
             Inl e \<Rightarrow> Inl e
           | Inr (port_count, is_rented, updated) \<Rightarrow>
               let updates = [U_port_count port_count, U_state updated] in
               if short_of_split_ports is_rented split_need port_count
               then Inr (plain_result False
                      (split_ports_event ctx PORT_COUNT_CHECK updated port_count (the split_need)) updates)
               else if \<not> is_rented \<and> port_count < MIN_PORT_COUNT
               then Inr (plain_result False (below_floor_event ctx port_count updated) updates)
               else if port_count < MIN_PORT_COUNT
               then Inr (plain_result True (exempt_event ctx port_count updated) updates)
               else Inr (plain_result True
                      (render_message PORT_COUNT_RECORDED (Some ctx) PORT_COUNT_CHECK
                        (no_args\<lparr>ra_what := [(''available_port_count'', PInt port_count)]\<rparr>)) updates)))"

end
