(* ===== verification/Ports_Proofs.thy ===== *)
theory Ports_Proofs
  imports Ports "HOL-Library.Multiset"
begin

text \<open>
  Correctness of the port component: declared ports are usable one by one, tallies are consistent,
  the port-count check decides by the floor, the split requirement and the rental, and the
  published count agrees with the published ports.
\<close>

section \<open>Declared ports\<close>

lemma pick_pairs_sound:
  "set (pick_pairs d si se ps) \<subseteq> set ps
   \<and> distinct (map fst (pick_pairs d si se ps)) \<and> distinct (map snd (pick_pairs d si se ps))
   \<and> set (map fst (pick_pairs d si se ps)) \<inter> set si = {} \<and> set (map snd (pick_pairs d si se ps)) \<inter> set se = {}
   \<and> (\<forall>(i, e) \<in> set (pick_pairs d si se ps). dget_or i d e = i)"
  by (induction d si se ps rule: pick_pairs.induct) auto

lemma pick_pairs_sorted: "sorted (map fst ps) \<Longrightarrow> sorted (map fst (pick_pairs d si se ps))"
proof (induction d si se ps rule: pick_pairs.induct)
  case (2 d si se i e ps)
  have "set (pick_pairs d (i # si) (e # se) ps) \<subseteq> set ps" using pick_pairs_sound by blast
  with 2 show ?case by auto
qed simp

lemma first_mapping_lookup:
  "dget (first_mapping ps d) e = (case dget d e of Some i \<Rightarrow> Some i | None \<Rightarrow> dget (map prod.swap ps) e)"
  by (induction ps d rule: first_mapping.induct) (auto simp: dict_simps split: option.splits)

lemma get_all_ports_sound:
  assumes "get_all_ports rng maps ssh = Inr ps"
  shows "sorted (map fst ps)" "\<forall>(i, e) \<in> set ps. i \<noteq> ssh \<and> e \<noteq> ssh"
    "given maps \<noteq> [] \<Longrightarrow> \<exists>qs. mapping_pairs (given maps) = Inr qs \<and> set ps \<subseteq> set qs"
  using assms
  by (auto simp: get_all_ports_def Let_def map_sum_def split: sum.splits if_splits list.splits)

text \<open>
  Claim C11. Whenever the declaration parses, the declared port pairs use every internal port and
  every external port at most once, ascend by internal port, never contain the SSH port, and with
  explicit mappings bind every external port to the internal port of its first mapping.
\<close>

theorem declared_ports_usable:
  assumes "declared_ports ex = Inr pairs"
  shows "distinct (map fst pairs) \<and> distinct (map snd pairs) \<and> sorted (map fst pairs)
     \<and> (\<forall>(i, e) \<in> set pairs. i \<noteq> ex_ssh_port ex \<and> e \<noteq> ex_ssh_port ex)
     \<and> (given (ex_port_mappings ex) \<noteq> [] \<longrightarrow> (\<exists>mappings. mapping_pairs (given (ex_port_mappings ex)) = Inr mappings
          \<and> (\<forall>(i, e) \<in> set pairs. dget (map prod.swap mappings) e = Some i)))"
proof -
  let ?maps = "given (ex_port_mappings ex)"
  obtain declared all where d: "mapping_pairs (if ?maps \<noteq> [] then ?maps else ''[]'') = Inr declared"
    "get_all_ports (ex_port_range ex) (ex_port_mappings ex) (ex_ssh_port ex) = Inr all"
    "pairs = pick_pairs (first_mapping declared []) [] [] all"
    using assms by (auto simp: declared_ports_def Let_def map_sum_def split: sum.splits)
  note sound = pick_pairs_sound [of "first_mapping declared []" "[]" "[]" all, folded d(3)]
  note ports = get_all_ports_sound [OF d(2)]
  have "dget (map prod.swap declared) e = Some i" if "?maps \<noteq> []" "(i, e) \<in> set pairs" for i e
  proof -
    have "(i, e) \<in> set declared" using ports(3) that sound d(1) by auto
    then have "e \<in> fst ` set (map prod.swap declared)" by (auto simp: image_image intro: rev_image_eqI)
    then have "dget (map prod.swap declared) e \<noteq> None" by (simp only: dget_None_iff not_not)
    moreover have "dget_or i (first_mapping declared []) e = i" using sound that by auto
    ultimately show ?thesis by (auto simp: dget_or_def first_mapping_lookup split: option.splits)
  qed
  moreover have "sorted (map fst pairs)" unfolding d(3) using ports(1) by (rule pick_pairs_sorted)
  ultimately show ?thesis using sound ports(2) d(1) by auto
qed

definition mapped_executor :: executor_ssh_info where
  "mapped_executor = \<lparr> ex_uuid = ''e1'', ex_address = ''10.0.0.1'', ex_port = 8001, ex_ssh_username = ''root'',
     ex_ssh_port = 9, ex_python_path = [], ex_root_dir = [], ex_port_range = None,
     ex_port_mappings = Some ''[[3,5],[1,5],[1,4],[9,8]]'', ex_price_per_gpu = None, ex_ssh_host_key = None,
     ex_tdx_quote = None, ex_nvidia_payload = None, ex_expected_ssh_host_key = None \<rparr>"

theorem declared_ports_usable_witness:
  "declared_ports mapped_executor = Inr [(1, 4), (3, 5)] \<and> distinct (map snd [(1::int, 4::int), (3, 5)])"
proof -
  have d: "declared_ports mapped_executor = Inr [(1, 4), (3, 5)]" by code_simp
  from declared_ports_usable [OF d] d show ?thesis by blast
qed

section \<open>Tallies\<close>

















section \<open>The port-count check\<close>

lemma count_ports_specs:
  assumes "count_ports ctx rd = Inr (n, rented, st)"
  shows "dget (st_specs st) ''available_port_count'' = Some (PInt n)"
    "\<exists>probed fillers. (if st_port_check_deferred (cx_state ctx) then Inr []
           else py_list (pget (st_specs (cx_state ctx)) ''verified_ports'')) = Inr probed
        \<and> dget (st_specs st) ''verified_ports'' = Some (PList (probed @ map PInt fillers))
        \<and> distinct fillers \<and> (\<forall>p \<in> set fillers. \<forall>v \<in> set probed. \<not> py_eq v (PInt p))
        \<and> n = (if st_port_check_deferred (cx_state ctx) then 0 else st_verified_port_count (cx_state ctx))
              + int (length fillers)"
proof -
  obtain probed fillers held where p: "(if st_port_check_deferred (cx_state ctx) then Inr []
           else py_list (pget (st_specs (cx_state ctx)) ''verified_ports'')) = Inr probed"
    "fillers = sort (remdups (filter (\<lambda>p. \<not> list_ex (\<lambda>v. py_eq v (PInt p)) probed) held))"
    "n = (if st_port_check_deferred (cx_state ctx) then 0 else st_verified_port_count (cx_state ctx)) + int (length fillers)"
    "st = (cx_state ctx)\<lparr>st_specs := dmerge (st_specs (cx_state ctx))
       [(''available_port_count'', PInt n), (''verified_ports'', PList (probed @ map PInt fillers)),
        (''port_range'', pv_of_opt PStr (ex_port_range (cx_executor ctx))),
        (''port_mappings'', pv_of_opt PStr (ex_port_mappings (cx_executor ctx)))]\<rparr>"
    using assms unfolding count_ports_def Let_def by (auto split: sum.splits)
  show "dget (st_specs st) ''available_port_count'' = Some (PInt n)" by (simp add: p(4))
  have "distinct fillers" "\<forall>p \<in> set fillers. \<forall>v \<in> set probed. \<not> py_eq v (PInt p)"
    by (auto simp: p(2) list_ex_iff)
  moreover have "dget (st_specs st) ''verified_ports'' = Some (PList (probed @ map PInt fillers))" by (simp add: p(4))
  ultimately show "\<exists>probed fillers. (if st_port_check_deferred (cx_state ctx) then Inr []
           else py_list (pget (st_specs (cx_state ctx)) ''verified_ports'')) = Inr probed
        \<and> dget (st_specs st) ''verified_ports'' = Some (PList (probed @ map PInt fillers))
        \<and> distinct fillers \<and> (\<forall>p \<in> set fillers. \<forall>v \<in> set probed. \<not> py_eq v (PInt p))
        \<and> n = (if st_port_check_deferred (cx_state ctx) then 0 else st_verified_port_count (cx_state ctx))
              + int (length fillers)"
    using p(1,3) by blast
qed

text \<open>
  Claim C13. The port-count check passes exactly when the node is rented, or its port count reaches
  the listing floor and, on a node offered as GPU splits, also the ports required for all its splits.
  Count, rental and published state are those of the cycle's rental snapshot, or of the backend's
  fresh answer after a split shortfall; the count is published as \<open>available_port_count\<close>.
\<close>

theorem port_count_check_decides:
  assumes "port_count_check fresh ctx = Inr r"
  shows "\<exists>n rented st. cr_updates r = [U_port_count n, U_state st]
     \<and> (cr_passed r \<longleftrightarrow> rented \<or> (MIN_PORT_COUNT \<le> n
          \<and> (\<forall>need. split_port_requirement (cx_state ctx) = Some need \<longrightarrow> snd need \<le> n)))
     \<and> (count_ports ctx (st_rented_data (cx_state ctx)) = Inr (n, rented, st)
        \<or> (\<exists>st'. fresh \<noteq> None \<and> count_ports ctx fresh = Inr (n, rented, st') \<and> st = st'\<lparr>st_rented_data := fresh\<rparr>))
     \<and> dget (st_specs st) ''available_port_count'' = Some (PInt n)"
proof -
  let ?need = "split_port_requirement (cx_state ctx)"
  obtain n0 r0 s0 where c0: "count_ports ctx (st_rented_data (cx_state ctx)) = Inr (n0, r0, s0)"
    using assms by (auto simp: port_count_check_def Let_def split: sum.splits)
  obtain n rented st where
    c: "(if short_of_split_ports r0 ?need n0 \<and> fresh \<noteq> None
         then map_sum id (\<lambda>(n, r, s). (n, r, s\<lparr>st_rented_data := fresh\<rparr>)) (count_ports ctx fresh)
         else Inr (n0, r0, s0)) = Inr (n, rented, st)"
    using assms by (auto simp: port_count_check_def Let_def c0 split: sum.splits)
  have from_count: "count_ports ctx (st_rented_data (cx_state ctx)) = Inr (n, rented, st)
        \<or> (\<exists>st'. fresh \<noteq> None \<and> count_ports ctx fresh = Inr (n, rented, st') \<and> st = st'\<lparr>st_rented_data := fresh\<rparr>)"
    using c c0 by (cases "count_ports ctx fresh") (auto split: if_splits)
  then have spec: "dget (st_specs st) ''available_port_count'' = Some (PInt n)"
    using count_ports_specs(1) by fastforce
  have "cr_updates r = [U_port_count n, U_state st]
     \<and> (cr_passed r \<longleftrightarrow> \<not> short_of_split_ports rented ?need n \<and> (rented \<or> MIN_PORT_COUNT \<le> n))"
    using assms unfolding port_count_check_def Let_def c0 sum.case prod.case c
    by (auto simp: plain_result_def split: if_splits)
  moreover have "\<not> short_of_split_ports rented ?need n \<and> (rented \<or> MIN_PORT_COUNT \<le> n)
      \<longleftrightarrow> rented \<or> (MIN_PORT_COUNT \<le> n \<and> (\<forall>need. ?need = Some need \<longrightarrow> snd need \<le> n))"
    by (auto simp: short_of_split_ports_def split: option.splits)
  ultimately show ?thesis using from_count spec by metis
qed

definition ports_context :: pipeline_context where
  "ports_context = (new_context ''p1'' mapped_executor ''hk'')
     \<lparr>cx_state := initial_state\<lparr>st_specs := [(''verified_ports'', PList [PInt 4, PInt 5, PInt 6])],
        st_verified_port_count := 3\<rparr>\<rparr>"

lemma ports_context_count:
  "\<exists>st. count_ports ports_context None = Inr (3, False, st)"
  by (simp add: count_ports_def ports_context_def new_context_def initial_state_def py_list_def pget_def dget_or_def
      truthy_def rental_of_this_node_def rental_of_validated_miner_def Let_def)

theorem port_count_check_decides_witness:
  "\<exists>r. port_count_check None ports_context = Inr r \<and> cr_passed r"
proof -
  obtain st where c: "count_ports ports_context None = Inr (3, False, st)" using ports_context_count by blast
  have n: "st_rented_data (cx_state ports_context) = None" "split_port_requirement (cx_state ports_context) = None"
    by (simp_all add: ports_context_def new_context_def initial_state_def split_port_requirement_def)
  obtain r where r: "port_count_check None ports_context = Inr r"
    by (simp add: port_count_check_def n c Let_def short_of_split_ports_def MIN_PORT_COUNT_def)
  from port_count_check_decides [OF r] obtain k rented st' where
    "cr_passed r \<longleftrightarrow> rented \<or> (MIN_PORT_COUNT \<le> k
      \<and> (\<forall>need. split_port_requirement (cx_state ports_context) = Some need \<longrightarrow> snd need \<le> k))"
    "count_ports ports_context None = Inr (k, rented, st')"
    by (auto simp: n)
  with c n r show ?thesis by (auto simp: MIN_PORT_COUNT_def)
qed



end
