(* ===== verification/Score.thy ===== *)
theory Score
  imports Ports Gpu_Tables
begin

text \<open>
  Scoring of a validated executor (services/task/score_calculator.py) and the two checks that end a
  run, the score check and the finalize check (services/task/checks/score.py, finalize.py). The
  settings and the backend's shared price table are a record; the decimal form of a float in a
  message is a parameter.
\<close>

section \<open>Score calculation\<close>

record score_config =
  sc_executor_image_check_enforce :: bool
  sc_enable_tcb_enforcement :: bool
  sc_machine_prices :: "(string, rat) dict"
  sc_machine_max_price_rate :: rat

text \<open>Actual score, job score and the warnings so far.\<close>

type_synonym score_state = "rat \<times> rat \<times> string list"

text \<open>A gate that zeroes both scores and adds its warning.\<close>

definition gate :: "bool \<Rightarrow> string \<Rightarrow> score_state \<Rightarrow> score_state" where
  "gate failed msg s = (if failed then (0, 0, snd (snd s) @ [msg]) else s)"

definition price_gate :: "bool \<Rightarrow> string \<Rightarrow> score_state \<Rightarrow> score_state" where
  "price_gate failed msg s = (if failed then (0, fst (snd s), snd (snd s) @ [msg]) else s)"

text \<open>
  \<open>reference_gpu_model\<close> on a capacity from a scrape: comparing a truthy non-number raises.
\<close>

definition reference_for_capacity :: "string \<Rightarrow> pv \<Rightarrow> string option res" where
  "reference_for_capacity model capacity =
     (let canonical = normalize_gpu_model (Some model) in
      if dget GPU_MODEL_RATES canonical \<noteq> None \<or> \<not> starts_with ''NVIDIA '' canonical
      then Inr (reference_gpu_model (Some model) None)
      else if \<not> truthy capacity then Inr None
      else case num_of capacity of
          None \<Rightarrow> Inl TypeError
        | Some v \<Rightarrow> Inr (reference_gpu_model (Some model) (Some v)))"

definition ema_verifyx_download :: "context_state \<Rightarrow> pv res" where
  "ema_verifyx_download st =
     (let network = pget (st_specs st) ''network'' in
      if \<not> truthy network then Inr PNone
      else case network of
          PDict d \<Rightarrow> Inr (pget d ''ema_verifyx_download_speed'')
        | _ \<Rightarrow> Inl AttributeError)"

definition format_return :: "rat \<Rightarrow> rat \<Rightarrow> string list \<Rightarrow> bool \<Rightarrow> rat \<times> rat \<times> string" where
  "format_return actual_score job_score warnings rented =
     (actual_score, if rented then 1 else job_score,
      if warnings \<noteq> [] then '' WARNING: '' @ py_join '' | '' warnings else [])"

definition price_exceeds_limit :: "score_config \<Rightarrow> pipeline_context \<Rightarrow> string option \<Rightarrow> bool" where
  "price_exceeds_limit cfg ctx reference =
     (let gpu_model = given (st_gpu_model (cx_state ctx));
          referenced = (reference \<noteq> None \<and> reference \<noteq> Some (normalize_gpu_model (Some gpu_model)));
          limit = fmul (dget_or 0 (sc_machine_prices cfg) gpu_model) (sc_machine_max_price_rate cfg)
      in case ex_price_per_gpu (cx_executor ctx) of
           None \<Rightarrow> False
         | Some price \<Rightarrow> price \<noteq> 0 \<and> \<not> referenced \<and> limit < price)"

definition image_outdated :: "score_config \<Rightarrow> pipeline_context \<Rightarrow> bool" where
  "image_outdated cfg ctx \<longleftrightarrow> sc_executor_image_check_enforce cfg
     \<and> (case st_executor_image_report (cx_state ctx) of Some r \<Rightarrow> ir_status r = OUTDATED | None \<Rightarrow> False)"

definition attestation_missing :: "score_config \<Rightarrow> pipeline_context \<Rightarrow> bool" where
  "attestation_missing cfg ctx \<longleftrightarrow> sc_enable_tcb_enforcement cfg
     \<and> given (ex_tdx_quote (cx_executor ctx)) \<noteq> [] \<and> \<not> cx_tdx_attestation_passed ctx"

definition price_message :: "(rat \<Rightarrow> string) \<Rightarrow> score_config \<Rightarrow> pipeline_context \<Rightarrow> string" where
  "price_message show_float cfg ctx =
     ''GPU price exceeds the limit. limit: ''
     @ show_float (fmul (dget_or 0 (sc_machine_prices cfg) (given (st_gpu_model (cx_state ctx)))) (sc_machine_max_price_rate cfg))
     @ '', actual: '' @ (case ex_price_per_gpu (cx_executor ctx) of Some p \<Rightarrow> show_float p | None \<Rightarrow> ''None'')"

definition calculate_scores :: "(rat \<Rightarrow> string) \<Rightarrow> score_config \<Rightarrow> pipeline_context \<Rightarrow> bool \<Rightarrow> (rat \<times> rat \<times> string) res" where
  "calculate_scores show_float cfg ctx rented =
     (let st = cx_state ctx;
          capacity = (case st_gpu_details st of d # _ \<Rightarrow> pget d ''capacity'' | [] \<Rightarrow> PNone)
      in case reference_for_capacity (given (st_gpu_model st)) capacity of
           Inl e \<Rightarrow> Inl e
         | Inr reference \<Rightarrow>
             (case ema_verifyx_download st of
                Inl e \<Rightarrow> Inl e
              | Inr ema \<Rightarrow>
                  let s = (1, 1, []);
                      s = gate (image_outdated cfg ctx) ''Required executor image is outdated'' s;
                      s = price_gate (price_exceeds_limit cfg ctx reference) (price_message show_float cfg ctx) s;
                      s = gate (attestation_missing cfg ctx) ''CVM attestation not passed (TDX/GPU attestation required)'' s;
                      s = gate (\<not> cx_cpu_truth_passed ctx) ''Advertised CPU cores exceed the host's physical cores'' s;
                      s = gate (\<not> cx_provider_side_load_passed ctx) ''Provider-side workload consumes the machine's CPU or disk'' s;
                      s = gate (\<not> cx_inspector_blind_streak_passed ctx) ''Rental sensor saw nothing of the rental too many cycles in a row'' s;
                      s = gate (\<not> cx_rented_pod_resources_passed ctx) ''Host pinned or throttled a rented pod below its deployed CPUs'' s;
                      s = gate (\<not> cx_rented_throughput_passed ctx)
                            (if cx_rented_throughput_not_run ctx
                             then ''Rented throughput reading could not run in several cycles in a row''
                             else ''A rented pod gets far too little network or disk throughput'') s;
                      s = gate (\<not> cx_gpu_attestation_identity_passed ctx) ''GPU identity changed or could not be verified against the card'' s;
                      s = gate (\<not> cx_cc_vbios_passed ctx) ''GPU VBIOS is below NVIDIA's minimum for multi-GPU Confidential Computing'' s;
                      s = gate (\<not> cx_hardware_identity_passed ctx) ''Host hardware identity does not match the hardware'' s;
                      s = gate (\<not> cx_inspector_host_write_passed ctx) ''The host wrote into a renter's container'' s;
                      s = gate (\<not> cx_kernel_gpu_view_passed ctx) ''Kernel GPU list was overlaid and could not be trusted'' s;
                      s = gate (\<not> cx_gpu_kernel_count_passed ctx) ''The kernel lists fewer GPUs than the node reports'' s;
                      s = gate (\<not> rented \<and> ema = PNone) ''EMA verifyx download speed unavailable (probe failed or never measured)'' s
                  in Inr (format_return (fst s) (fst (snd s)) (snd (snd s)) rented)))"

section \<open>The score check\<close>

definition SCORE_COMPUTED :: message_template where
  "SCORE_COMPUTED = \<lparr> mt_event = ''Scores computed'', mt_reason = ''SCORE_COMPUTED'', mt_severity = ''info'',
     mt_category = ''policy'', mt_impact = ''Proceed'', mt_remediation = None, mt_help_uri = None \<rparr>"

definition score_check :: "(rat \<Rightarrow> string) \<Rightarrow> score_config \<Rightarrow> pipeline_context \<Rightarrow> check_result res" where
  "score_check show_float cfg ctx =
     (case calculate_scores show_float cfg ctx (cx_rented ctx) of
        Inl e \<Rightarrow> Inl e
      | Inr (actual_score, job_score, warning) \<Rightarrow>
          Inr (plain_result True
            (render_message SCORE_COMPUTED (Some ctx) ''gpu.validate.score'' (no_args
              \<lparr> ra_impact := Some (''Job score='' @ show_float job_score @ '', actual score='' @ show_float actual_score),
                ra_what := [(''actual_score'', PFloat actual_score), (''job_score'', PFloat job_score),
                            (''warning_message'', PStr warning)] \<rparr>))
            [U_score actual_score, U_job_score job_score,
             U_score_warning (if warning \<noteq> [] then Some warning else None)]))"

section \<open>The finalize check\<close>

definition COMPLETED :: message_template where
  "COMPLETED = \<lparr> mt_event = ''Validation task completed'', mt_reason = ''VALIDATION_COMPLETED'', mt_severity = ''info'',
     mt_category = ''runtime'', mt_impact = ''Proceed'', mt_remediation = None, mt_help_uri = None \<rparr>"

definition UNRENTED_MULTIPLIER :: int where "UNRENTED_MULTIPLIER = 1"

definition BATCH_PORT_VERIFICATION_SIZE :: int where "BATCH_PORT_VERIFICATION_SIZE = 300"

definition port_floor_fix :: string where
  "port_floor_fix = ''Only ports that answer among the lowest '' @ str_of_int BATCH_PORT_VERIFICATION_SIZE
     @ '' free ports of the declared range count: allow at least '' @ str_of_int MIN_PORT_COUNT
     @ '' of them through the host firewall and any port forwarding, or declare only open ports; the next cycle probes them again.''"

definition finalize_check :: "(rat \<Rightarrow> string) \<Rightarrow> pipeline_context \<Rightarrow> check_result" where
  "finalize_check show_float ctx =
     (let st = cx_state ctx;
          success = (0 < cx_score ctx);
          severity = (if success then ''info'' else ''warning'');
          warning = given (cx_score_warning ctx);
          remediation = (if warning \<noteq> []
            then (if success then ''No action needed.'' @ warning else ''Address issues:'' @ warning)
            else (if success then ''No action needed.'' else ''Address issues.''));
          impact = ''Job score='' @ show_float (cx_job_score ctx) @ '', actual score='' @ show_float (cx_score ctx);
          what = [(''gpu_model'', pv_of_opt PStr (st_gpu_model st)),
                  (''gpu_count'', PInt (case st_gpu_count st of Some n \<Rightarrow> n | None \<Rightarrow> 0)),
                  (''contract_version'', pv_of_opt PStr (cx_contract_version ctx)),
                  (''unrented_multiplier'', PInt UNRENTED_MULTIPLIER),
                  (''sysbox_runtime'', PBool (st_sysbox_runtime st))];
          (impact, what, remediation) = (case port_count_below_listing_floor st of
              None \<Rightarrow> (impact, what, remediation)
            | Some n \<Rightarrow> (hidden_from_renters_text n @ ''. '' @ impact,
                what @ [(''port_floor'', PDict (port_floor_what st n))],
                if warning \<noteq> [] then remediation @ '' '' @ port_floor_fix else port_floor_fix));
          event = render_message COMPLETED (Some ctx) ''pipeline.finalize'' (no_args
            \<lparr> ra_severity := Some severity, ra_impact := Some impact, ra_remediation := Some remediation,
              ra_what := what \<rparr>)
      in plain_result True event [U_success success, U_log_status severity, U_log_text (Some (ev_event event))])"

section \<open>Correctness\<close>

lemmas gate_defs = gate_def price_gate_def format_return_def

text \<open>Every gate that zeroes both scores, in one conjunction.\<close>

definition gates_passed :: "score_config \<Rightarrow> pipeline_context \<Rightarrow> bool" where
  "gates_passed cfg ctx \<longleftrightarrow> \<not> image_outdated cfg ctx \<and> \<not> attestation_missing cfg ctx
     \<and> cx_cpu_truth_passed ctx \<and> cx_provider_side_load_passed ctx \<and> cx_inspector_blind_streak_passed ctx
     \<and> cx_rented_pod_resources_passed ctx \<and> cx_rented_throughput_passed ctx
     \<and> cx_gpu_attestation_identity_passed ctx \<and> cx_cc_vbios_passed ctx \<and> cx_hardware_identity_passed ctx
     \<and> cx_inspector_host_write_passed ctx \<and> cx_kernel_gpu_view_passed ctx \<and> cx_gpu_kernel_count_passed ctx"

text \<open>A score state of the calculation: scores 0 or 1, and no warning exactly when nothing was zeroed.\<close>

definition score_ok :: "bool \<Rightarrow> bool \<Rightarrow> score_state \<Rightarrow> bool" where
  "score_ok actual job s \<longleftrightarrow> fst s = (if actual then 1 else 0) \<and> fst (snd s) = (if job then 1 else 0)
     \<and> (snd (snd s) = [] \<longleftrightarrow> actual) \<and> (actual \<longrightarrow> job)"

lemma score_ok_gate: "score_ok a j s \<Longrightarrow> score_ok (a \<and> \<not> f) (j \<and> \<not> f) (gate f m s)"
  by (auto simp: score_ok_def gate_def)

lemma score_ok_price: "score_ok a j s \<Longrightarrow> score_ok (a \<and> \<not> f) j (price_gate f m s)"
  by (auto simp: score_ok_def price_gate_def)

lemma score_ok_start: "score_ok True True (1, 1, [])"
  by (simp add: score_ok_def)

lemma score_ok_format:
  "score_ok a j s \<Longrightarrow> format_return (fst s) (fst (snd s)) (snd (snd s)) rented
     = (if a then 1 else 0, if rented \<or> j then 1 else 0,
        if a then [] else '' WARNING: '' @ py_join '' | '' (snd (snd s)))"
  by (auto simp: score_ok_def format_return_def)

lemma calculate_scores_cases:
  assumes "calculate_scores show_float cfg ctx rented = Inr (actual, job, warning)"
  shows "\<exists>reference ema.
     reference_for_capacity (given (st_gpu_model (cx_state ctx)))
       (case st_gpu_details (cx_state ctx) of d # _ \<Rightarrow> pget d ''capacity'' | [] \<Rightarrow> PNone) = Inr reference
     \<and> ema_verifyx_download (cx_state ctx) = Inr ema
     \<and> actual = (if gates_passed cfg ctx \<and> \<not> price_exceeds_limit cfg ctx reference \<and> (rented \<or> ema \<noteq> PNone) then 1 else 0)
     \<and> job = (if rented \<or> (gates_passed cfg ctx \<and> ema \<noteq> PNone) then 1 else 0)
     \<and> (warning = [] \<longleftrightarrow> actual = 1)"
proof -
  obtain reference ema where r:
    "reference_for_capacity (given (st_gpu_model (cx_state ctx)))
       (case st_gpu_details (cx_state ctx) of d # _ \<Rightarrow> pget d ''capacity'' | [] \<Rightarrow> PNone) = Inr reference"
    "ema_verifyx_download (cx_state ctx) = Inr ema"
    using assms by (auto simp: calculate_scores_def Let_def split: sum.splits)
  note ok = score_ok_start [THEN score_ok_gate, THEN score_ok_price, THEN score_ok_gate, THEN score_ok_gate,
    THEN score_ok_gate, THEN score_ok_gate, THEN score_ok_gate, THEN score_ok_gate, THEN score_ok_gate,
    THEN score_ok_gate, THEN score_ok_gate, THEN score_ok_gate, THEN score_ok_gate, THEN score_ok_gate,
    THEN score_ok_gate, THEN score_ok_format]
  show ?thesis
    using assms unfolding calculate_scores_def Let_def r sum.case ok
    by (intro exI [of _ reference] exI [of _ ema]) (auto simp: r gates_passed_def split: if_splits)
qed

text \<open>
  Claim C15. Whenever the score calculation returns, the actual score is 1 when no gate failed, the
  price is within the limit (or the card is scored as a reference model) and, for a node that is not
  rented, the smoothed download speed is known; otherwise it is 0. The job score ignores the price
  and is always 1 for a rented node. A warning text is produced exactly when the actual score is 0.
\<close>

theorem calculate_scores_characterised:
  assumes "calculate_scores show_float cfg ctx rented = Inr (actual, job, warning)"
  shows "\<exists>reference ema.
     reference_for_capacity (given (st_gpu_model (cx_state ctx)))
       (case st_gpu_details (cx_state ctx) of d # _ \<Rightarrow> pget d ''capacity'' | [] \<Rightarrow> PNone) = Inr reference
     \<and> ema_verifyx_download (cx_state ctx) = Inr ema
     \<and> actual = (if gates_passed cfg ctx \<and> \<not> price_exceeds_limit cfg ctx reference \<and> (rented \<or> ema \<noteq> PNone) then 1 else 0)
     \<and> job = (if rented \<or> (gates_passed cfg ctx \<and> ema \<noteq> PNone) then 1 else 0)
     \<and> (warning = [] \<longleftrightarrow> actual = 1)"
  using assms by (rule calculate_scores_cases)

definition scored_context :: pipeline_context where
  "scored_context = (new_context ''p1''
     \<lparr> ex_uuid = ''e1'', ex_address = [], ex_port = 1, ex_ssh_username = [], ex_ssh_port = 22, ex_python_path = [],
       ex_root_dir = [], ex_port_range = None, ex_port_mappings = None, ex_price_per_gpu = None, ex_ssh_host_key = None,
       ex_tdx_quote = None, ex_nvidia_payload = None, ex_expected_ssh_host_key = None \<rparr> ''hk'')
     \<lparr>cx_state := initial_state\<lparr>st_specs := [(''network'', PDict [(''ema_verifyx_download_speed'', PFloat 900)])]\<rparr>\<rparr>"

definition plain_config :: score_config where
  "plain_config = \<lparr> sc_executor_image_check_enforce = True, sc_enable_tcb_enforcement = True,
     sc_machine_prices = [], sc_machine_max_price_rate = 2 \<rparr>"

lemma no_model_reference: "reference_for_capacity [] PNone = Inr None"
proof -
  have "normalize_gpu_model (Some []) = []" by (simp add: normalize_gpu_model_def)
  moreover have "dget GPU_MODEL_RATES [] = None" by code_simp
  ultimately show ?thesis by (simp add: reference_for_capacity_def reference_gpu_model_def Let_def starts_with_def)
qed

lemma scored_context_fields:
  "given (st_gpu_model (cx_state scored_context)) = []" "st_gpu_details (cx_state scored_context) = []"
  "ema_verifyx_download (cx_state scored_context) = Inr (PFloat 900)" "gates_passed plain_config scored_context"
  "\<not> price_exceeds_limit plain_config scored_context r" "ex_price_per_gpu (cx_executor scored_context) = None"
  by (simp_all add: scored_context_def new_context_def initial_state_def given_def ema_verifyx_download_def pget_def
      dget_or_def truthy_def gates_passed_def image_outdated_def attestation_missing_def plain_config_def
      price_exceeds_limit_def Let_def)

lemma scored_context_returns: "\<exists>a j w. calculate_scores show_float plain_config scored_context rented = Inr (a, j, w)"
  by (simp add: calculate_scores_def scored_context_fields no_model_reference Let_def format_return_def)

theorem calculate_scores_characterised_witness:
  "\<exists>w. calculate_scores (\<lambda>x. []) plain_config scored_context False = Inr (1, 1, w)"
proof -
  obtain a j w where c: "calculate_scores (\<lambda>x. []) plain_config scored_context False = Inr (a, j, w)"
    using scored_context_returns by blast
  from calculate_scores_characterised [OF c] have "a = 1" "j = 1"
    by (auto simp: scored_context_fields)
  with c show ?thesis by blast
qed

text \<open>
  Claim C16. After the score check and the finalize check, a run counts as a success exactly when the
  actual score is 1, its log status is \<open>info\<close> exactly then and \<open>warning\<close> otherwise, a failed gate
  excludes success, and a rented node keeps job score 1.
\<close>

theorem finalize_after_score:
  assumes "score_check show_float cfg ctx = Inr r1" "c1 = model_copy ctx (cr_updates r1)"
    and "c2 = model_copy c1 (cr_updates (finalize_check show_float c1))"
  shows "(cx_success c2 \<longleftrightarrow> cx_score c2 = 1) \<and> cx_score c2 \<in> {0, 1}
     \<and> cx_log_status c2 = (if cx_success c2 then ''info'' else ''warning'')
     \<and> (cx_success c2 \<longrightarrow> gates_passed cfg ctx \<and> cx_score_warning c2 = None)
     \<and> (cx_rented ctx \<longrightarrow> cx_job_score c2 = 1)"
proof -
  obtain a j w where c: "calculate_scores show_float cfg ctx (cx_rented ctx) = Inr (a, j, w)"
    and u: "cr_updates r1 = [U_score a, U_job_score j, U_score_warning (if w \<noteq> [] then Some w else None)]"
    using assms(1) by (auto simp: score_check_def plain_result_def split: sum.splits)
  have f: "cx_score c1 = a" "cx_job_score c1 = j" "cx_score_warning c1 = (if w \<noteq> [] then Some w else None)"
    by (simp_all add: assms(2) u apply_update_def)
  have "\<exists>t. cr_updates (finalize_check show_float c1)
      = [U_success (0 < cx_score c1), U_log_status (if 0 < cx_score c1 then ''info'' else ''warning''), U_log_text t]"
    by (auto simp: finalize_check_def plain_result_def Let_def split: option.splits)
  then obtain t where "c2 = model_copy c1
      [U_success (0 < a), U_log_status (if 0 < a then ''info'' else ''warning''), U_log_text t]"
    using assms(3) f by auto
  then have "cx_success c2 = (0 < a)" "cx_score c2 = a" "cx_log_status c2 = (if 0 < a then ''info'' else ''warning'')"
    "cx_job_score c2 = j" "cx_score_warning c2 = (if w \<noteq> [] then Some w else None)"
    using f by (simp_all add: apply_update_def)
  then show ?thesis using calculate_scores_cases [OF c] by (auto split: if_splits)
qed

theorem finalize_after_score_witness:
  "\<exists>r1 c1 c2. score_check (\<lambda>x. []) plain_config scored_context = Inr r1 \<and> c1 = model_copy scored_context (cr_updates r1)
     \<and> c2 = model_copy c1 (cr_updates (finalize_check (\<lambda>x. []) c1)) \<and> cx_log_status c2 = ''info''"
proof -
  obtain a j w where c: "calculate_scores (\<lambda>x. []) plain_config scored_context (cx_rented scored_context) = Inr (a, j, w)"
    using scored_context_returns by blast
  then obtain r1 where r: "score_check (\<lambda>x. []) plain_config scored_context = Inr r1"
    and u: "cr_updates r1 = [U_score a, U_job_score j, U_score_warning (if w \<noteq> [] then Some w else None)]"
    by (auto simp: score_check_def plain_result_def)
  have a: "a = 1" using calculate_scores_cases [OF c] by (auto simp: scored_context_fields)
  define c1 where "c1 = model_copy scored_context (cr_updates r1)"
  define c2 where "c2 = model_copy c1 (cr_updates (finalize_check (\<lambda>x. []) c1))"
  have "cx_score c2 = 1"
    using a by (simp add: c2_def c1_def u apply_update_def finalize_check_def plain_result_def Let_def split_beta)
  with finalize_after_score [OF r c1_def c2_def] have "cx_log_status c2 = ''info''" by auto
  with r c1_def c2_def show ?thesis by blast
qed

end
