(* ===== verification/Job_Result.thy ===== *)
theory Job_Result
  imports Validation_Model
begin

text \<open>
  The result of one executor's validation (services/task/models.py): the record that the availability
  rules, the incentive engine and the result handler read and update, with its labels and formula
  snapshots, and the zero-incentive reason codes (incentive/miner_incentive_log.py). The incentive
  fields of \<open>JobResult\<close> are a record of their own inside it. Of a recorded zero-incentive line only
  the reason code is kept; the text lines of the miner-facing log and the SSH observations of pods,
  which no modelled code reads, are left out.
\<close>

datatype zero_incentive_reason =
    BANNED_NETWORK_ABUSE
  | SPOT_TIER
  | PROVIDER_DISCORD_NOT_CONNECTED
  | NEW_RENTALS_PAUSED
  | PROVIDER_MAINTENANCE
  | MINER_DEFAULT_JOB
  | HOTKEY_EXCLUDED_FROM_SCORING
  | GPU_MODEL_NOT_ELIGIBLE_FOR_UNRENTED_INCENTIVE
  | PRICE_ABOVE_MARKET_P90_SOFT_LIMIT
  | NO_UNRENTED_CAPACITY_FOR_GPU_COUNT
  | NVIDIA_DRIVER_BELOW_MINIMUM
  | INSUFFICIENT_DISK_FOR_VRAM
  | SYSBOX_NOT_ENABLED
  | FULL_8X_WITHOUT_NCU_OR_SPLIT
  | CANNOT_APPLY_GPU_POWER_CAP
  | OUTDATED_EXECUTOR_IMAGE
  | PORT_LIMITED_REMAINDER
  | REVERTS_GPU_POWER_CAP
  | SPOT_WITHOUT_LIUM_FILLER
  | SPOT_NO_FILLER_REVENUE_FOR_GPU_CONFIG
  | SPOT_NO_HEADROOM_AT_BURN_CAP
  | VALIDATION_FAILED
  | PROVIDER_EMAIL_NOT_CONFIRMED
  | RENTED_SYSBOX_NOT_CONFIRMED
  | DISK_LIMITED_REMAINDER

record mixed_formula_inputs =
  mf_rented_gpu_count :: int
  mf_free_gpu_count :: int
  mf_mining :: pdict
  mf_unrented :: pdict

text \<open>One failed reachability check, as the provider portal renders it (services/task/availability.py).\<close>

record availability_error =
  ae_reason_code :: string
  ae_reach_source :: string
  ae_reach_target :: string
  ae_message :: string
  ae_remediation :: "string option"
  ae_what_we_saw :: pdict

record incentive_fields =
  in_mining_score :: "rat option"
  in_sysbox_multiplier :: "rat option"
  in_driver_multiplier :: "rat option"
  in_uptime_multiplier :: "rat option"
  in_gpu_portion :: "rat option"
  in_total_gpu_count :: "int option"
  in_incentive :: "rat option"
  in_incentive_rented :: "rat option"
  in_incentive_idle :: "rat option"
  in_mining_share :: "rat option"
  in_total_mining_score :: "rat option"
  in_effective_rate :: "rat option"
  in_hourly_rate :: "rat option"
  in_max_cap :: "int option"
  in_count_bucket :: "int option"
  in_bucket_reassigned_from :: "int option"
  in_bucket_reassigned_from_multiplier :: "rat option"
  in_total_unrented_by_gpu_type :: "rat option"
  in_cap_dilution_applied :: "bool option"
  in_eligible_for_rental_share :: bool
  in_spot_pay_candidate :: bool
  in_spot_pool_multiplier :: "rat option"
  in_unbucketed_share :: "rat option"
  in_unbucketed_rental_cost :: "rat option"
  in_floor_top_up_rate :: "rat option"
  in_unrented_cap_multiplier :: "rat option"
  in_rental_share :: "rat option"
  in_burn_share :: "rat option"
  in_total_rental_cost :: "rat option"
  in_rental_share_raw :: "rat option"
  in_total_burn_emission :: "rat option"
  in_validator_tao_price_usd :: "rat option"
  in_validator_alpha_rate_tao_per_block :: "rat option"
  in_estimated_epoch_emission_usd :: "rat option"
  in_tempo_blocks :: "int option"
  in_seconds_per_block :: "int option"
  in_fixed_ratio :: "rat option"
  in_zero_incentive_reasons :: "zero_incentive_reason list"
  in_mixed_formula_inputs :: "mixed_formula_inputs option"

definition no_incentive :: incentive_fields where
  "no_incentive = \<lparr> in_mining_score = None, in_sysbox_multiplier = None,
     in_driver_multiplier = None, in_uptime_multiplier = None, in_gpu_portion = None,
     in_total_gpu_count = None, in_incentive = None, in_incentive_rented = None,
     in_incentive_idle = None, in_mining_share = None, in_total_mining_score = None,
     in_effective_rate = None, in_hourly_rate = None, in_max_cap = None, in_count_bucket =
     None, in_bucket_reassigned_from = None, in_bucket_reassigned_from_multiplier = None,
     in_total_unrented_by_gpu_type = None, in_cap_dilution_applied = None,
     in_eligible_for_rental_share = False, in_spot_pay_candidate = False,
     in_spot_pool_multiplier = None, in_unbucketed_share = None, in_unbucketed_rental_cost =
     None, in_floor_top_up_rate = None, in_unrented_cap_multiplier = None, in_rental_share =
     None, in_burn_share = None, in_total_rental_cost = None, in_rental_share_raw = None,
     in_total_burn_emission = None, in_validator_tao_price_usd = None,
     in_validator_alpha_rate_tao_per_block = None, in_estimated_epoch_emission_usd = None,
     in_tempo_blocks = None, in_seconds_per_block = None, in_fixed_ratio = None,
     in_zero_incentive_reasons = [], in_mixed_formula_inputs = None \<rparr>"

record job_result =
  jr_spec :: "pdict option"
  jr_executor_info :: executor_ssh_info
  jr_score :: rat
  jr_job_score :: rat
  jr_collateral_deposited :: bool
  jr_job_batch_id :: string
  jr_log_status :: string
  jr_log_text :: string
  jr_validation_event :: "validation_event option"
  jr_scored_at :: "int option"
  jr_gpu_model :: "string option"
  jr_gpu_count :: int
  jr_sysbox_runtime :: bool
  jr_nvidia_driver_version :: string
  jr_supports_gpu_splitting :: bool
  jr_gpu_splitting_min_count :: "int option"
  jr_ssh_pub_keys :: "string list option"
  jr_is_rented :: bool
  jr_rented_gpu_count :: "int option"
  jr_is_split_remainder :: bool
  jr_port_unpaid_gpu_count :: int
  jr_is_spot :: bool
  jr_is_on_spot_pay_list :: bool
  jr_is_new_rentals_paused :: bool
  jr_is_in_maintenance :: bool
  jr_is_provider_banned :: bool
  jr_is_hotkey_excluded_from_scoring :: bool
  jr_provider_discord_connected :: bool
  jr_is_provider_email_held :: bool
  jr_rental_created_at :: "int option"
  jr_default_job_owner :: "string option"
  jr_has_lium_filler :: bool
  jr_filler_revenue_per_gpu_hour :: "rat option"
  jr_filler_revenue_usd_per_hour :: "rat option"
  jr_attestation_digest :: "string option"
  jr_tee_type :: "string option"
  jr_tdx_attestation_passed :: bool
  jr_gpu_attestation_passed :: "bool option"
  jr_executor_image_report :: "pdict option"
  jr_pod_states :: "pod_container_state list option"
  jr_host_runtime_fault :: bool
  jr_ssh_host_key_verified :: bool
  jr_inspector_outcome :: string
  jr_availability_errors :: "availability_error list option"
  jr_failure_reason_code :: "string option"
  jr_duplicate_kept_by :: "string option"
  jr_duplicate_shares_kept_row :: bool
  jr_carried_for_renter_gpu_reset :: bool
  jr_inc :: incentive_fields

definition new_job_result :: "executor_ssh_info \<Rightarrow> rat \<Rightarrow> rat \<Rightarrow> string \<Rightarrow> string \<Rightarrow> string \<Rightarrow> job_result" where
  "new_job_result ex sc jsc batch status text = \<lparr> jr_spec = None, jr_executor_info = ex,
     jr_score = sc, jr_job_score = jsc, jr_collateral_deposited = False, jr_job_batch_id =
     batch, jr_log_status = status, jr_log_text = text, jr_validation_event = None,
     jr_scored_at = None, jr_gpu_model = None, jr_gpu_count = 0, jr_sysbox_runtime = False,
     jr_nvidia_driver_version = [], jr_supports_gpu_splitting = False,
     jr_gpu_splitting_min_count = None, jr_ssh_pub_keys = None, jr_is_rented = False,
     jr_rented_gpu_count = None, jr_is_split_remainder = False, jr_port_unpaid_gpu_count = 0,
     jr_is_spot = False, jr_is_on_spot_pay_list = False, jr_is_new_rentals_paused = False,
     jr_is_in_maintenance = False, jr_is_provider_banned = False,
     jr_is_hotkey_excluded_from_scoring = False, jr_provider_discord_connected = True,
     jr_is_provider_email_held = False, jr_rental_created_at = None, jr_default_job_owner =
     None, jr_has_lium_filler = False, jr_filler_revenue_per_gpu_hour = None,
     jr_filler_revenue_usd_per_hour = None, jr_attestation_digest = None, jr_tee_type = None,
     jr_tdx_attestation_passed = False,
     jr_gpu_attestation_passed = None, jr_executor_image_report = None, jr_pod_states = None,
     jr_host_runtime_fault = False, jr_ssh_host_key_verified = False, jr_inspector_outcome =
     ''SKIPPED'', jr_availability_errors = None, jr_failure_reason_code = None,
     jr_duplicate_kept_by = None, jr_duplicate_shares_kept_row = False,
     jr_carried_for_renter_gpu_reset = False, jr_inc = no_incentive \<rparr>"

definition upd_inc :: "(incentive_fields \<Rightarrow> incentive_fields) \<Rightarrow> job_result \<Rightarrow> job_result" where
  "upd_inc f r = r\<lparr>jr_inc := f (jr_inc r)\<rparr>"

definition record_reason :: "zero_incentive_reason \<Rightarrow> job_result \<Rightarrow> job_result" where
  "record_reason z = upd_inc (\<lambda>i. i\<lparr>in_zero_incentive_reasons := in_zero_incentive_reasons i @ [z]\<rparr>)"

section \<open>The incentive split and its labels\<close>

definition set_incentive_split :: "rat \<Rightarrow> rat \<Rightarrow> job_result \<Rightarrow> job_result" where
  "set_incentive_split rented idle = upd_inc (\<lambda>i. i\<lparr>in_incentive_rented := Some rented,
     in_incentive_idle := Some idle, in_incentive := Some (fadd rented idle)\<rparr>)"

definition record_mixed_formula_inputs :: "mixed_formula_inputs \<Rightarrow> job_result \<Rightarrow> job_result" where
  "record_mixed_formula_inputs m = upd_inc (\<lambda>i. i\<lparr>in_mixed_formula_inputs := Some m\<rparr>)"

definition is_mixed :: "job_result \<Rightarrow> bool" where
  "is_mixed r \<longleftrightarrow> in_mixed_formula_inputs (jr_inc r) \<noteq> None"

definition incentive_source :: "job_result \<Rightarrow> string" where
  "incentive_source r = (case in_incentive (jr_inc r) of
      None \<Rightarrow> ''unknown''
    | Some x \<Rightarrow> if x \<le> 0 then ''zero_incentive''
        else if is_mixed r then ''mixed''
        else if jr_is_rented r then ''rented_emission'' else ''idle_incentive'')"

definition node_state_at_cycle :: "job_result \<Rightarrow> string" where
  "node_state_at_cycle r = (if is_mixed r then ''mixed'' else if jr_is_rented r then ''rented'' else ''idle'')"

definition paid_from_rental_share :: "job_result \<Rightarrow> bool" where
  "paid_from_rental_share r \<longleftrightarrow> in_eligible_for_rental_share (jr_inc r) \<or> in_spot_pay_candidate (jr_inc r)"

definition incentive_formula_version :: "job_result \<Rightarrow> string" where
  "incentive_formula_version r = (if is_mixed r then ''mixed_v1''
     else if paid_from_rental_share r then ''rental_price_v2'' else ''mining_v1'')"

section \<open>Formula snapshots\<close>

definition mixed_as_dict :: "mixed_formula_inputs \<Rightarrow> pdict" where
  "mixed_as_dict m = [(''rented_gpu_count'', PInt (mf_rented_gpu_count m)), (''free_gpu_count'', PInt (mf_free_gpu_count m)),
     (''mining'', PDict (mf_mining m)), (''unrented'', PDict (mf_unrented m))]"

definition rental_formula_inputs :: "job_result \<Rightarrow> pdict" where
  "rental_formula_inputs r =
     [(''rental_share'', pv_of_opt PFloat (in_rental_share (jr_inc r))),
      (''rental_share_raw'', pv_of_opt PFloat (in_rental_share_raw (jr_inc r))),
      (''total_burn_emission'', pv_of_opt PFloat (in_total_burn_emission (jr_inc r))),
      (''burn_share'', pv_of_opt PFloat (in_burn_share (jr_inc r))),
      (''gpu_model'', pv_of_opt PStr (jr_gpu_model r)),
      (''gpu_count'', PInt (jr_gpu_count r)),
      (''hourly_rate'', pv_of_opt PFloat (in_hourly_rate (jr_inc r))),
      (''unrented_cap_multiplier'', pv_of_opt PFloat (in_unrented_cap_multiplier (jr_inc r))),
      (''sysbox_multiplier'', pv_of_opt PFloat (in_sysbox_multiplier (jr_inc r))),
      (''driver_multiplier'', pv_of_opt PFloat (in_driver_multiplier (jr_inc r))),
      (''effective_rate'', pv_of_opt PFloat (in_effective_rate (jr_inc r))),
      (''total_rental_cost'', pv_of_opt PFloat (in_total_rental_cost (jr_inc r))),
      (''count_bucket'', pv_of_opt PInt (in_count_bucket (jr_inc r))),
      (''bucket_reassigned_from'', pv_of_opt PInt (in_bucket_reassigned_from (jr_inc r))),
      (''bucket_reassigned_from_multiplier'', pv_of_opt PFloat (in_bucket_reassigned_from_multiplier (jr_inc r))),
      (''max_cap'', pv_of_opt PInt (in_max_cap (jr_inc r))),
      (''total_unrented_by_gpu_type'', pv_of_opt PFloat (in_total_unrented_by_gpu_type (jr_inc r))),
      (''cap_dilution_applied'', pv_of_opt PBool (in_cap_dilution_applied (jr_inc r))),
      (''validator_tao_price_usd'', pv_of_opt PFloat (in_validator_tao_price_usd (jr_inc r))),
      (''validator_alpha_rate_tao_per_block'', pv_of_opt PFloat (in_validator_alpha_rate_tao_per_block (jr_inc r))),
      (''estimated_epoch_emission_usd'', pv_of_opt PFloat (in_estimated_epoch_emission_usd (jr_inc r))),
      (''tempo_blocks'', pv_of_opt PInt (in_tempo_blocks (jr_inc r))),
      (''seconds_per_block'', pv_of_opt PInt (in_seconds_per_block (jr_inc r))),
      (''fixed_ratio'', pv_of_opt PFloat (in_fixed_ratio (jr_inc r)))]
     @ (case in_unbucketed_share (jr_inc r) of
          None \<Rightarrow> []
        | Some share \<Rightarrow>
            [(''unbucketed_share'', PFloat share),
             (''unbucketed_rental_cost'', pv_of_opt PFloat (in_unbucketed_rental_cost (jr_inc r))),
             (''floor_top_up_rate'', pv_of_opt PFloat (in_floor_top_up_rate (jr_inc r)))]
            @ (if in_spot_pay_candidate (jr_inc r) then [(''spot_pay'', PBool True)] else []))"

definition mining_formula_inputs :: "job_result \<Rightarrow> pdict" where
  "mining_formula_inputs r =
     [(''score'', PFloat (jr_score r)),
      (''mining_share'', pv_of_opt PFloat (in_mining_share (jr_inc r))),
      (''mining_score'', pv_of_opt PFloat (in_mining_score (jr_inc r))),
      (''total_mining_score'', pv_of_opt PFloat (in_total_mining_score (jr_inc r))),
      (''rental_share'', pv_of_opt PFloat (in_rental_share (jr_inc r))),
      (''rental_share_raw'', pv_of_opt PFloat (in_rental_share_raw (jr_inc r))),
      (''total_burn_emission'', pv_of_opt PFloat (in_total_burn_emission (jr_inc r))),
      (''burn_share'', pv_of_opt PFloat (in_burn_share (jr_inc r))),
      (''gpu_portion'', pv_of_opt PFloat (in_gpu_portion (jr_inc r))),
      (''gpu_model'', pv_of_opt PStr (jr_gpu_model r)),
      (''gpu_count'', PInt (jr_gpu_count r)),
      (''total_gpu_count'', pv_of_opt PInt (in_total_gpu_count (jr_inc r))),
      (''sysbox_multiplier'', pv_of_opt PFloat (in_sysbox_multiplier (jr_inc r))),
      (''uptime_multiplier'', pv_of_opt PFloat (in_uptime_multiplier (jr_inc r))),
      (''driver_multiplier'', pv_of_opt PFloat (in_driver_multiplier (jr_inc r))),
      (''validator_tao_price_usd'', pv_of_opt PFloat (in_validator_tao_price_usd (jr_inc r))),
      (''validator_alpha_rate_tao_per_block'', pv_of_opt PFloat (in_validator_alpha_rate_tao_per_block (jr_inc r))),
      (''estimated_epoch_emission_usd'', pv_of_opt PFloat (in_estimated_epoch_emission_usd (jr_inc r))),
      (''tempo_blocks'', pv_of_opt PInt (in_tempo_blocks (jr_inc r))),
      (''seconds_per_block'', pv_of_opt PInt (in_seconds_per_block (jr_inc r))),
      (''fixed_ratio'', pv_of_opt PFloat (in_fixed_ratio (jr_inc r)))]"

definition incentive_formula_inputs :: "job_result \<Rightarrow> pdict" where
  "incentive_formula_inputs r = (case in_mixed_formula_inputs (jr_inc r) of
      Some m \<Rightarrow> mixed_as_dict m
    | None \<Rightarrow> if paid_from_rental_share r then rental_formula_inputs r else mining_formula_inputs r)"

definition is_successful :: "job_result \<Rightarrow> bool" where
  "is_successful r \<longleftrightarrow> (0 < jr_score r \<or> 0 < jr_job_score r)
     \<and> (case jr_gpu_model r of Some m \<Rightarrow> m \<noteq> [] | None \<Rightarrow> False) \<and> 0 < jr_gpu_count r"

lemma upd_inc_simps [simp]:
  "jr_inc (upd_inc f r) = f (jr_inc r)"
  "jr_gpu_count (upd_inc f r) = jr_gpu_count r" "jr_gpu_model (upd_inc f r) = jr_gpu_model r"
  "jr_is_rented (upd_inc f r) = jr_is_rented r" "jr_executor_info (upd_inc f r) = jr_executor_info r"
  "jr_score (upd_inc f r) = jr_score r" "jr_is_split_remainder (upd_inc f r) = jr_is_split_remainder r"
  "jr_sysbox_runtime (upd_inc f r) = jr_sysbox_runtime r"
  "jr_supports_gpu_splitting (upd_inc f r) = jr_supports_gpu_splitting r"
  "jr_gpu_splitting_min_count (upd_inc f r) = jr_gpu_splitting_min_count r"
  "jr_rented_gpu_count (upd_inc f r) = jr_rented_gpu_count r"
  "jr_port_unpaid_gpu_count (upd_inc f r) = jr_port_unpaid_gpu_count r"
  by (simp_all add: upd_inc_def)

end
