(* ===== verification/Availability.thy ===== *)
theory Availability
  imports Job_Result
begin

text \<open>
  Availability errors (services/task/availability.py): which events hide a node, the test for an
  outage of the validator itself, the end-of-cycle silencer and the running tally that lets a failed
  node be published before the cycle ends.
\<close>

section \<open>Codes and events\<close>

datatype reach_source = VALIDATOR | CONTAINER | MINER

definition reach_source_str :: "reach_source \<Rightarrow> string" where
  "reach_source_str s = (case s of VALIDATOR \<Rightarrow> ''validator'' | CONTAINER \<Rightarrow> ''container'' | MINER \<Rightarrow> ''miner'')"

datatype reach_target = EXECUTOR_SSH | EXECUTOR_API | GPU | EXECUTOR_PORTS | NODE

definition reach_target_str :: "reach_target \<Rightarrow> string" where
  "reach_target_str t = (case t of EXECUTOR_SSH \<Rightarrow> ''executor_ssh'' | EXECUTOR_API \<Rightarrow> ''executor_api''
     | GPU \<Rightarrow> ''gpu'' | EXECUTOR_PORTS \<Rightarrow> ''executor_ports'' | NODE \<Rightarrow> ''node'')"

datatype availability_error_code = EXECUTOR_SSH_UNREACHABLE | RENTED_EXECUTOR_NOT_LISTED
  | EXECUTOR_UNREACHABLE_BY_MINER | GPU_LOST | GPU_MEMORY_HEALTH_FAILED | VERIFICATION_FAILED | GPU_THERMAL_COLLAPSE

definition code_str :: "availability_error_code \<Rightarrow> string" where
  "code_str c = (case c of
      EXECUTOR_SSH_UNREACHABLE \<Rightarrow> ''EXECUTOR_SSH_UNREACHABLE''
    | RENTED_EXECUTOR_NOT_LISTED \<Rightarrow> ''RENTED_EXECUTOR_NOT_LISTED''
    | EXECUTOR_UNREACHABLE_BY_MINER \<Rightarrow> ''EXECUTOR_UNREACHABLE_BY_MINER''
    | GPU_LOST \<Rightarrow> ''GPU_LOST''
    | GPU_MEMORY_HEALTH_FAILED \<Rightarrow> ''GPU_MEMORY_HEALTH_FAILED''
    | VERIFICATION_FAILED \<Rightarrow> ''VERIFICATION_FAILED''
    | GPU_THERMAL_COLLAPSE \<Rightarrow> ''GPU_THERMAL_COLLAPSE'')"

definition MAX_PEER_TEXT_LENGTH :: nat where "MAX_PEER_TEXT_LENGTH = 500"

definition FLEET_SHARE_THAT_MEANS_OUR_OWN_OUTAGE :: rat where "FLEET_SHARE_THAT_MEANS_OUR_OWN_OUTAGE = 1 / 2"

definition SMALLEST_FLEET_THAT_CAN_SHOW_AN_OUTAGE :: nat where "SMALLEST_FLEET_THAT_CAN_SHOW_AN_OUTAGE = 5"

definition NODE_GPU_FAULT_CODES :: "string list" where
  "NODE_GPU_FAULT_CODES = map code_str [GPU_LOST, GPU_MEMORY_HEALTH_FAILED, GPU_THERMAL_COLLAPSE, VERIFICATION_FAILED]"

text \<open>\<open>isinstance(v, int)\<close> holds for booleans too.\<close>

definition as_int :: "pv \<Rightarrow> int option" where
  "as_int v = (case v of PInt i \<Rightarrow> Some i | PBool b \<Rightarrow> Some (if b then 1 else 0) | _ \<Rightarrow> None)"

definition is_the_nodes_own_fault :: "availability_error \<Rightarrow> bool" where
  "is_the_nodes_own_fault e \<longleftrightarrow>
     ae_reason_code e \<in> set NODE_GPU_FAULT_CODES
     \<or> (ae_reason_code e = ''INSUFFICIENT_PORTS''
        \<and> (case (as_int (pget (ae_what_we_saw e) ''declared_port_count''), as_int (pget (ae_what_we_saw e) ''required'')) of
             (Some declared, Some required) \<Rightarrow> declared < required
           | _ \<Rightarrow> False))"

definition build_availability_event :: "availability_error_code \<Rightarrow> reach_source \<Rightarrow> reach_target \<Rightarrow> string \<Rightarrow> string
    \<Rightarrow> string \<Rightarrow> pdict \<Rightarrow> validation_event" where
  "build_availability_event code source target event_text impact remediation what =
     build_msg event_text (code_str code) ''error'' AVAILABILITY_CATEGORY impact remediation
       (dmerge [(''reach_source'', PStr (reach_source_str source)), (''reach_target'', PStr (reach_target_str target))] what)
       None [] None []"

text \<open>
  \<open>availability_errors\<close>: the dictionary keyed by reason code keeps the first event of each code.
  \<open>pystr\<close> is Python's \<open>str\<close>.
\<close>

fun collect_errors :: "(pv \<Rightarrow> string) \<Rightarrow> validation_event list \<Rightarrow> (string, availability_error) dict
    \<Rightarrow> (string, availability_error) dict" where
  "collect_errors pystr [] errors = errors"
| "collect_errors pystr (e # es) errors =
     (if \<not> is_availability_error e \<or> dget errors (ev_reason_code e) \<noteq> None then collect_errors pystr es errors
      else let seen = ev_what_we_saw e in
        collect_errors pystr es (dset (ev_reason_code e)
          \<lparr> ae_reason_code = ev_reason_code e,
            ae_reach_source = (case dget seen ''reach_source'' of Some v \<Rightarrow> pystr v | None \<Rightarrow> []),
            ae_reach_target = (case dget seen ''reach_target'' of Some v \<Rightarrow> pystr v | None \<Rightarrow> []),
            ae_message = ev_event e, ae_remediation = ev_remediation e,
            ae_what_we_saw = dpop ''reach_target'' (dpop ''reach_source'' seen) \<rparr> errors))"

definition availability_errors :: "(pv \<Rightarrow> string) \<Rightarrow> validation_event list \<Rightarrow> availability_error list" where
  "availability_errors pystr events = map snd (collect_errors pystr events [])"

subsection \<open>The events\<close>

definition SSH_HOST_KEY_MISMATCH_REMEDIATION :: string where
  "SSH_HOST_KEY_MISMATCH_REMEDIATION =
     ''If this repeats every check, the SSH server on this port is not presenting the host key the ''
     @ ''executor reports. Usually another SSH server answers the port (the host's own sshd, or a ''
     @ ''port forward to another machine): set the node SSH port (and the public SSH port forward, if ''
     @ ''any) to a port that reaches the executor container, not the host's SSH port, then re-run ''
     @ ''`lium mine`. If the port already reaches the executor, restart the executor container so its ''
     @ ''SSH server loads the key it reports. A single failure while the executor container was being ''
     @ ''recreated clears by itself on the next check.''"

definition build_ssh_unreachable_event :: "string \<Rightarrow> string \<Rightarrow> int option \<Rightarrow> string \<Rightarrow> bool \<Rightarrow> validation_event" where
  "build_ssh_unreachable_event executor_uuid host port err host_key_mismatch =
     build_availability_event EXECUTOR_SSH_UNREACHABLE VALIDATOR EXECUTOR_SSH
       ''Validator cannot open SSH to this node''
       ''The node is hidden from the market and cannot take new rentals until a check succeeds.''
       (if host_key_mismatch then SSH_HOST_KEY_MISMATCH_REMEDIATION
        else ''Check that sshd on the node accepts the validator on its management port, ''
          @ ''and that no firewall or rate limit rejects the connection. If your host NATs or ''
          @ ''proxies inbound SSH, set EXECUTOR_SSH_SOURCE_PIN=false and EXECUTOR_SSH_SOURCE_LIMITS=false ''
          @ ''in the executor .env and recreate the executor container (in ~/compute-subnet/neurons/executor: ''
          @ ''docker compose up -d --force-recreate; a plain docker compose up -d or docker restart keeps ''
          @ ''the old .env values).'')
       [(''executor_uuid'', PStr executor_uuid), (''ssh_host'', PStr host), (''ssh_port'', pv_of_opt PInt port),
        (''error'', PStr (take MAX_PEER_TEXT_LENGTH err))]"

definition build_rented_executor_not_listed_event :: "string \<Rightarrow> string \<Rightarrow> int option \<Rightarrow> string \<Rightarrow> validation_event" where
  "build_rented_executor_not_listed_event executor_uuid host port miner_hotkey =
     build_availability_event RENTED_EXECUTOR_NOT_LISTED MINER EXECUTOR_API
       ''Rented node missing from the miner's answer''
       (''Score 0 for this cycle; the node is hidden from the market until a cycle lists it ''
        @ ''again. The backend's staleness sweep reads this row as the node not answering.'')
       (''The miner did not return this node in its answer to the validator. Check that the ''
        @ ''node is up and that the miner lists it.'')
       [(''executor_uuid'', PStr executor_uuid), (''executor_ip_address'', PStr host),
        (''executor_port'', pv_of_opt PInt port), (''miner_hotkey'', PStr miner_hotkey)]"

definition build_executor_unreachable_by_miner_event :: "string \<Rightarrow> string \<Rightarrow> validation_event" where
  "build_executor_unreachable_by_miner_event executor_uuid miner_hotkey =
     build_availability_event EXECUTOR_UNREACHABLE_BY_MINER MINER EXECUTOR_API
       ''Miner could not reach this node to install the validator's key''
       ''Score 0 for this cycle; the node is hidden from the market until a cycle reaches it.''
       (''Check that the executor is running and that its API port accepts the miner's ''
        @ ''/upload_ssh_key request.'')
       [(''executor_uuid'', PStr executor_uuid), (''miner_hotkey'', PStr miner_hotkey)]"

definition REASONS_THAT_HIDE_AT_ONCE :: "string list" where
  "REASONS_THAT_HIDE_AT_ONCE = [''GPU_DETAILS_MISMATCH'', ''GPU_UUID_CHANGED'', ''NVLINK_FAULT'']"

definition failed_check_event :: "bool \<Rightarrow> validation_event list \<Rightarrow> validation_event option" where
  "failed_check_event ok events =
     (if ok \<or> events = [] \<or> list_ex is_availability_error events then None
      else let last_event = last events in
        if ev_reason_code last_event \<notin> set REASONS_THAT_HIDE_AT_ONCE then None
        else Some (build_availability_event VERIFICATION_FAILED VALIDATOR NODE
          ''The node failed a verification check''
          ''Hidden and takes no new rentals until a check passes; a rental already on it is not touched''
          (''See the failed check's message for the cause. The node is listed again on the first check ''
           @ ''that passes.'')
          [(''failed_check'', pv_of_opt PStr (ev_check_id last_event)),
           (''failed_reason'', PStr (ev_reason_code last_event))]))"

section \<open>An outage of our own\<close>

definition is_our_own_outage :: "nat \<Rightarrow> nat \<Rightarrow> bool" where
  "is_our_own_outage unreachable_count checked_count \<longleftrightarrow>
     \<not> checked_count < SMALLEST_FLEET_THAT_CAN_SHOW_AN_OUTAGE
     \<and> FLEET_SHARE_THAT_MEANS_OUR_OWN_OUTAGE < fl (of_nat unreachable_count / of_nat checked_count)"

definition errors_of :: "job_result \<Rightarrow> availability_error list" where
  "errors_of r = (case jr_availability_errors r of Some es \<Rightarrow> es | None \<Rightarrow> [])"

definition is_the_validators_own_reading :: "job_result \<Rightarrow> bool" where
  "is_the_validators_own_reading r = (case jr_availability_errors r of
      None \<Rightarrow> False
    | Some errors \<Rightarrow> errors = [] \<or> list_ex (\<lambda>e. ae_reach_source e \<noteq> reach_source_str MINER) errors)"

definition failed_to_reach :: "job_result \<Rightarrow> bool" where
  "failed_to_reach r = list_ex (\<lambda>e. \<not> is_the_nodes_own_fault e) (errors_of r)"

definition checked_and_unreachable :: "job_result list \<Rightarrow> job_result list \<times> job_result list" where
  "checked_and_unreachable rs =
     (let checked = filter is_the_validators_own_reading rs in (checked, filter failed_to_reach checked))"

definition silence_result :: "job_result \<Rightarrow> job_result" where
  "silence_result r =
     (let own = filter is_the_nodes_own_fault (errors_of r)
      in r\<lparr>jr_availability_errors := (if own \<noteq> [] then Some own else None)\<rparr>)"

definition silence_availability_errors_on_our_own_outage :: "job_result list \<Rightarrow> nat \<times> job_result list" where
  "silence_availability_errors_on_our_own_outage rs =
     (let (checked, unreachable) = checked_and_unreachable rs in
      if \<not> is_our_own_outage (length unreachable) (length checked) then (0, rs)
      else (length checked, map (\<lambda>r. if is_the_validators_own_reading r then silence_result r else r) rs))"

section \<open>The running tally\<close>

record running_outage_tally =
  rt_job_batch_id :: string
  rt_rented_executor_ids :: "string list"
  rt_checked_count :: nat
  rt_unreachable_count :: nat
  rt_published_early :: "string list"

definition new_tally :: "string \<Rightarrow> string list \<Rightarrow> running_outage_tally" where
  "new_tally batch rented = \<lparr> rt_job_batch_id = batch, rt_rented_executor_ids = rented, rt_checked_count = 0,
     rt_unreachable_count = 0, rt_published_early = [] \<rparr>"

definition publishable_early :: "running_outage_tally \<Rightarrow> job_result \<Rightarrow> bool" where
  "publishable_early t r \<longleftrightarrow> errors_of r \<noteq> [] \<and> \<not> is_successful r \<and> \<not> jr_is_rented r
     \<and> py_lower (ex_uuid (jr_executor_info r)) \<notin> set (rt_rented_executor_ids t)"

definition tally_add :: "job_result list \<Rightarrow> running_outage_tally \<Rightarrow> job_result list \<times> running_outage_tally" where
  "tally_add rs t =
     (let (checked, unreachable) =
            checked_and_unreachable (filter (\<lambda>r. jr_job_batch_id r = rt_job_batch_id t) rs);
          t' = t\<lparr>rt_checked_count := rt_checked_count t + length checked,
                 rt_unreachable_count := rt_unreachable_count t + length unreachable\<rparr>
      in if rt_checked_count t' < SMALLEST_FLEET_THAT_CAN_SHOW_AN_OUTAGE
            \<or> is_our_own_outage (rt_unreachable_count t') (rt_checked_count t')
         then ([], t')
         else (filter (publishable_early t') checked, t'))"

definition restore_published_early :: "running_outage_tally \<Rightarrow> (string, availability_error list) dict
    \<Rightarrow> job_result list \<Rightarrow> job_result list" where
  "restore_published_early t published_before rs =
     map (\<lambda>r. let uuid = ex_uuid (jr_executor_info r) in
        if uuid \<notin> set (rt_published_early t) then r
        else case dget published_before (py_lower uuid) of
            None \<Rightarrow> r
          | Some before \<Rightarrow> (let kept = errors_of r in
              r\<lparr>jr_availability_errors := Some (kept @ filter (\<lambda>e. e \<notin> set kept) before)\<rparr>)) rs"

end
