(* ===== verification/Availability_Proofs.thy ===== *)
theory Availability_Proofs
  imports Availability
begin

text \<open>
  Correctness of the availability rules: the outage test is the exact majority test, the silencer
  removes reach failures only and only in an outage, an early publication is one the silencer of
  that moment would leave alone, and every reason code yields one error.
\<close>

section \<open>The outage test\<close>

lemma above_half_exact: "fl (1 / 2 + 1 / 2 ^ 53) = 1 / 2 + 1 / 2 ^ 53"
proof -
  have "(1 / 2 + 1 / 2 ^ 53 :: rat) = of_int (2 ^ 52 + 1) * 2 powi (- 53)"
    by (simp add: power_int_minus_divide field_simps)
  then show ?thesis using fl_exact [of "2 ^ 52 + 1" "- 53"] by simp
qed

lemma half_exact: "fl (1 / 2) = 1 / 2"
proof -
  have "(1 / 2 :: rat) = of_int 1 * 2 powi (- 1)" by (simp add: power_int_def)
  then show ?thesis using fl_exact [of 1 "- 1"] by simp
qed

text \<open>Rounding does not change the comparison with one half.\<close>

lemma majority_gap:
  assumes "0 < c" "c \<le> 2 ^ 52" "c < 2 * u"
  shows "1 / 2 + 1 / 2 ^ 53 \<le> (of_nat u / of_nat c :: rat)"
proof -
  have c: "(0::rat) < of_nat c" using assms by simp
  have le: "(of_nat c :: rat) \<le> of_nat (2 ^ 52)" using assms(2) by (simp only: of_nat_le_iff)
  have u: "(of_nat (c + 1) :: rat) \<le> of_nat (2 * u)" using assms(3) by (simp only: of_nat_le_iff)
  have "(1 / 2 + 1 / 2 ^ 53) * of_nat c \<le> (of_nat c / 2 + 1 / 2 :: rat)" using le by (simp add: field_simps)
  also have "\<dots> \<le> of_nat u" using u by simp
  finally show ?thesis using c by (simp only: pos_le_divide_eq)
qed

lemma share_above_half:
  assumes "c \<le> 2 ^ 52"
  shows "1 / 2 < fl (of_nat u / of_nat c) \<longleftrightarrow> c < 2 * u \<and> 0 < c"
proof (cases "c < 2 * u \<and> 0 < c")
  case True
  have "(1 / 2 :: rat) < 1 / 2 + 1 / 2 ^ 53" by simp
  also have "\<dots> \<le> fl (of_nat u / of_nat c)"
    using fl_mono [OF majority_gap] assms True unfolding above_half_exact by blast
  finally show ?thesis using True by simp
next
  case minor: False
  have "(of_nat u / of_nat c :: rat) \<le> 1 / 2"
  proof (cases "c = 0")
    case False
    with minor have "(of_nat (2 * u) :: rat) \<le> of_nat c" by (simp only: of_nat_le_iff) simp
    then show ?thesis using False by (simp add: divide_le_eq)
  qed simp
  from fl_mono [OF this] minor show ?thesis by (auto simp: half_exact not_less)
qed


lemma is_our_own_outage_iff:
  assumes "c \<le> 2 ^ 52"
  shows "is_our_own_outage u c \<longleftrightarrow> 5 \<le> c \<and> c < 2 * u"
  using share_above_half [OF assms]
  by (auto simp: is_our_own_outage_def FLEET_SHARE_THAT_MEANS_OUR_OWN_OUTAGE_def
      SMALLEST_FLEET_THAT_CAN_SHOW_AN_OUTAGE_def)

lemma no_outage_without_failures [simp]: "\<not> is_our_own_outage 0 c"
  by (simp add: is_our_own_outage_def FLEET_SHARE_THAT_MEANS_OUR_OWN_OUTAGE_def)

section \<open>The silencer\<close>

definition outage_in :: "job_result list \<Rightarrow> bool" where
  "outage_in rs \<longleftrightarrow> is_our_own_outage (length (snd (checked_and_unreachable rs))) (length (fst (checked_and_unreachable rs)))"

lemma silencer_cases:
  "silence_availability_errors_on_our_own_outage rs =
     (if outage_in rs
      then (length (fst (checked_and_unreachable rs)), map (\<lambda>r. if is_the_validators_own_reading r then silence_result r else r) rs)
      else (0, rs))"
  by (simp add: silence_availability_errors_on_our_own_outage_def outage_in_def split: prod.split)

lemma errors_of_silence [simp]: "errors_of (silence_result r) = filter is_the_nodes_own_fault (errors_of r)"
  by (simp add: silence_result_def errors_of_def Let_def)

lemma silence_result_list:
  "silence_result r = r\<lparr>jr_availability_errors := jr_availability_errors (silence_result r)\<rparr>"
  "jr_availability_errors (silence_result r) \<noteq> Some []"
  by (simp_all add: silence_result_def Let_def)

lemma silenced_reaches [simp]: "\<not> failed_to_reach (silence_result r)"
  by (simp add: failed_to_reach_def list_ex_iff)

lemma unreachable_after_silencing:
  "snd (checked_and_unreachable (map (\<lambda>r. if is_the_validators_own_reading r then silence_result r else r) rs)) = []"
  by (auto simp: checked_and_unreachable_def Let_def filter_empty_conv)

lemma silencer_count_bound: "length (fst (checked_and_unreachable rs)) \<le> length rs"
  by (simp add: checked_and_unreachable_def Let_def)

text \<open>
  Claim C17. The silencer acts exactly when at least five nodes gave the validator its own reading
  and more than half of those failed to be reached. It then touches only those readings, and of them
  only the error list: the node's own faults stay, everything else goes, and a list left empty becomes
  "no answer". In every other case the results are untouched. A second pass changes nothing.
\<close>

theorem silencer_removes_only_reach_failures:
  assumes "length rs \<le> 2 ^ 52"
    and "silence_availability_errors_on_our_own_outage rs = (n, rs')"
  shows "let checked = filter is_the_validators_own_reading rs;
             outage = (5 \<le> length checked \<and> length checked < 2 * length (filter failed_to_reach checked))
         in n = (if outage then length checked else 0)
          \<and> list_all2 (\<lambda>r r'.
               if outage \<and> is_the_validators_own_reading r
               then r' = r\<lparr>jr_availability_errors := jr_availability_errors r'\<rparr>
                  \<and> errors_of r' = filter is_the_nodes_own_fault (errors_of r)
                  \<and> jr_availability_errors r' \<noteq> Some []
               else r' = r) rs rs'
          \<and> silence_availability_errors_on_our_own_outage rs' = (0, rs')"
proof -
  let ?c = "filter is_the_validators_own_reading rs"
  have cu: "checked_and_unreachable rs = (?c, filter failed_to_reach ?c)"
    by (simp add: checked_and_unreachable_def Let_def)
  have "length ?c \<le> 2 ^ 52" using assms(1) length_filter_le le_trans by blast
  then have out: "outage_in rs \<longleftrightarrow> 5 \<le> length ?c \<and> length ?c < 2 * length (filter failed_to_reach ?c)"
    unfolding outage_in_def cu by (simp add: is_our_own_outage_iff)
  have again: "silence_availability_errors_on_our_own_outage rs' = (0, rs')"
  proof (cases "outage_in rs")
    case True
    then have rs': "rs' = map (\<lambda>r. if is_the_validators_own_reading r then silence_result r else r) rs"
      using assms(2) by (simp add: silencer_cases)
    have "\<not> outage_in rs'" unfolding outage_in_def rs' unreachable_after_silencing by simp
    then show ?thesis by (simp add: silencer_cases)
  next
    case False
    then show ?thesis using assms(2) by (simp add: silencer_cases)
  qed
  show ?thesis
  proof (cases "outage_in rs")
    case True
    then have "n = length ?c" "rs' = map (\<lambda>r. if is_the_validators_own_reading r then silence_result r else r) rs"
      using assms(2) by (auto simp: silencer_cases cu)
    then show ?thesis using again True silence_result_list
      unfolding Let_def out [symmetric] by (simp add: list_all2_map2 list.rel_refl)
  next
    case False
    then show ?thesis using assms(2) again
      unfolding Let_def out [symmetric] by (auto simp: silencer_cases list.rel_refl)
  qed
qed


definition sample_executor :: "string \<Rightarrow> executor_ssh_info" where
  "sample_executor uuid = \<lparr> ex_uuid = uuid, ex_address = ''10.0.0.1'', ex_port = 8001, ex_ssh_username = ''root'',
     ex_ssh_port = 22, ex_python_path = ''python3'', ex_root_dir = ''/root'', ex_port_range = None, ex_port_mappings = None,
     ex_price_per_gpu = None, ex_ssh_host_key = None, ex_tdx_quote = None, ex_nvidia_payload = None,
     ex_expected_ssh_host_key = None \<rparr>"

definition sample_error :: "string \<Rightarrow> availability_error" where
  "sample_error code = \<lparr> ae_reason_code = code, ae_reach_source = ''validator'', ae_reach_target = ''node'',
     ae_message = [], ae_remediation = None, ae_what_we_saw = [] \<rparr>"

definition sample_result :: "string \<Rightarrow> string list option \<Rightarrow> job_result" where
  "sample_result uuid codes = (new_job_result (sample_executor uuid) 0 0 ''b1'' ''error'' [])
     \<lparr>jr_availability_errors := map_option (map sample_error) codes\<rparr>"

definition sample_cycle :: "job_result list" where
  "sample_cycle = [sample_result ''a'' (Some []), sample_result ''b'' (Some [''EXECUTOR_SSH_UNREACHABLE'']),
     sample_result ''c'' (Some [''GPU_LOST'', ''EXECUTOR_SSH_UNREACHABLE'']), sample_result ''d'' None,
     sample_result ''e'' (Some [''EXECUTOR_SSH_UNREACHABLE'']), sample_result ''f'' (Some [''GPU_LOST''])]"

theorem silencer_removes_only_reach_failures_witness:
  "map errors_of (snd (silence_availability_errors_on_our_own_outage sample_cycle))
     = [[], [], [sample_error ''GPU_LOST''], [], [], [sample_error ''GPU_LOST'']]
   \<and> (let rs' = snd (silence_availability_errors_on_our_own_outage sample_cycle)
      in silence_availability_errors_on_our_own_outage rs' = (0, rs'))"
proof -
  have "length sample_cycle \<le> 2 ^ 52" by (simp add: sample_cycle_def)
  from silencer_removes_only_reach_failures [OF this prod.collapse [symmetric]]
  have "silence_availability_errors_on_our_own_outage (snd (silence_availability_errors_on_our_own_outage sample_cycle))
     = (0, snd (silence_availability_errors_on_our_own_outage sample_cycle))"
    unfolding Let_def by blast
  moreover have "map errors_of (snd (silence_availability_errors_on_our_own_outage sample_cycle))
     = [[], [], [sample_error ''GPU_LOST''], [], [], [sample_error ''GPU_LOST'']]"
    by code_simp
  ultimately show ?thesis unfolding Let_def by blast
qed

section \<open>The running tally\<close>

text \<open>The cycle adds the results of one miner after the other.\<close>

definition tally_after :: "job_result list list \<Rightarrow> running_outage_tally \<Rightarrow> running_outage_tally" where
  "tally_after batches t = fold (\<lambda>rs t. snd (tally_add rs t)) batches t"

lemma tally_add_fields [simp]:
  "rt_job_batch_id (snd (tally_add rs t)) = rt_job_batch_id t"
  "rt_rented_executor_ids (snd (tally_add rs t)) = rt_rented_executor_ids t"
  "rt_published_early (snd (tally_add rs t)) = rt_published_early t"
  by (simp_all add: tally_add_def Let_def split: prod.split)

definition of_batch :: "string \<Rightarrow> job_result list \<Rightarrow> job_result list" where
  "of_batch b rs = filter (\<lambda>r. jr_job_batch_id r = b) rs"

lemma tally_add_counts:
  "rt_checked_count (snd (tally_add rs t)) =
     rt_checked_count t + length (fst (checked_and_unreachable (of_batch (rt_job_batch_id t) rs)))"
  "rt_unreachable_count (snd (tally_add rs t)) =
     rt_unreachable_count t + length (snd (checked_and_unreachable (of_batch (rt_job_batch_id t) rs)))"
  by (simp_all add: tally_add_def of_batch_def Let_def split: prod.split)

lemma checked_append:
  "fst (checked_and_unreachable (xs @ ys)) = fst (checked_and_unreachable xs) @ fst (checked_and_unreachable ys)"
  "snd (checked_and_unreachable (xs @ ys)) = snd (checked_and_unreachable xs) @ snd (checked_and_unreachable ys)"
  by (simp_all add: checked_and_unreachable_def Let_def)

lemma tally_after_counts:
  "rt_job_batch_id (tally_after bs t) = rt_job_batch_id t"
  "rt_rented_executor_ids (tally_after bs t) = rt_rented_executor_ids t"
  "rt_checked_count (tally_after bs t) =
     rt_checked_count t + length (fst (checked_and_unreachable (of_batch (rt_job_batch_id t) (concat bs))))"
  "rt_unreachable_count (tally_after bs t) =
     rt_unreachable_count t + length (snd (checked_and_unreachable (of_batch (rt_job_batch_id t) (concat bs))))"
  by (induction bs arbitrary: t)
     (simp_all add: tally_after_def tally_add_counts checked_append of_batch_def checked_and_unreachable_def Let_def)

lemma tally_add_published:
  "fst (tally_add rs t) =
     (let t' = snd (tally_add rs t) in
      if rt_checked_count t' < 5 \<or> is_our_own_outage (rt_unreachable_count t') (rt_checked_count t') then []
      else filter (publishable_early t') (fst (checked_and_unreachable (of_batch (rt_job_batch_id t) rs))))"
  by (simp add: tally_add_def of_batch_def Let_def SMALLEST_FLEET_THAT_CAN_SHOW_AN_OUTAGE_def split: prod.split)

text \<open>
  Claim C18. After any sequence of miners the tally holds the totals over all their results of this
  batch, and what the next miner's results release for early publication is safe to release: the
  released results are of this batch, are the validator's own failed reading of a node without a
  rental, and the end-of-cycle silencer run on everything seen so far would leave it all in place.
\<close>

theorem early_publication_safe:
  fixes seen :: "job_result list list"
  assumes "tally_add rs (tally_after seen (new_tally batch rented)) = (out, t)"
  shows "let total = of_batch batch (concat seen @ rs) in
     rt_checked_count t = length (fst (checked_and_unreachable total))
   \<and> rt_unreachable_count t = length (snd (checked_and_unreachable total))
   \<and> (out \<noteq> [] \<longrightarrow> 5 \<le> rt_checked_count t \<and> silence_availability_errors_on_our_own_outage total = (0, total))
   \<and> (\<forall>r\<in>set out. r \<in> set rs \<and> jr_job_batch_id r = batch \<and> is_the_validators_own_reading r
        \<and> errors_of r \<noteq> [] \<and> \<not> is_successful r \<and> \<not> jr_is_rented r
        \<and> py_lower (ex_uuid (jr_executor_info r)) \<notin> set rented)"
proof -
  let ?t0 = "tally_after seen (new_tally batch rented)" and ?total = "of_batch batch (concat seen @ rs)"
  have t: "t = snd (tally_add rs ?t0)" and out: "out = fst (tally_add rs ?t0)" using assms by simp_all
  have b: "rt_job_batch_id ?t0 = batch" "rt_rented_executor_ids t = rented"
    by (simp_all add: t tally_after_counts new_tally_def)
  have tot: "?total = of_batch batch (concat seen) @ of_batch batch rs" by (simp add: of_batch_def)
  have counts: "rt_checked_count t = length (fst (checked_and_unreachable ?total))"
    "rt_unreachable_count t = length (snd (checked_and_unreachable ?total))"
    unfolding tot checked_append t by (simp_all add: tally_add_counts tally_after_counts new_tally_def)
  have pub: "out = (if rt_checked_count t < 5 \<or> outage_in ?total then []
      else filter (publishable_early t) (fst (checked_and_unreachable (of_batch batch rs))))"
    unfolding out tally_add_published b(1) t [symmetric] Let_def outage_in_def counts ..
  have "out \<noteq> [] \<Longrightarrow> 5 \<le> rt_checked_count t \<and> \<not> outage_in ?total" unfolding pub by (auto split: if_splits)
  moreover have "\<forall>r\<in>set out. r \<in> set rs \<and> jr_job_batch_id r = batch \<and> is_the_validators_own_reading r \<and> publishable_early t r"
    unfolding pub by (auto simp: checked_and_unreachable_def Let_def of_batch_def)
  ultimately show ?thesis
    unfolding Let_def using counts b(2) by (auto simp: silencer_cases publishable_early_def)
qed


definition quiet_miner :: "job_result list" where
  "quiet_miner = map (\<lambda>u. sample_result [u] (Some [])) ''abcd''"

theorem early_publication_safe_witness:
  "map (\<lambda>r. ex_uuid (jr_executor_info r))
     (fst (tally_add [sample_result ''X'' (Some [''GPU_LOST'']), sample_result ''Y'' (Some [''GPU_LOST''])]
        (tally_after [quiet_miner] (new_tally ''b1'' [''y''])))) = [''X'']
   \<and> silence_availability_errors_on_our_own_outage
       (of_batch ''b1'' (quiet_miner @ [sample_result ''X'' (Some [''GPU_LOST'']), sample_result ''Y'' (Some [''GPU_LOST''])]))
     = (0, of_batch ''b1'' (quiet_miner @ [sample_result ''X'' (Some [''GPU_LOST'']), sample_result ''Y'' (Some [''GPU_LOST''])]))"
proof -
  let ?rs = "[sample_result ''X'' (Some [''GPU_LOST'']), sample_result ''Y'' (Some [''GPU_LOST''])]"
  let ?t = "tally_after [quiet_miner] (new_tally ''b1'' [''y''])"
  have out: "map (\<lambda>r. ex_uuid (jr_executor_info r)) (fst (tally_add ?rs ?t)) = [''X'']" by code_simp
  then have "fst (tally_add ?rs ?t) \<noteq> []" by auto
  moreover have "concat [quiet_miner] = quiet_miner" by simp
  ultimately show ?thesis
    using early_publication_safe [where rs = ?rs and seen = "[quiet_miner]" and batch = "''b1''" and rented = "[''y'']",
        OF prod.collapse [symmetric]] out
    unfolding Let_def by simp
qed

section \<open>One error per reason code\<close>

definition error_entry :: "(pv \<Rightarrow> string) \<Rightarrow> validation_event \<Rightarrow> availability_error" where
  "error_entry pystr e =
     \<lparr> ae_reason_code = ev_reason_code e,
       ae_reach_source = (case dget (ev_what_we_saw e) ''reach_source'' of Some v \<Rightarrow> pystr v | None \<Rightarrow> []),
       ae_reach_target = (case dget (ev_what_we_saw e) ''reach_target'' of Some v \<Rightarrow> pystr v | None \<Rightarrow> []),
       ae_message = ev_event e, ae_remediation = ev_remediation e,
       ae_what_we_saw = dpop ''reach_target'' (dpop ''reach_source'' (ev_what_we_saw e)) \<rparr>"

lemma dset_new: "dget d k = None \<Longrightarrow> dset k v d = d @ [(k, v)]"
  by (induction d) (auto split: if_splits)

fun first_of_code :: "validation_event list \<Rightarrow> string list \<Rightarrow> validation_event list" where
  "first_of_code [] seen = []"
| "first_of_code (e # es) seen =
     (if is_availability_error e \<and> ev_reason_code e \<notin> set seen
      then e # first_of_code es (ev_reason_code e # seen) else first_of_code es seen)"

lemma first_of_code_cong: "set s = set s' \<Longrightarrow> first_of_code es s = first_of_code es s'"
proof (induction es arbitrary: s s')
  case (Cons a es)
  have "set (ev_reason_code a # s) = set (ev_reason_code a # s')" using Cons.prems by simp
  from Cons.IH [OF this] Cons.IH [OF Cons.prems] Cons.prems show ?case by simp
qed simp

lemma collect_errors_entries:
  "collect_errors pystr es d =
     d @ map (\<lambda>e. (ev_reason_code e, error_entry pystr e)) (first_of_code es (map fst d))"
proof (induction es arbitrary: d)
  case (Cons e es)
  have "first_of_code es (map fst d @ [ev_reason_code e]) = first_of_code es (ev_reason_code e # map fst d)"
    by (rule first_of_code_cong) auto
  then show ?case using Cons
    by (simp add: Let_def dset_new dget_None_iff error_entry_def [symmetric])
qed simp

lemma first_of_code_in:
  "set (first_of_code es s) = {e. is_availability_error e \<and> ev_reason_code e \<notin> set s
      \<and> find (\<lambda>x. is_availability_error x \<and> ev_reason_code x = ev_reason_code e) es = Some e}"
proof (induction es arbitrary: s)
  case (Cons a es)
  show ?case by (auto simp: Cons)
qed simp

lemma first_of_code_distinct:
  "distinct (map ev_reason_code (first_of_code es s)) \<and> set (map ev_reason_code (first_of_code es s)) \<inter> set s = {}"
proof (induction es arbitrary: s)
  case (Cons a es)
  show ?case using Cons [of s] Cons [of "ev_reason_code a # s"] by auto
qed simp


lemma first_of_code_covers:
  "ev_reason_code ` set (first_of_code es s) = ev_reason_code ` {e \<in> set es. is_availability_error e} - set s"
proof (induction es arbitrary: s)
  case (Cons a es)
  have "{e \<in> set (a # es). is_availability_error e}
      = (if is_availability_error a then insert a {e \<in> set es. is_availability_error e} else {e \<in> set es. is_availability_error e})"
    by auto
  then show ?case using Cons [of s] Cons [of "ev_reason_code a # s"] by auto
qed simp

lemma availability_errors_entries:
  "availability_errors pystr es = map (error_entry pystr) (first_of_code es [])"
  by (simp add: availability_errors_def collect_errors_entries)

lemma error_entry_fields [simp]:
  "ae_reason_code (error_entry pystr e) = ev_reason_code e" "ae_message (error_entry pystr e) = ev_event e"
  "ae_remediation (error_entry pystr e) = ev_remediation e"
  "ae_what_we_saw (error_entry pystr e) = dpop ''reach_target'' (dpop ''reach_source'' (ev_what_we_saw e))"
  by (simp_all add: error_entry_def)

text \<open>
  Claim C19. The error list of a run names every reason code of its availability events, each once,
  and the entry of a code carries the text, the remediation and the evidence of the first event of
  that code, without the two reach fields, which have their own places.
\<close>

theorem one_error_per_reason_code:
  "let errs = availability_errors pystr events in
     distinct (map ae_reason_code errs)
   \<and> set (map ae_reason_code errs) = ev_reason_code ` {e \<in> set events. is_availability_error e}
   \<and> (\<forall>err\<in>set errs. \<exists>e.
        find (\<lambda>x. is_availability_error x \<and> ev_reason_code x = ae_reason_code err) events = Some e
      \<and> ae_message err = ev_event e \<and> ae_remediation err = ev_remediation e
      \<and> (\<forall>k. dget (ae_what_we_saw err) k
             = (if k = ''reach_source'' \<or> k = ''reach_target'' then None else dget (ev_what_we_saw e) k)))"
proof -
  have codes: "map ae_reason_code (availability_errors pystr events) = map ev_reason_code (first_of_code events [])"
    by (simp add: availability_errors_entries)
  then have "set (map ae_reason_code (availability_errors pystr events)) = ev_reason_code ` {e \<in> set events. is_availability_error e}"
    using first_of_code_covers [of events "[]"] by simp
  moreover have "distinct (map ae_reason_code (availability_errors pystr events))"
    unfolding codes using first_of_code_distinct [of events "[]"] by simp
  ultimately show ?thesis
    unfolding Let_def by (simp add: availability_errors_entries first_of_code_in)
qed

definition sample_event :: "string \<Rightarrow> string \<Rightarrow> validation_event" where
  "sample_event code txt = build_msg txt code ''error'' AVAILABILITY_CATEGORY [] [] [(''reach_source'', PStr ''miner''), (''n'', PInt 1)]
     None [] None []"

theorem one_error_per_reason_code_witness:
  "let errs = availability_errors (\<lambda>_. []) [sample_event ''A'' ''one'', sample_event ''B'' ''two'', sample_event ''A'' ''three''] in
     distinct (map ae_reason_code errs) \<and> map ae_message errs = [''one'', ''two''] \<and> map ae_what_we_saw errs = [[(''n'', PInt 1)], [(''n'', PInt 1)]]"
proof -
  let ?es = "[sample_event ''A'' ''one'', sample_event ''B'' ''two'', sample_event ''A'' ''three'']"
  have "map ae_message (availability_errors (\<lambda>_. []) ?es) = [''one'', ''two'']"
    "map ae_what_we_saw (availability_errors (\<lambda>_. []) ?es) = [[(''n'', PInt 1)], [(''n'', PInt 1)]]"
    by code_simp+
  then show ?thesis using one_error_per_reason_code [of "\<lambda>_. []" ?es] unfolding Let_def by blast
qed

section \<open>A failed check that hides the node\<close>

lemma failed_check_event_Some:
  "failed_check_event ok events = Some ev \<Longrightarrow>
     \<not> ok \<and> events \<noteq> [] \<and> filter is_availability_error events = [] \<and> ev_reason_code (last events) \<in> set REASONS_THAT_HIDE_AT_ONCE
   \<and> is_availability_error ev \<and> ev_reason_code ev = ''VERIFICATION_FAILED''
   \<and> dget (ev_what_we_saw ev) ''failed_reason'' = Some (PStr (ev_reason_code (last events)))"
  by (auto simp: failed_check_event_def Let_def build_availability_event_def build_msg_def is_availability_error_def
      list_ex_iff filter_empty_conv code_str_def dget_dmerge split: if_splits)

lemma first_of_code_none: "filter is_availability_error es = [] \<Longrightarrow> first_of_code (es @ fs) s = first_of_code fs s"
  by (induction es) (simp_all split: if_splits)

text \<open>
  Claim C20. The event that hides a node after a failed verification is raised for a failed run
  that ended in one of the three hiding reasons and raised no availability error of its own. It is
  then the run's only error, it names the failed reason, it counts as the node's own fault, and the
  silencer never takes it away, outage or not.
\<close>

theorem hiding_event_survives_outage:
  assumes ev: "failed_check_event ok events = Some ev"
    and r: "jr_availability_errors r = Some (availability_errors pystr (events @ [ev]))"
  shows "\<not> ok \<and> ev_reason_code (last events) \<in> {''GPU_DETAILS_MISMATCH'', ''GPU_UUID_CHANGED'', ''NVLINK_FAULT''}
    \<and> (\<exists>err. errors_of r = [err] \<and> ae_reason_code err = ''VERIFICATION_FAILED''
         \<and> dget (ae_what_we_saw err) ''failed_reason'' = Some (PStr (ev_reason_code (last events)))
         \<and> is_the_nodes_own_fault err \<and> \<not> failed_to_reach r \<and> errors_of (silence_result r) = [err])"
proof -
  note f = failed_check_event_Some [OF ev]
  have "errors_of r = [error_entry pystr ev]"
    using f r by (simp add: errors_of_def availability_errors_entries first_of_code_none)
  moreover have "is_the_nodes_own_fault (error_entry pystr ev)"
    using f by (simp add: is_the_nodes_own_fault_def NODE_GPU_FAULT_CODES_def code_str_def)
  ultimately show ?thesis using f
    by (simp add: failed_to_reach_def REASONS_THAT_HIDE_AT_ONCE_def)
qed

theorem hiding_event_survives_outage_witness:
  "\<exists>ev err. failed_check_event False [sample_event ''NVLINK_FAULT'' []\<lparr>ev_category := ''gpu''\<rparr>] = Some ev
     \<and> errors_of (silence_result (sample_result ''a'' None
          \<lparr>jr_availability_errors := Some (availability_errors (\<lambda>_. []) ([sample_event ''NVLINK_FAULT'' []\<lparr>ev_category := ''gpu''\<rparr>] @ [ev]))\<rparr>)) = [err]"
proof -
  let ?e = "sample_event ''NVLINK_FAULT'' []\<lparr>ev_category := ''gpu''\<rparr>"
  have "failed_check_event False [?e] \<noteq> None" by code_simp
  then obtain ev where ev: "failed_check_event False [?e] = Some ev" by blast
  show ?thesis
    using hiding_event_survives_outage [OF ev, where pystr = "\<lambda>_. []" and
        r = "sample_result ''a'' None\<lparr>jr_availability_errors := Some (availability_errors (\<lambda>_. []) ([?e] @ [ev]))\<rparr>"] ev
    by auto
qed

end
