(* ===== verification/Weights.thy ===== *)
theory Weights
  imports Py_Value
begin

text \<open>
  Final weights of a cycle: the burn service (incentive/burn_service.py), the weights of the default
  algorithm with the guard for excluded hotkeys and the referral pool (incentive/default.py), the
  guarded burn emission and the hotkey lists of the settings (core/config.py). The referral feed's
  answer is an input; a set of hotkeys is iterated in the order of its list.
\<close>

section \<open>Settings\<close>

text \<open>A comma-separated hotkey list of the environment.\<close>

definition hotkey_list :: "string \<Rightarrow> string list" where
  "hotkey_list raw = remdups (filter (\<lambda>s. s \<noteq> []) (map py_strip (py_split (CHR '','') raw)))"

definition get_total_burn_emission :: "rat \<Rightarrow> rat \<Rightarrow> rat" where
  "get_total_burn_emission served packaged = (if 0 \<le> served \<and> served \<le> 1 then served else packaged)"

record neuron_info =
  ni_uid :: int
  ni_hotkey :: string
  ni_coldkey :: string

record burn_settings =
  bs_new_burners :: "int list"
  bs_burner_coldkeys :: "(int, string) dict"
  bs_scoring_excluded_hotkeys :: string
  bs_referral_emission_share :: xfloat

definition get_scoring_excluded_hotkeys :: "burn_settings \<Rightarrow> string list" where
  "get_scoring_excluded_hotkeys bs = hotkey_list (bs_scoring_excluded_hotkeys bs)"

section \<open>Burn service\<close>

definition burner_coldkey_matches :: "burn_settings \<Rightarrow> neuron_info \<Rightarrow> bool" where
  "burner_coldkey_matches bs miner = (case dget (bs_burner_coldkeys bs) (ni_uid miner) of
      None \<Rightarrow> True | Some expected \<Rightarrow> ni_coldkey miner = expected)"

text \<open>The first burner slot's hotkey; an empty slot list raises.\<close>

definition verified_burner_hotkey :: "burn_settings \<Rightarrow> neuron_info list \<Rightarrow> string option res" where
  "verified_burner_hotkey bs miners = (case bs_new_burners bs of
      [] \<Rightarrow> Inl (OtherError ''IndexError'' ''list index out of range'')
    | burner_uid # _ \<Rightarrow> Inr (case find (\<lambda>m. ni_uid m = burner_uid) miners of
          None \<Rightarrow> None
        | Some burner \<Rightarrow> if burner_coldkey_matches bs burner then Some (ni_hotkey burner) else None))"

definition slots_of :: "burn_settings \<Rightarrow> int \<Rightarrow> nat" where
  "slots_of bs uid = count_list (bs_new_burners bs) uid"

fun burn_scores_from :: "burn_settings \<Rightarrow> rat \<Rightarrow> neuron_info list \<Rightarrow> (string, rat) dict \<Rightarrow> (string, rat) dict" where
  "burn_scores_from bs per_slot [] scores = scores"
| "burn_scores_from bs per_slot (m # ms) scores =
     (if slots_of bs (ni_uid m) = 0 then burn_scores_from bs per_slot ms scores
      else if \<not> burner_coldkey_matches bs m then burn_scores_from bs per_slot ms scores
      else burn_scores_from bs per_slot ms
             (dset (ni_hotkey m) (fmul per_slot (fint (int (slots_of bs (ni_uid m))))) scores))"

definition calculate_burn_scores :: "burn_settings \<Rightarrow> neuron_info list \<Rightarrow> rat \<Rightarrow> (string, rat) dict res" where
  "calculate_burn_scores bs miners burn_share =
     (if bs_new_burners bs = [] then Inl ZeroDivisionError
      else Inr (burn_scores_from bs (fdiv burn_share (fint (int (length (bs_new_burners bs))))) miners []))"

definition is_burner :: "burn_settings \<Rightarrow> int \<Rightarrow> bool" where
  "is_burner bs uid \<longleftrightarrow> uid \<in> set (bs_new_burners bs)"

definition get_mining_share :: "rat \<Rightarrow> rat" where
  "get_mining_share total_burn_emission = fsub 1 total_burn_emission"

section \<open>Scores of the cycle\<close>

fun fill_miners :: "(string, rat) dict \<Rightarrow> neuron_info list \<Rightarrow> (string, rat) dict \<Rightarrow> (string, rat) dict" where
  "fill_miners incentives [] cycle_scores = cycle_scores"
| "fill_miners incentives (m # ms) cycle_scores =
     (if dget cycle_scores (ni_hotkey m) \<noteq> None then fill_miners incentives ms cycle_scores
      else fill_miners incentives ms (dset (ni_hotkey m) (dget_or 0 incentives (ni_hotkey m)) cycle_scores))"

fun free_excluded :: "(string, rat) dict \<Rightarrow> string list \<Rightarrow> rat \<Rightarrow> (string, rat) dict \<Rightarrow> rat \<times> (string, rat) dict" where
  "free_excluded burn_scores [] freed cycle_scores = (freed, cycle_scores)"
| "free_excluded burn_scores (h # hs) freed cycle_scores =
     (case dget cycle_scores h of
        None \<Rightarrow> free_excluded burn_scores hs freed cycle_scores
      | Some held \<Rightarrow>
          if dget burn_scores h \<noteq> None then free_excluded burn_scores hs freed cycle_scores
          else free_excluded burn_scores hs (fadd freed (max held 0)) (dset h 0 cycle_scores))"

fun give_to_burners :: "rat \<Rightarrow> rat \<Rightarrow> (string, rat) dict \<Rightarrow> (string, rat) dict \<Rightarrow> (string, rat) dict res" where
  "give_to_burners freed burn_total [] cycle_scores = Inr cycle_scores"
| "give_to_burners freed burn_total ((burner, score) # bs) cycle_scores =
     (case dget cycle_scores burner of
        None \<Rightarrow> Inl KeyError
      | Some held \<Rightarrow> give_to_burners freed burn_total bs
          (dset burner (fadd held (fdiv (fmul freed score) burn_total)) cycle_scores))"

definition burn_excluded_hotkey_scores :: "burn_settings \<Rightarrow> (string, rat) dict \<Rightarrow> (string, rat) dict \<Rightarrow> (string, rat) dict res" where
  "burn_excluded_hotkey_scores bs burn_scores cycle_scores =
     (let excluded = get_scoring_excluded_hotkeys bs in
      if excluded = [] then Inr cycle_scores
      else let (freed, scores) = free_excluded burn_scores excluded 0 cycle_scores in
        if freed \<le> 0 then Inr scores
        else let burn_total = fsum (map snd burn_scores) in
          if burn_total \<le> 0 then Inr scores else give_to_burners freed burn_total burn_scores scores)"

section \<open>Referral pool\<close>

text \<open>\<open>min(max(share, 0.0), 1.0)\<close>: Python's \<open>max\<close> keeps a NaN first argument.\<close>

definition clamp_share :: "xfloat \<Rightarrow> rat option" where
  "clamp_share share = (case share of NaN \<Rightarrow> None | PInf \<Rightarrow> Some 1 | NInf \<Rightarrow> Some 0 | Fin r \<Rightarrow> Some (min (max r 0) 1))"

definition eligible_referrers :: "burn_settings \<Rightarrow> neuron_info list \<Rightarrow> (string, rat) dict \<Rightarrow> (string, rat) dict \<Rightarrow> (string, rat) dict" where
  "eligible_referrers bs miners burn_scores ema =
     filter (\<lambda>(hk, e). hk \<in> ni_hotkey ` set miners \<and> dget burn_scores hk = None
       \<and> hk \<notin> set (get_scoring_excluded_hotkeys bs) \<and> 0 < e) ema"

fun take_from_burners :: "rat \<Rightarrow> rat \<Rightarrow> (string, rat) dict \<Rightarrow> (string, rat) dict \<Rightarrow> (string, rat) dict" where
  "take_from_burners pool burn_total [] cycle_scores = cycle_scores"
| "take_from_burners pool burn_total ((hk, burn_score) # bs) cycle_scores =
     take_from_burners pool burn_total bs
       (dset hk (fsub (dget_or 0 cycle_scores hk) (fmul pool (fdiv burn_score burn_total))) cycle_scores)"

fun pay_referrers :: "rat \<Rightarrow> rat \<Rightarrow> (string, rat) dict \<Rightarrow> (string, rat) dict \<Rightarrow> (string, rat) dict" where
  "pay_referrers pool total_ema [] cycle_scores = cycle_scores"
| "pay_referrers pool total_ema ((hk, e) # es) cycle_scores =
     pay_referrers pool total_ema es
       (dset hk (fadd (dget_or 0 cycle_scores hk) (fmul pool (fdiv e total_ema))) cycle_scores)"

text \<open>\<open>ema\<close> is the feed's answer; an empty one means no feed.\<close>

definition apply_referral_pool :: "burn_settings \<Rightarrow> neuron_info list \<Rightarrow> (string, rat) dict \<Rightarrow> (string, rat) dict
    \<Rightarrow> (string, rat) dict \<Rightarrow> (string, rat) dict" where
  "apply_referral_pool bs miners ema burn_scores cycle_scores =
     (case clamp_share (bs_referral_emission_share bs) of
        None \<Rightarrow> cycle_scores
      | Some share \<Rightarrow>
          if \<not> 0 < share then cycle_scores
          else if ema = [] then cycle_scores
          else let eligible = eligible_referrers bs miners burn_scores ema;
                   total_ema = fsum (map snd eligible) in
            if total_ema \<le> 0 then cycle_scores
            else let burn_total = fsum (map snd burn_scores) in
              if burn_total \<le> 0 then cycle_scores
              else let total_score = fsum (map snd cycle_scores);
                       referral_pool = min (fmul share total_score) burn_total in
                if referral_pool \<le> 0 then cycle_scores
                else pay_referrers referral_pool total_ema eligible
                       (take_from_burners referral_pool burn_total burn_scores cycle_scores))"

definition calculate_final_weights :: "burn_settings \<Rightarrow> (string, rat) dict \<Rightarrow> (string, rat) dict \<Rightarrow> neuron_info list
    \<Rightarrow> rat \<Rightarrow> (string, rat) dict res" where
  "calculate_final_weights bs ema miner_incentives miners burn_share =
     (case calculate_burn_scores bs miners burn_share of
        Inl e \<Rightarrow> Inl e
      | Inr burn_scores \<Rightarrow>
          (case burn_excluded_hotkey_scores bs burn_scores (fill_miners miner_incentives miners burn_scores) of
             Inl e \<Rightarrow> Inl e
           | Inr cycle_scores \<Rightarrow> Inr (apply_referral_pool bs miners ema burn_scores cycle_scores)))"

end
