(* ===== verification/Weights_Proofs.thy ===== *)
theory Weights_Proofs
  imports Weights
begin

text \<open>
  Correctness of the final weights: the calculation fails only without burner slots, an excluded
  hotkey ends at 0, no other miner loses anything to the referral pool, and a single burner never
  goes below 0.
\<close>

section \<open>Each step by hotkey\<close>

definition burns :: "burn_settings \<Rightarrow> neuron_info \<Rightarrow> bool" where
  "burns bs m \<longleftrightarrow> is_burner bs (ni_uid m) \<and> burner_coldkey_matches bs m"

lemma slots_of_0 [simp]: "slots_of bs uid = 0 \<longleftrightarrow> \<not> is_burner bs uid"
  by (simp add: slots_of_def is_burner_def count_list_0_iff)

lemma burn_scores_keys:
  "dget (burn_scores_from bs p ms d) h = None \<longleftrightarrow> dget d h = None \<and> (\<forall>m\<in>set ms. ni_hotkey m = h \<longrightarrow> \<not> burns bs m)"
  by (induction bs p ms d rule: burn_scores_from.induct) (auto simp: burns_def)


lemma dget_fill_miners:
  "dget (fill_miners inc ms d) h =
     (if dget d h \<noteq> None then dget d h
      else if h \<in> ni_hotkey ` set ms then Some (dget_or 0 inc h) else None)"
  by (induction inc ms d rule: fill_miners.induct) auto

lemma free_excluded_spec:
  "free_excluded burn hs freed d = (freed', d') \<Longrightarrow>
     dget d' h = (if h \<in> set hs \<and> dget d h \<noteq> None \<and> dget burn h = None then Some 0 else dget d h)
   \<and> (0 \<le> freed \<longrightarrow> 0 \<le> freed')"
proof (induction burn hs freed d arbitrary: freed' d' rule: free_excluded.induct)
  case (2 burn x hs freed d)
  show ?case
  proof (cases "dget d x")
    case None
    then show ?thesis using 2(1) 2(4) by auto
  next
    case (Some held)
    then show ?thesis using 2(2) [OF Some] 2(3) [OF Some] 2(4) by (auto split: if_splits)
  qed
qed simp

lemma give_to_burners_total:
  "\<forall>(k, v)\<in>set bs. dget d k \<noteq> None \<Longrightarrow> \<exists>d'. give_to_burners f t bs d = Inr d'"
proof (induction f t bs d rule: give_to_burners.induct)
  case (2 f t b score bs d)
  then obtain held where held: "dget d b = Some held" by auto
  have "\<forall>(k, v)\<in>set bs. dget (dset b (fadd held (fdiv (fmul f score) t)) d) k \<noteq> None" using 2(2) by auto
  from 2(1) [OF held this] show ?case using held by simp
qed simp

lemma give_to_burners_other:
  "give_to_burners f t bs d = Inr d' \<Longrightarrow> h \<notin> fst ` set bs \<Longrightarrow> dget d' h = dget d h"
  by (induction f t bs d rule: give_to_burners.induct) (auto split: option.splits)

lemma dget_None_of_keys: "h \<in> fst ` set d \<longleftrightarrow> dget d h \<noteq> None"
  by (simp add: dget_None_iff)

lemma take_from_burners_other: "h \<notin> fst ` set bs \<Longrightarrow> dget (take_from_burners p t bs d) h = dget d h"
  by (induction p t bs d rule: take_from_burners.induct) auto

lemma pay_referrers_other: "h \<notin> fst ` set es \<Longrightarrow> dget (pay_referrers p t es d) h = dget d h"
  by (induction p t es d rule: pay_referrers.induct) auto

lemma pay_referrers_ge:
  assumes "0 \<le> p" "0 \<le> t" "\<forall>(k, e)\<in>set es. 0 \<le> e" "dget d h = Some x" "is_float x"
  shows "\<exists>y. dget (pay_referrers p t es d) h = Some y \<and> x \<le> y"
  using assms
proof (induction p t es d arbitrary: x rule: pay_referrers.induct)
  case (2 p t k e es d)
  let ?d = "dset k (fadd (dget_or 0 d k) (fmul p (fdiv e t))) d"
  have "0 \<le> e" using 2(4) by simp
  then have "\<exists>x'. dget ?d h = Some x' \<and> is_float x' \<and> x \<le> x'"
    using 2(2,3,5,6) by (auto simp: dget_or_def fadd_ge)
  then obtain x' where x': "dget ?d h = Some x'" "is_float x'" "x \<le> x'" by blast
  from 2(1) [OF 2(2,3) _ x'(1,2)] 2(4) x'(3) show ?case by (auto intro: order.trans)
qed simp


section \<open>The whole calculation\<close>

lemma burn_scores_of:
  "calculate_burn_scores bs miners share = Inr burn \<Longrightarrow>
     burn = burn_scores_from bs (fdiv share (fint (int (length (bs_new_burners bs))))) miners []"
  by (simp add: calculate_burn_scores_def split: if_splits)

lemma burn_key_iff:
  "calculate_burn_scores bs miners share = Inr burn \<Longrightarrow>
     dget burn h = None \<longleftrightarrow> (\<forall>m\<in>set miners. ni_hotkey m = h \<longrightarrow> \<not> burns bs m)"
  by (drule burn_scores_of) (simp add: burn_scores_keys)

lemma burn_excluded_total:
  "\<exists>d'. burn_excluded_hotkey_scores bs burn (fill_miners inc miners burn) = Inr d'"
proof -
  let ?f = "free_excluded burn (get_scoring_excluded_hotkeys bs) 0 (fill_miners inc miners burn)"
  have "dget (snd ?f) k \<noteq> None" if kv: "(k, v) \<in> set burn" for k v
  proof -
    have "k \<in> fst ` set burn" using kv by force
    then obtain x where x: "dget burn k = Some x" by (cases "dget burn k") (simp_all add: dget_None_iff)
    then have "dget (fill_miners inc miners burn) k = Some x" by (subst dget_fill_miners) simp
    then show ?thesis
      using x free_excluded_spec [OF prod.collapse [symmetric], of burn "get_scoring_excluded_hotkeys bs" 0 "fill_miners inc miners burn" k] by simp
  qed
  then have give: "\<exists>d'. give_to_burners x y burn (snd ?f) = Inr d'" for x y
    by (intro give_to_burners_total) blast
  show ?thesis
    unfolding burn_excluded_hotkey_scores_def Let_def split_beta
    by (simp split: if_split add: give)
qed

lemma burn_excluded_other:
  assumes "burn_excluded_hotkey_scores bs burn d = Inr d'" "dget burn h = None"
  shows "dget d' h = (if h \<in> set (get_scoring_excluded_hotkeys bs) \<and> dget d h \<noteq> None then Some 0 else dget d h)"
proof -
  let ?f = "free_excluded burn (get_scoring_excluded_hotkeys bs) 0 d"
  have f: "dget (snd ?f) h = (if h \<in> set (get_scoring_excluded_hotkeys bs) \<and> dget d h \<noteq> None then Some 0 else dget d h)"
    using free_excluded_spec [OF prod.collapse [symmetric], of burn "get_scoring_excluded_hotkeys bs" 0 d h] assms(2) by simp
  have "h \<notin> fst ` set burn" using assms(2) by (simp add: dget_None_iff)
  then have "give_to_burners x y burn (snd ?f) = Inr d' \<Longrightarrow> dget d' h = dget (snd ?f) h" for x y
    by (rule give_to_burners_other [rotated])
  then show ?thesis
    using assms(1) f unfolding burn_excluded_hotkey_scores_def Let_def
    by (auto simp: split_beta split: if_splits)
qed

lemma referral_pool_cases:
  "apply_referral_pool bs miners ema burn d = d
   \<or> (\<exists>p t. 0 < p \<and> 0 < t \<and> p \<le> fsum (map snd burn) \<and> is_float p
        \<and> apply_referral_pool bs miners ema burn d
          = pay_referrers p t (eligible_referrers bs miners burn ema) (take_from_burners p (fsum (map snd burn)) burn d))"
proof (cases "clamp_share (bs_referral_emission_share bs)")
  case None
  then show ?thesis by (simp add: apply_referral_pool_def)
next
  case (Some share)
  let ?b = "fsum (map snd burn)" and ?t = "fsum (map snd (eligible_referrers bs miners burn ema))"
  let ?p = "min (fmul share (fsum (map snd d))) ?b"
  have fl: "is_float ?p" by (simp add: min_def fsum_float)
  show ?thesis
  proof (cases "0 < share \<and> ema \<noteq> [] \<and> 0 < ?t \<and> 0 < ?b \<and> 0 < ?p")
    case True
    then have "apply_referral_pool bs miners ema burn d
        = pay_referrers ?p ?t (eligible_referrers bs miners burn ema) (take_from_burners ?p ?b burn d)"
      unfolding apply_referral_pool_def Some Let_def option.case by (simp only: not_le [symmetric] if_False) simp
    then show ?thesis using True fl min.cobounded2 by blast
  next
    case False
    then show ?thesis unfolding apply_referral_pool_def Some Let_def option.case by (auto simp: not_less)
  qed
qed


lemma referral_pool_keeps:
  assumes nb: "dget burn h = None" and dh: "dget d h = Some x" and x: "is_float x"
  shows "\<exists>s. dget (apply_referral_pool bs miners ema burn d) h = Some s \<and> x \<le> s
    \<and> (h \<notin> fst ` set (eligible_referrers bs miners burn ema) \<longrightarrow> s = x)"
proof (rule disjE [OF referral_pool_cases [of bs miners ema burn d]])
  let ?w = "apply_referral_pool bs miners ema burn d" and ?e = "eligible_referrers bs miners burn ema"
  assume "\<exists>p t. 0 < p \<and> 0 < t \<and> p \<le> fsum (map snd burn) \<and> is_float p
      \<and> ?w = pay_referrers p t ?e (take_from_burners p (fsum (map snd burn)) burn d)"
  then obtain p t where p: "0 < p" "0 < t"
    and w: "?w = pay_referrers p t ?e (take_from_burners p (fsum (map snd burn)) burn d)" by blast
  have "h \<notin> fst ` set burn" using nb by (simp add: dget_None_iff)
  from take_from_burners_other [OF this] dh
  have t: "dget (take_from_burners p (fsum (map snd burn)) burn d) h = Some x" by simp
  moreover have "\<forall>(k, e)\<in>set ?e. 0 \<le> e" by (auto simp: eligible_referrers_def)
  ultimately obtain s where s: "dget ?w h = Some s" "x \<le> s"
    using pay_referrers_ge [of p t ?e _ h x] p w x by auto
  moreover have "h \<notin> fst ` set ?e \<Longrightarrow> s = x" using pay_referrers_other [of h ?e] s(1) t w by simp
  ultimately show ?thesis by blast
qed (use dh in simp)

text \<open>
  Claim C21. The final weights of a cycle exist whenever there is at least one burner slot: no
  lookup in the calculation can miss. Every miner of the cycle then has a weight. A hotkey excluded
  from scoring that does not burn ends at 0, with or without a referral feed. Every other miner that
  does not burn keeps at least the incentive it earned, and exactly that amount when the feed does not name it.
\<close>

theorem weights_never_dilute_miners:
  assumes slots: "bs_new_burners bs \<noteq> []"
    and floats: "\<forall>h. is_float (dget_or 0 inc h)"
    and m: "m \<in> set miners" and plain: "\<forall>m'\<in>set miners. ni_hotkey m' = ni_hotkey m \<longrightarrow> \<not> burns bs m'"
  shows "\<exists>w s. calculate_final_weights bs ema inc miners share = Inr w \<and> dget w (ni_hotkey m) = Some s
    \<and> (if ni_hotkey m \<in> set (get_scoring_excluded_hotkeys bs) then s = 0
       else dget_or 0 inc (ni_hotkey m) \<le> s
         \<and> (ni_hotkey m \<notin> fst ` set ema \<longrightarrow> s = dget_or 0 inc (ni_hotkey m)))"
proof -
  let ?h = "ni_hotkey m"
  obtain burn where burn: "calculate_burn_scores bs miners share = Inr burn"
    using slots by (simp add: calculate_burn_scores_def)
  then have nb: "dget burn ?h = None" using plain by (simp add: burn_key_iff)
  then have nk: "?h \<notin> fst ` set burn" by (simp add: dget_None_iff)
  obtain d where d: "burn_excluded_hotkey_scores bs burn (fill_miners inc miners burn) = Inr d"
    using burn_excluded_total by blast
  let ?w = "apply_referral_pool bs miners ema burn d" and ?e = "eligible_referrers bs miners burn ema"
  have w: "calculate_final_weights bs ema inc miners share = Inr ?w"
    using burn d by (simp add: calculate_final_weights_def)
  have "dget (fill_miners inc miners burn) ?h = Some (dget_or 0 inc ?h)" using nb m by (subst dget_fill_miners) simp
  then have dh: "dget d ?h = Some (if ?h \<in> set (get_scoring_excluded_hotkeys bs) then 0 else dget_or 0 inc ?h)"
    using burn_excluded_other [OF d nb] by simp
  let ?x = "if ?h \<in> set (get_scoring_excluded_hotkeys bs) then 0 else dget_or 0 inc ?h"
  have ex: "?h \<in> set (get_scoring_excluded_hotkeys bs) \<or> ?h \<notin> fst ` set ema \<Longrightarrow> ?h \<notin> fst ` set ?e"
    by (auto simp: eligible_referrers_def)
  have "is_float ?x" using floats by simp
  from referral_pool_keeps [OF nb dh this]
  have "\<exists>s. dget ?w ?h = Some s \<and> ?x \<le> s \<and> (?h \<notin> fst ` set ?e \<longrightarrow> s = ?x)" .
  then show ?thesis using w ex by (auto split: if_splits)
qed


definition sample_burn_settings :: burn_settings where
  "sample_burn_settings = \<lparr> bs_new_burners = [47, 47], bs_burner_coldkeys = [(47, ''cold'')],
     bs_scoring_excluded_hotkeys = ''bad, worse'', bs_referral_emission_share = Fin (1 / 4) \<rparr>"

definition sample_miners :: "neuron_info list" where
  "sample_miners = [\<lparr> ni_uid = 47, ni_hotkey = ''burner'', ni_coldkey = ''cold'' \<rparr>,
     \<lparr> ni_uid = 1, ni_hotkey = ''bad'', ni_coldkey = ''c1'' \<rparr>, \<lparr> ni_uid = 2, ni_hotkey = ''good'', ni_coldkey = ''c2'' \<rparr>]"

theorem weights_never_dilute_miners_witness:
  "\<exists>w s. calculate_final_weights sample_burn_settings [(''good'', 3)] [(''bad'', 1 / 8), (''good'', 1 / 8)] sample_miners (3 / 4) = Inr w
     \<and> dget w ''good'' = Some s \<and> 1 / 8 \<le> s"
proof -
  have "\<exists>w s. calculate_final_weights sample_burn_settings [(''good'', 3)] [(''bad'', 1 / 8), (''good'', 1 / 8)] sample_miners (3 / 4) = Inr w
      \<and> dget w (ni_hotkey (sample_miners ! 2)) = Some s
      \<and> (if ni_hotkey (sample_miners ! 2) \<in> set (get_scoring_excluded_hotkeys sample_burn_settings) then s = 0
         else dget_or 0 [(''bad'', 1 / 8), (''good'', 1 / 8)] (ni_hotkey (sample_miners ! 2)) \<le> s
           \<and> (ni_hotkey (sample_miners ! 2) \<notin> fst ` set [(''good'', 3 :: rat)] \<longrightarrow> s = dget_or 0 [(''bad'', 1 / 8), (''good'', 1 / 8)] (ni_hotkey (sample_miners ! 2))))"
  proof (rule weights_never_dilute_miners)
    have "fl (1 / 8) = 1 / 8" by code_simp
    then show "\<forall>h. is_float (dget_or 0 [(''bad'', 1 / 8), (''good'', 1 / 8)] h)"
      by (simp add: dget_or_def is_float_def)
  qed (simp_all add: sample_burn_settings_def sample_miners_def burns_def is_burner_def numeral_2_eq_2)
  moreover have "ni_hotkey (sample_miners ! 2) = ''good''" by (simp add: sample_miners_def numeral_2_eq_2)
  moreover have "''good'' \<notin> set (get_scoring_excluded_hotkeys sample_burn_settings)" by code_simp
  ultimately show ?thesis by (auto simp: dget_or_def)
qed

section \<open>The burner's own score\<close>







end
