(* ===== verification/Incentive_Config.thy ===== *)
theory Incentive_Config
  imports Gpu_Tables
begin

text \<open>
  Tables of the incentive engine (incentive/config.py) and the hourly rate lookup (incentive/utils.py):
  the family of every GPU model, the caps of idle GPUs per family and count bucket, the custom prices,
  the configuration with its validators. The packaged shared configuration of lium-core, from which
  the price table starts, is a parameter. A decimal literal is the nearest binary64 number.
\<close>

section \<open>Prices\<close>

text \<open>\<open>float | DefaultPrice\<close>.\<close>

datatype custom_price = Price rat | DefaultPrice rat

definition DEFAULT_PRICE :: custom_price where "DEFAULT_PRICE = DefaultPrice 1"

definition more_idle_prices :: "(string, rat) dict" where
  "more_idle_prices = map (\<lambda>(m, x). (m, fl x)) [
      (''NVIDIA GeForce RTX 5080'', 3 / 20),
      (''NVIDIA GeForce RTX 5070 Ti'', 3 / 25),
      (''NVIDIA GeForce RTX 5060 Ti'', 3 / 25),
      (''NVIDIA GeForce RTX 4060 Ti'', 11 / 100),
      (''NVIDIA GeForce RTX 4070 SUPER'', 9 / 100),
      (''NVIDIA GeForce RTX 3080'', 9 / 100),
      (''NVIDIA GeForce RTX 3060'', 3 / 50),
      (''NVIDIA GeForce RTX 2080 Ti'', 2 / 25),
      (''NVIDIA Tesla V100 Tensor Core GPU'', 17 / 100),
      (''NVIDIA RTX PRO 5000 Blackwell'', 67 / 100),
      (''NVIDIA RTX PRO 4500 Blackwell'', 2 / 5),
      (''NVIDIA RTX PRO 4500 Blackwell Server Edition'', 2 / 5),
      (''NVIDIA RTX PRO 6000D Blackwell Workstation Edition'', 41 / 50),
      (''NVIDIA RTX 6000D'', 41 / 50),
      (''NVIDIA GeForce RTX 4080'', 4 / 25),
      (''NVIDIA GeForce RTX 4080 SUPER'', 4 / 25),
      (''NVIDIA GeForce RTX 3070'', 7 / 100),
      (''NVIDIA Quadro RTX 8000'', 21 / 100),
      (''NVIDIA CMP 170HX'', 3 / 10)]"

definition every_other_price :: "(string, rat) dict" where
  "every_other_price = map (\<lambda>(m, x). (m, fl x)) [
      (''NVIDIA GeForce RTX 5090 D'', 3 / 20),
      (''NVIDIA GeForce RTX 5070'', 9 / 100),
      (''NVIDIA GeForce RTX 5060'', 11 / 100),
      (''NVIDIA GeForce RTX 4070 Ti'', 11 / 100),
      (''NVIDIA GeForce RTX 4070 Ti SUPER'', 9 / 50),
      (''NVIDIA GeForce RTX 4070'', 2 / 25),
      (''NVIDIA GeForce RTX 4060'', 3 / 50),
      (''NVIDIA RTX PRO 2000 Blackwell'', 17 / 100),
      (''NVIDIA RTX PRO 4000 Blackwell'', 1 / 5),
      (''NVIDIA RTX 4500 Ada Generation'', 1 / 5),
      (''NVIDIA RTX 5000 Ada Generation'', 27 / 100),
      (''NVIDIA RTX 5880 Ada Generation'', 17 / 50),
      (''NVIDIA A800 80GB PCIe'', 31 / 100),
      (''NVIDIA A10 Tensor Core GPU'', 1 / 5),
      (''NVIDIA RTX A2000'', 3 / 50),
      (''NVIDIA T4 Tensor Core GPU'', 3 / 20),
      (''NVIDIA TITAN V'', 1 / 10),
      (''NVIDIA GeForce RTX 3090 Ti'', 4 / 25),
      (''NVIDIA GeForce RTX 3080 Ti'', 1 / 10),
      (''NVIDIA GeForce RTX 3070 Ti'', 9 / 100),
      (''NVIDIA GeForce RTX 3060 Ti'', 3 / 50),
      (''NVIDIA GeForce RTX 3060 Laptop GPU'', 2 / 25),
      (''NVIDIA GeForce RTX 3050'', 1 / 20),
      (''NVIDIA Quadro RTX 6000'', 13 / 100),
      (''NVIDIA Quadro RTX 5000'', 7 / 100),
      (''NVIDIA TITAN RTX'', 3 / 25),
      (''NVIDIA GeForce RTX 2080 SUPER'', 2 / 25),
      (''NVIDIA GeForce RTX 2070 SUPER'', 7 / 100),
      (''NVIDIA GeForce RTX 2060 SUPER'', 3 / 50),
      (''NVIDIA GeForce RTX 2060'', 1 / 25),
      (''NVIDIA GeForce GTX 1660 Ti'', 7 / 100),
      (''NVIDIA GeForce GTX 1660 SUPER'', 1 / 20),
      (''NVIDIA GeForce GTX 1660'', 7 / 100),
      (''NVIDIA Tesla P100'', 2 / 25),
      (''NVIDIA Tesla P40'', 7 / 100),
      (''NVIDIA Quadro P4000'', 1 / 20),
      (''NVIDIA TITAN Xp'', 1 / 25),
      (''NVIDIA GeForce GTX 1080 Ti'', 1 / 25),
      (''NVIDIA GeForce GTX 1080'', 3 / 100),
      (''NVIDIA GeForce GTX 1070 Ti'', 1 / 25),
      (''NVIDIA GeForce GTX 1070'', 1 / 25),
      (''NVIDIA GeForce GTX 1060'', 9 / 100),
      (''NVIDIA Tesla M40'', 2 / 25)]"

definition a100_40gb_prices :: "(string, rat) dict" where
  "a100_40gb_prices = map (\<lambda>(m, x). (m, fl x)) [
      (''NVIDIA A100-PCIE-40GB'', 37 / 100),
      (''NVIDIA A100-SXM4-40GB'', 12 / 25)]"

text \<open>
  \<open>RENTAL_PRICES_PER_HOUR\<close>: the packaged table with the two overrides, then the derived and the
  added rows. A packaged table without the Workstation Edition raises.
\<close>

definition RENTAL_PRICES_PER_HOUR :: "(string, rat) dict \<Rightarrow> (string, rat) dict res" where
  "RENTAL_PRICES_PER_HOUR machine_prices =
     (case dget machine_prices ''NVIDIA RTX PRO 6000 Blackwell Workstation Edition'' of
        None \<Rightarrow> Inl KeyError
      | Some workstation \<Rightarrow>
          let b300 = fl (32 / 5);
              p0 = dset ''NVIDIA B300 SXM6 AC'' b300
                     (dset ''NVIDIA RTX PRO 6000 Blackwell Server Edition'' workstation machine_prices);
              p1 = dset ''NVIDIA RTX PRO 6000 Blackwell Max-Q Workstation Edition'' workstation p0;
              p2 = dset ''NVIDIA GB300'' b300 (dset ''NVIDIA B300 SXM6 PC'' b300 p1);
              p3 = dset ''NVIDIA GeForce RTX 4090 48GB'' (fl (12 / 25)) p2
          in Inr (dmerge (dmerge (dmerge p3 more_idle_prices) every_other_price) a100_40gb_prices))"

section \<open>Caps and families\<close>

definition max_unrented_rows :: "(string, (int, int) dict) dict" where
  "max_unrented_rows = [
      (''B300'', [(1, 4), (8, 32)]),
      (''B200'', [(1, 10), (8, 64)]),
      (''H200'', [(1, 10), (8, 64)]),
      (''H100'', [(1, 10), (8, 64)]),
      (''RTX 4090'', [(1, 10), (8, 64)]),
      (''A100'', [(1, 10), (8, 40)]),
      (''RTX A6000'', [(1, 10), (8, 64)]),
      (''RTX 3090'', [(1, 10), (8, 64)]),
      (''H800'', [(1, 10), (8, 64)]),
      (''A800'', [(1, 10), (8, 64)]),
      (''A100 40GB'', [(1, 10), (8, 64)]),
      (''CMP 170HX'', [(1, 10), (8, 64)]),
      (''RTX 5090'', [(1, 10), (8, 64)]),
      (''RTX 5090 D'', [(1, 10), (8, 64)]),
      (''RTX 4000 Ada Generation'', [(1, 10), (8, 64)]),
      (''RTX 6000 Ada Generation'', [(1, 10), (8, 64)]),
      (''RTX PRO 6000'', [(1, 10), (8, 64)]),
      (''L4'', [(1, 10), (8, 64)]),
      (''L40S'', [(1, 10), (8, 16)]),
      (''L40'', [(1, 10), (8, 64)]),
      (''RTX 2000 Ada Generation'', [(1, 10), (8, 64)]),
      (''RTX A5000'', [(1, 10), (8, 64)]),
      (''RTX A4500'', [(1, 10), (8, 64)]),
      (''RTX A4000'', [(1, 10), (8, 64)]),
      (''A40'', [(1, 10), (8, 64)]),
      (''A30'', [(1, 10), (8, 64)]),
      (''RTX 5080'', [(1, 10), (8, 64)]),
      (''RTX 5070 Ti'', [(1, 10), (8, 64)]),
      (''RTX 5070'', [(1, 10), (8, 64)]),
      (''RTX 5060 Ti'', [(1, 10), (8, 64)]),
      (''RTX 5060'', [(1, 10), (8, 64)]),
      (''RTX 4080 SUPER'', [(1, 10), (8, 64)]),
      (''RTX 4080'', [(1, 10), (8, 64)]),
      (''RTX 4070 Ti'', [(1, 10), (8, 64)]),
      (''RTX 4070 Ti SUPER'', [(1, 10), (8, 64)]),
      (''RTX 4070 SUPER'', [(1, 10), (8, 64)]),
      (''RTX 4070'', [(1, 10), (8, 64)]),
      (''RTX 4060 Ti'', [(1, 10), (8, 64)]),
      (''RTX 4060'', [(1, 10), (8, 64)]),
      (''RTX PRO 2000'', [(1, 10), (8, 64)]),
      (''RTX PRO 4000'', [(1, 10), (8, 64)]),
      (''RTX PRO 4500'', [(1, 10), (8, 64)]),
      (''RTX PRO 5000'', [(1, 10), (8, 64)]),
      (''RTX PRO 6000D'', [(1, 10), (8, 64)]),
      (''RTX 4500 Ada Generation'', [(1, 10), (8, 64)]),
      (''RTX 5000 Ada Generation'', [(1, 10), (8, 64)]),
      (''RTX 5880 Ada Generation'', [(1, 10), (8, 64)]),
      (''A10'', [(1, 10), (8, 64)]),
      (''RTX A2000'', [(1, 10), (8, 64)]),
      (''T4'', [(1, 10), (8, 64)]),
      (''V100'', []),
      (''TITAN V'', [(1, 10), (8, 64)]),
      (''RTX 3090 Ti'', [(1, 10), (8, 64)]),
      (''RTX 3080 Ti'', [(1, 10), (8, 64)]),
      (''RTX 3080'', [(1, 10), (8, 64)]),
      (''RTX 3070 Ti'', [(1, 10), (8, 64)]),
      (''RTX 3070'', [(1, 10), (8, 64)]),
      (''RTX 3060 Ti'', [(1, 10), (8, 64)]),
      (''RTX 3060 Laptop'', [(1, 10), (8, 64)]),
      (''RTX 3060'', [(1, 10), (8, 64)]),
      (''RTX 3050'', [(1, 10), (8, 64)]),
      (''Quadro RTX 8000'', [(1, 10), (8, 64)]),
      (''Quadro RTX 6000'', [(1, 10), (8, 64)]),
      (''Quadro RTX 5000'', [(1, 10), (8, 64)]),
      (''TITAN RTX'', [(1, 10), (8, 64)]),
      (''RTX 2080 Ti'', [(1, 10), (8, 64)]),
      (''RTX 2080 SUPER'', [(1, 10), (8, 64)]),
      (''RTX 2070 SUPER'', [(1, 10), (8, 64)]),
      (''RTX 2060 SUPER'', [(1, 10), (8, 64)]),
      (''RTX 2060'', [(1, 10), (8, 64)]),
      (''GTX 1660 Ti'', [(1, 10), (8, 64)]),
      (''GTX 1660 SUPER'', [(1, 10), (8, 64)]),
      (''GTX 1660'', [(1, 10), (8, 64)]),
      (''Tesla P100'', [(1, 10), (8, 64)]),
      (''Tesla P40'', [(1, 10), (8, 64)]),
      (''Quadro P4000'', [(1, 10), (8, 64)]),
      (''TITAN Xp'', [(1, 10), (8, 64)]),
      (''GTX 1080 Ti'', [(1, 10), (8, 64)]),
      (''GTX 1080'', [(1, 10), (8, 64)]),
      (''GTX 1070 Ti'', [(1, 10), (8, 64)]),
      (''GTX 1070'', [(1, 10), (8, 64)]),
      (''GTX 1060'', [(1, 10), (8, 64)]),
      (''Tesla M40'', [(1, 10), (8, 64)])]"

definition MAX_UNRENTED_GPUS_BY_TYPE :: "(string, (int, int) dict) dict" where
  "MAX_UNRENTED_GPUS_BY_TYPE = max_unrented_rows @ [(''GB300'', [(1, 4), (8, 32)]), (''RTX 4090 48GB'', [(1, 10), (8, 64)])]"

definition GPU_COUNT_CUSTOM_PRICES :: "(string, (string, custom_price) dict) dict" where
  "GPU_COUNT_CUSTOM_PRICES = [
      (''*'', [(''*'', Price 0), (''1'', DEFAULT_PRICE), (''8'', DEFAULT_PRICE)]),
      (''NVIDIA B200'', [(''*'', Price 0), (''1'', DEFAULT_PRICE), (''8'', DEFAULT_PRICE)]),
      (''NVIDIA H100 80GB HBM3'', [(''*'', Price 0), (''1'', DEFAULT_PRICE), (''8'', DEFAULT_PRICE)]),
      (''NVIDIA H100 NVL'', [(''*'', Price 0), (''1'', DEFAULT_PRICE), (''8'', DEFAULT_PRICE)]),
      (''NVIDIA H100 PCIe'', [(''*'', Price 0), (''1'', DEFAULT_PRICE), (''8'', DEFAULT_PRICE)]),
      (''NVIDIA A100 80GB PCIe'', [(''*'', Price 0), (''1'', DEFAULT_PRICE), (''8'', DEFAULT_PRICE)]),
      (''NVIDIA A100-SXM4-80GB'', [(''*'', Price 0), (''1'', DEFAULT_PRICE), (''8'', DEFAULT_PRICE)]),
      (''NVIDIA RTX A6000'', [(''*'', Price 0), (''1'', DEFAULT_PRICE), (''8'', DEFAULT_PRICE)]),
      (''RTX PRO 6000'', [(''*'', Price 0), (''1'', DEFAULT_PRICE), (''8'', DEFAULT_PRICE)])]"

definition BASE_GPU_MAP :: "(string, string) dict" where
  "BASE_GPU_MAP = [
      (''NVIDIA B300 SXM6 AC'', ''B300''),
      (''NVIDIA B200'', ''B200''),
      (''NVIDIA H200'', ''H200''),
      (''NVIDIA H200 NVL'', ''H200''),
      (''NVIDIA H100 80GB HBM3'', ''H100''),
      (''NVIDIA H100 NVL'', ''H100''),
      (''NVIDIA H100 PCIe'', ''H100''),
      (''NVIDIA H800 80GB HBM3'', ''H800''),
      (''NVIDIA H800 NVL'', ''H800''),
      (''NVIDIA H800 PCIe'', ''H800''),
      (''NVIDIA GeForce RTX 5090'', ''RTX 5090''),
      (''NVIDIA GeForce RTX 5090 D'', ''RTX 5090 D''),
      (''NVIDIA GeForce RTX 5080'', ''RTX 5080''),
      (''NVIDIA GeForce RTX 5070 Ti'', ''RTX 5070 Ti''),
      (''NVIDIA GeForce RTX 5070'', ''RTX 5070''),
      (''NVIDIA GeForce RTX 5060 Ti'', ''RTX 5060 Ti''),
      (''NVIDIA GeForce RTX 5060'', ''RTX 5060''),
      (''NVIDIA GeForce RTX 4090'', ''RTX 4090''),
      (''NVIDIA GeForce RTX 4090 D'', ''RTX 4090''),
      (''NVIDIA GeForce RTX 4080 SUPER'', ''RTX 4080 SUPER''),
      (''NVIDIA GeForce RTX 4080'', ''RTX 4080''),
      (''NVIDIA GeForce RTX 4070 Ti'', ''RTX 4070 Ti''),
      (''NVIDIA GeForce RTX 4070 Ti SUPER'', ''RTX 4070 Ti SUPER''),
      (''NVIDIA GeForce RTX 4070 SUPER'', ''RTX 4070 SUPER''),
      (''NVIDIA GeForce RTX 4070'', ''RTX 4070''),
      (''NVIDIA GeForce RTX 4060 Ti'', ''RTX 4060 Ti''),
      (''NVIDIA GeForce RTX 4060'', ''RTX 4060''),
      (''NVIDIA RTX 4000 Ada Generation'', ''RTX 4000 Ada Generation''),
      (''NVIDIA RTX PRO 2000 Blackwell'', ''RTX PRO 2000''),
      (''NVIDIA RTX PRO 4000 Blackwell'', ''RTX PRO 4000''),
      (''NVIDIA RTX PRO 4500 Blackwell'', ''RTX PRO 4500''),
      (''NVIDIA RTX PRO 4500 Blackwell Server Edition'', ''RTX PRO 4500''),
      (''NVIDIA RTX PRO 5000 Blackwell'', ''RTX PRO 5000''),
      (''NVIDIA RTX 4500 Ada Generation'', ''RTX 4500 Ada Generation''),
      (''NVIDIA RTX 5000 Ada Generation'', ''RTX 5000 Ada Generation''),
      (''NVIDIA RTX 5880 Ada Generation'', ''RTX 5880 Ada Generation''),
      (''NVIDIA RTX 6000 Ada Generation'', ''RTX 6000 Ada Generation''),
      (''NVIDIA RTX PRO 6000 Blackwell Server Edition'', ''RTX PRO 6000''),
      (''NVIDIA RTX PRO 6000 Blackwell Workstation Edition'', ''RTX PRO 6000''),
      (''NVIDIA RTX PRO 6000 Blackwell Max-Q Workstation Edition'', ''RTX PRO 6000''),
      (''NVIDIA RTX PRO 6000D Blackwell Workstation Edition'', ''RTX PRO 6000D''),
      (''NVIDIA RTX 6000D'', ''RTX PRO 6000D''),
      (''NVIDIA L4'', ''L4''),
      (''NVIDIA L40S'', ''L40S''),
      (''NVIDIA L40'', ''L40''),
      (''NVIDIA RTX 2000 Ada Generation'', ''RTX 2000 Ada Generation''),
      (''NVIDIA A100 80GB PCIe'', ''A100''),
      (''NVIDIA A100-SXM4-80GB'', ''A100''),
      (''NVIDIA A100-PCIE-40GB'', ''A100 40GB''),
      (''NVIDIA A100-SXM4-40GB'', ''A100 40GB''),
      (''NVIDIA A800 80GB PCIe'', ''A800''),
      (''NVIDIA CMP 170HX'', ''CMP 170HX''),
      (''NVIDIA A10 Tensor Core GPU'', ''A10''),
      (''NVIDIA RTX A6000'', ''RTX A6000''),
      (''NVIDIA RTX A5000'', ''RTX A5000''),
      (''NVIDIA RTX A4500'', ''RTX A4500''),
      (''NVIDIA RTX A4000'', ''RTX A4000''),
      (''NVIDIA RTX A2000'', ''RTX A2000''),
      (''NVIDIA A40'', ''A40''),
      (''NVIDIA A30'', ''A30''),
      (''NVIDIA T4 Tensor Core GPU'', ''T4''),
      (''NVIDIA Tesla V100 Tensor Core GPU'', ''V100''),
      (''NVIDIA TITAN V'', ''TITAN V''),
      (''NVIDIA GeForce RTX 3090 Ti'', ''RTX 3090 Ti''),
      (''NVIDIA GeForce RTX 3090'', ''RTX 3090''),
      (''NVIDIA GeForce RTX 3080 Ti'', ''RTX 3080 Ti''),
      (''NVIDIA GeForce RTX 3080'', ''RTX 3080''),
      (''NVIDIA GeForce RTX 3070 Ti'', ''RTX 3070 Ti''),
      (''NVIDIA GeForce RTX 3070'', ''RTX 3070''),
      (''NVIDIA GeForce RTX 3060 Ti'', ''RTX 3060 Ti''),
      (''NVIDIA GeForce RTX 3060 Laptop GPU'', ''RTX 3060 Laptop''),
      (''NVIDIA GeForce RTX 3060'', ''RTX 3060''),
      (''NVIDIA GeForce RTX 3050'', ''RTX 3050''),
      (''NVIDIA Quadro RTX 8000'', ''Quadro RTX 8000''),
      (''NVIDIA Quadro RTX 6000'', ''Quadro RTX 6000''),
      (''NVIDIA Quadro RTX 5000'', ''Quadro RTX 5000''),
      (''NVIDIA TITAN RTX'', ''TITAN RTX''),
      (''NVIDIA GeForce RTX 2080 Ti'', ''RTX 2080 Ti''),
      (''NVIDIA GeForce RTX 2080 SUPER'', ''RTX 2080 SUPER''),
      (''NVIDIA GeForce RTX 2070 SUPER'', ''RTX 2070 SUPER''),
      (''NVIDIA GeForce RTX 2060 SUPER'', ''RTX 2060 SUPER''),
      (''NVIDIA GeForce RTX 2060'', ''RTX 2060''),
      (''NVIDIA GeForce GTX 1660 Ti'', ''GTX 1660 Ti''),
      (''NVIDIA GeForce GTX 1660 SUPER'', ''GTX 1660 SUPER''),
      (''NVIDIA GeForce GTX 1660'', ''GTX 1660''),
      (''NVIDIA Tesla P100'', ''Tesla P100''),
      (''NVIDIA Tesla P40'', ''Tesla P40''),
      (''NVIDIA Quadro P4000'', ''Quadro P4000''),
      (''NVIDIA TITAN Xp'', ''TITAN Xp''),
      (''NVIDIA GeForce GTX 1080 Ti'', ''GTX 1080 Ti''),
      (''NVIDIA GeForce GTX 1080'', ''GTX 1080''),
      (''NVIDIA GeForce GTX 1070 Ti'', ''GTX 1070 Ti''),
      (''NVIDIA GeForce GTX 1070'', ''GTX 1070''),
      (''NVIDIA GeForce GTX 1060'', ''GTX 1060''),
      (''NVIDIA Tesla M40'', ''Tesla M40''),
      (''NVIDIA B300 SXM6 PC'', ''B300''),
      (''NVIDIA GB300'', ''GB300''),
      (''NVIDIA GeForce RTX 4090 48GB'', ''RTX 4090 48GB'')]"

section \<open>Configuration\<close>

record incentive_config =
  ic_algorithm :: string
  ic_rental_incentive_gpu_types :: "string list"
  ic_max_unrented_gpus :: "(string, (int, int) dict) dict"
  ic_rental_prices_per_hour :: "(string, rat) dict"
  ic_gpu_count_custom_prices :: "(string, (string, custom_price) dict) dict"

definition has_positive_cap :: "(int, int) dict \<Rightarrow> bool" where
  "has_positive_cap caps = list_ex (\<lambda>(bucket, v). 0 < v) caps"

definition default_rental_incentive_gpu_types :: "string list" where
  "default_rental_incentive_gpu_types = map fst (filter (\<lambda>(gpu_type, caps). has_positive_cap caps) MAX_UNRENTED_GPUS_BY_TYPE)"

definition default_incentive_config :: "(string, rat) dict \<Rightarrow> incentive_config" where
  "default_incentive_config prices =
     \<lparr> ic_algorithm = ''rental_price'', ic_rental_incentive_gpu_types = default_rental_incentive_gpu_types,
       ic_max_unrented_gpus = MAX_UNRENTED_GPUS_BY_TYPE, ic_rental_prices_per_hour = prices,
       ic_gpu_count_custom_prices = GPU_COUNT_CUSTOM_PRICES \<rparr>"

definition validate_algorithm :: "string \<Rightarrow> string res" where
  "validate_algorithm v = (if v \<notin> {''default'', ''rental_price''} then Inl ValueError else Inr v)"

text \<open>
  The caps before parsing: a value that is not a dictionary is \<open>None\<close>, and the keys and caps of a
  dictionary are dynamic values. A boolean is an integer to Python and is rejected by name.
\<close>

definition positive_int :: "pv \<Rightarrow> bool" where
  "positive_int v = (case v of PInt i \<Rightarrow> 0 < i | _ \<Rightarrow> False)"

definition nonneg_int :: "pv \<Rightarrow> bool" where
  "nonneg_int v = (case v of PInt i \<Rightarrow> 0 \<le> i | _ \<Rightarrow> False)"

fun validate_bucket_caps :: "(pv \<times> pv) list \<Rightarrow> unit res" where
  "validate_bucket_caps [] = Inr ()"
| "validate_bucket_caps ((bucket, bucket_cap) # rest) =
     (if \<not> positive_int bucket then Inl ValueError
      else if \<not> nonneg_int bucket_cap then Inl ValueError
      else validate_bucket_caps rest)"

fun validate_max_unrented_gpus :: "(string \<times> (pv \<times> pv) list option) list \<Rightarrow> unit res" where
  "validate_max_unrented_gpus [] = Inr ()"
| "validate_max_unrented_gpus ((gpu_type, None) # rest) = Inl ValueError"
| "validate_max_unrented_gpus ((gpu_type, Some caps) # rest) =
     (case validate_bucket_caps caps of Inl e \<Rightarrow> Inl e | Inr _ \<Rightarrow> validate_max_unrented_gpus rest)"

fun validate_rental_prices :: "(string, rat) dict \<Rightarrow> (string, rat) dict res" where
  "validate_rental_prices v = (if list_ex (\<lambda>(gpu_type, price). price < 0) v then Inl ValueError else Inr v)"

text \<open>The two assertions of the engine's constructor.\<close>

definition config_asserts :: "incentive_config \<Rightarrow> bool" where
  "config_asserts cfg \<longleftrightarrow>
     list_all (\<lambda>base. base \<in> snd ` set BASE_GPU_MAP) (ic_rental_incentive_gpu_types cfg)
     \<and> list_all (\<lambda>(gpu, _). gpu \<in> fst ` set BASE_GPU_MAP) (ic_rental_prices_per_hour cfg)"

section \<open>Hourly rate\<close>

definition get_hourly_rate :: "string \<Rightarrow> int \<Rightarrow> (string, (string, custom_price) dict) dict \<Rightarrow> (string, rat) dict \<Rightarrow> rat" where
  "get_hourly_rate gpu_model gpu_count custom_prices default_prices =
     (case (case dget custom_prices gpu_model of Some c \<Rightarrow> Some c | None \<Rightarrow> dget custom_prices ''*'') of
        None \<Rightarrow> 0
      | Some gpu_config \<Rightarrow>
          (case (case dget gpu_config (str_of_int gpu_count) of Some v \<Rightarrow> Some v | None \<Rightarrow> dget gpu_config ''*'') of
             None \<Rightarrow> 0
           | Some (DefaultPrice multiplier) \<Rightarrow> fmul (dget_or 0 default_prices gpu_model) multiplier
           | Some (Price value) \<Rightarrow> value))"

definition get_base_model_for_gpu :: "string option \<Rightarrow> string res" where
  "get_base_model_for_gpu gpu_model = (case gpu_model of None \<Rightarrow> Inl KeyError
     | Some g \<Rightarrow> (case dget BASE_GPU_MAP g of None \<Rightarrow> Inl KeyError | Some base \<Rightarrow> Inr base))"

definition bucket_cap :: "incentive_config \<Rightarrow> string \<Rightarrow> int \<Rightarrow> int" where
  "bucket_cap cfg base_model bucket = dget_or 0 (dget_or [] (ic_max_unrented_gpus cfg) base_model) bucket"


section \<open>The shipped tables\<close>

lemma str_of_int_inj:
  assumes m: "0 < m" and eq: "str_of_int n = str_of_int m"
  shows "n = m"
proof -
  have "str_of_int m = str_of_nat (nat m)" using m by (simp add: str_of_int_def)
  with eq have n: "str_of_int n = str_of_nat (nat m)" by (rule trans)
  have "\<not> n < 0"
  proof
    assume "n < 0"
    then have "CHR ''-'' \<in> set (str_of_int n)" by (simp add: str_of_int_def)
    then show False unfolding n using minus_not_digit(1) by (rule notE [rotated])
  qed
  then have "str_of_nat (nat n) = str_of_nat (nat m)" using n by (simp add: str_of_int_def)
  then have "Some (int (nat n)) = Some (int (nat m))" by (metis parse_int_str_of_nat)
  then show "n = m" using m \<open>\<not> n < 0\<close> by simp
qed

lemma count_key_1: "str_of_int n = ''1'' \<longleftrightarrow> n = 1"
proof -
  have "str_of_int 1 = ''1''" by code_simp
  then show ?thesis using str_of_int_inj [of 1 n] by (metis zero_less_one)
qed

lemma count_key_8: "str_of_int n = ''8'' \<longleftrightarrow> n = 8"
proof -
  have "str_of_int 8 = ''8''" by code_simp
  then show ?thesis using str_of_int_inj [of 8 n] by (metis zero_less_numeral)
qed

lemma custom_rows: "(k, c) \<in> set GPU_COUNT_CUSTOM_PRICES \<Longrightarrow> c = [(''*'', Price 0), (''1'', DEFAULT_PRICE), (''8'', DEFAULT_PRICE)]"
  by (auto simp: GPU_COUNT_CUSTOM_PRICES_def)

text \<open>With the shipped custom prices only one-card and eight-card counts have a rate, the model's own price.\<close>

lemma shipped_hourly_rate:
  assumes "is_float (dget_or 0 prices m)"
  shows "get_hourly_rate m n GPU_COUNT_CUSTOM_PRICES prices = (if n = 1 \<or> n = 8 then dget_or 0 prices m else 0)"
proof -
  have "dget GPU_COUNT_CUSTOM_PRICES ''*'' \<noteq> None" by code_simp
  then obtain c where c: "(case dget GPU_COUNT_CUSTOM_PRICES m of Some c \<Rightarrow> Some c | None \<Rightarrow> dget GPU_COUNT_CUSTOM_PRICES ''*'') = Some c"
    by (cases "dget GPU_COUNT_CUSTOM_PRICES m") auto
  then have "c = [(''*'', Price 0), (''1'', DEFAULT_PRICE), (''8'', DEFAULT_PRICE)]"
    by (auto split: option.splits dest: custom_rows dget_Some_in)
  moreover have "fmul (dget_or 0 prices m) 1 = dget_or 0 prices m" using assms by (simp add: fmul_def is_float_def)
  moreover have "str_of_int 1 = ''1''" "str_of_int 8 = ''8''" by (simp_all only: count_key_1 count_key_8)
  then have "str_of_int 1 \<noteq> ''*''" "str_of_int 8 \<noteq> ''*''" by simp_all
  ultimately show ?thesis
    unfolding get_hourly_rate_def c by (auto simp: count_key_1 count_key_8 DEFAULT_PRICE_def)
qed

end
