(* ===== verification/Incentive_Config_Proofs.thy ===== *)
theory Incentive_Config_Proofs
  imports Incentive_Config
begin

text \<open>
  The shipped configuration is accepted: the validators pass, the constructor's assertions hold, and
  the hourly rate of every model is the table price for one and eight cards and 0 otherwise.
\<close>

section \<open>Membership in a long table\<close>

text \<open>
  Every key of \<open>xs\<close> occurs in \<open>full\<close>: the keys are looked for along the table, and the search
  starts over at most \<open>r\<close> times, so keys listed in the order of the table cost one pass.
\<close>

function covered :: "'a list \<Rightarrow> 'a list \<Rightarrow> 'a list \<Rightarrow> nat \<Rightarrow> bool" where
  "covered full [] ys r = True"
| "covered full (x # xs) [] 0 = False"
| "covered full (x # xs) [] (Suc r) = covered full (x # xs) full r"
| "covered full (x # xs) (y # ys) r = (if x = y then covered full xs ys r else covered full (x # xs) ys r)"
  by pat_completeness auto
termination
  by (relation "measures [\<lambda>(f, xs, ys, r). r, \<lambda>(f, xs, ys, r). length ys]") auto

lemma covered_subset: "covered full xs ys r \<Longrightarrow> set ys \<subseteq> set full \<Longrightarrow> set xs \<subseteq> set full"
  by (induction full xs ys r rule: covered.induct) (auto split: if_splits)

lemma covered_keys: "covered full xs full r \<Longrightarrow> x \<in> set xs \<Longrightarrow> x \<in> set full"
  using covered_subset by blast

lemma keys_dmerge: "fst ` set (dmerge d e) = fst ` set d \<union> fst ` set e"
  by (induction d e rule: dmerge.induct) (auto simp: keys_dset)

lemma set_dmerge_subset: "set (dmerge d e) \<subseteq> set d \<union> set e"
proof (induction d e rule: dmerge.induct)
  case (2 d k v e)
  then show ?case using set_dset_subset [of k v d] by auto
qed simp

section \<open>The shipped tables\<close>

abbreviation gpu_models :: "string list" where
  "gpu_models \<equiv> map fst BASE_GPU_MAP"

lemma priced_models:
  "covered gpu_models (map fst every_other_price) gpu_models 0"
  "covered gpu_models (map fst more_idle_prices) gpu_models 7"
  "covered gpu_models (map fst a100_40gb_prices) gpu_models 0"
  "covered gpu_models [''NVIDIA B300 SXM6 AC'', ''NVIDIA RTX PRO 6000 Blackwell Server Edition'',
     ''NVIDIA RTX PRO 6000 Blackwell Max-Q Workstation Edition'', ''NVIDIA B300 SXM6 PC'', ''NVIDIA GB300'',
     ''NVIDIA GeForce RTX 4090 48GB''] gpu_models 0"
  by code_simp+

lemma program_families: "covered (map snd BASE_GPU_MAP) default_rental_incentive_gpu_types (map snd BASE_GPU_MAP) 5"
  by code_simp

lemma row_prices_nonneg:
  "list_all (\<lambda>(k, v). 0 \<le> v) more_idle_prices" "list_all (\<lambda>(k, v). 0 \<le> v) every_other_price"
  "list_all (\<lambda>(k, v). 0 \<le> v) a100_40gb_prices"
  by (simp_all add: more_idle_prices_def every_other_price_def a100_40gb_prices_def fl_nonneg)


definition raw_caps :: "(string, (int, int) dict) dict \<Rightarrow> (string \<times> (pv \<times> pv) list option) list" where
  "raw_caps caps = map (\<lambda>(k, d). (k, Some (map (\<lambda>(b, c). (PInt b, PInt c)) d))) caps"

lemma validate_bucket_caps_iff:
  "validate_bucket_caps rows = Inr () \<longleftrightarrow> list_all (\<lambda>(b, c). positive_int b \<and> nonneg_int c) rows"
  by (induction rows rule: validate_bucket_caps.induct) auto

lemma validate_caps_iff:
  "validate_max_unrented_gpus (raw_caps caps) = Inr ()
     \<longleftrightarrow> list_all (\<lambda>(k, d). list_all (\<lambda>(b, c). 0 < b \<and> 0 \<le> c) d) caps"
proof (induction caps)
  case (Cons x caps)
  obtain k d where x: "x = (k, d)" by (cases x)
  have "list_all (\<lambda>(b, c). positive_int b \<and> nonneg_int c) (map (\<lambda>(b, c). (PInt b, PInt c)) d)
      = list_all (\<lambda>(b, c). 0 < b \<and> 0 \<le> c) d"
    by (induction d) (auto simp: positive_int_def nonneg_int_def)
  then show ?case using Cons x validate_bucket_caps_iff [of "map (\<lambda>(b, c). (PInt b, PInt c)) d"]
    by (cases "validate_bucket_caps (map (\<lambda>(b, c). (PInt b, PInt c)) d)") (auto simp: raw_caps_def)
qed (simp add: raw_caps_def)

lemma shipped_caps: "list_all (\<lambda>(k, d). list_all (\<lambda>(b, c). 0 < b \<and> 0 \<le> c) d) MAX_UNRENTED_GPUS_BY_TYPE"
  by (simp add: MAX_UNRENTED_GPUS_BY_TYPE_def max_unrented_rows_def)

definition good_rows :: "(string, rat) dict \<Rightarrow> bool" where
  "good_rows d \<longleftrightarrow> (\<forall>(k, v)\<in>set d. k \<in> fst ` set BASE_GPU_MAP \<and> 0 \<le> v)"

lemma good_rows_intros:
  "good_rows d \<Longrightarrow> j \<in> fst ` set BASE_GPU_MAP \<Longrightarrow> 0 \<le> x \<Longrightarrow> good_rows (dset j x d)"
  "good_rows d \<Longrightarrow> good_rows e \<Longrightarrow> good_rows (dmerge d e)"
  using set_dset_subset [of j x d] set_dmerge_subset [of d e] unfolding good_rows_def by blast+

lemma good_rowsI: "covered gpu_models (map fst d) gpu_models r \<Longrightarrow> list_all (\<lambda>(k, v). 0 \<le> v) d \<Longrightarrow> good_rows d"
proof -
  assume "covered gpu_models (map fst d) gpu_models r" and nn: "list_all (\<lambda>(k, v). 0 \<le> v) d"
  then have keys: "fst ` set d \<subseteq> fst ` set BASE_GPU_MAP" using covered_subset [of gpu_models "map fst d" gpu_models r] by simp
  show ?thesis
    unfolding good_rows_def
  proof (rule ballI)
    fix x
    assume x: "x \<in> set d"
    have "fst x \<in> fst ` set BASE_GPU_MAP" using keys imageI [OF x, of fst] by (rule subsetD)
    moreover have "0 \<le> snd x" using x nn by (cases x) (auto simp: list_all_iff)
    ultimately show "case x of (k, v) \<Rightarrow> k \<in> fst ` set BASE_GPU_MAP \<and> 0 \<le> v" by (simp add: split_beta)
  qed
qed

lemma overridden_models:
  "''NVIDIA B300 SXM6 AC'' \<in> fst ` set BASE_GPU_MAP"
  "''NVIDIA RTX PRO 6000 Blackwell Server Edition'' \<in> fst ` set BASE_GPU_MAP"
  "''NVIDIA RTX PRO 6000 Blackwell Max-Q Workstation Edition'' \<in> fst ` set BASE_GPU_MAP"
  "''NVIDIA B300 SXM6 PC'' \<in> fst ` set BASE_GPU_MAP" "''NVIDIA GB300'' \<in> fst ` set BASE_GPU_MAP"
  "''NVIDIA GeForce RTX 4090 48GB'' \<in> fst ` set BASE_GPU_MAP"
  using covered_subset [OF priced_models(4)] by simp_all

lemma price_table_good:
  assumes prices: "RENTAL_PRICES_PER_HOUR mp = Inr prices" and mp: "good_rows mp"
  shows "good_rows prices"
proof -
  obtain ws where ws: "dget mp ''NVIDIA RTX PRO 6000 Blackwell Workstation Edition'' = Some ws"
    using prices by (cases "dget mp ''NVIDIA RTX PRO 6000 Blackwell Workstation Edition''") (simp_all add: RENTAL_PRICES_PER_HOUR_def)
  have w: "0 \<le> ws" using dget_Some_in [OF ws] mp by (auto simp: good_rows_def)
  have rows: "good_rows more_idle_prices" "good_rows every_other_price" "good_rows a100_40gb_prices"
    by (rule good_rowsI, rule priced_models, rule row_prices_nonneg)+
  have f: "0 \<le> fl (32 / 5)" "0 \<le> fl (12 / 25)" by (simp_all add: fl_nonneg)
  show ?thesis
    using prices unfolding RENTAL_PRICES_PER_HOUR_def Let_def ws option.case sum.inject
    by (elim subst) (intro good_rows_intros mp overridden_models w rows f)
qed

text \<open>
  Claim C24. For every packaged price table that names supported models only, with no negative
  price, the shipped configuration passes its own validators and both assertions of the engine's constructor:
  every family of the idle program has a model, and every priced model has a family.
\<close>

theorem shipped_config_valid:
  assumes prices: "RENTAL_PRICES_PER_HOUR machine_prices = Inr prices"
    and mp: "\<forall>(k, v)\<in>set machine_prices. k \<in> fst ` set BASE_GPU_MAP \<and> 0 \<le> v"
  shows "let cfg = default_incentive_config prices in
      validate_algorithm (ic_algorithm cfg) = Inr (ic_algorithm cfg)
    \<and> validate_rental_prices (ic_rental_prices_per_hour cfg) = Inr prices
    \<and> validate_max_unrented_gpus (raw_caps (ic_max_unrented_gpus cfg)) = Inr ()
    \<and> config_asserts cfg"
proof -
  have "good_rows machine_prices" using mp by (simp add: good_rows_def)
  then have "good_rows prices" by (rule price_table_good [OF prices])
  then have keys: "\<forall>(k, v)\<in>set prices. k \<in> fst ` set BASE_GPU_MAP" and nonneg: "\<forall>(k, v)\<in>set prices. 0 \<le> v"
    unfolding good_rows_def by blast+
  have "\<forall>b\<in>set default_rental_incentive_gpu_types. b \<in> snd ` set BASE_GPU_MAP"
    using covered_keys [OF program_families] by (simp del: set_map add: image_set)
  moreover have "\<not> list_ex (\<lambda>(k, v). v < 0) prices" using nonneg by (auto simp: list_ex_iff)
  ultimately show ?thesis using keys shipped_caps
    by (simp add: Let_def default_incentive_config_def validate_algorithm_def validate_caps_iff config_asserts_def list_all_iff)
qed


theorem shipped_config_valid_witness:
  "\<exists>prices. RENTAL_PRICES_PER_HOUR [(''NVIDIA RTX PRO 6000 Blackwell Workstation Edition'', 1)] = Inr prices
     \<and> config_asserts (default_incentive_config prices)"
proof -
  let ?mp = "[(''NVIDIA RTX PRO 6000 Blackwell Workstation Edition'', 1 :: rat)]"
  have "dget ?mp ''NVIDIA RTX PRO 6000 Blackwell Workstation Edition'' = Some 1" by simp
  then obtain prices where prices: "RENTAL_PRICES_PER_HOUR ?mp = Inr prices"
    unfolding RENTAL_PRICES_PER_HOUR_def Let_def by (simp only: option.case)
  have "covered gpu_models [''NVIDIA RTX PRO 6000 Blackwell Workstation Edition''] gpu_models 0" by code_simp
  from covered_subset [OF this] have "''NVIDIA RTX PRO 6000 Blackwell Workstation Edition'' \<in> fst ` set BASE_GPU_MAP" by simp
  then have "\<forall>(k, v)\<in>set ?mp. k \<in> fst ` set BASE_GPU_MAP \<and> 0 \<le> v" by simp
  from shipped_config_valid [OF prices this] prices show ?thesis unfolding Let_def by blast
qed

end
