(* ===== verification/Incentive_Default.thy ===== *)
theory Incentive_Default
  imports Job_Result Incentive_Config Weights
begin

text \<open>
  Scoring of one result by the default algorithm (incentive/default.py), the shared eligibility rules
  (incentive/eligibility.py) and the split of an incentive over the two pools (incentive/base.py). The
  settings and what the engine reads from outside (Redis, the shared price table, the clock) are two
  records. Times are microseconds of naive UTC; one clock reading serves a whole scoring pass.
\<close>

section \<open>Settings and environment\<close>

record incentive_settings =
  sg_burn :: burn_settings
  sg_idle_incentive_excluded_hotkeys :: string
  sg_executor_image_check_enforce :: bool
  sg_min_nvidia_driver_version :: string
  sg_min_driver_cutoff :: int
  sg_sysbox_rented_cutoff :: int
  sg_portion_for_sysbox :: rat
  sg_portion_for_sysbox_rented :: rat
  sg_portion_for_sysbox_unrented :: rat
  sg_skip_collateral_penalty :: bool
  sg_portion_for_uptime :: rat
  sg_uptime_required_minutes :: int
  sg_discord_incentive_cutoff :: int
  sg_enable_spot_rental_incentive :: bool
  sg_enable_unrented_power_cap_revert_limit :: bool
  sg_spot_idle_pay_secure_decision_enabled :: bool

text \<open>
  \<open>ie_stored_portion\<close> is the stored portion of a GPU type (an error of Redis or of the parse is
  \<open>Inl\<close>), \<open>ie_reverts\<close> the power-cap reverts of an executor inside the window, each with the watts
  that were applied and found.
\<close>

record incentive_env =
  ie_settings :: incentive_settings
  ie_config :: incentive_config
  ie_now :: int
  ie_machine_prices_p90 :: "(string, rat) dict"
  ie_soft_limit_price_rate :: rat
  ie_stored_portion :: "string \<Rightarrow> rat option res"
  ie_uptime :: "executor_ssh_info \<Rightarrow> int"
  ie_reverts :: "string \<Rightarrow> (int \<times> int) list"
  ie_tao_price :: "rat option"
  ie_alpha_rate :: "rat option"
  ie_total_burn_emission :: rat

abbreviation ie_set :: "incentive_env \<Rightarrow> incentive_settings" where
  "ie_set env \<equiv> ie_settings env"

section \<open>Eligibility\<close>

definition is_missing_discord_after_cutoff :: "incentive_env \<Rightarrow> job_result \<Rightarrow> bool" where
  "is_missing_discord_after_cutoff env r \<longleftrightarrow>
     sg_discord_incentive_cutoff (ie_set env) \<le> ie_now env \<and> \<not> jr_provider_discord_connected r"

definition earns_spot_rental_incentive :: "incentive_env \<Rightarrow> job_result \<Rightarrow> bool" where
  "earns_spot_rental_incentive env r \<longleftrightarrow> sg_enable_spot_rental_incentive (ie_set env) \<and> jr_is_spot r
     \<and> jr_is_on_spot_pay_list r \<and> jr_is_rented r \<and> \<not> jr_is_split_remainder r"

section \<open>Driver requirement\<close>

fun parse_parts :: "string list \<Rightarrow> int list option" where
  "parse_parts [] = Some []"
| "parse_parts (p # ps) = (case parse_int p of None \<Rightarrow> None | Some i \<Rightarrow> map_option (\<lambda>is. i # is) (parse_parts ps))"

definition parse_driver_version :: "string \<Rightarrow> int list option" where
  "parse_driver_version value = (if value = [] then None else parse_parts (py_split (CHR ''.'') (py_strip value)))"

text \<open>Tuples compare lexicographically, as the library orders lists.\<close>

definition get_min_driver_multiplier :: "incentive_env \<Rightarrow> string \<Rightarrow> bool \<Rightarrow> rat" where
  "get_min_driver_multiplier env driver_version is_rented =
     (if is_rented then 1
      else case (parse_driver_version driver_version, parse_driver_version (sg_min_nvidia_driver_version (ie_set env))) of
          (Some reported, Some required) \<Rightarrow>
            if required \<le> reported then 1
            else if ie_now env < sg_min_driver_cutoff (ie_set env) then 1 else 0
        | _ \<Rightarrow> 1)"

section \<open>Recorded reasons\<close>

definition has_reason :: "zero_incentive_reason \<Rightarrow> job_result \<Rightarrow> bool" where
  "has_reason z r \<longleftrightarrow> z \<in> set (in_zero_incentive_reasons (jr_inc r))"

definition image_is_outdated :: "job_result \<Rightarrow> bool" where
  "image_is_outdated r \<longleftrightarrow>
     pget (case jr_executor_image_report r of None \<Rightarrow> [] | Some d \<Rightarrow> d) ''status'' = PStr ''OUTDATED''"

text \<open>Whether an outdated image excludes the result, and the result with the reason recorded once.\<close>

definition record_outdated_image_reason :: "incentive_env \<Rightarrow> job_result \<Rightarrow> bool \<times> job_result" where
  "record_outdated_image_reason env r =
     (if \<not> sg_executor_image_check_enforce (ie_set env) then (False, r)
      else if \<not> image_is_outdated r then (False, r)
      else (True, if has_reason OUTDATED_EXECUTOR_IMAGE r then r else record_reason OUTDATED_EXECUTOR_IMAGE r))"

definition UNCLASSIFIED_VALIDATION_FAILURE :: string where
  "UNCLASSIFIED_VALIDATION_FAILURE = ''PIPELINE_VALIDATION_ERROR''"

definition validation_failure_code :: "job_result \<Rightarrow> string" where
  "validation_failure_code r =
     (case jr_failure_reason_code r of
        Some (c # cs) \<Rightarrow> c # cs
      | _ \<Rightarrow> (case jr_validation_event r of
          Some e \<Rightarrow> if ev_reason_code e \<noteq> [] then ev_reason_code e else UNCLASSIFIED_VALIDATION_FAILURE
        | None \<Rightarrow> UNCLASSIFIED_VALIDATION_FAILURE))"

definition RUN_ENDED_WITHOUT_FAILING :: "string list" where
  "RUN_ENDED_WITHOUT_FAILING = [''VALIDATION_COMPLETED'', ''RENTED'']"

definition record_validation_failed_reason :: "job_result \<Rightarrow> job_result" where
  "record_validation_failed_reason r =
     (if is_successful r then r
      else let reason_code = validation_failure_code r in
        if reason_code \<in> set RUN_ENDED_WITHOUT_FAILING then r
        else if reason_code = ''EXECUTOR_IMAGE_OUTDATED'' \<and> has_reason OUTDATED_EXECUTOR_IMAGE r then r
        else record_reason VALIDATION_FAILED r)"

section \<open>Mining score\<close>

definition get_portion_per_gpu_type :: "incentive_env \<Rightarrow> string option \<Rightarrow> rat" where
  "get_portion_per_gpu_type env gpu_type = (case gpu_type of
      None \<Rightarrow> 0
    | Some g \<Rightarrow> (case ie_stored_portion env g of
          Inl _ \<Rightarrow> 0
        | Inr (Some p) \<Rightarrow> if p \<noteq> 0 then p else dget_or 0 GPU_MODEL_RATES g
        | Inr None \<Rightarrow> dget_or 0 GPU_MODEL_RATES g))"

definition set_mining_score :: "rat \<Rightarrow> job_result \<Rightarrow> job_result" where
  "set_mining_score x = upd_inc (\<lambda>i. i\<lparr>in_mining_score := Some x\<rparr>)"

definition is_rented_after_cutoff :: "incentive_env \<Rightarrow> job_result \<Rightarrow> bool" where
  "is_rented_after_cutoff env r \<longleftrightarrow> jr_is_rented r
     \<and> (case jr_rental_created_at r of None \<Rightarrow> False | Some t \<Rightarrow> sg_sysbox_rented_cutoff (ie_set env) \<le> t)"

definition mining_sysbox_multiplier :: "incentive_env \<Rightarrow> job_result \<Rightarrow> rat" where
  "mining_sysbox_multiplier env r =
     (if jr_sysbox_runtime r then 1
      else fsub 1 (if is_rented_after_cutoff env r then sg_portion_for_sysbox_rented (ie_set env)
                   else sg_portion_for_sysbox (ie_set env)))"

definition uptime_multiplier :: "incentive_env \<Rightarrow> job_result \<Rightarrow> rat res" where
  "uptime_multiplier env r =
     (if sg_skip_collateral_penalty (ie_set env) \<or> jr_collateral_deposited r then Inr 1
      else let p = sg_portion_for_uptime (ie_set env); required = sg_uptime_required_minutes (ie_set env) in
        if required = 0 then Inl ZeroDivisionError
        else Inr (fadd (fsub 1 p) (fmul p (min 1 (fl (of_int (ie_uptime env (jr_executor_info r)) / of_int required))))))"

text \<open>The score once the multipliers are known; \<open>spot_factor\<close> is the subclass hook.\<close>

definition scored_mining :: "incentive_env \<Rightarrow> rat \<Rightarrow> int \<Rightarrow> rat \<Rightarrow> job_result \<Rightarrow> job_result" where
  "scored_mining env spot_factor total_count uptime r =
     (let portion = get_portion_per_gpu_type env (jr_gpu_model r);
          base = fdiv (fmul (fmul (jr_score r) portion) (fint (jr_gpu_count r))) (fint total_count);
          sysbox = mining_sysbox_multiplier env r;
          driver = get_min_driver_multiplier env (jr_nvidia_driver_version r) (jr_is_rented r);
          r' = upd_inc (\<lambda>i. i\<lparr>in_total_gpu_count := Some total_count, in_gpu_portion := Some portion,
                 in_sysbox_multiplier := Some sysbox, in_driver_multiplier := Some driver,
                 in_uptime_multiplier := Some uptime,
                 in_mining_score := Some (fmul base (fmul (fmul (fmul sysbox uptime) driver) spot_factor))\<rparr>) r
      in if jr_is_rented r \<and> sysbox = 0 then record_reason RENTED_SYSBOX_NOT_CONFIRMED r' else r')"

definition default_executor_score :: "incentive_env \<Rightarrow> (string, int) dict \<Rightarrow> rat \<Rightarrow> job_result \<Rightarrow> job_result res" where
  "default_executor_score env total_map spot_factor r0 =
     (let (outdated, r) = record_outdated_image_reason env r0 in
      if outdated then Inr (set_mining_score 0 r)
      else if jr_is_hotkey_excluded_from_scoring r then
        Inr (set_mining_score 0 (if has_reason HOTKEY_EXCLUDED_FROM_SCORING r then r
                                 else record_reason HOTKEY_EXCLUDED_FROM_SCORING r))
      else if jr_score r = 0 then Inr (set_mining_score 0 r)
      else if jr_is_in_maintenance r \<or> jr_is_new_rentals_paused r \<and> \<not> jr_is_rented r then Inr (set_mining_score 0 r)
      else let total_count = (case jr_gpu_model r of None \<Rightarrow> 0 | Some g \<Rightarrow> dget_or 0 total_map g) in
        if total_count = 0 then Inr (set_mining_score 0 (upd_inc (\<lambda>i. i\<lparr>in_total_gpu_count := Some 0\<rparr>) r))
        else case uptime_multiplier env r of Inl e \<Rightarrow> Inl e | Inr up \<Rightarrow> Inr (scored_mining env spot_factor total_count up r))"

section \<open>Incentive from the mining pool\<close>

definition default_post_process :: "rat \<Rightarrow> rat \<Rightarrow> job_result \<Rightarrow> job_result" where
  "default_post_process mining_share total_mining_score r0 =
     (let r = upd_inc (\<lambda>i. i\<lparr>in_mining_share := Some mining_share, in_total_mining_score := Some total_mining_score\<rparr>) r0 in
      case in_mining_score (jr_inc r) of
        None \<Rightarrow> r
      | Some ms \<Rightarrow> upd_inc (\<lambda>i. i\<lparr>in_incentive := Some (if 0 < total_mining_score
            then fdiv (fmul mining_share ms) total_mining_score else 0)\<rparr>) r)"

definition split_incentive_across_pools :: "job_result \<Rightarrow> job_result" where
  "split_incentive_across_pools r = (case in_incentive (jr_inc r) of
      None \<Rightarrow> r
    | Some x \<Rightarrow> (let rented = (if jr_is_rented r then x else 0) in set_incentive_split rented (fsub x rented) r))"

end
