(* ===== verification/Py_Number.thy ===== *)
theory Py_Number
  imports Py_Value
begin

text \<open>
  Python's \<open>float(v)\<close> on a dynamic value and arithmetic on floats that may be infinite or not a
  number. A float literal in a string is sign, digits with an optional point and exponent,
  underscores between digits only, or one of the words for infinity and NaN.
\<close>

definition max_float_bound :: rat where "max_float_bound = 2 ^ 1024"

lemma max_float_bound_code [code]: "max_float_bound = of_int 179769313486231590772930519078902473361797697894230657273430081157732675805500963132708477322407536021120113879871393357658789768814416622492847430639474124377767893424865485276302219601246094119453082952085005768838150682342462881473913110540827237163350510684586298239947245938479716304835356329624224137216"
  by (simp add: max_float_bound_def)

text \<open>A rounded result: beyond the largest float it is infinite.\<close>

definition xround_to :: "rat \<Rightarrow> xfloat" where
  "xround_to r = (let f = fl r in if max_float_bound \<le> f then PInf else if f \<le> - max_float_bound then NInf else Fin f)"

definition xadd :: "xfloat \<Rightarrow> xfloat \<Rightarrow> xfloat" where
  "xadd x y = (case (x, y) of
      (Fin a, Fin b) \<Rightarrow> xround_to (a + b)
    | (NaN, _) \<Rightarrow> NaN | (_, NaN) \<Rightarrow> NaN
    | (PInf, NInf) \<Rightarrow> NaN | (NInf, PInf) \<Rightarrow> NaN
    | (PInf, _) \<Rightarrow> PInf | (_, PInf) \<Rightarrow> PInf | _ \<Rightarrow> NInf)"

text \<open>Scaling by a positive constant, and \<open>round(x, n)\<close>.\<close>

definition xscale :: "rat \<Rightarrow> xfloat \<Rightarrow> xfloat" where
  "xscale c x = (case x of Fin a \<Rightarrow> xround_to (a * c) | _ \<Rightarrow> x)"

definition xround :: "xfloat \<Rightarrow> nat \<Rightarrow> xfloat" where
  "xround x n = (case x of Fin a \<Rightarrow> Fin (py_round a n) | _ \<Rightarrow> x)"

definition xle :: "xfloat \<Rightarrow> xfloat \<Rightarrow> bool" where
  "xle x y = (case (x, y) of
      (Fin a, Fin b) \<Rightarrow> a \<le> b
    | (NaN, _) \<Rightarrow> False | (_, NaN) \<Rightarrow> False
    | (NInf, _) \<Rightarrow> True | (_, PInf) \<Rightarrow> True | _ \<Rightarrow> False)"

fun xsum_from :: "xfloat \<Rightarrow> xfloat list \<Rightarrow> xfloat" where
  "xsum_from acc [] = acc"
| "xsum_from acc (x # xs) = xsum_from (xadd acc x) xs"

section \<open>Float literals\<close>

text \<open>The part before the first occurrence of a character, and the part after it when it occurs.\<close>

fun cut_at :: "char \<Rightarrow> string \<Rightarrow> string \<times> string option" where
  "cut_at c [] = ([], None)"
| "cut_at c (x # xs) = (if x = c then ([], Some xs) else let (a, b) = cut_at c xs in (x # a, b))"

definition take_sign :: "string \<Rightarrow> bool \<times> string" where
  "take_sign s = (case s of [] \<Rightarrow> (False, [])
     | c # cs \<Rightarrow> if c = CHR ''-'' then (True, cs) else if c = CHR ''+'' then (False, cs) else (False, c # cs))"

definition digit_count :: "string \<Rightarrow> nat" where
  "digit_count s = length (filter (\<lambda>c. c \<noteq> CHR ''_'') s)"

text \<open>The digits around the point: at least one side has digits.\<close>

definition parse_mantissa :: "string \<Rightarrow> rat option" where
  "parse_mantissa s = (case cut_at (CHR ''.'') s of
      (a, None) \<Rightarrow> map_option of_int (parse_digits 10 False 0 a)
    | (a, Some b) \<Rightarrow>
        if a = [] \<and> b = [] then None
        else (case (if a = [] then Some 0 else parse_digits 10 False 0 a, if b = [] then Some 0 else parse_digits 10 False 0 b) of
            (Some i, Some f) \<Rightarrow> Some (of_int i + of_int f / 10 ^ digit_count b)
          | _ \<Rightarrow> None))"

definition parse_exponent :: "string \<Rightarrow> int option" where
  "parse_exponent s = (let (neg, u) = take_sign s in map_option (\<lambda>n. if neg then - n else n) (parse_digits 10 False 0 u))"

definition py_float_str :: "string \<Rightarrow> xfloat option" where
  "py_float_str s =
     (let (neg, u) = take_sign (py_lower (py_strip s)) in
      if u = ''inf'' \<or> u = ''infinity'' then Some (if neg then NInf else PInf)
      else if u = ''nan'' then Some NaN
      else case cut_at (CHR ''e'') u of (m, e) \<Rightarrow>
        (case (parse_mantissa m, case e of None \<Rightarrow> Some 0 | Some t \<Rightarrow> parse_exponent t) of
           (Some v, Some k) \<Rightarrow> Some (xround_to ((if neg then - v else v) * 10 powi k))
         | _ \<Rightarrow> None))"

text \<open>An integer beyond the range of floats raises \<open>OverflowError\<close>.\<close>

definition OverflowError :: py_exc where
  "OverflowError = OtherError ''OverflowError'' ''int too large to convert to float''"

definition py_float :: "pv \<Rightarrow> xfloat res" where
  "py_float v = (case v of
      PBool b \<Rightarrow> Inr (Fin (if b then 1 else 0))
    | PInt i \<Rightarrow> if max_float_bound \<le> \<bar>fl (of_int i)\<bar> then Inl OverflowError else Inr (Fin (fl (of_int i)))
    | PFloat x \<Rightarrow> Inr (Fin x)
    | PStr s \<Rightarrow> (case py_float_str s of None \<Rightarrow> Inl ValueError | Some x \<Rightarrow> Inr x)
    | _ \<Rightarrow> Inl TypeError)"

end
