(* ===== verification/Incentive_Rental.thy ===== *)
theory Incentive_Rental
  imports Incentive_Default Py_Number Ports
begin

text \<open>
  Scoring of one result by the rental price algorithm (incentive/rental_price.py): the exclusions from
  both pools, the gates of the idle pool, the limits of a split remainder, spot nodes, and the score
  of an executor. The structured log lines are not modelled; a recorded zero-incentive line is its
  reason. An exception of the source is \<open>Inl\<close>.
\<close>

definition MIN_DISK_TO_VRAM_RATE :: rat where "MIN_DISK_TO_VRAM_RATE = 3 / 2"

definition FULL_8X_CAPABILITY_BASE_MODELS :: "string list" where
  "FULL_8X_CAPABILITY_BASE_MODELS = [''H200'', ''B200'', ''B300'', ''GB300'']"

definition FULL_8X_CAPABILITY_GPU_COUNT :: int where "FULL_8X_CAPABILITY_GPU_COUNT = 8"

definition NCU_PROFILING_UNRESTRICTED :: string where "NCU_PROFILING_UNRESTRICTED = ''unrestricted''"

definition CAP_SYS_ADMIN_BIT :: nat where "CAP_SYS_ADMIN_BIT = 21"

definition NVIDIACTL_ROOT_UID :: int where "NVIDIACTL_ROOT_UID = 0"

definition SPOT_RENTAL_INCENTIVE_FACTOR :: rat where "SPOT_RENTAL_INCENTIVE_FACTOR = 1 / 2"

definition MIN_POWER_CAP_REVERTS_TO_PENALIZE :: nat where "MIN_POWER_CAP_REVERTS_TO_PENALIZE = 2"

definition CAP_REVERT_WINDOW_SECONDS :: int where "CAP_REVERT_WINDOW_SECONDS = 86400"

definition DEFAULT_JOB_OWNER_MINER :: string where "DEFAULT_JOB_OWNER_MINER = ''miner''"

section \<open>Measurements\<close>

record insufficient_disk =
  id_vram_gb :: xfloat
  id_disk_gb :: xfloat
  id_rate :: rat

record missing_full_8x_capability =
  mc_ncu_profiling_access :: pv
  mc_ncu_profiling_scrape_error :: pv

record power_cap_incapable =
  pc_container_cap_eff :: string
  pc_nvidiactl_owner_uid :: int

record power_cap_reverted =
  pr_revert_count :: nat
  pr_window_hours :: int
  pr_capped_to_watts :: int
  pr_found_watts :: int

record port_limited_remainder =
  pl_available_port_count :: int
  pl_required_port_count :: int
  pl_free_split_count :: int
  pl_paid_split_count :: int
  pl_unpaid_gpu_count :: int

record disk_limited_remainder =
  dl_free_split_count :: int
  dl_paid_split_count :: int
  dl_unpaid_gpu_count :: int

subsection \<open>Price and disk\<close>

definition is_over_soft_price_limit :: "incentive_env \<Rightarrow> job_result \<Rightarrow> bool" where
  "is_over_soft_price_limit env r =
     (case ex_price_per_gpu (jr_executor_info r) of
        None \<Rightarrow> False
      | Some price \<Rightarrow> price \<noteq> 0
          \<and> (case (case jr_gpu_model r of None \<Rightarrow> None | Some g \<Rightarrow> dget (ie_machine_prices_p90 env) g) of
               None \<Rightarrow> False
             | Some p90 \<Rightarrow> p90 \<noteq> 0 \<and> fmul p90 (ie_soft_limit_price_rate env) < price))"

text \<open>\<open>v.get(k)\<close> on a dynamic value: an error unless it is a dictionary. \<open>v or w\<close> is \<open>or_pv\<close>.\<close>

definition get_attr :: "pv \<Rightarrow> string \<Rightarrow> pv res" where
  "get_attr v k = (case v of PDict d \<Rightarrow> Inr (pget d k) | _ \<Rightarrow> Inl AttributeError)"

definition or_pv :: "pv \<Rightarrow> pv \<Rightarrow> pv" where
  "or_pv v w = (if truthy v then v else w)"

text \<open>The items of a \<open>for\<close> loop over a value; the members of a string or a dictionary are strings.\<close>

definition py_iter :: "pv \<Rightarrow> pv list res" where
  "py_iter v = (case v of PList xs \<Rightarrow> Inr xs | PStr s \<Rightarrow> Inr (map (\<lambda>c. PStr [c]) s)
     | PDict d \<Rightarrow> Inr (map (\<lambda>(k, _). PStr k) d) | _ \<Rightarrow> Inl TypeError)"

fun gpu_capacities :: "pv list \<Rightarrow> xfloat list res" where
  "gpu_capacities [] = Inr []"
| "gpu_capacities (g # gs) =
     (case get_attr g ''capacity'' of
        Inl e \<Rightarrow> Inl e
      | Inr c \<Rightarrow> (case py_float (or_pv c (PInt 0)) of
          Inl e \<Rightarrow> Inl e
        | Inr x \<Rightarrow> map_sum id (\<lambda>xs. x # xs) (gpu_capacities gs)))"

definition vram_and_disk :: "pdict \<Rightarrow> (xfloat \<times> xfloat) res" where
  "vram_and_disk spec =
     (case get_attr (or_pv (pget spec ''gpu'') (PDict [])) ''details'' of
        Inl e \<Rightarrow> Inl e
      | Inr details \<Rightarrow> (case py_iter (or_pv details (PList [])) of
          Inl e \<Rightarrow> Inl e
        | Inr gpus \<Rightarrow> (case gpu_capacities gpus of
            Inl e \<Rightarrow> Inl e
          | Inr caps \<Rightarrow> (case get_attr (or_pv (pget spec ''hard_disk'') (PDict [])) ''total'' of
              Inl e \<Rightarrow> Inl e
            | Inr t \<Rightarrow> (case py_float (or_pv t (PInt 0)) of
                Inl e \<Rightarrow> Inl e
              | Inr disk \<Rightarrow> Inr (xscale (1 / 1024) (xsum_from (Fin 0) caps), xscale (1 / 1024 ^ 2) disk))))))"

text \<open>Three exception classes of an unreadable scrape are caught; any other one leaves the function.\<close>

definition insufficient_disk_of :: "job_result \<Rightarrow> insufficient_disk option res" where
  "insufficient_disk_of r =
     (case jr_spec r of
        None \<Rightarrow> Inr None
      | Some [] \<Rightarrow> Inr None
      | Some spec \<Rightarrow>
          (case vram_and_disk spec of
             Inl e \<Rightarrow> if e \<in> {AttributeError, TypeError, ValueError} then Inr None else Inl e
           | Inr (vram, disk) \<Rightarrow>
               if xle vram (Fin 0) \<or> xle disk (Fin 0) then Inr None
               else let v = xround vram 1; d = xround disk 1 in
                 if xle (xscale MIN_DISK_TO_VRAM_RATE v) d then Inr None
                 else Inr (Some \<lparr> id_vram_gb = v, id_disk_gb = d, id_rate = MIN_DISK_TO_VRAM_RATE \<rparr>)))"

subsection \<open>Capabilities\<close>

definition nonzero :: "int option \<Rightarrow> bool" where
  "nonzero x = (case x of None \<Rightarrow> False | Some n \<Rightarrow> n \<noteq> 0)"

definition has_real_splitting :: "job_result \<Rightarrow> bool" where
  "has_real_splitting r \<longleftrightarrow> jr_supports_gpu_splitting r
     \<and> (case jr_gpu_splitting_min_count r of None \<Rightarrow> False | Some n \<Rightarrow> n \<noteq> 0 \<and> n < jr_gpu_count r)"

text \<open>
  The record's two fields are declared as text or nothing: the data-validation library refuses any
  other value, and nothing around the gate catches it.
\<close>

definition is_text_or_none :: "pv \<Rightarrow> bool" where
  "is_text_or_none v = (case v of PNone \<Rightarrow> True | PStr _ \<Rightarrow> True | _ \<Rightarrow> False)"

definition ValidationError :: py_exc where
  "ValidationError = OtherError ''ValidationError'' ''Input should be a valid string''"

definition missing_full_8x_capability_of :: "job_result \<Rightarrow> string \<Rightarrow> missing_full_8x_capability option res" where
  "missing_full_8x_capability_of r base_model =
     (if jr_gpu_count r \<noteq> FULL_8X_CAPABILITY_GPU_COUNT then Inr None
      else if base_model \<notin> set FULL_8X_CAPABILITY_BASE_MODELS then Inr None
      else case jr_spec r of
          None \<Rightarrow> Inr None
        | Some spec \<Rightarrow>
            let access = pget spec ''ncu_profiling_access''; scrape_error = pget spec ''ncu_profiling_scrape_error'' in
            if access = PStr NCU_PROFILING_UNRESTRICTED \<or> has_real_splitting r \<or> jr_attestation_digest r \<noteq> None then Inr None
            else if \<not> is_text_or_none access \<or> \<not> is_text_or_none scrape_error then Inl ValidationError
            else Inr (Some \<lparr> mc_ncu_profiling_access = access, mc_ncu_profiling_scrape_error = scrape_error \<rparr>))"

definition power_cap_incapable_of :: "job_result \<Rightarrow> power_cap_incapable option" where
  "power_cap_incapable_of r =
     (case jr_spec r of
        None \<Rightarrow> None
      | Some spec \<Rightarrow>
          (case (pget spec ''container_cap_eff'', pget spec ''nvidiactl_owner_uid'') of
             (PStr cap_eff, PInt owner_uid) \<Rightarrow>
               (case parse_int_base 16 cap_eff of
                  None \<Rightarrow> None
                | Some cap_mask \<Rightarrow>
                    if odd (cap_mask div 2 ^ CAP_SYS_ADMIN_BIT) \<and> owner_uid = NVIDIACTL_ROOT_UID then None
                    else Some \<lparr> pc_container_cap_eff = cap_eff, pc_nvidiactl_owner_uid = owner_uid \<rparr>)
           | _ \<Rightarrow> None))"

definition power_cap_reverted_of :: "incentive_env \<Rightarrow> job_result \<Rightarrow> power_cap_reverted option" where
  "power_cap_reverted_of env r =
     (if jr_spec r = None then None
      else let reverts = ie_reverts env (ex_uuid (jr_executor_info r)) in
        if length reverts < MIN_POWER_CAP_REVERTS_TO_PENALIZE then None
        else Some \<lparr> pr_revert_count = length reverts, pr_window_hours = CAP_REVERT_WINDOW_SECONDS div 3600,
               pr_capped_to_watts = fst (last reverts), pr_found_watts = snd (last reverts) \<rparr>)"


subsection \<open>Limits of a split remainder\<close>

text \<open>\<open>len(set(xs))\<close>: values count once by Python equality, and a list or a dictionary cannot be a member.\<close>

definition hashable :: "pv \<Rightarrow> bool" where
  "hashable v = (case v of PList _ \<Rightarrow> False | PDict _ \<Rightarrow> False | _ \<Rightarrow> True)"

fun distinct_count :: "pv list \<Rightarrow> pv list \<Rightarrow> int" where
  "distinct_count seen [] = int (length seen)"
| "distinct_count seen (x # xs) = distinct_count (if list_ex (py_eq x) seen then seen else x # seen) xs"

definition set_size :: "pv list \<Rightarrow> int res" where
  "set_size xs = (if list_all hashable xs then Inr (distinct_count [] xs) else Inl TypeError)"

text \<open>\<open>MIN_PORT_COUNT\<close> is the listing floor of the port-count check.\<close>

definition port_limit :: "int \<Rightarrow> int \<Rightarrow> int \<Rightarrow> port_limited_remainder option" where
  "port_limit available free_gpus min_count =
     (let free_splits = free_gpus div min_count;
          paid_splits = (if MIN_PORT_COUNT \<le> available then min free_splits available else 0) in
      if 0 < free_splits \<and> MIN_PORT_COUNT \<le> available \<and> free_splits \<le> paid_splits then None
      else Some \<lparr> pl_available_port_count = available, pl_required_port_count = max free_splits MIN_PORT_COUNT,
             pl_free_split_count = free_splits, pl_paid_split_count = paid_splits,
             pl_unpaid_gpu_count = (if paid_splits = 0 then free_gpus else (free_splits - paid_splits) * min_count) \<rparr>)"

definition port_limited_remainder_of :: "job_result \<Rightarrow> port_limited_remainder option res" where
  "port_limited_remainder_of r =
     (case (jr_spec r, jr_gpu_splitting_min_count r) of
        (Some spec, Some min_count) \<Rightarrow>
          if \<not> jr_is_split_remainder r \<or> min_count = 0 then Inr None
          else if pget spec ''port_verify_first_miss'' = PBool True then Inr None
          else (case pget spec ''available_port_count'' of
              PInt available \<Rightarrow>
                let free_gpus = jr_gpu_count r + jr_port_unpaid_gpu_count r in
                (case pget spec ''verified_ports'' of
                   PList verified \<Rightarrow> map_sum id (\<lambda>n. port_limit (min available n) free_gpus min_count) (set_size verified)
                 | _ \<Rightarrow> Inr (port_limit available free_gpus min_count))
            | _ \<Rightarrow> Inr None)
      | _ \<Rightarrow> Inr None)"

definition disk_limited_remainder_of :: "job_result \<Rightarrow> disk_limited_remainder option" where
  "disk_limited_remainder_of r =
     (case (jr_spec r, jr_gpu_splitting_min_count r) of
        (Some spec, Some min_count) \<Rightarrow>
          if \<not> jr_is_split_remainder r \<or> min_count = 0 then None
          else (case pget spec ''split_disk'' of
              PDict sizing \<Rightarrow>
                (case (pget sizing ''listable_split_count'', pget sizing ''listable_gpu_count'') of
                   (PInt listable, PInt listable_gpus) \<Rightarrow>
                     let free_gpus = jr_gpu_count r + jr_port_unpaid_gpu_count r;
                         paid_gpus = min free_gpus (max listable_gpus 0) in
                     if free_gpus \<le> paid_gpus then None
                     else Some \<lparr> dl_free_split_count = free_gpus div min_count,
                            dl_paid_split_count = (if paid_gpus \<noteq> 0 then max listable 0 else 0),
                            dl_unpaid_gpu_count = free_gpus - paid_gpus \<rparr>
                 | _ \<Rightarrow> None)
            | _ \<Rightarrow> None)
      | _ \<Rightarrow> None)"

section \<open>Exclusions and buckets\<close>

definition on_spot_pay_path :: "job_result \<Rightarrow> bool" where
  "on_spot_pay_path r \<longleftrightarrow> jr_is_spot r \<and> jr_is_on_spot_pay_list r \<and> \<not> jr_is_rented r \<and> \<not> jr_is_split_remainder r"

definition reasons_excluded_from_both_pools :: "incentive_env \<Rightarrow> job_result \<Rightarrow> zero_incentive_reason list" where
  "reasons_excluded_from_both_pools env r =
     (if jr_is_provider_banned r then [BANNED_NETWORK_ABUSE] else [])
     @ (if jr_is_spot r \<and> \<not> (on_spot_pay_path r \<or> earns_spot_rental_incentive env r) then [SPOT_TIER] else [])
     @ (if jr_is_provider_email_held r then [PROVIDER_EMAIL_NOT_CONFIRMED]
        else if is_missing_discord_after_cutoff env r then [PROVIDER_DISCORD_NOT_CONNECTED] else [])
     @ (if jr_is_new_rentals_paused r \<and> \<not> jr_is_rented r then [NEW_RENTALS_PAUSED] else [])
     @ (if jr_is_in_maintenance r then [PROVIDER_MAINTENANCE] else [])
     @ (if jr_default_job_owner r = Some DEFAULT_JOB_OWNER_MINER \<and> \<not> jr_is_rented r then [MINER_DEFAULT_JOB] else [])
     @ (if jr_is_hotkey_excluded_from_scoring r then [HOTKEY_EXCLUDED_FROM_SCORING] else [])"

definition splits :: "job_result \<Rightarrow> bool" where
  "splits r \<longleftrightarrow> jr_supports_gpu_splitting r \<and> nonzero (jr_gpu_splitting_min_count r)"

definition min_count :: "job_result \<Rightarrow> int" where
  "min_count r = (case jr_gpu_splitting_min_count r of None \<Rightarrow> 0 | Some n \<Rightarrow> n)"

definition resolve_bucket :: "job_result \<Rightarrow> (int, int) dict \<Rightarrow> int" where
  "resolve_bucket r cap_spec =
     (if \<not> splits r then jr_gpu_count r
      else if jr_is_split_remainder r then min_count r
      else if 0 < dget_or 0 cap_spec (jr_gpu_count r) then jr_gpu_count r
      else min_count r)"

definition listed_hourly_rate :: "incentive_env \<Rightarrow> job_result \<Rightarrow> rat" where
  "listed_hourly_rate env r =
     (let cfg = ie_config env; model = (case jr_gpu_model r of None \<Rightarrow> [] | Some g \<Rightarrow> g);
          rate = (\<lambda>n. get_hourly_rate model n (ic_gpu_count_custom_prices cfg) (ic_rental_prices_per_hour cfg));
          hourly = rate (if jr_is_split_remainder r then min_count r else jr_gpu_count r)
      in if splits r then max hourly (rate (min_count r)) else hourly)"


section \<open>Gates of the idle pool\<close>

definition rbind :: "'a res \<Rightarrow> ('a \<Rightarrow> 'b res) \<Rightarrow> 'b res" where
  "rbind m f = (case m of Inl e \<Rightarrow> Inl e | Inr x \<Rightarrow> f x)"

text \<open>Whether the node is still eligible, and the result so far.\<close>

type_synonym gate_state = "bool \<times> job_result"

definition should_run_idle_pool_gate :: "bool \<Rightarrow> bool \<Rightarrow> bool \<Rightarrow> bool" where
  "should_run_idle_pool_gate idle_pool_candidate eligible enforced \<longleftrightarrow> eligible \<or> (idle_pool_candidate \<and> enforced)"

definition blocked_by :: "zero_incentive_reason \<Rightarrow> gate_state \<Rightarrow> gate_state" where
  "blocked_by z s = (False, record_reason z (snd s))"

definition port_gate :: "bool \<Rightarrow> gate_state \<Rightarrow> gate_state res" where
  "port_gate candidate s =
     (let (eligible, r) = s in
      if \<not> candidate then Inr s
      else rbind (port_limited_remainder_of r) (\<lambda>m. case m of
          None \<Rightarrow> Inr s
        | Some p \<Rightarrow>
            if pl_paid_split_count p = 0 then Inr (blocked_by PORT_LIMITED_REMAINDER s)
            else Inr (eligible, record_reason PORT_LIMITED_REMAINDER
              (r\<lparr>jr_gpu_count := jr_gpu_count r - pl_unpaid_gpu_count p,
                 jr_port_unpaid_gpu_count := jr_port_unpaid_gpu_count r + pl_unpaid_gpu_count p\<rparr>))))"

definition disk_remainder_gate :: "bool \<Rightarrow> gate_state \<Rightarrow> gate_state" where
  "disk_remainder_gate candidate s =
     (let (eligible, r) = s in
      if \<not> candidate then s
      else case disk_limited_remainder_of r of
          None \<Rightarrow> s
        | Some d \<Rightarrow>
            if dl_paid_split_count d = 0 then blocked_by DISK_LIMITED_REMAINDER s
            else let newly_unpaid = max 0 (dl_unpaid_gpu_count d - jr_port_unpaid_gpu_count r) in
              (eligible, record_reason DISK_LIMITED_REMAINDER
                (r\<lparr>jr_gpu_count := jr_gpu_count r - newly_unpaid,
                   jr_port_unpaid_gpu_count := jr_port_unpaid_gpu_count r + newly_unpaid\<rparr>)))"

definition soft_price_gate :: "incentive_env \<Rightarrow> bool \<Rightarrow> gate_state \<Rightarrow> gate_state" where
  "soft_price_gate env candidate s =
     (if should_run_idle_pool_gate candidate (fst s) True \<and> is_over_soft_price_limit env (snd s)
      then blocked_by PRICE_ABOVE_MARKET_P90_SOFT_LIMIT s else s)"

definition disk_gate :: "bool \<Rightarrow> gate_state \<Rightarrow> gate_state res" where
  "disk_gate candidate s =
     (if should_run_idle_pool_gate candidate (fst s) True
      then rbind (insufficient_disk_of (snd s)) (\<lambda>m. Inr (if m \<noteq> None then blocked_by INSUFFICIENT_DISK_FOR_VRAM s else s))
      else Inr s)"

definition full_8x_gate :: "string \<Rightarrow> bool \<Rightarrow> gate_state \<Rightarrow> gate_state res" where
  "full_8x_gate base_model candidate s =
     (if should_run_idle_pool_gate candidate (fst s) True
      then rbind (missing_full_8x_capability_of (snd s) base_model)
             (\<lambda>m. Inr (if m \<noteq> None then blocked_by FULL_8X_WITHOUT_NCU_OR_SPLIT s else s))
      else Inr s)"

definition power_cap_gate :: "bool \<Rightarrow> gate_state \<Rightarrow> gate_state" where
  "power_cap_gate candidate s =
     (if should_run_idle_pool_gate candidate (fst s) True \<and> power_cap_incapable_of (snd s) \<noteq> None
      then blocked_by CANNOT_APPLY_GPU_POWER_CAP s else s)"

definition power_cap_revert_gate :: "incentive_env \<Rightarrow> bool \<Rightarrow> gate_state \<Rightarrow> gate_state" where
  "power_cap_revert_gate env candidate s =
     (let enforced = sg_enable_unrented_power_cap_revert_limit (ie_set env) in
      if should_run_idle_pool_gate candidate (fst s) enforced \<and> power_cap_reverted_of env (snd s) \<noteq> None \<and> enforced
      then blocked_by REVERTS_GPU_POWER_CAP s else s)"

definition record_zero_driver_and_sysbox_reasons :: "rat option \<Rightarrow> rat option \<Rightarrow> job_result \<Rightarrow> job_result" where
  "record_zero_driver_and_sysbox_reasons driver sysbox r =
     (let r1 = (if driver = Some 0 then record_reason NVIDIA_DRIVER_BELOW_MINIMUM r else r)
      in if sysbox = Some 0 then record_reason SYSBOX_NOT_ENABLED r1 else r1)"

definition unrented_sysbox_multiplier :: "incentive_env \<Rightarrow> job_result \<Rightarrow> rat" where
  "unrented_sysbox_multiplier env r =
     (if jr_sysbox_runtime r then 1 else fsub 1 (sg_portion_for_sysbox_unrented (ie_set env)))"

definition idle_driver_multiplier :: "incentive_env \<Rightarrow> job_result \<Rightarrow> rat" where
  "idle_driver_multiplier env r = get_min_driver_multiplier env (jr_nvidia_driver_version r) False"

definition idle_pool_gates :: "incentive_env \<Rightarrow> string \<Rightarrow> bool \<Rightarrow> gate_state \<Rightarrow> gate_state res" where
  "idle_pool_gates env base_model candidate s0 =
     rbind (port_gate candidate s0) (\<lambda>s1.
     rbind (disk_gate candidate (soft_price_gate env candidate (disk_remainder_gate candidate s1))) (\<lambda>s2.
     rbind (full_8x_gate base_model candidate s2) (\<lambda>s3.
     let s4 = power_cap_revert_gate env candidate (power_cap_gate candidate s3) in
     Inr (if candidate \<and> \<not> fst s4
          then (fst s4, record_zero_driver_and_sysbox_reasons (Some (idle_driver_multiplier env (snd s4)))
                  (Some (unrented_sysbox_multiplier env (snd s4))) (snd s4))
          else s4))))"

section \<open>Score of an executor\<close>

definition set_eligible :: "bool \<Rightarrow> job_result \<Rightarrow> job_result" where
  "set_eligible b = upd_inc (\<lambda>i. i\<lparr>in_eligible_for_rental_share := b\<rparr>)"

definition set_spot_pay_candidate :: "job_result \<Rightarrow> job_result" where
  "set_spot_pay_candidate = upd_inc (\<lambda>i. i\<lparr>in_spot_pay_candidate := True\<rparr>)"

definition qualify_spot_node :: "bool \<Rightarrow> job_result \<Rightarrow> job_result" where
  "qualify_spot_node excluded r0 =
     (let r = set_mining_score 0 (set_eligible False r0) in
      if excluded \<or> \<not> (0 < jr_score r \<or> 0 < jr_job_score r) then r
      else if \<not> jr_has_lium_filler r then record_reason SPOT_WITHOUT_LIUM_FILLER r
      else if jr_filler_revenue_per_gpu_hour r = None then record_reason SPOT_NO_FILLER_REVENUE_FOR_GPU_CONFIG r
      else set_spot_pay_candidate r)"

definition qualify_spot_node_by_the_secure_decision :: "job_result \<Rightarrow> job_result" where
  "qualify_spot_node_by_the_secure_decision r0 =
     (let r = set_mining_score 0 (set_eligible False r0) in
      if jr_filler_revenue_per_gpu_hour r = None then record_reason SPOT_NO_FILLER_REVENUE_FOR_GPU_CONFIG r
      else set_spot_pay_candidate r)"

definition spot_rental_factor :: "incentive_env \<Rightarrow> job_result \<Rightarrow> rat" where
  "spot_rental_factor env r = (if earns_spot_rental_incentive env r then SPOT_RENTAL_INCENTIVE_FACTOR else 1)"

definition in_program :: "incentive_env \<Rightarrow> string \<Rightarrow> bool" where
  "in_program env base_model \<longleftrightarrow> base_model \<in> set (ic_rental_incentive_gpu_types (ie_config env))"

definition record_reasons :: "zero_incentive_reason list \<Rightarrow> job_result \<Rightarrow> job_result" where
  "record_reasons zs r = fold record_reason zs r"

text \<open>The part after the gates: \<open>eligible\<close> is the final verdict.\<close>

definition settle_score :: "incentive_env \<Rightarrow> (string, int) dict \<Rightarrow> string \<Rightarrow> bool \<Rightarrow> bool \<Rightarrow> gate_state \<Rightarrow> job_result res" where
  "settle_score env total_map base_model excluded spot s =
     (let (eligible, r0) = s in
      if spot \<and> eligible then Inr (qualify_spot_node_by_the_secure_decision r0)
      else let r = set_eligible eligible r0 in
        if eligible then Inr (set_mining_score 0 r)
        else if \<not> jr_is_rented r then
          Inr (if \<not> in_program env base_model \<and> (0 < jr_score r \<or> 0 < jr_job_score r)
               then record_reason GPU_MODEL_NOT_ELIGIBLE_FOR_UNRENTED_INCENTIVE (set_mining_score 0 r)
               else set_mining_score 0 r)
        else if excluded then Inr (set_mining_score 0 r)
        else default_executor_score env total_map (spot_rental_factor env r) r)"

definition rental_executor_score :: "incentive_env \<Rightarrow> (string, int) dict \<Rightarrow> job_result \<Rightarrow> job_result res" where
  "rental_executor_score env total_map r0 =
     (let (outdated, r1) = record_outdated_image_reason env r0;
          exclusions = reasons_excluded_from_both_pools env r1;
          r2 = record_reasons exclusions r1;
          excluded = (outdated \<or> exclusions \<noteq> []);
          spot = on_spot_pay_path r2 in
      if spot \<and> \<not> sg_spot_idle_pay_secure_decision_enabled (ie_set env) then Inr (qualify_spot_node excluded r2)
      else if excluded \<and> get_base_model_for_gpu (jr_gpu_model r2) = Inl KeyError
      then Inr (set_mining_score 0 (set_eligible False r2))
      else rbind (get_base_model_for_gpu (jr_gpu_model r2)) (\<lambda>base_model.
        let candidate = (\<not> jr_is_rented r2 \<and> in_program env base_model \<and> (0 < jr_score r2 \<or> 0 < jr_job_score r2))
        in rbind (idle_pool_gates env base_model candidate (candidate \<and> \<not> excluded, r2))
             (settle_score env total_map base_model excluded spot)))"

end
