(* ===== verification/Incentive_Engine.thy ===== *)
theory Incentive_Engine
  imports Incentive_Rental "HOL-Library.Char_ord"
begin

text \<open>
  The rental price engine over a whole cycle (incentive/rental_price.py, incentive/base.py). Results
  are shared: the lists of candidates refer to the same objects as the miners' lists, and a partially
  rented node adds an object. So the results live in a store and everything else refers to them by
  address. A field read while it is \<open>None\<close> raises, as the arithmetic on it would.
\<close>

definition TEMPO :: int where "TEMPO = 360"

definition SECONDS_PER_BLOCK :: int where "SECONDS_PER_BLOCK = 12"

definition FIXED_RATIO :: rat where "FIXED_RATIO = fl (41 / 100)"

definition FILLER_REVENUE_PAY_FACTOR :: rat where "FILLER_REVENUE_PAY_FACTOR = 1"

definition SECURE_FILLER_REVENUE_FLOOR_FACTOR :: rat where "SECURE_FILLER_REVENUE_FLOOR_FACTOR = 1"

section \<open>State\<close>

type_synonym bucket_key = "string \<times> int"
type_synonym candidates = "(string \<times> nat) list"

record engine =
  en_store :: "job_result list"
  en_job_results :: "(string, nat list) dict"
  en_total_gpu_model_count_map :: "(string, int) dict"
  en_unrented_count_by_bucket :: "(bucket_key, int) dict"
  en_weighted_rate_sum_by_bucket :: "(bucket_key, rat) dict"
  en_cap_multiplier_by_bucket :: "(bucket_key, rat) dict"
  en_split_fallback_candidates :: candidates
  en_spot_pay_candidates :: candidates
  en_secure_floor_candidates :: candidates
  en_unbucketed_rental_cost :: rat
  en_unbucketed_share :: rat
  en_unbucketed_share_raw :: rat
  en_unbucketed_paid_fraction :: rat
  en_total_rental_cost :: rat
  en_rental_share :: rat
  en_rental_share_raw :: rat
  en_burn_share :: rat
  en_total_burn_emission :: rat
  en_epoch_subnet_emission :: rat
  en_validator_tao_price_usd :: "rat option"
  en_validator_alpha_rate_tao_per_block :: "rat option"
  en_seeded :: bool
  en_total_executors :: int
  en_successful_executors :: int
  en_failed_executors :: int
  en_total_mining_score :: rat
  en_mining_share :: rat
  en_miner_incentives :: "(string, rat) dict"

definition new_engine :: "incentive_env \<Rightarrow> job_result list \<Rightarrow> (string, nat list) dict \<Rightarrow> (string, int) dict \<Rightarrow> engine" where
  "new_engine env store job_results total_map =
     \<lparr> en_store = store, en_job_results = job_results, en_total_gpu_model_count_map = total_map,
       en_unrented_count_by_bucket = [], en_weighted_rate_sum_by_bucket = [], en_cap_multiplier_by_bucket = [],
       en_split_fallback_candidates = [], en_spot_pay_candidates = [], en_secure_floor_candidates = [],
       en_unbucketed_rental_cost = 0, en_unbucketed_share = 0, en_unbucketed_share_raw = 0,
       en_unbucketed_paid_fraction = 1, en_total_rental_cost = 0, en_rental_share = 0, en_rental_share_raw = 0,
       en_burn_share = 0, en_total_burn_emission = ie_total_burn_emission env, en_epoch_subnet_emission = 0,
       en_validator_tao_price_usd = None, en_validator_alpha_rate_tao_per_block = None, en_seeded = False,
       en_total_executors = 0, en_successful_executors = 0, en_failed_executors = 0, en_total_mining_score = 0,
       en_mining_share = fsub 1 (ie_total_burn_emission env), en_miner_incentives = [] \<rparr>"

definition put :: "nat \<Rightarrow> job_result \<Rightarrow> engine \<Rightarrow> engine" where
  "put a r e = e\<lparr>en_store := (en_store e)[a := r]\<rparr>"

definition obj :: "engine \<Rightarrow> nat \<Rightarrow> job_result" where
  "obj e a = en_store e ! a"

text \<open>Reading an optional field in arithmetic.\<close>

definition need :: "'a option \<Rightarrow> 'a res" where
  "need x = (case x of None \<Rightarrow> Inl TypeError | Some v \<Rightarrow> Inr v)"

section \<open>Pre-processing\<close>

definition set_idle_factors :: "incentive_env \<Rightarrow> job_result \<Rightarrow> job_result" where
  "set_idle_factors env r = upd_inc (\<lambda>i. i\<lparr>in_sysbox_multiplier := Some (unrented_sysbox_multiplier env r),
     in_driver_multiplier := Some (idle_driver_multiplier env r)\<rparr>) r"

definition spot_secure_rate :: "job_result \<Rightarrow> rat res" where
  "spot_secure_rate r =
     rbind (need (in_hourly_rate (jr_inc r))) (\<lambda>h.
     rbind (need (in_sysbox_multiplier (jr_inc r))) (\<lambda>s.
     rbind (need (in_driver_multiplier (jr_inc r))) (\<lambda>d. Inr (fmul (fmul h s) d))))"

definition priced_spot_node :: "incentive_env \<Rightarrow> string \<Rightarrow> job_result \<Rightarrow> job_result" where
  "priced_spot_node env base_model r0 =
     (let cap_spec = dget_or [] (ic_max_unrented_gpus (ie_config env)) base_model;
          bucket = resolve_bucket r0 cap_spec;
          r1 = set_idle_factors env (upd_inc (\<lambda>i. i\<lparr>in_count_bucket := Some bucket\<rparr>) r0);
          r2 = (if \<not> in_program env base_model
                then record_reason GPU_MODEL_NOT_ELIGIBLE_FOR_UNRENTED_INCENTIVE (upd_inc (\<lambda>i. i\<lparr>in_hourly_rate := Some 0\<rparr>) r1)
                else if dget_or 0 cap_spec bucket \<le> 0
                then record_reason NO_UNRENTED_CAPACITY_FOR_GPU_COUNT (upd_inc (\<lambda>i. i\<lparr>in_hourly_rate := Some 0\<rparr>) r1)
                else upd_inc (\<lambda>i. i\<lparr>in_hourly_rate := Some (listed_hourly_rate env r1)\<rparr>) r1)
      in record_zero_driver_and_sysbox_reasons (in_driver_multiplier (jr_inc r2)) (in_sysbox_multiplier (jr_inc r2)) r2)"

definition price_spot_node :: "incentive_env \<Rightarrow> nat \<Rightarrow> engine \<Rightarrow> engine res" where
  "price_spot_node env a e =
     rbind (get_base_model_for_gpu (jr_gpu_model (obj e a))) (\<lambda>base_model.
     let r = priced_spot_node env base_model (obj e a) in
     rbind (need (jr_filler_revenue_per_gpu_hour r)) (\<lambda>filler.
     rbind (spot_secure_rate r) (\<lambda>secure.
       Inr (put a (upd_inc (\<lambda>i. i\<lparr>in_effective_rate := Some (min (fmul FILLER_REVENUE_PAY_FACTOR filler) secure)\<rparr>) r)
              (e\<lparr>en_spot_pay_candidates := en_spot_pay_candidates e @ [(base_model, a)]\<rparr>)))))"

definition weighted_rate :: "job_result \<Rightarrow> rat res" where
  "weighted_rate r =
     rbind (need (in_hourly_rate (jr_inc r))) (\<lambda>h.
     rbind (need (in_sysbox_multiplier (jr_inc r))) (\<lambda>s.
     rbind (need (in_driver_multiplier (jr_inc r))) (\<lambda>d.
       Inr (fmul (fmul (fmul (fint (jr_gpu_count r)) h) s) d))))"

text \<open>The accounting of an eligible idle result in its bucket.\<close>

definition rated_idle :: "incentive_env \<Rightarrow> string \<Rightarrow> job_result \<Rightarrow> job_result" where
  "rated_idle env base_model r0 =
     (let r = set_idle_factors env (upd_inc (\<lambda>i. i\<lparr>in_hourly_rate := Some (listed_hourly_rate env r0)\<rparr>) r0);
          bucket = resolve_bucket r (dget_or [] (ic_max_unrented_gpus (ie_config env)) base_model)
      in upd_inc (\<lambda>i. i\<lparr>in_count_bucket := Some bucket, in_max_cap := Some (bucket_cap (ie_config env) base_model bucket)\<rparr>) r)"

definition falls_back :: "job_result \<Rightarrow> int \<Rightarrow> bool" where
  "falls_back r bucket \<longleftrightarrow> splits r \<and> bucket = jr_gpu_count r \<and> bucket \<noteq> min_count r"

definition count_idle :: "bucket_key \<Rightarrow> nat \<Rightarrow> job_result \<Rightarrow> rat \<Rightarrow> engine \<Rightarrow> engine" where
  "count_idle key a r w e =
     e\<lparr>en_unrented_count_by_bucket := dset key (dget_or 0 (en_unrented_count_by_bucket e) key + jr_gpu_count r) (en_unrented_count_by_bucket e),
       en_weighted_rate_sum_by_bucket := dset key (fadd (dget_or 0 (en_weighted_rate_sum_by_bucket e) key) w) (en_weighted_rate_sum_by_bucket e),
       en_secure_floor_candidates := (if jr_filler_revenue_per_gpu_hour r \<noteq> None
         then en_secure_floor_candidates e @ [(fst key, a)] else en_secure_floor_candidates e),
       en_split_fallback_candidates := (if falls_back r (snd key)
         then en_split_fallback_candidates e @ [(fst key, a)] else en_split_fallback_candidates e)\<rparr>"

definition account_idle :: "incentive_env \<Rightarrow> string \<Rightarrow> nat \<Rightarrow> engine \<Rightarrow> engine res" where
  "account_idle env base_model a e0 =
     (let r = rated_idle env base_model (obj e0 a); e = put a r e0 in
      rbind (need (in_count_bucket (jr_inc r))) (\<lambda>bucket.
      rbind (need (in_max_cap (jr_inc r))) (\<lambda>max_cap.
      rbind (need (in_hourly_rate (jr_inc r))) (\<lambda>hourly.
        if 0 < hourly \<and> 0 < max_cap
        then rbind (weighted_rate r) (\<lambda>w. Inr (count_idle (base_model, bucket) a r w e))
        else Inr e))))"

text \<open>\<open>DefaultIncentive._pre_process_job_result\<close> with the rental score.\<close>

definition default_pre_process :: "incentive_env \<Rightarrow> nat \<Rightarrow> engine \<Rightarrow> engine res" where
  "default_pre_process env a e =
     rbind (rental_executor_score env (en_total_gpu_model_count_map e) (obj e a)) (\<lambda>r0.
     let r = record_validation_failed_reason r0 in
     rbind (need (in_mining_score (jr_inc r))) (\<lambda>ms.
       Inr (put a r (e\<lparr>en_total_executors := en_total_executors e + 1,
              en_total_mining_score := fadd (en_total_mining_score e) ms,
              en_successful_executors := (if jr_job_score r = 1 then en_successful_executors e + 1 else en_successful_executors e),
              en_failed_executors := (if jr_job_score r = 1 then en_failed_executors e else en_failed_executors e + 1)\<rparr>))))"

definition pre_process_job_result :: "incentive_env \<Rightarrow> nat \<Rightarrow> engine \<Rightarrow> engine res" where
  "pre_process_job_result env a e0 =
     (let r1 = snd (record_outdated_image_reason env (obj e0 a)) in
      if \<not> is_successful r1 then Inr (put a (record_validation_failed_reason r1) e0)
      else rbind (default_pre_process env a (put a r1 e0)) (\<lambda>e.
        let r = obj e a in
        if in_spot_pay_candidate (jr_inc r) then price_spot_node env a e
        else rbind (get_base_model_for_gpu (jr_gpu_model r)) (\<lambda>base_model.
          if in_program env base_model \<and> in_eligible_for_rental_share (jr_inc r) then account_idle env base_model a e
          else Inr e)))"


section \<open>Reassignment of split-capable nodes\<close>

fun rfold :: "('a \<Rightarrow> 's \<Rightarrow> 's res) \<Rightarrow> 'a list \<Rightarrow> 's \<Rightarrow> 's res" where
  "rfold f [] s = Inr s"
| "rfold f (x # xs) s = rbind (f x s) (rfold f xs)"

definition move_bucket :: "bucket_key \<Rightarrow> bucket_key \<Rightarrow> int \<Rightarrow> rat \<Rightarrow> engine \<Rightarrow> engine res" where
  "move_bucket src tgt n w e =
     (let counts = en_unrented_count_by_bucket e; rate_sums = en_weighted_rate_sum_by_bucket e in
      case dget rate_sums src of
        None \<Rightarrow> Inl KeyError
      | Some src_sum \<Rightarrow>
          let rate_sums' = dset src (fsub src_sum w) rate_sums in
          Inr (e\<lparr>en_unrented_count_by_bucket :=
                   dset tgt (dget_or 0 counts tgt + n) (dset src (dget_or 0 counts src - n) counts),
                 en_weighted_rate_sum_by_bucket := dset tgt (fadd (dget_or 0 rate_sums' tgt) w) rate_sums'\<rparr>))"

definition reassign_one :: "incentive_env \<Rightarrow> string \<times> nat \<Rightarrow> engine \<Rightarrow> engine res" where
  "reassign_one env c e =
     (let (base_model, a) = c; r = obj e a in
      rbind (need (in_count_bucket (jr_inc r))) (\<lambda>src.
      rbind (need (jr_gpu_splitting_min_count r)) (\<lambda>tgt.
        let src_cap = bucket_cap (ie_config env) base_model src;
            tgt_cap = bucket_cap (ie_config env) base_model tgt;
            src_count = dget_or 0 (en_unrented_count_by_bucket e) (base_model, src);
            tgt_count = dget_or 0 (en_unrented_count_by_bucket e) (base_model, tgt) in
        if tgt_cap \<le> 0 then Inr e
        else if src_count \<le> src_cap then Inr e
        else if tgt_cap < tgt_count + jr_gpu_count r then Inr e
        else if src_count = 0 then Inl ZeroDivisionError
        else rbind (weighted_rate r) (\<lambda>w.
          rbind (move_bucket (base_model, src) (base_model, tgt) (jr_gpu_count r) w e) (\<lambda>e'.
            Inr (put a (upd_inc (\<lambda>i. i\<lparr>in_bucket_reassigned_from := Some src,
                   in_bucket_reassigned_from_multiplier := Some (fl (of_int (min src_count src_cap) / of_int src_count)),
                   in_count_bucket := Some tgt, in_max_cap := Some tgt_cap\<rparr>) r) e'))))))"

definition reassign_split_candidates :: "incentive_env \<Rightarrow> engine \<Rightarrow> engine res" where
  "reassign_split_candidates env e =
     rfold (reassign_one env) (sort_key (\<lambda>(base_model, a). ex_uuid (jr_executor_info (obj e a))) (en_split_fallback_candidates e)) e"

section \<open>Shares of the cycle\<close>

definition cap_multiplier :: "int \<Rightarrow> int \<Rightarrow> rat" where
  "cap_multiplier count max_cap = fl (of_int (min count max_cap) / of_int count)"

definition set_cap_multipliers :: "incentive_env \<Rightarrow> engine \<Rightarrow> engine" where
  "set_cap_multipliers env e = e\<lparr>en_cap_multiplier_by_bucket :=
     fold (\<lambda>(key, count) d. let max_cap = bucket_cap (ie_config env) (fst key) (snd key) in
        if 0 < count \<and> 0 < max_cap then dset key (cap_multiplier count max_cap) d else d)
       (en_unrented_count_by_bucket e) (en_cap_multiplier_by_bucket e)\<rparr>"

definition add_bucket_costs :: "engine \<Rightarrow> engine" where
  "add_bucket_costs e = e\<lparr>en_total_rental_cost :=
     fold (\<lambda>(key, weighted_sum) total_cost. fadd total_cost (fmul (dget_or 0 (en_cap_multiplier_by_bucket e) key) weighted_sum))
       (en_weighted_rate_sum_by_bucket e) (en_total_rental_cost e)\<rparr>"

definition spot_rate_sums :: "engine \<Rightarrow> (string, rat) dict res" where
  "spot_rate_sums e = rfold (\<lambda>(base_model, a) d. rbind (need (in_effective_rate (jr_inc (obj e a)))) (\<lambda>rate.
       Inr (dset base_model (fadd (dget_or 0 d base_model) (fmul (fint (jr_gpu_count (obj e a))) rate)) d)))
     (en_spot_pay_candidates e) []"

definition spot_pools :: "engine \<Rightarrow> (string, rat) dict" where
  "spot_pools e = fold (\<lambda>(base_model, a) d.
       dset base_model (case jr_filler_revenue_usd_per_hour (obj e a) of None \<Rightarrow> 0 | Some x \<Rightarrow> x) d)
     (en_spot_pay_candidates e) []"

definition spot_multiplier :: "rat \<Rightarrow> rat \<Rightarrow> rat" where
  "spot_multiplier pool rate_sum = (if 0 < rate_sum then min 1 (fdiv pool rate_sum) else 1)"

definition pay_spot_one :: "(string, rat) dict \<Rightarrow> (string, rat) dict \<Rightarrow> string \<times> nat \<Rightarrow> rat \<times> engine \<Rightarrow> (rat \<times> engine) res" where
  "pay_spot_one rate_sums pools c s =
     (let (base_model, a) = c; (paid, e) = s; r = obj e a;
          multiplier = spot_multiplier (dget_or 0 pools base_model) (dget_or 0 rate_sums base_model) in
      rbind (need (in_effective_rate (jr_inc r))) (\<lambda>rate.
        let rate' = fmul rate multiplier in
        Inr (fadd paid (fmul (fint (jr_gpu_count r)) rate'),
             put a (upd_inc (\<lambda>i. i\<lparr>in_spot_pool_multiplier := Some multiplier, in_effective_rate := Some rate'\<rparr>) r) e)))"

definition spot_pay_within_filler_earnings :: "engine \<Rightarrow> (rat \<times> engine) res" where
  "spot_pay_within_filler_earnings e =
     rbind (spot_rate_sums e) (\<lambda>rate_sums. rfold (pay_spot_one rate_sums (spot_pools e)) (en_spot_pay_candidates e) (0, e))"

definition floored_rate :: "job_result \<Rightarrow> rat \<Rightarrow> rat" where
  "floored_rate r diluted =
     (case jr_filler_revenue_per_gpu_hour r of
        None \<Rightarrow> diluted
      | Some filler \<Rightarrow>
          if \<not> nonzero (in_max_cap (jr_inc r)) \<or> in_hourly_rate (jr_inc r) = None \<or> in_hourly_rate (jr_inc r) = Some 0 then diluted
          else max diluted (fmul SECURE_FILLER_REVENUE_FLOOR_FACTOR filler))"

definition floor_top_up_of :: "engine \<Rightarrow> string \<times> nat \<Rightarrow> rat \<Rightarrow> rat res" where
  "floor_top_up_of e c acc =
     (let (base_model, a) = c; r = obj e a in
      rbind (need (in_hourly_rate (jr_inc r))) (\<lambda>h.
      rbind (need (in_sysbox_multiplier (jr_inc r))) (\<lambda>s.
      rbind (need (in_driver_multiplier (jr_inc r))) (\<lambda>d.
        let cap = (case in_count_bucket (jr_inc r) of None \<Rightarrow> 0
              | Some bucket \<Rightarrow> dget_or 0 (en_cap_multiplier_by_bucket e) (base_model, bucket));
            diluted = fmul h cap in
        Inr (fadd acc (fmul (fmul (fmul (fint (jr_gpu_count r)) (fsub (floored_rate r diluted) diluted)) s) d))))))"

definition secure_floor_top_up :: "engine \<Rightarrow> rat res" where
  "secure_floor_top_up e = rfold (floor_top_up_of e) (en_secure_floor_candidates e) 0"

definition share_for_rental_cost :: "rat \<Rightarrow> rat \<Rightarrow> rat" where
  "share_for_rental_cost emission cost =
     (if emission \<le> 0 then 0
      else fdiv (fdiv (fdiv (fmul cost (fint (TEMPO * SECONDS_PER_BLOCK))) 3600) FIXED_RATIO) emission)"

text \<open>The share before the cap, and the state with this cycle's prices. A seeded engine keeps its emission.\<close>

definition calculate_rental_share :: "incentive_env \<Rightarrow> engine \<Rightarrow> rat \<times> engine" where
  "calculate_rental_share env e =
     (if en_seeded e then (share_for_rental_cost (en_epoch_subnet_emission e) (en_total_rental_cost e), e)
      else case (ie_tao_price env, ie_alpha_rate env) of
          (Some tao, Some alpha) \<Rightarrow>
            (let emission = fmul (fmul (fint TEMPO) tao) alpha in
             (share_for_rental_cost emission (en_total_rental_cost e),
              e\<lparr>en_validator_tao_price_usd := Some tao, en_validator_alpha_rate_tao_per_block := Some alpha,
                en_epoch_subnet_emission := emission\<rparr>))
        | _ \<Rightarrow> (0, e))"

definition settle_unbucketed_share :: "engine \<Rightarrow> engine" where
  "settle_unbucketed_share e =
     (let raw = share_for_rental_cost (en_epoch_subnet_emission e) (en_unbucketed_rental_cost e);
          headroom = max 0 (fsub (en_total_burn_emission e) (en_rental_share e));
          share = min raw headroom
      in e\<lparr>en_unbucketed_share_raw := raw, en_unbucketed_share := share,
           en_unbucketed_paid_fraction := (if 0 < raw then fdiv share raw else 1)\<rparr>)"

definition settle_shares :: "incentive_env \<Rightarrow> engine \<Rightarrow> engine" where
  "settle_shares env e0 =
     (let (raw, e1) = calculate_rental_share env e0;
          e2 = settle_unbucketed_share (e1\<lparr>en_rental_share_raw := raw, en_rental_share := min raw (en_total_burn_emission e1)\<rparr>)
      in e2\<lparr>en_burn_share := fsub (fsub (en_total_burn_emission e2) (en_rental_share e2)) (en_unbucketed_share e2)\<rparr>)"

definition on_finish_pre_process :: "incentive_env \<Rightarrow> engine \<Rightarrow> engine res" where
  "on_finish_pre_process env e0 =
     rbind (reassign_split_candidates env e0) (\<lambda>e1.
     rbind (spot_pay_within_filler_earnings (add_bucket_costs (set_cap_multipliers env e1))) (\<lambda>(spot, e2).
     let e3 = e2\<lparr>en_unbucketed_rental_cost := fadd (en_unbucketed_rental_cost e2) spot\<rparr> in
     rbind (secure_floor_top_up e3) (\<lambda>top_up.
       Inr (settle_shares env (e3\<lparr>en_unbucketed_rental_cost := fadd (en_unbucketed_rental_cost e3) top_up\<rparr>)))))"


section \<open>Post-processing\<close>

definition set_cycle_formula_context :: "engine \<Rightarrow> job_result \<Rightarrow> job_result" where
  "set_cycle_formula_context e = upd_inc (\<lambda>i. i\<lparr>in_rental_share := Some (en_rental_share e),
     in_rental_share_raw := Some (en_rental_share_raw e), in_burn_share := Some (en_burn_share e),
     in_total_burn_emission := Some (en_total_burn_emission e), in_total_rental_cost := Some (en_total_rental_cost e),
     in_validator_tao_price_usd := en_validator_tao_price_usd e,
     in_validator_alpha_rate_tao_per_block := en_validator_alpha_rate_tao_per_block e,
     in_estimated_epoch_emission_usd := Some (en_epoch_subnet_emission e),
     in_tempo_blocks := Some TEMPO, in_seconds_per_block := Some SECONDS_PER_BLOCK, in_fixed_ratio := Some FIXED_RATIO\<rparr>)"

definition unbucketed_clamped_to_zero :: "engine \<Rightarrow> bool" where
  "unbucketed_clamped_to_zero e \<longleftrightarrow> 0 < en_unbucketed_share_raw e \<and> en_unbucketed_share e \<le> 0"

text \<open>The incentive from the unbucketed share and the result with its three fields set.\<close>

definition pay_unbucketed :: "engine \<Rightarrow> rat \<Rightarrow> job_result \<Rightarrow> rat \<times> job_result" where
  "pay_unbucketed e top_up_rate r =
     (if en_unbucketed_rental_cost e \<le> 0 then 0
      else fdiv (fmul (fmul (en_unbucketed_share e) (fint (jr_gpu_count r))) top_up_rate) (en_unbucketed_rental_cost e),
      upd_inc (\<lambda>i. i\<lparr>in_unbucketed_share := Some (en_unbucketed_share e),
        in_unbucketed_rental_cost := Some (en_unbucketed_rental_cost e), in_floor_top_up_rate := Some top_up_rate\<rparr>) r)"

definition set_incentive :: "rat \<Rightarrow> job_result \<Rightarrow> job_result" where
  "set_incentive x = upd_inc (\<lambda>i. i\<lparr>in_incentive := Some x\<rparr>)"

definition credit :: "string \<Rightarrow> rat \<Rightarrow> engine \<Rightarrow> engine" where
  "credit hotkey x e = e\<lparr>en_miner_incentives :=
     dset hotkey (fadd (dget_or 0 (en_miner_incentives e) hotkey) x) (en_miner_incentives e)\<rparr>"

definition post_process_spot :: "engine \<Rightarrow> job_result \<Rightarrow> (rat \<times> job_result) res" where
  "post_process_spot e r0 =
     rbind (need (in_effective_rate (jr_inc r0))) (\<lambda>rate.
       let (x, r) = pay_unbucketed e rate (set_cycle_formula_context e r0); r' = set_incentive x r in
       Inr (x, if 0 < rate \<and> unbucketed_clamped_to_zero e then record_reason SPOT_NO_HEADROOM_AT_BURN_CAP r' else r'))"

text \<open>The bucket part of an eligible idle result: its rates and its incentive from the rental share.\<close>

definition idle_bucket :: "incentive_env \<Rightarrow> string \<Rightarrow> job_result \<Rightarrow> int" where
  "idle_bucket env base_model r = (case in_count_bucket (jr_inc r) of Some b \<Rightarrow> b
     | None \<Rightarrow> resolve_bucket r (dget_or [] (ic_max_unrented_gpus (ie_config env)) base_model))"

definition rental_part :: "engine \<Rightarrow> job_result \<Rightarrow> rat \<Rightarrow> rat" where
  "rental_part e r effective =
     (if 0 < en_total_rental_cost e
      then fdiv (fmul (fmul (en_rental_share e) (fint (jr_gpu_count r))) effective) (en_total_rental_cost e) else 0)"

definition explain_zero_effective_rate :: "job_result \<Rightarrow> job_result" where
  "explain_zero_effective_rate r =
     (let r1 = (if in_unrented_cap_multiplier (jr_inc r) = Some 0 then record_reason NO_UNRENTED_CAPACITY_FOR_GPU_COUNT r else r)
      in record_zero_driver_and_sysbox_reasons (in_driver_multiplier (jr_inc r1)) (in_sysbox_multiplier (jr_inc r1)) r1)"

definition post_process_idle :: "incentive_env \<Rightarrow> string \<Rightarrow> engine \<Rightarrow> job_result \<Rightarrow> (rat \<times> job_result) res" where
  "post_process_idle env base_model e r0 =
     rbind (need (in_max_cap (jr_inc r0))) (\<lambda>max_cap.
     rbind (need (in_hourly_rate (jr_inc r0))) (\<lambda>h.
     rbind (need (in_sysbox_multiplier (jr_inc r0))) (\<lambda>s.
     rbind (need (in_driver_multiplier (jr_inc r0))) (\<lambda>d.
       let key = (base_model, idle_bucket env base_model r0);
           count = dget_or 0 (en_unrented_count_by_bucket e) key;
           cap = dget_or 0 (en_cap_multiplier_by_bucket e) key;
           diluted = fmul h cap;
           floored = floored_rate r0 diluted;
           effective = fmul (fmul diluted s) d;
           r1 = set_cycle_formula_context e (upd_inc (\<lambda>i. i\<lparr>in_total_unrented_by_gpu_type := Some (of_int count),
                  in_cap_dilution_applied := Some (max_cap < count), in_unrented_cap_multiplier := Some cap,
                  in_effective_rate := Some effective\<rparr>) r0);
           x = rental_part e r1 effective;
           top_up_rate = fmul (fmul (fsub floored diluted) s) d;
           (x', r2) = (if 0 < top_up_rate then let (t, r) = pay_unbucketed e top_up_rate r1 in (fadd x t, r) else (x, r1))
       in Inr (x', explain_zero_effective_rate (set_incentive x' r2))))))"

definition post_process_job_result :: "incentive_env \<Rightarrow> string \<Rightarrow> nat \<Rightarrow> engine \<Rightarrow> engine res" where
  "post_process_job_result env hotkey a e =
     (let r = obj e a in
      if in_spot_pay_candidate (jr_inc r) then rbind (post_process_spot e r) (\<lambda>(x, r'). Inr (credit hotkey x (put a r' e)))
      else if \<not> in_eligible_for_rental_share (jr_inc r) then
        let r' = set_cycle_formula_context e (default_post_process (en_mining_share e) (en_total_mining_score e) r);
            e' = put a r' e in
        Inr (case (in_mining_score (jr_inc r), in_incentive (jr_inc r')) of
               (Some _, Some x) \<Rightarrow> credit hotkey x e' | _ \<Rightarrow> e')
      else rbind (get_base_model_for_gpu (jr_gpu_model r)) (\<lambda>base_model.
        rbind (post_process_idle env base_model e r) (\<lambda>(x, r'). Inr (credit hotkey x (put a r' e)))))"

section \<open>Partially rented split nodes\<close>

definition free_gpu_count_of_partially_rented_split :: "job_result \<Rightarrow> int option" where
  "free_gpu_count_of_partially_rented_split r =
     (case jr_rented_gpu_count r of
        None \<Rightarrow> None
      | Some rented \<Rightarrow>
          if jr_is_rented r \<and> 0 < jr_score r \<and> splits r \<and> rented \<noteq> 0 \<and> 0 < jr_gpu_count r - rented
          then Some (jr_gpu_count r - rented) else None)"

definition free_portion_of :: "int \<Rightarrow> job_result \<Rightarrow> job_result" where
  "free_portion_of free r = upd_inc (\<lambda>i. i\<lparr>in_zero_incentive_reasons := []\<rparr>)
     (r\<lparr>jr_gpu_count := free, jr_is_rented := False, jr_is_split_remainder := True, jr_filler_revenue_per_gpu_hour := None,
        jr_rental_created_at := None, jr_rented_gpu_count := None\<rparr>)"

text \<open>A pair of portions: the miner's hotkey and the addresses of the rented and of the free part.\<close>

type_synonym split_portions = "(string \<times> nat \<times> nat) list"

fun expand_results :: "string \<Rightarrow> nat list \<Rightarrow> job_result list \<Rightarrow> nat list \<times> split_portions \<times> job_result list" where
  "expand_results hotkey [] store = ([], [], store)"
| "expand_results hotkey (a # as) store =
     (case free_gpu_count_of_partially_rented_split (store ! a) of
        None \<Rightarrow> expand_results hotkey as store
      | Some free \<Rightarrow>
          let r = store ! a; b = length store;
              store' = store[a := r\<lparr>jr_gpu_count := jr_gpu_count r - free\<rparr>] @ [free_portion_of free r];
              (added, portions, final_store) = expand_results hotkey as store'
          in (b # added, (hotkey, a, b) # portions, final_store))"

fun expand_all :: "(string, nat list) dict \<Rightarrow> job_result list \<Rightarrow> (string, nat list) dict \<times> split_portions \<times> job_result list" where
  "expand_all [] store = ([], [], store)"
| "expand_all ((hotkey, as) # rest) store =
     (let (added, portions, store') = expand_results hotkey as store;
          (rest', portions', store'') = expand_all rest store'
      in ((hotkey, as @ added) # rest', portions @ portions', store''))"

definition merge_portions :: "string \<times> nat \<times> nat \<Rightarrow> engine \<Rightarrow> engine" where
  "merge_portions p e =
     (let (hotkey, a, b) = p; merged = obj e a; free = obj e b;
          m1 = record_mixed_formula_inputs \<lparr> mf_rented_gpu_count = jr_gpu_count merged, mf_free_gpu_count = jr_gpu_count free,
                 mf_mining = incentive_formula_inputs merged, mf_unrented = incentive_formula_inputs free \<rparr> merged;
          m2 = m1\<lparr>jr_gpu_count := jr_gpu_count m1 + (jr_gpu_count free + jr_port_unpaid_gpu_count free)\<rparr>;
          x = (\<lambda>r. case in_incentive (jr_inc r) of None \<Rightarrow> 0 | Some v \<Rightarrow> v);
          m3 = upd_inc (\<lambda>i. i\<lparr>in_zero_incentive_reasons := in_zero_incentive_reasons i @ in_zero_incentive_reasons (jr_inc free)\<rparr>)
                 (set_incentive_split (x m2) (x free) m2)
      in (put a m3 e)\<lparr>en_job_results := map (\<lambda>(h, as). (h, if h = hotkey then filter (\<lambda>c. c \<noteq> b) as else as)) (en_job_results e)\<rparr>)"

section \<open>The cycle\<close>

definition addressed :: "(string, nat list) dict \<Rightarrow> (string \<times> nat) list" where
  "addressed jr = concat (map (\<lambda>(h, as). map (\<lambda>a. (h, a)) as) jr)"

definition pre_process_step :: "incentive_env \<Rightarrow> string \<times> nat \<Rightarrow> engine \<Rightarrow> engine res" where
  "pre_process_step env c e =
     (let (hotkey, a) = c; st = ie_set env; r = obj e a;
          excluded = (hotkey \<in> set (get_scoring_excluded_hotkeys (sg_burn st))
            \<or> hotkey \<in> set (hotkey_list (sg_idle_incentive_excluded_hotkeys st)) \<and> \<not> jr_is_rented r)
      in pre_process_job_result env a (put a (r\<lparr>jr_is_hotkey_excluded_from_scoring := excluded\<rparr>) e))"

definition post_process_step :: "incentive_env \<Rightarrow> string \<times> nat \<Rightarrow> engine \<Rightarrow> engine res" where
  "post_process_step env c e =
     (let (hotkey, a) = c in
      rbind (post_process_job_result env hotkey a e) (\<lambda>e'. Inr (put a (split_incentive_across_pools (obj e' a)) e')))"

definition base_mining_scores :: "incentive_env \<Rightarrow> engine \<Rightarrow> engine res" where
  "base_mining_scores env e0 =
     (let cs = addressed (en_job_results e0) in
      rbind (rfold (pre_process_step env) cs e0) (\<lambda>e1.
      rbind (on_finish_pre_process env e1) (\<lambda>e2. rfold (post_process_step env) cs e2)))"

definition calculate_mining_scores :: "incentive_env \<Rightarrow> engine \<Rightarrow> engine res" where
  "calculate_mining_scores env e0 =
     (let (job_results, portions, store) = expand_all (en_job_results e0) (en_store e0) in
      rbind (base_mining_scores env (e0\<lparr>en_job_results := job_results, en_store := store\<rparr>)) (\<lambda>e.
        Inr (fold merge_portions portions e)))"

end
