(* ===== verification/Incentive_Samples.thy ===== *)
theory Incentive_Samples
  imports Incentive_Rental
begin

text \<open>
  A cycle's inputs for the concrete runs of the incentive engine: settings, a program with one
  model, a market with one price, and nodes of one provider.
\<close>

definition sample_settings :: incentive_settings where
  "sample_settings = \<lparr>
     sg_burn = \<lparr> bs_new_burners = [47], bs_burner_coldkeys = [(47, ''cold'')], bs_scoring_excluded_hotkeys = [],
                bs_referral_emission_share = Fin 0 \<rparr>,
     sg_idle_incentive_excluded_hotkeys = [], sg_executor_image_check_enforce = True,
     sg_min_nvidia_driver_version = ''580.95.05'', sg_min_driver_cutoff = 0, sg_sysbox_rented_cutoff = 0,
     sg_portion_for_sysbox = 0, sg_portion_for_sysbox_rented = 0, sg_portion_for_sysbox_unrented = 0,
     sg_skip_collateral_penalty = True, sg_portion_for_uptime = 0, sg_uptime_required_minutes = 1,
     sg_discord_incentive_cutoff = 0, sg_enable_spot_rental_incentive = True,
     sg_enable_unrented_power_cap_revert_limit = True, sg_spot_idle_pay_secure_decision_enabled = True \<rparr>"

definition sample_config :: incentive_config where
  "sample_config = \<lparr> ic_algorithm = ''rental_price'', ic_rental_incentive_gpu_types = [''B200''],
     ic_max_unrented_gpus = [(''B200'', [(1, 10), (8, 64)])], ic_rental_prices_per_hour = [(''NVIDIA B200'', 4)],
     ic_gpu_count_custom_prices = [(''*'', [(''*'', Price 0), (''1'', DEFAULT_PRICE), (''8'', DEFAULT_PRICE)])] \<rparr>"

definition sample_env :: incentive_env where
  "sample_env = \<lparr> ie_settings = sample_settings, ie_config = sample_config, ie_now = 1000,
     ie_machine_prices_p90 = [(''NVIDIA B200'', 4)], ie_soft_limit_price_rate = 5 / 4,
     ie_stored_portion = (\<lambda>_. Inr (Some (1 / 8))), ie_uptime = (\<lambda>_. 100), ie_reverts = (\<lambda>_. []),
     ie_tao_price = Some 256, ie_alpha_rate = Some (1 / 8), ie_total_burn_emission = 7 / 8 \<rparr>"

definition sample_node_info :: executor_ssh_info where
  "sample_node_info = \<lparr> ex_uuid = ''n1'', ex_address = ''10.0.0.1'', ex_port = 8001, ex_ssh_username = ''root'',
     ex_ssh_port = 22, ex_python_path = ''python3'', ex_root_dir = ''/root'', ex_port_range = None, ex_port_mappings = None,
     ex_price_per_gpu = Some 3, ex_ssh_host_key = None, ex_tdx_quote = None, ex_nvidia_payload = None,
     ex_expected_ssh_host_key = None \<rparr>"

text \<open>A scrape of one 180 GB card and the given disk (in KB), and the validated idle node that reported it.\<close>

definition sample_spec :: "int \<Rightarrow> pdict" where
  "sample_spec disk = [(''gpu'', PDict [(''details'', PList [PDict [(''capacity'', PInt 184320)]])]),
     (''hard_disk'', PDict [(''total'', PInt disk)])]"

definition sample_node :: "int \<Rightarrow> job_result" where
  "sample_node disk = (new_job_result sample_node_info 1 1 ''batch'' ''info'' [])
     \<lparr>jr_spec := Some (sample_spec disk), jr_gpu_model := Some ''NVIDIA B200'', jr_gpu_count := 1, jr_sysbox_runtime := True,
      jr_nvidia_driver_version := ''580.95.05''\<rparr>"

end
