(* ===== verification/Incentive_Rental_Proofs.thy ===== *)
theory Incentive_Rental_Proofs
  imports Incentive_Samples
begin

text \<open>
  Correctness of the score of one executor: who is excluded, who is eligible for idle pay, which pool
  pays, and how many GPUs of a split remainder are paid.
\<close>

section \<open>What recording a reason and the setters keep\<close>

definition reasons_of :: "job_result \<Rightarrow> zero_incentive_reason list" where
  "reasons_of r = in_zero_incentive_reasons (jr_inc r)"

definition without_reasons :: "job_result \<Rightarrow> job_result" where
  "without_reasons = upd_inc (\<lambda>i. i\<lparr>in_zero_incentive_reasons := []\<rparr>)"

text \<open>The same result up to its recorded reasons, of which none is lost.\<close>

definition same_but_reasons :: "job_result \<Rightarrow> job_result \<Rightarrow> bool" where
  "same_but_reasons r r' \<longleftrightarrow> without_reasons r' = without_reasons r \<and> set (reasons_of r) \<subseteq> set (reasons_of r')"

lemma upd_inc_upd [simp]: "upd_inc f (upd_inc g r) = upd_inc (\<lambda>i. f (g i)) r"
  by (simp add: upd_inc_def)

lemma same_refl [simp]: "same_but_reasons r r"
  by (simp add: same_but_reasons_def)

lemma same_trans [trans]: "same_but_reasons r s \<Longrightarrow> same_but_reasons s t \<Longrightarrow> same_but_reasons r t"
  by (auto simp: same_but_reasons_def)

lemma reasons_record [simp]: "reasons_of (record_reason z r) = reasons_of r @ [z]"
  by (simp add: record_reason_def reasons_of_def)

lemma same_record [simp]: "same_but_reasons r (record_reason z r)"
  by (auto simp: same_but_reasons_def without_reasons_def) (simp add: record_reason_def)

lemma reasons_record_reasons [simp]: "reasons_of (record_reasons zs r) = reasons_of r @ zs"
  unfolding record_reasons_def by (induction zs arbitrary: r) simp_all

lemma same_record_reasons [simp]: "same_but_reasons r (record_reasons zs r)"
  unfolding record_reasons_def
proof (induction zs arbitrary: r)
  case (Cons z zs)
  show ?case using same_trans [OF same_record Cons] by simp
qed simp

lemma without_reasons_fields:
  "jr_is_rented (without_reasons r) = jr_is_rented r" "jr_gpu_count (without_reasons r) = jr_gpu_count r"
  "jr_gpu_model (without_reasons r) = jr_gpu_model r" "jr_score (without_reasons r) = jr_score r"
  "jr_job_score (without_reasons r) = jr_job_score r"
  "jr_is_split_remainder (without_reasons r) = jr_is_split_remainder r"
  "jr_port_unpaid_gpu_count (without_reasons r) = jr_port_unpaid_gpu_count r"
  "jr_is_spot (without_reasons r) = jr_is_spot r" "jr_is_on_spot_pay_list (without_reasons r) = jr_is_on_spot_pay_list r"
  "jr_spec (without_reasons r) = jr_spec r" "jr_executor_info (without_reasons r) = jr_executor_info r"
  "jr_gpu_splitting_min_count (without_reasons r) = jr_gpu_splitting_min_count r"
  "jr_supports_gpu_splitting (without_reasons r) = jr_supports_gpu_splitting r"
  "jr_attestation_digest (without_reasons r) = jr_attestation_digest r"
  "in_mining_score (jr_inc (without_reasons r)) = in_mining_score (jr_inc r)"
  "in_eligible_for_rental_share (jr_inc (without_reasons r)) = in_eligible_for_rental_share (jr_inc r)"
  "in_spot_pay_candidate (jr_inc (without_reasons r)) = in_spot_pay_candidate (jr_inc r)"
  "in_incentive (jr_inc (without_reasons r)) = in_incentive (jr_inc r)"
  by (simp_all add: without_reasons_def upd_inc_def)

lemma same_fields:
  assumes "same_but_reasons r r'"
  shows
    "jr_is_rented r' = jr_is_rented r" "jr_gpu_count r' = jr_gpu_count r" "jr_gpu_model r' = jr_gpu_model r"
    "jr_score r' = jr_score r" "jr_job_score r' = jr_job_score r"
    "jr_is_split_remainder r' = jr_is_split_remainder r" "jr_port_unpaid_gpu_count r' = jr_port_unpaid_gpu_count r"
    "jr_is_spot r' = jr_is_spot r" "jr_is_on_spot_pay_list r' = jr_is_on_spot_pay_list r" "jr_spec r' = jr_spec r"
    "jr_executor_info r' = jr_executor_info r" "jr_gpu_splitting_min_count r' = jr_gpu_splitting_min_count r"
    "jr_supports_gpu_splitting r' = jr_supports_gpu_splitting r" "jr_attestation_digest r' = jr_attestation_digest r"
    "in_mining_score (jr_inc r') = in_mining_score (jr_inc r)"
    "in_eligible_for_rental_share (jr_inc r') = in_eligible_for_rental_share (jr_inc r)"
    "in_spot_pay_candidate (jr_inc r') = in_spot_pay_candidate (jr_inc r)"
    "in_incentive (jr_inc r') = in_incentive (jr_inc r)"
proof -
  have w: "without_reasons r' = without_reasons r" using assms by (simp add: same_but_reasons_def)
  show
    "jr_is_rented r' = jr_is_rented r" "jr_gpu_count r' = jr_gpu_count r" "jr_gpu_model r' = jr_gpu_model r"
    "jr_score r' = jr_score r" "jr_job_score r' = jr_job_score r"
    "jr_is_split_remainder r' = jr_is_split_remainder r" "jr_port_unpaid_gpu_count r' = jr_port_unpaid_gpu_count r"
    "jr_is_spot r' = jr_is_spot r" "jr_is_on_spot_pay_list r' = jr_is_on_spot_pay_list r" "jr_spec r' = jr_spec r"
    "jr_executor_info r' = jr_executor_info r" "jr_gpu_splitting_min_count r' = jr_gpu_splitting_min_count r"
    "jr_supports_gpu_splitting r' = jr_supports_gpu_splitting r" "jr_attestation_digest r' = jr_attestation_digest r"
    "in_mining_score (jr_inc r') = in_mining_score (jr_inc r)"
    "in_eligible_for_rental_share (jr_inc r') = in_eligible_for_rental_share (jr_inc r)"
    "in_spot_pay_candidate (jr_inc r') = in_spot_pay_candidate (jr_inc r)"
    "in_incentive (jr_inc r') = in_incentive (jr_inc r)"
    using
      arg_cong [OF w, of jr_is_rented] arg_cong [OF w, of jr_gpu_count] arg_cong [OF w, of jr_gpu_model]
      arg_cong [OF w, of jr_score] arg_cong [OF w, of jr_job_score] arg_cong [OF w, of jr_is_split_remainder]
      arg_cong [OF w, of jr_port_unpaid_gpu_count] arg_cong [OF w, of jr_is_spot]
      arg_cong [OF w, of jr_is_on_spot_pay_list] arg_cong [OF w, of jr_spec] arg_cong [OF w, of jr_executor_info]
      arg_cong [OF w, of jr_gpu_splitting_min_count] arg_cong [OF w, of jr_supports_gpu_splitting]
      arg_cong [OF w, of jr_attestation_digest] arg_cong [OF w, of "\<lambda>r. in_mining_score (jr_inc r)"]
      arg_cong [OF w, of "\<lambda>r. in_eligible_for_rental_share (jr_inc r)"]
      arg_cong [OF w, of "\<lambda>r. in_spot_pay_candidate (jr_inc r)"] arg_cong [OF w, of "\<lambda>r. in_incentive (jr_inc r)"]
    by (simp_all only: without_reasons_fields)
qed


lemma measured_same:
  assumes "same_but_reasons r r'"
  shows "is_over_soft_price_limit env r' = is_over_soft_price_limit env r"
    "insufficient_disk_of r' = insufficient_disk_of r"
    "missing_full_8x_capability_of r' base = missing_full_8x_capability_of r base"
    "power_cap_incapable_of r' = power_cap_incapable_of r"
    "power_cap_reverted_of env r' = power_cap_reverted_of env r"
proof -
  have split: "has_real_splitting r' = has_real_splitting r" by (simp only: has_real_splitting_def same_fields [OF assms])
  show "is_over_soft_price_limit env r' = is_over_soft_price_limit env r"
    by (simp only: is_over_soft_price_limit_def same_fields [OF assms])
  show "insufficient_disk_of r' = insufficient_disk_of r"
    by (simp only: insufficient_disk_of_def same_fields [OF assms])
  show "missing_full_8x_capability_of r' base = missing_full_8x_capability_of r base"
    by (simp only: missing_full_8x_capability_of_def split same_fields [OF assms])
  show "power_cap_incapable_of r' = power_cap_incapable_of r"
    by (simp only: power_cap_incapable_of_def same_fields [OF assms])
  show "power_cap_reverted_of env r' = power_cap_reverted_of env r"
    by (simp only: power_cap_reverted_of_def same_fields [OF assms])
qed

lemma rbind_Inr_iff: "rbind m f = Inr y \<longleftrightarrow> (\<exists>x. m = Inr x \<and> f x = Inr y)"
  by (cases m) (simp_all add: rbind_def)

lemma rbind_Inr [simp]: "rbind (Inr x) f = f x"
  by (simp add: rbind_def)

section \<open>The gates of a whole node\<close>

text \<open>A gate that blocks the node and records its reason when \<open>p\<close> holds.\<close>

definition gated :: "bool \<Rightarrow> zero_incentive_reason \<Rightarrow> gate_state \<Rightarrow> gate_state" where
  "gated p z s = (if p then (False, record_reason z (snd s)) else s)"

lemma gated_keeps: "same_but_reasons (snd s) (snd (gated p z s))"
  by (simp add: gated_def)

lemma fst_gated [simp]: "fst (gated p z s) \<longleftrightarrow> fst s \<and> \<not> p"
  by (simp add: gated_def)

lemma reasons_gated: "set (reasons_of (snd (gated p z s))) = set (reasons_of (snd s)) \<union> (if p then {z} else {})"
  by (auto simp: gated_def)

lemma runs_on_candidate [simp]: "should_run_idle_pool_gate True b True"
  by (simp add: should_run_idle_pool_gate_def)

lemma gates_as_gated:
  "soft_price_gate env True s = gated (is_over_soft_price_limit env (snd s)) PRICE_ABOVE_MARKET_P90_SOFT_LIMIT s"
  "disk_gate True s = rbind (insufficient_disk_of (snd s)) (\<lambda>m. Inr (gated (m \<noteq> None) INSUFFICIENT_DISK_FOR_VRAM s))"
  "full_8x_gate base True s = rbind (missing_full_8x_capability_of (snd s) base) (\<lambda>m. Inr (gated (m \<noteq> None) FULL_8X_WITHOUT_NCU_OR_SPLIT s))"
  "power_cap_gate True s = gated (power_cap_incapable_of (snd s) \<noteq> None) CANNOT_APPLY_GPU_POWER_CAP s"
  "power_cap_revert_gate env True s = gated (sg_enable_unrented_power_cap_revert_limit (ie_set env) \<and> power_cap_reverted_of env (snd s) \<noteq> None) REVERTS_GPU_POWER_CAP s"
  by (auto simp: soft_price_gate_def disk_gate_def full_8x_gate_def power_cap_gate_def power_cap_revert_gate_def
      gated_def blocked_by_def should_run_idle_pool_gate_def Let_def cong: if_cong)

lemma whole_node_limits:
  assumes "\<not> jr_is_split_remainder (snd s)"
  shows "port_gate candidate s = Inr s" "disk_remainder_gate candidate s = s"
  using assms
  by (cases s; auto simp: port_gate_def disk_remainder_gate_def port_limited_remainder_of_def disk_limited_remainder_of_def
      rbind_def split: option.split)+

definition zero_factor_reasons :: "incentive_env \<Rightarrow> job_result \<Rightarrow> zero_incentive_reason list" where
  "zero_factor_reasons env r = (if idle_driver_multiplier env r = 0 then [NVIDIA_DRIVER_BELOW_MINIMUM] else [])
     @ (if unrented_sysbox_multiplier env r = 0 then [SYSBOX_NOT_ENABLED] else [])"

lemma record_zero_factors:
  "record_zero_driver_and_sysbox_reasons (Some (idle_driver_multiplier env r)) (Some (unrented_sysbox_multiplier env r)) r
     = record_reasons (zero_factor_reasons env r) r"
  by (simp add: record_zero_driver_and_sysbox_reasons_def record_reasons_def zero_factor_reasons_def Let_def)

lemma gates_not_candidate:
  assumes "\<not> jr_is_split_remainder r" shows "idle_pool_gates env base False (False, r) = Inr (False, r)"
  by (simp add: idle_pool_gates_def port_gate_def disk_remainder_gate_def soft_price_gate_def disk_gate_def full_8x_gate_def
      power_cap_gate_def power_cap_revert_gate_def should_run_idle_pool_gate_def rbind_def Let_def)

text \<open>The gates that block an idle node, by the reason each records.\<close>

definition gate_reasons :: "incentive_env \<Rightarrow> string \<Rightarrow> job_result \<Rightarrow> zero_incentive_reason list" where
  "gate_reasons env base r =
     (if is_over_soft_price_limit env r then [PRICE_ABOVE_MARKET_P90_SOFT_LIMIT] else [])
     @ (if insufficient_disk_of r \<noteq> Inr None then [INSUFFICIENT_DISK_FOR_VRAM] else [])
     @ (if missing_full_8x_capability_of r base \<noteq> Inr None then [FULL_8X_WITHOUT_NCU_OR_SPLIT] else [])
     @ (if power_cap_incapable_of r \<noteq> None then [CANNOT_APPLY_GPU_POWER_CAP] else [])
     @ (if sg_enable_unrented_power_cap_revert_limit (ie_set env) \<and> power_cap_reverted_of env r \<noteq> None
        then [REVERTS_GPU_POWER_CAP] else [])"

lemma set_reason_if: "set (if p then [z] else []) = (if p then {z} else {})"
  by simp

text \<open>What the gates of a candidate do when nothing raises.\<close>

lemma gates_of_candidate:
  assumes whole: "\<not> jr_is_split_remainder r"
    and run: "idle_pool_gates env base True (eligible, r) = Inr s"
  shows "fst s \<longleftrightarrow> eligible \<and> gate_reasons env base r = []"
    "set (gate_reasons env base r) \<subseteq> set (reasons_of (snd s))"
proof -
  define s0 where "s0 = (eligible, r)"
  define s1 where "s1 = gated (is_over_soft_price_limit env r) PRICE_ABOVE_MARKET_P90_SOFT_LIMIT s0"
  have k1: "same_but_reasons r (snd s1)" using gated_keeps [of s0] by (simp add: s0_def s1_def)
  have limits: "port_gate True s0 = Inr s0" "disk_remainder_gate True s0 = s0"
    using whole_node_limits [of s0] whole by (simp_all add: s0_def)
  have g1: "soft_price_gate env True s0 = s1" by (simp add: gates_as_gated s1_def s0_def)
  obtain x y where xy: "disk_gate True s1 = Inr x" "full_8x_gate base True x = Inr y"
    using run [folded s0_def] unfolding idle_pool_gates_def limits rbind_Inr g1 by (auto simp: rbind_Inr_iff)
  obtain d where d: "insufficient_disk_of r = Inr d"
    using xy(1) unfolding gates_as_gated rbind_Inr_iff measured_same(2) [OF k1] by blast
  define s2 where "s2 = gated (d \<noteq> None) INSUFFICIENT_DISK_FOR_VRAM s1"
  have g2: "disk_gate True s1 = Inr s2" by (simp add: gates_as_gated measured_same(2) [OF k1] d rbind_def s2_def)
  have k2: "same_but_reasons r (snd s2)" using k1 gated_keeps unfolding s2_def by (rule same_trans)
  obtain m where m: "missing_full_8x_capability_of r base = Inr m"
    using xy(2) g2 xy(1) unfolding gates_as_gated(3) rbind_Inr_iff by (auto simp: measured_same(3) [OF k2])
  define s3 where "s3 = gated (m \<noteq> None) FULL_8X_WITHOUT_NCU_OR_SPLIT s2"
  have g3: "full_8x_gate base True s2 = Inr s3" by (simp add: gates_as_gated measured_same(3) [OF k2] m rbind_def s3_def)
  have k3: "same_but_reasons r (snd s3)" using k2 gated_keeps unfolding s3_def by (rule same_trans)
  define s4 where "s4 = gated (power_cap_incapable_of r \<noteq> None) CANNOT_APPLY_GPU_POWER_CAP s3"
  have g4: "power_cap_gate True s3 = s4" by (simp add: gates_as_gated measured_same(4) [OF k3] s4_def)
  have k4: "same_but_reasons r (snd s4)" using k3 gated_keeps unfolding s4_def by (rule same_trans)
  define s5 where "s5 = gated (sg_enable_unrented_power_cap_revert_limit (ie_set env) \<and> power_cap_reverted_of env r \<noteq> None) REVERTS_GPU_POWER_CAP s4"
  have g5: "power_cap_revert_gate env True s4 = s5" by (simp add: gates_as_gated measured_same(5) [OF k4] s5_def)
  have k5: "same_but_reasons r (snd s5)" using k4 gated_keeps unfolding s5_def by (rule same_trans)
  have s: "s = (if \<not> fst s5 then (fst s5, record_reasons (zero_factor_reasons env (snd s5)) (snd s5)) else s5)"
    using run [folded s0_def] unfolding idle_pool_gates_def limits rbind_Inr g1 g2 g3 g4 g5 Let_def record_zero_factors by simp
  have dm: "insufficient_disk_of r = Inr None \<longleftrightarrow> d = None" "missing_full_8x_capability_of r base = Inr None \<longleftrightarrow> m = None"
    using d m by auto
  show "fst s \<longleftrightarrow> eligible \<and> gate_reasons env base r = []"
    unfolding s gate_reasons_def dm s5_def s4_def s3_def s2_def s1_def s0_def by simp
  have "set (gate_reasons env base r) \<subseteq> set (reasons_of (snd s5))"
    unfolding gate_reasons_def dm s5_def s4_def s3_def s2_def s1_def reasons_gated set_append set_reason_if Un_assoc
    by (rule Un_upper2)
  also have "\<dots> \<subseteq> set (reasons_of (snd s))" unfolding s by auto
  finally show "set (gate_reasons env base r) \<subseteq> set (reasons_of (snd s))" .
qed

section \<open>What every gate keeps\<close>

text \<open>What decides the payment of a result, and its free GPUs whether they are paid or not.\<close>

definition pay_view :: "job_result \<Rightarrow> bool \<times> rat option \<times> bool \<times> bool \<times> int" where
  "pay_view r = (jr_is_rented r, in_mining_score (jr_inc r), in_eligible_for_rental_share (jr_inc r),
     in_spot_pay_candidate (jr_inc r), jr_gpu_count r + jr_port_unpaid_gpu_count r)"

text \<open>
  No step loses a GPU: what leaves the paid count of a split remainder is booked as unpaid, and the
  count of a whole node never changes. Nor does the model or the minimum split.
\<close>

definition conserved :: "job_result \<Rightarrow> job_result \<Rightarrow> bool" where
  "conserved r r' \<longleftrightarrow> jr_gpu_count r' + jr_port_unpaid_gpu_count r' = jr_gpu_count r + jr_port_unpaid_gpu_count r
     \<and> jr_is_split_remainder r' = jr_is_split_remainder r
     \<and> (\<not> jr_is_split_remainder r \<longrightarrow> jr_gpu_count r' = jr_gpu_count r)
     \<and> jr_gpu_model r' = jr_gpu_model r \<and> jr_gpu_splitting_min_count r' = jr_gpu_splitting_min_count r"

text \<open>Before the shares are known, no step pays either.\<close>

definition kept :: "job_result \<Rightarrow> job_result \<Rightarrow> bool" where
  "kept r r' \<longleftrightarrow> conserved r r' \<and> in_incentive (jr_inc r') = in_incentive (jr_inc r)"

lemma conserved_refl [simp]: "conserved r r"
  by (simp add: conserved_def)

lemma conserved_trans [trans]: "conserved r s \<Longrightarrow> conserved s t \<Longrightarrow> conserved r t"
  by (auto simp: conserved_def)

lemma conserved_upd_inc [simp]: "conserved r (upd_inc f r)"
  by (simp add: conserved_def)

lemma kept_refl [simp]: "kept r r"
  by (simp add: kept_def)

lemma kept_trans [trans]: "kept r s \<Longrightarrow> kept s t \<Longrightarrow> kept r t"
  by (auto simp: kept_def intro: conserved_trans)

lemma kept_conserved: "kept r s \<Longrightarrow> conserved r s"
  by (simp add: kept_def)

lemma kept_upd_inc [simp]: "(\<And>i. in_incentive (f i) = in_incentive i) \<Longrightarrow> kept r (upd_inc f r)"
  by (simp add: kept_def)

lemma kept_record [simp]: "kept r (record_reason z r)"
  by (simp add: record_reason_def)

lemma kept_same: "same_but_reasons r r' \<Longrightarrow> kept r r'"
  by (simp add: kept_def conserved_def same_fields)

text \<open>A gate only takes eligibility away, only adds reasons, and leaves the payment view alone.\<close>

definition gate_step :: "gate_state \<Rightarrow> gate_state \<Rightarrow> bool" where
  "gate_step s s' \<longleftrightarrow> pay_view (snd s') = pay_view (snd s) \<and> set (reasons_of (snd s)) \<subseteq> set (reasons_of (snd s'))
     \<and> (fst s' \<longrightarrow> fst s) \<and> kept (snd s) (snd s')"

lemma gate_step_refl [simp]: "gate_step s s"
  by (simp add: gate_step_def)

lemma gate_step_trans: "gate_step s t \<Longrightarrow> gate_step t u \<Longrightarrow> gate_step s u"
  by (auto simp: gate_step_def intro: kept_trans)

lemma pay_view_record [simp]: "pay_view (record_reason z r) = pay_view r"
  by (simp add: pay_view_def record_reason_def)

lemma gate_step_blocked [simp]: "gate_step s (blocked_by z s)"
  by (auto simp: gate_step_def blocked_by_def)

lemma gate_step_unpaid:
  "jr_is_split_remainder r \<Longrightarrow> gate_step (e, r) (e, record_reason z (r\<lparr>jr_gpu_count := jr_gpu_count r - n, jr_port_unpaid_gpu_count := jr_port_unpaid_gpu_count r + n\<rparr>))"
  by (auto simp: gate_step_def pay_view_def record_reason_def reasons_of_def upd_inc_def kept_def conserved_def)

lemma limited_is_remainder:
  "port_limited_remainder_of r = Inr (Some p) \<Longrightarrow> jr_is_split_remainder r"
  "disk_limited_remainder_of r = Some d \<Longrightarrow> jr_is_split_remainder r"
  by (auto simp: port_limited_remainder_of_def disk_limited_remainder_of_def split: option.splits if_splits)

lemma gate_steps:
  "port_gate c s = Inr s' \<Longrightarrow> gate_step s s'"
  "gate_step s (disk_remainder_gate c s)"
  "gate_step s (soft_price_gate env c s)"
  "disk_gate c s = Inr s' \<Longrightarrow> gate_step s s'"
  "full_8x_gate base c s = Inr s' \<Longrightarrow> gate_step s s'"
  "gate_step s (power_cap_gate c s)"
  "gate_step s (power_cap_revert_gate env c s)"
  subgoal by (cases s) (auto simp: port_gate_def rbind_Inr_iff gate_step_unpaid limited_is_remainder split: if_splits option.splits)
  subgoal by (cases s) (auto simp: disk_remainder_gate_def gate_step_unpaid limited_is_remainder Let_def split: option.splits)
  subgoal by (simp add: soft_price_gate_def)
  subgoal by (auto simp: disk_gate_def rbind_Inr_iff split: if_splits)
  subgoal by (auto simp: full_8x_gate_def rbind_Inr_iff split: if_splits)
  subgoal by (simp add: power_cap_gate_def)
  subgoal by (simp add: power_cap_revert_gate_def Let_def)
  done

lemma kept_zero_factors [simp]: "kept r (record_zero_driver_and_sysbox_reasons d x r)"
  by (auto simp: record_zero_driver_and_sysbox_reasons_def Let_def intro: kept_trans [OF kept_record kept_record])

lemma gate_step_zero_factors: "gate_step s (False, record_zero_driver_and_sysbox_reasons d x (snd s))"
  unfolding gate_step_def snd_conv
  by (intro conjI kept_zero_factors) (auto simp: record_zero_driver_and_sysbox_reasons_def Let_def)

lemma idle_pool_gates_step:
  assumes "idle_pool_gates env base c s = Inr s'" shows "gate_step s s'"
proof -
  obtain s1 s2 s3 where r: "port_gate c s = Inr s1"
    "disk_gate c (soft_price_gate env c (disk_remainder_gate c s1)) = Inr s2" "full_8x_gate base c s2 = Inr s3"
    and s': "s' = (let s4 = power_cap_revert_gate env c (power_cap_gate c s3) in
       if c \<and> \<not> fst s4 then (fst s4, record_zero_driver_and_sysbox_reasons (Some (idle_driver_multiplier env (snd s4)))
                  (Some (unrented_sysbox_multiplier env (snd s4))) (snd s4)) else s4)"
    using assms unfolding idle_pool_gates_def rbind_Inr_iff by (auto simp: Let_def)
  define s4 where "s4 = power_cap_revert_gate env c (power_cap_gate c s3)"
  have "gate_step s s3"
    using gate_steps(1) [OF r(1)] gate_steps(2,3) gate_steps(4) [OF r(2)] gate_steps(5) [OF r(3)]
    by (meson gate_step_trans)
  then have "gate_step s s4" unfolding s4_def by (meson gate_steps(6,7) gate_step_trans)
  moreover have "gate_step s4 s'"
    using gate_step_zero_factors [of s4] by (simp add: s' s4_def [symmetric] Let_def)
  ultimately show ?thesis by (rule gate_step_trans)
qed

lemma pay_view_fields:
  "pay_view r' = pay_view r \<Longrightarrow> jr_is_rented r' = jr_is_rented r"
  "pay_view r' = pay_view r \<Longrightarrow> in_spot_pay_candidate (jr_inc r') = in_spot_pay_candidate (jr_inc r)"
  by (simp_all add: pay_view_def)


section \<open>Who is paid, and from which pool\<close>

definition is_excluded :: "incentive_env \<Rightarrow> job_result \<Rightarrow> bool" where
  "is_excluded env r \<longleftrightarrow> (sg_executor_image_check_enforce (ie_set env) \<and> image_is_outdated r)
     \<or> reasons_excluded_from_both_pools env r \<noteq> []"

text \<open>The result after the exclusions are recorded, and what is known of the rest of the score.\<close>

definition with_exclusions :: "incentive_env \<Rightarrow> job_result \<Rightarrow> job_result" where
  "with_exclusions env r = record_reasons (reasons_excluded_from_both_pools env r) (snd (record_outdated_image_reason env r))"

lemma outdated_same: "same_but_reasons r (snd (record_outdated_image_reason env r))"
  by (simp add: record_outdated_image_reason_def)

lemma with_exclusions_same: "same_but_reasons r (with_exclusions env r)"
  unfolding with_exclusions_def using outdated_same same_record_reasons by (rule same_trans)

lemma exclusions_after_outdated:
  "reasons_excluded_from_both_pools env (snd (record_outdated_image_reason env r)) = reasons_excluded_from_both_pools env r"
  by (simp add: record_outdated_image_reason_def reasons_excluded_from_both_pools_def record_reason_def upd_inc_def
      on_spot_pay_path_def earns_spot_rental_incentive_def is_missing_discord_after_cutoff_def)

lemma on_spot_pay_path_same: "same_but_reasons r r' \<Longrightarrow> on_spot_pay_path r' = on_spot_pay_path r"
  by (simp only: on_spot_pay_path_def same_fields)

definition idle_candidate :: "incentive_env \<Rightarrow> string \<Rightarrow> job_result \<Rightarrow> bool" where
  "idle_candidate env base r \<longleftrightarrow> \<not> jr_is_rented r \<and> in_program env base \<and> (0 < jr_score r \<or> 0 < jr_job_score r)"

text \<open>The four ways the score of a result comes about.\<close>

lemma rental_executor_score_cases:
  assumes "rental_executor_score env total_map r = Inr r'"
  obtains
    (Spot) "on_spot_pay_path r" "r' = qualify_spot_node (is_excluded env r) (with_exclusions env r)"
  | (Unknown) "is_excluded env r" "get_base_model_for_gpu (jr_gpu_model r) = Inl KeyError" "r' = set_mining_score 0 (set_eligible False (with_exclusions env r))"
  | (Gates) base s where "get_base_model_for_gpu (jr_gpu_model r) = Inr base"
      "idle_pool_gates env base (idle_candidate env base r) (idle_candidate env base r \<and> \<not> is_excluded env r, with_exclusions env r) = Inr s"
      "settle_score env total_map base (is_excluded env r) (on_spot_pay_path r) s = Inr r'"
proof -
  have x: "(fst (record_outdated_image_reason env r) \<or> reasons_excluded_from_both_pools env r \<noteq> []) = is_excluded env r"
    by (auto simp: is_excluded_def record_outdated_image_reason_def)
  note f = same_fields [OF with_exclusions_same [of r env]] on_spot_pay_path_same [OF with_exclusions_same [of r env]]
  have "(on_spot_pay_path r \<and> r' = qualify_spot_node (is_excluded env r) (with_exclusions env r))
    \<or> (is_excluded env r \<and> get_base_model_for_gpu (jr_gpu_model r) = Inl KeyError \<and> r' = set_mining_score 0 (set_eligible False (with_exclusions env r)))
    \<or> rbind (get_base_model_for_gpu (jr_gpu_model r)) (\<lambda>base. rbind
        (idle_pool_gates env base (idle_candidate env base r) (idle_candidate env base r \<and> \<not> is_excluded env r, with_exclusions env r))
        (settle_score env total_map base (is_excluded env r) (on_spot_pay_path r))) = Inr r'"
    using assms unfolding rental_executor_score_def case_prod_unfold Let_def exclusions_after_outdated
      with_exclusions_def [symmetric] x f idle_candidate_def
    by (simp only: split: if_splits) simp_all
  then show ?thesis unfolding rbind_Inr_iff by (elim disjE conjE exE) (fact Spot Unknown Gates)+
qed

lemma default_score_keeps:
  assumes "default_executor_score env total_map f r = Inr r'"
  shows "jr_is_rented r' = jr_is_rented r"
    "in_eligible_for_rental_share (jr_inc r') = in_eligible_for_rental_share (jr_inc r)"
    "in_spot_pay_candidate (jr_inc r') = in_spot_pay_candidate (jr_inc r)"
    "set (reasons_of r) \<subseteq> set (reasons_of r')"
  using assms unfolding default_executor_score_def record_outdated_image_reason_def
  by (auto simp: set_mining_score_def scored_mining_def record_reason_def reasons_of_def Let_def split: if_splits sum.splits)

lemma settled:
  assumes "settle_score env total_map base excluded spot s = Inr r'"
  shows "jr_is_rented r' = jr_is_rented (snd s)"
    "in_eligible_for_rental_share (jr_inc r') \<longleftrightarrow> fst s \<and> \<not> spot"
    "in_spot_pay_candidate (jr_inc r') \<longrightarrow> in_spot_pay_candidate (jr_inc (snd s)) \<or> fst s \<and> spot"
    "fst s \<or> \<not> jr_is_rented (snd s) \<or> excluded \<Longrightarrow> in_mining_score (jr_inc r') = Some 0"
    "set (reasons_of (snd s)) \<subseteq> set (reasons_of r')"
  using assms default_score_keeps [of env total_map _ "set_eligible False (snd s)" r']
  by (auto simp: settle_score_def qualify_spot_node_by_the_secure_decision_def set_mining_score_def set_eligible_def
      set_spot_pay_candidate_def record_reason_def reasons_of_def Let_def split: prod.splits if_splits)

lemma spot_qualified:
  "jr_is_rented (qualify_spot_node x r) = jr_is_rented r"
  "\<not> in_eligible_for_rental_share (jr_inc (qualify_spot_node x r))"
  "in_mining_score (jr_inc (qualify_spot_node x r)) = Some 0"
  "in_spot_pay_candidate (jr_inc (qualify_spot_node x r)) \<Longrightarrow> in_spot_pay_candidate (jr_inc r) \<or> \<not> x"
  "set (reasons_of r) \<subseteq> set (reasons_of (qualify_spot_node x r))"
  by (auto simp: qualify_spot_node_def set_mining_score_def set_eligible_def set_spot_pay_candidate_def record_reason_def
      reasons_of_def Let_def)

lemma kept_settled:
  assumes "settle_score env total_map base excluded spot s = Inr r'" shows "kept (snd s) r'"
  using assms unfolding settle_score_def
  by (auto simp: qualify_spot_node_by_the_secure_decision_def default_executor_score_def record_outdated_image_reason_def
      set_mining_score_def set_eligible_def set_spot_pay_candidate_def record_reason_def scored_mining_def Let_def
      split: prod.splits if_splits sum.splits)

lemma kept_qualified: "kept r (qualify_spot_node x r)"
  by (simp add: qualify_spot_node_def set_mining_score_def set_eligible_def set_spot_pay_candidate_def record_reason_def Let_def)

lemma kept_scored:
  assumes "rental_executor_score env total_map r = Inr r'" shows "kept r r'"
  using assms
proof (cases rule: rental_executor_score_cases)
  case Spot
  show ?thesis unfolding Spot(2) by (rule kept_trans [OF kept_same [OF with_exclusions_same] kept_qualified])
next
  case Unknown
  show ?thesis
    unfolding Unknown(3) set_mining_score_def set_eligible_def upd_inc_upd
    by (rule kept_trans [OF kept_same [OF with_exclusions_same] kept_upd_inc]) simp
next
  case (Gates base s)
  have "kept (with_exclusions env r) (snd s)" using idle_pool_gates_step [OF Gates(2)] by (simp add: gate_step_def)
  then show ?thesis
    using kept_same [OF with_exclusions_same [of r env]] kept_settled [OF Gates(3)] by (blast intro: kept_trans)
qed


lemma spot_fresh: "\<not> in_spot_pay_candidate (jr_inc r) \<Longrightarrow> \<not> in_spot_pay_candidate (jr_inc (with_exclusions env r))"
  by (simp only: same_fields(17) [OF with_exclusions_same [of r env]] not_False_eq_True)



text \<open>
  Claim C26. No executor is paid from two pools: a result that is eligible for the rental share is not
  a spot candidate, and a result of either kind is unrented and has a mining score of 0.
\<close>

theorem one_pool_per_executor:
  assumes run: "rental_executor_score env total_map r = Inr r'" and fresh: "\<not> in_spot_pay_candidate (jr_inc r)"
  shows "\<not> (in_eligible_for_rental_share (jr_inc r') \<and> in_spot_pay_candidate (jr_inc r'))
    \<and> (in_eligible_for_rental_share (jr_inc r') \<or> in_spot_pay_candidate (jr_inc r')
        \<longrightarrow> \<not> jr_is_rented r' \<and> in_mining_score (jr_inc r') = Some 0)"
  using run
proof (cases rule: rental_executor_score_cases)
  case Spot
  note q = spot_qualified [where x = "is_excluded env r" and r = "with_exclusions env r", folded Spot(2)]
  have "\<not> jr_is_rented r'"
    using Spot(1) q(1) same_fields(1) [OF with_exclusions_same [of r env]] by (simp add: on_spot_pay_path_def)
  then show ?thesis using q(2,3) by simp
next
  case Unknown
  show ?thesis unfolding Unknown(3) using spot_fresh [OF fresh, of env] by (simp add: set_mining_score_def set_eligible_def)
next
  case (Gates base s)
  note g = idle_pool_gates_step [OF Gates(2), unfolded gate_step_def fst_conv snd_conv]
  note st = settled [OF Gates(3)]
  have idle: "fst s \<Longrightarrow> \<not> jr_is_rented (snd s)"
    using g pay_view_fields(1) [OF conjunct1 [OF g]] same_fields(1) [OF with_exclusions_same [of r env]]
    by (simp add: idle_candidate_def)
  have old: "\<not> in_spot_pay_candidate (jr_inc (snd s))" using pay_view_fields(2) [OF conjunct1 [OF g]] spot_fresh [OF fresh] by simp
  show ?thesis
  proof (cases "fst s")
    case True
    then show ?thesis using idle st(1,2,3) st(4) [OF disjI1 [OF True]] old by (cases "on_spot_pay_path r") simp_all
  next
    case False
    then show ?thesis using st(2,3) old by simp
  qed
qed

theorem one_pool_per_executor_witness:
  "\<exists>r'. rental_executor_score sample_env [] (sample_node 1073741824) = Inr r'
     \<and> in_eligible_for_rental_share (jr_inc r') \<and> \<not> in_spot_pay_candidate (jr_inc r') \<and> in_mining_score (jr_inc r') = Some 0"
proof -
  have ok: "(case rental_executor_score sample_env [] (sample_node 1073741824) of Inl _ \<Rightarrow> False
      | Inr r \<Rightarrow> in_eligible_for_rental_share (jr_inc r))" by code_simp
  then obtain r' where run: "rental_executor_score sample_env [] (sample_node 1073741824) = Inr r'"
    and el: "in_eligible_for_rental_share (jr_inc r')" by (simp split: sum.splits)
  have "\<not> in_spot_pay_candidate (jr_inc (sample_node 1073741824))" by code_simp
  from one_pool_per_executor [OF run this] run el show ?thesis by simp
qed

lemma gates_by_reasons:
  assumes whole: "\<not> jr_is_split_remainder r" and excl: "same_but_reasons r r2"
    and run: "idle_pool_gates env base c (e, r2) = Inr s" and "e \<longrightarrow> c"
  shows "fst s \<longleftrightarrow> e \<and> gate_reasons env base r = []" "c \<Longrightarrow> set (gate_reasons env base r) \<subseteq> set (reasons_of (snd s))"
proof -
  have whole2: "\<not> jr_is_split_remainder r2" using whole same_fields(6) [OF excl] by simp
  have gr: "gate_reasons env base r2 = gate_reasons env base r" by (simp only: gate_reasons_def measured_same [OF excl])
  have *: "(fst s \<longleftrightarrow> e \<and> gate_reasons env base r = []) \<and> (c \<longrightarrow> set (gate_reasons env base r) \<subseteq> set (reasons_of (snd s)))"
  proof (cases c)
    case True
    then have "idle_pool_gates env base True (e, r2) = Inr s" using run by simp
    from gates_of_candidate [OF whole2 this] show ?thesis unfolding gr by (intro conjI impI)
  next
    case False
    then have "e = False" "c = False" using assms(4) by simp_all
    then have "s = (False, r2)" using run gates_not_candidate [OF whole2, of env base] by simp
    then show ?thesis using \<open>e = False\<close> \<open>c = False\<close> by simp
  qed
  from * show "fst s \<longleftrightarrow> e \<and> gate_reasons env base r = []" by blast
  show "c \<Longrightarrow> set (gate_reasons env base r) \<subseteq> set (reasons_of (snd s))" using * by blast
qed

text \<open>
  Claim C27. A whole node outside the spot path is eligible for idle pay exactly when it is an idle
  candidate (unrented, of a model in the program, validated), no exclusion applies and no gate blocks
  it (price, disk, full-8x capability, power cap, power-cap reverts); and every gate that blocks a
  candidate is on its list of reasons, also when it is excluded or another gate already blocked it.
\<close>

theorem idle_eligibility_characterised:
  assumes run: "rental_executor_score env total_map r = Inr r'"
    and base: "get_base_model_for_gpu (jr_gpu_model r) = Inr base"
    and whole: "\<not> jr_is_split_remainder r" and secure: "\<not> on_spot_pay_path r"
  shows "(in_eligible_for_rental_share (jr_inc r')
      \<longleftrightarrow> idle_candidate env base r \<and> \<not> is_excluded env r \<and> gate_reasons env base r = [])
    \<and> (idle_candidate env base r \<longrightarrow> set (gate_reasons env base r) \<subseteq> set (reasons_of r'))"
  using run
proof (cases rule: rental_executor_score_cases)
  case Spot
  show ?thesis using secure Spot(1) by (rule notE)
next
  case Unknown
  show ?thesis using base Unknown(2) by simp
next
  case (Gates base' s)
  have b: "base' = base" using base Gates(1) by simp
  note g = gates_by_reasons [OF whole with_exclusions_same Gates(2) [unfolded b]]
  have e: "idle_candidate env base r \<and> \<not> is_excluded env r \<longrightarrow> idle_candidate env base r" by (rule impI) (rule conjunct1)
  have "in_eligible_for_rental_share (jr_inc r') \<longleftrightarrow> idle_candidate env base r \<and> \<not> is_excluded env r \<and> gate_reasons env base r = []"
    unfolding settled(2) [OF Gates(3)] g(1) [OF e] using secure by simp
  moreover have "idle_candidate env base r \<longrightarrow> set (gate_reasons env base r) \<subseteq> set (reasons_of r')"
    using subset_trans [OF g(2) [OF e] settled(5) [OF Gates(3)]] by (rule impI)
  ultimately show ?thesis by (rule conjI)
qed

theorem idle_eligibility_characterised_witness:
  "\<exists>r'. rental_executor_score sample_env [] (sample_node 1024) = Inr r'
     \<and> \<not> in_eligible_for_rental_share (jr_inc r') \<and> INSUFFICIENT_DISK_FOR_VRAM \<in> set (reasons_of r')"
proof -
  have "\<not> isl (rental_executor_score sample_env [] (sample_node 1024))" by code_simp
  then obtain r' where run: "rental_executor_score sample_env [] (sample_node 1024) = Inr r'"
    by (cases "rental_executor_score sample_env [] (sample_node 1024)") simp_all
  have base: "get_base_model_for_gpu (jr_gpu_model (sample_node 1024)) = Inr ''B200''" by code_simp
  have gates: "gate_reasons sample_env ''B200'' (sample_node 1024) = [INSUFFICIENT_DISK_FOR_VRAM]" by code_simp
  have "\<not> jr_is_split_remainder (sample_node 1024)" "\<not> on_spot_pay_path (sample_node 1024)"
    "idle_candidate sample_env ''B200'' (sample_node 1024)" by code_simp+
  with idle_eligibility_characterised [OF run base] gates run show ?thesis by simp
qed

end
