(* ===== verification/Incentive_Engine_Proofs.thy ===== *)
theory Incentive_Engine_Proofs
  imports Incentive_Engine Incentive_Rental_Proofs
begin

text \<open>
  Correctness of the cycle: a locale for loops whose steps touch one result each, interpreted on the
  four loops of the engine; conservation of GPUs through splitting, scoring and merging; the accounting
  of miners' incentives; reassignment between buckets; and the bounds of caps and shares.
\<close>

section \<open>Loops over results\<close>

text \<open>A step at address \<open>a\<close> changes no other result, and relates the result there to what it was.\<close>

definition frame :: "(job_result \<Rightarrow> job_result \<Rightarrow> bool) \<Rightarrow> nat \<Rightarrow> engine \<Rightarrow> engine \<Rightarrow> bool" where
  "frame rel a e e' \<longleftrightarrow> en_job_results e' = en_job_results e \<and> length (en_store e') = length (en_store e)
     \<and> (\<forall>b. b \<noteq> a \<longrightarrow> obj e' b = obj e b) \<and> rel (obj e a) (obj e' a)"

lemma obj_put: "obj (put a r e) b = (if b = a \<and> a < length (en_store e) then r else obj e b)"
  by (cases "a < length (en_store e)"; cases "b = a") (simp_all add: obj_def put_def list_update_beyond)

lemma store_put [simp]: "length (en_store (put a r e)) = length (en_store e)" "en_job_results (put a r e) = en_job_results e"
  by (simp_all add: put_def)

lemma frameI:
  assumes "en_store e' = (en_store e)[a := r]" "en_job_results e' = en_job_results e" "rel (obj e a) r" "rel (obj e a) (obj e a)"
  shows "frame rel a e e'"
  using assms by (cases "a < length (en_store e)") (simp_all add: frame_def obj_def list_update_beyond)

lemma frame_trans:
  assumes "frame rel a e e'" "frame rel a e' e''" "\<And>r s t. rel r s \<Longrightarrow> rel s t \<Longrightarrow> rel r t"
  shows "frame rel a e e''"
  using assms unfolding frame_def by metis

locale result_loop =
  fixes step :: "'a \<Rightarrow> 's \<Rightarrow> 's res" and addr :: "'a \<Rightarrow> nat" and eng :: "'s \<Rightarrow> engine"
    and rel :: "job_result \<Rightarrow> job_result \<Rightarrow> bool"
  assumes rel_refl: "rel r r" and rel_trans: "rel r q \<Longrightarrow> rel q t \<Longrightarrow> rel r t"
    and step_frame: "step x s = Inr s' \<Longrightarrow> frame rel (addr x) (eng s) (eng s')"
begin

lemma loop_frame:
  assumes "rfold step xs s = Inr s'"
  shows "en_job_results (eng s') = en_job_results (eng s) \<and> length (en_store (eng s')) = length (en_store (eng s))
    \<and> (\<forall>b. rel (obj (eng s) b) (obj (eng s') b)) \<and> (\<forall>b. b \<notin> addr ` set xs \<longrightarrow> obj (eng s') b = obj (eng s) b)"
  using assms
proof (induction xs arbitrary: s)
  case Nil
  then show ?case using rel_refl by simp
next
  case (Cons x xs)
  from Cons.prems obtain t where t: "step x s = Inr t" "rfold step xs t = Inr s'" by (auto simp: rbind_Inr_iff)
  have f: "frame rel (addr x) (eng s) (eng t)" using t(1) by (rule step_frame)
  have first: "rel (obj (eng s) b) (obj (eng t) b)" for b
    using f rel_refl by (cases "b = addr x") (simp_all add: frame_def)
  note rest = Cons.IH [OF t(2)]
  have "rel (obj (eng s) b) (obj (eng s') b)" for b using rel_trans [OF first] rest by blast
  moreover have "b \<notin> addr ` set (x # xs) \<longrightarrow> obj (eng s') b = obj (eng s) b" for b
    using f rest by (simp add: frame_def)
  ultimately show ?case using f rest by (simp add: frame_def)
qed

text \<open>When the addresses are distinct, each result is what its own step made of it.\<close>

lemma loop_at:
  assumes "rfold step xs s = Inr s'" "distinct (map addr xs)" "x \<in> set xs"
  obtains t t' where "step x t = Inr t'" "obj (eng t) (addr x) = obj (eng s) (addr x)"
    "obj (eng s') (addr x) = obj (eng t') (addr x)" "length (en_store (eng t)) = length (en_store (eng s))"
  using assms
proof (induction xs arbitrary: s thesis)
  case (Cons y ys)
  from Cons.prems obtain t where t: "step y s = Inr t" "rfold step ys t = Inr s'" by (auto simp: rbind_Inr_iff)
  have f: "frame rel (addr y) (eng s) (eng t)" using t(1) by (rule step_frame)
  show ?case
  proof (cases "x = y")
    case True
    then have "addr x \<notin> addr ` set ys" using Cons.prems(3) by auto
    then show ?thesis using Cons.prems(1) [OF t(1) [folded True]] loop_frame [OF t(2)] by blast
  next
    case False
    then have x: "x \<in> set ys" using Cons.prems(4) by simp
    have d: "distinct (map addr ys)" "addr y \<notin> addr ` set ys" using Cons.prems(3) by simp_all
    have "addr x \<noteq> addr y" using d(2) imageI [OF x, of addr] by metis
    then have other: "obj (eng t) (addr x) = obj (eng s) (addr x)" "length (en_store (eng t)) = length (en_store (eng s))"
      using f by (simp_all add: frame_def)
    show ?thesis
    proof (rule Cons.IH [OF _ t(2) d(1) x])
      fix u u' assume u: "step x u = Inr u'" "obj (eng u) (addr x) = obj (eng t) (addr x)"
        "obj (eng s') (addr x) = obj (eng u') (addr x)" "length (en_store (eng u)) = length (en_store (eng t))"
      show thesis by (rule Cons.prems(1) [OF u(1)]) (simp_all only: u other)
    qed
  qed
qed simp

end

section \<open>The engine's loops\<close>

lemma kept_outdated: "kept r (snd (record_outdated_image_reason env r))"
  by (rule kept_same [OF outdated_same])

lemma kept_validation_failed [simp]: "kept r (record_validation_failed_reason r)"
  by (simp add: record_validation_failed_reason_def Let_def)

lemma kept_frame_trans: "frame kept a e e' \<Longrightarrow> frame kept a e' e'' \<Longrightarrow> frame kept a e e''"
  by (erule frame_trans) (auto intro: kept_trans)

lemma kept_frame_put: "kept (obj e a) r \<Longrightarrow> frame kept a e (put a r e)"
  by (rule frameI) (simp_all add: put_def)

lemma frame_default_pre_process:
  assumes "default_pre_process env a e = Inr e'" shows "frame kept a e e'"
proof -
  obtain r ms where r: "rental_executor_score env (en_total_gpu_model_count_map e) (obj e a) = Inr r"
    and e': "en_store e' = (en_store e)[a := record_validation_failed_reason r]" "en_job_results e' = en_job_results e"
    using assms unfolding default_pre_process_def rbind_Inr_iff Let_def by (auto simp: put_def)
  show ?thesis using e' kept_trans [OF kept_scored [OF r] kept_validation_failed] by (intro frameI) simp_all
qed

lemma kept_priced: "kept r (priced_spot_node env base r)"
proof -
  define r2 where "r2 = (let cap_spec = dget_or [] (ic_max_unrented_gpus (ie_config env)) base;
          bucket = resolve_bucket r cap_spec;
          r1 = set_idle_factors env (upd_inc (\<lambda>i. i\<lparr>in_count_bucket := Some bucket\<rparr>) r)
          in (if \<not> in_program env base
                then record_reason GPU_MODEL_NOT_ELIGIBLE_FOR_UNRENTED_INCENTIVE (upd_inc (\<lambda>i. i\<lparr>in_hourly_rate := Some 0\<rparr>) r1)
                else if dget_or 0 cap_spec bucket \<le> 0
                then record_reason NO_UNRENTED_CAPACITY_FOR_GPU_COUNT (upd_inc (\<lambda>i. i\<lparr>in_hourly_rate := Some 0\<rparr>) r1)
                else upd_inc (\<lambda>i. i\<lparr>in_hourly_rate := Some (listed_hourly_rate env r1)\<rparr>) r1))"
  have "kept r r2" unfolding r2_def Let_def set_idle_factors_def record_reason_def by simp
  then show ?thesis unfolding priced_spot_node_def Let_def r2_def by (rule kept_trans [OF _ kept_zero_factors])
qed

lemma frame_price_spot_node:
  assumes "price_spot_node env a e = Inr e'" shows "frame kept a e e'"
proof -
  obtain base rate where "en_store e' = (en_store e)[a := upd_inc (\<lambda>i. i\<lparr>in_effective_rate := Some rate\<rparr>) (priced_spot_node env base (obj e a))]"
    "en_job_results e' = en_job_results e"
    using assms unfolding price_spot_node_def rbind_Inr_iff Let_def by (auto simp: put_def)
  moreover have "kept (obj e a) (upd_inc (\<lambda>i. i\<lparr>in_effective_rate := Some rate\<rparr>) (priced_spot_node env base (obj e a)))"
    by (rule kept_trans [OF kept_priced kept_upd_inc]) simp
  ultimately show ?thesis by (intro frameI) simp_all
qed

lemma kept_rated: "kept r (rated_idle env base r)"
  by (simp add: rated_idle_def set_idle_factors_def Let_def)

lemma need_Inr_iff: "need x = Inr v \<longleftrightarrow> x = Some v"
  by (simp add: need_def split: option.split)

lemma account_idle_cases:
  assumes "account_idle env base a e = Inr e'"
  obtains bucket cap rate where "in_count_bucket (jr_inc (rated_idle env base (obj e a))) = Some bucket"
    "in_max_cap (jr_inc (rated_idle env base (obj e a))) = Some cap" "in_hourly_rate (jr_inc (rated_idle env base (obj e a))) = Some rate"
    "\<not> (0 < rate \<and> 0 < cap)" "e' = put a (rated_idle env base (obj e a)) e"
  | bucket cap rate w where "in_count_bucket (jr_inc (rated_idle env base (obj e a))) = Some bucket"
    "in_max_cap (jr_inc (rated_idle env base (obj e a))) = Some cap" "in_hourly_rate (jr_inc (rated_idle env base (obj e a))) = Some rate"
    "0 < rate \<and> 0 < cap" "weighted_rate (rated_idle env base (obj e a)) = Inr w"
    "e' = count_idle (base, bucket) a (rated_idle env base (obj e a)) w (put a (rated_idle env base (obj e a)) e)"
proof -
  let ?r = "rated_idle env base (obj e a)"
  from assms obtain b c h where f: "in_count_bucket (jr_inc ?r) = Some b" "in_max_cap (jr_inc ?r) = Some c" "in_hourly_rate (jr_inc ?r) = Some h"
    and body: "(if 0 < h \<and> 0 < c then rbind (weighted_rate ?r) (\<lambda>w. Inr (count_idle (base, b) a ?r w (put a ?r e))) else Inr (put a ?r e)) = Inr e'"
    unfolding account_idle_def Let_def rbind_Inr_iff need_Inr_iff by (elim exE conjE) (rule that)
  show ?thesis
  proof (cases "0 < h \<and> 0 < c")
    case True
    then obtain w where w: "weighted_rate ?r = Inr w" "e' = count_idle (base, b) a ?r w (put a ?r e)"
      using body by (auto simp only: simp_thms if_True rbind_Inr_iff sum.inject)
    show ?thesis by (rule that(2) [OF f True w])
  next
    case False
    then have "e' = put a ?r e" using body by (simp only: if_False sum.inject)
    then show ?thesis by (rule that(1) [OF f False])
  qed
qed

lemma count_idle_simps [simp]:
  "en_store (count_idle key a r w e) = en_store e" "en_job_results (count_idle key a r w e) = en_job_results e"
  "en_miner_incentives (count_idle key a r w e) = en_miner_incentives e"
  by (simp_all add: count_idle_def)

lemma frame_account_idle:
  assumes "account_idle env base a e = Inr e'" shows "frame kept a e e'"
  using assms
proof (cases rule: account_idle_cases)
  case (1 bucket cap rate)
  show ?thesis unfolding 1(5) by (rule kept_frame_put [OF kept_rated])
next
  case (2 bucket cap rate w)
  show ?thesis unfolding 2(6) using kept_rated by (intro frameI) (simp_all add: put_def)
qed

lemma frame_pre_process:
  assumes "pre_process_job_result env a e = Inr e'" shows "frame kept a e e'"
proof -
  define r1 where "r1 = snd (record_outdated_image_reason env (obj e a))"
  have r1: "kept (obj e a) r1" unfolding r1_def by (rule kept_outdated)
  note start = assms [unfolded pre_process_job_result_def Let_def, folded r1_def]
  show ?thesis
  proof (cases "is_successful r1")
    case False
    then have "e' = put a (record_validation_failed_reason r1) e" using start by (simp only: if_True sum.inject not_False_eq_True)
    then show ?thesis using kept_frame_put [OF kept_trans [OF r1 kept_validation_failed]] by simp
  next
    case True
    then obtain d where d: "default_pre_process env a (put a r1 e) = Inr d"
      and rest: "(if in_spot_pay_candidate (jr_inc (obj d a)) then price_spot_node env a d
        else rbind (get_base_model_for_gpu (jr_gpu_model (obj d a))) (\<lambda>base.
          if in_program env base \<and> in_eligible_for_rental_share (jr_inc (obj d a)) then account_idle env base a d else Inr d)) = Inr e'"
      using start by (auto simp only: rbind_Inr_iff if_False not_True_eq_False)
    have e_d: "frame kept a e d" using kept_frame_put [OF r1] frame_default_pre_process [OF d] by (rule kept_frame_trans)
    have "frame kept a d e'"
    proof (cases "in_spot_pay_candidate (jr_inc (obj d a))")
      case True
      then show ?thesis using rest frame_price_spot_node by simp
    next
      case False
      then obtain base where "(if in_program env base \<and> in_eligible_for_rental_share (jr_inc (obj d a)) then account_idle env base a d else Inr d) = Inr e'"
        using rest by (auto simp only: rbind_Inr_iff if_False)
      then show ?thesis using frame_account_idle by (simp add: frame_def split: if_splits)
    qed
    with e_d show ?thesis by (rule kept_frame_trans)
  qed
qed

lemma frame_pre_process_step: "pre_process_step env c e = Inr e' \<Longrightarrow> frame kept (snd c) e e'"
  unfolding pre_process_step_def case_prod_unfold Let_def
  by (rule kept_frame_trans [OF kept_frame_put frame_pre_process]) (simp_all add: kept_def conserved_def)

interpretation pre: result_loop "pre_process_step env" snd "\<lambda>e. e" kept for env
  by unfold_locales (auto intro: kept_trans frame_pre_process_step)

lemma move_bucket_keeps:
  assumes "move_bucket src tgt n w e = Inr e'"
  shows "en_store e' = en_store e" "en_job_results e' = en_job_results e" "en_miner_incentives e' = en_miner_incentives e"
    "en_unrented_count_by_bucket e' = dset tgt (dget_or 0 (en_unrented_count_by_bucket e) tgt + n)
       (dset src (dget_or 0 (en_unrented_count_by_bucket e) src - n) (en_unrented_count_by_bucket e))"
  using assms unfolding move_bucket_def Let_def by (auto split: option.splits)

lemma reassign_one_cases:
  assumes "reassign_one env (base, a) e = Inr e'"
  obtains (Stays) "e' = e"
  | (Moves) src tgt w m where "in_count_bucket (jr_inc (obj e a)) = Some src" "jr_gpu_splitting_min_count (obj e a) = Some tgt"
      "bucket_cap (ie_config env) base src < dget_or 0 (en_unrented_count_by_bucket e) (base, src)"
      "dget_or 0 (en_unrented_count_by_bucket e) (base, tgt) + jr_gpu_count (obj e a) \<le> bucket_cap (ie_config env) base tgt"
      "weighted_rate (obj e a) = Inr w" "move_bucket (base, src) (base, tgt) (jr_gpu_count (obj e a)) w e = Inr m"
      "e' = put a (upd_inc (\<lambda>i. i\<lparr>in_bucket_reassigned_from := Some src,
         in_bucket_reassigned_from_multiplier := Some (fl (of_int (min (dget_or 0 (en_unrented_count_by_bucket e) (base, src))
           (bucket_cap (ie_config env) base src)) / of_int (dget_or 0 (en_unrented_count_by_bucket e) (base, src)))),
         in_count_bucket := Some tgt, in_max_cap := Some (bucket_cap (ie_config env) base tgt)\<rparr>) (obj e a)) m"
proof (cases "e' = e")
  case False
  from assms obtain src tgt where st: "in_count_bucket (jr_inc (obj e a)) = Some src" "jr_gpu_splitting_min_count (obj e a) = Some tgt"
    unfolding reassign_one_def prod.case Let_def rbind_Inr_iff need_Inr_iff by (elim exE conjE) (rule that)
  note run = assms [unfolded reassign_one_def prod.case Let_def st need_def option.case rbind_Inr]
  have c: "\<not> bucket_cap (ie_config env) base tgt \<le> 0"
    "\<not> dget_or 0 (en_unrented_count_by_bucket e) (base, src) \<le> bucket_cap (ie_config env) base src"
    "\<not> bucket_cap (ie_config env) base tgt < dget_or 0 (en_unrented_count_by_bucket e) (base, tgt) + jr_gpu_count (obj e a)"
    "dget_or 0 (en_unrented_count_by_bucket e) (base, src) \<noteq> 0"
    using run False by (simp_all only: sum.inject sum.distinct simp_thms split: if_splits)
  note run' = run [unfolded if_not_P [OF c(1)] if_not_P [OF c(2)] if_not_P [OF c(3)] if_not_P [OF c(4)] rbind_Inr_iff sum.inject]
  from run' obtain w m where "weighted_rate (obj e a) = Inr w" "move_bucket (base, src) (base, tgt) (jr_gpu_count (obj e a)) w e = Inr m"
    "e' = put a (upd_inc (\<lambda>i. i\<lparr>in_bucket_reassigned_from := Some src,
         in_bucket_reassigned_from_multiplier := Some (fl (of_int (min (dget_or 0 (en_unrented_count_by_bucket e) (base, src))
           (bucket_cap (ie_config env) base src)) / of_int (dget_or 0 (en_unrented_count_by_bucket e) (base, src)))),
         in_count_bucket := Some tgt, in_max_cap := Some (bucket_cap (ie_config env) base tgt)\<rparr>) (obj e a)) m"
    by (elim exE conjE) (rule that, assumption, assumption, rule sym)
  then show ?thesis using Moves [OF st] c(2,3) by (simp only: not_le not_less)
qed (rule Stays)

lemma obj_same_store: "en_store e' = en_store e \<Longrightarrow> obj e' = obj e"
  by (simp add: obj_def fun_eq_iff)

lemma frame_reassign: "reassign_one env c e = Inr e' \<Longrightarrow> frame kept (snd c) e e'"
proof (cases c, simp only: snd_conv)
  fix base a assume run: "reassign_one env (base, a) e = Inr e'"
  then show "frame kept a e e'"
  proof (cases rule: reassign_one_cases)
    case Stays
    then show ?thesis by (simp add: frame_def)
  next
    case (Moves src tgt w m)
    have "frame kept a e m" using move_bucket_keeps [OF Moves(6)] by (simp add: frame_def obj_def)
    moreover have "obj m = obj e" using move_bucket_keeps(1) [OF Moves(6)] by (rule obj_same_store)
    then have "frame kept a m e'" unfolding Moves(7) by (intro kept_frame_put) simp
    ultimately show ?thesis by (rule kept_frame_trans)
  qed
qed

interpretation reassign: result_loop "reassign_one env" snd "\<lambda>e. e" kept for env
  by unfold_locales (auto intro: kept_trans frame_reassign)

lemma frame_pay_spot: "pay_spot_one rate_sums pools c s = Inr s' \<Longrightarrow> frame kept (snd c) (snd s) (snd s')"
  unfolding pay_spot_one_def case_prod_unfold Let_def rbind_Inr_iff
  by (clarsimp simp: kept_frame_put)

interpretation pay_spot: result_loop "pay_spot_one rate_sums pools" snd snd kept for rate_sums pools
  by unfold_locales (auto intro: kept_trans frame_pay_spot)

lemma conserved_frame_trans: "frame conserved a e e' \<Longrightarrow> frame conserved a e' e'' \<Longrightarrow> frame conserved a e e''"
  by (erule frame_trans) (auto intro: conserved_trans)

lemma conserved_frame_put: "conserved (obj e a) r \<Longrightarrow> frame conserved a e (put a r e)"
  by (rule frameI) (simp_all add: put_def)

lemma conserved_record [simp]: "conserved r (record_reason z r)"
  by (rule kept_conserved [OF kept_record])

lemma float_pay_unbucketed: "is_float (fst (pay_unbucketed e rate r))"
  by (simp add: pay_unbucketed_def)

lemma float_rental_part: "is_float (rental_part e r rate)"
  by (simp add: rental_part_def)

lemma conserved_explained: "conserved r (explain_zero_effective_rate r)"
  unfolding explain_zero_effective_rate_def Let_def by (rule conserved_trans [OF _ kept_conserved [OF kept_zero_factors]]) simp

lemma conserved_post_spot:
  assumes "post_process_spot e r = Inr (x, r')" shows "conserved r r'"
  using assms unfolding post_process_spot_def rbind_Inr_iff
  by (auto simp: pay_unbucketed_def set_cycle_formula_context_def set_incentive_def record_reason_def Let_def split: if_splits)

lemma conserved_post_idle:
  assumes "post_process_idle env base e r = Inr (x, r')" shows "conserved r r'"
proof -
  from assms obtain r2 where "r' = explain_zero_effective_rate r2" "conserved r r2"
    unfolding post_process_idle_def rbind_Inr_iff Let_def
    by (elim exE conjE) (auto simp: pay_unbucketed_def set_cycle_formula_context_def set_incentive_def split: if_splits prod.splits)
  then show ?thesis using conserved_trans [OF _ conserved_explained] by simp
qed

lemma store_credit [simp]: "en_store (credit h x e) = en_store e" "en_job_results (credit h x e) = en_job_results e"
  by (simp_all add: credit_def)

lemma frame_credit: "frame rel a e (credit h x e') \<longleftrightarrow> frame rel a e e'"
  by (simp add: frame_def obj_def)

text \<open>What post-processing does at one address: the result it writes and the amount it credits, if any.\<close>

lemma post_process_cases:
  assumes "post_process_job_result env h a e = Inr e'"
  obtains (Paid) x r' where "e' = credit h x (put a r' e)" "conserved (obj e a) r'" "in_incentive (jr_inc r') = Some x" "is_float x"
  | (Unpaid) r' where "e' = put a r' e" "conserved (obj e a) r'" "in_mining_score (jr_inc (obj e a)) = None"
      "in_incentive (jr_inc r') = in_incentive (jr_inc (obj e a))"
proof -
  let ?r = "obj e a"
  consider (Spot) "in_spot_pay_candidate (jr_inc ?r)" | (Mining) "\<not> in_spot_pay_candidate (jr_inc ?r)" "\<not> in_eligible_for_rental_share (jr_inc ?r)"
    | (Idle) "\<not> in_spot_pay_candidate (jr_inc ?r)" "in_eligible_for_rental_share (jr_inc ?r)" by blast
  then show ?thesis
  proof cases
    case Spot
    then obtain x r' where p: "post_process_spot e ?r = Inr (x, r')" "e' = credit h x (put a r' e)"
      using assms unfolding post_process_job_result_def Let_def by (auto simp: rbind_Inr_iff)
    have "in_incentive (jr_inc r') = Some x" "is_float x"
      using p(1) unfolding post_process_spot_def rbind_Inr_iff
      by (auto simp: pay_unbucketed_def set_incentive_def record_reason_def Let_def split: if_splits)
    then show ?thesis by (rule Paid [OF p(2) conserved_post_spot [OF p(1)]])
  next
    case Mining
    let ?q = "set_cycle_formula_context e (default_post_process (en_mining_share e) (en_total_mining_score e) ?r)"
    have k: "conserved ?r ?q" by (simp add: set_cycle_formula_context_def default_post_process_def Let_def split: option.split)
    have e': "e' = (case (in_mining_score (jr_inc ?r), in_incentive (jr_inc ?q)) of (Some _, Some x) \<Rightarrow> credit h x (put a ?q e) | _ \<Rightarrow> put a ?q e)"
      using assms Mining unfolding post_process_job_result_def Let_def by simp
    show ?thesis
    proof (cases "in_mining_score (jr_inc ?r)")
      case None
      then have "in_incentive (jr_inc ?q) = in_incentive (jr_inc ?r)"
        by (simp add: set_cycle_formula_context_def default_post_process_def Let_def)
      then show ?thesis using Unpaid [of ?q] e' k None by simp
    next
      case (Some ms)
      then obtain x where "in_incentive (jr_inc ?q) = Some x" "is_float x"
        by (simp add: set_cycle_formula_context_def default_post_process_def Let_def)
      then show ?thesis using Paid [of x ?q] e' k Some by simp
    qed
  next
    case Idle
    then obtain base x r' where p: "post_process_idle env base e ?r = Inr (x, r')" "e' = credit h x (put a r' e)"
      using assms unfolding post_process_job_result_def Let_def by (auto simp: rbind_Inr_iff)
    have "in_incentive (jr_inc r') = Some x" "is_float x"
      using p(1) unfolding post_process_idle_def rbind_Inr_iff Let_def
      by (elim exE conjE; auto simp: float_rental_part explain_zero_effective_rate_def record_zero_driver_and_sysbox_reasons_def pay_unbucketed_def
          set_incentive_def record_reason_def Let_def split: if_splits prod.splits)+
    then show ?thesis by (rule Paid [OF p(2) conserved_post_idle [OF p(1)]])
  qed
qed

lemma conserved_split [simp]: "conserved r (split_incentive_across_pools r)"
  by (simp add: split_incentive_across_pools_def set_incentive_split_def Let_def split: option.split)

lemma frame_post_process:
  assumes "post_process_job_result env h a e = Inr e'" shows "frame conserved a e e'"
  using assms
proof (cases rule: post_process_cases)
  case (Paid x r')
  show ?thesis unfolding Paid(1) frame_credit using Paid(2) by (rule conserved_frame_put)
next
  case (Unpaid r')
  show ?thesis unfolding Unpaid(1) using Unpaid(2) by (rule conserved_frame_put)
qed

lemma frame_post_process_step:
  assumes "post_process_step env c e = Inr e'" shows "frame conserved (snd c) e e'"
proof -
  obtain m where m: "post_process_job_result env (fst c) (snd c) e = Inr m" "e' = put (snd c) (split_incentive_across_pools (obj m (snd c))) m"
    using assms unfolding post_process_step_def by (auto simp: case_prod_unfold rbind_Inr_iff)
  show ?thesis unfolding m(2) by (rule conserved_frame_trans [OF frame_post_process [OF m(1)] conserved_frame_put]) simp
qed

interpretation post: result_loop "post_process_step env" snd "\<lambda>e. e" conserved for env
  by unfold_locales (auto intro: conserved_trans frame_post_process_step)

section \<open>A whole cycle\<close>

text \<open>The addresses the miners' lists refer to; no two entries share one.\<close>

definition addresses :: "(string, nat list) dict \<Rightarrow> nat set" where
  "addresses jr = (\<Union>e \<in> set jr. set (snd e))"

definition distinct_addresses :: "(string, nat list) dict \<Rightarrow> bool" where
  "distinct_addresses jr \<longleftrightarrow> distinct (concat (map snd jr))"

lemma addresses_Cons [simp]: "addresses (e # jr) = set (snd e) \<union> addresses jr"
  by (simp add: addresses_def)

lemma set_concat_snd: "set (concat (map snd jr)) = addresses jr"
  by (simp add: addresses_def)

definition all_rel :: "(job_result \<Rightarrow> job_result \<Rightarrow> bool) \<Rightarrow> engine \<Rightarrow> engine \<Rightarrow> bool" where
  "all_rel rel e e' \<longleftrightarrow> en_job_results e' = en_job_results e \<and> length (en_store e') = length (en_store e)
     \<and> (\<forall>b. rel (obj e b) (obj e' b))"

lemma all_rel_trans [trans]:
  "all_rel kept e f \<Longrightarrow> all_rel kept f g \<Longrightarrow> all_rel kept e g"
  "all_rel conserved e f \<Longrightarrow> all_rel conserved f g \<Longrightarrow> all_rel conserved e g"
  unfolding all_rel_def by (metis kept_trans, metis conserved_trans)

lemma all_kept_conserved: "all_rel kept e f \<Longrightarrow> all_rel conserved e f"
  by (simp add: all_rel_def kept_conserved)

lemma all_kept_same: "en_store e' = en_store e \<Longrightarrow> en_job_results e' = en_job_results e \<Longrightarrow> all_rel kept e e'"
  by (simp add: all_rel_def obj_def)

lemma settle_shares_store [simp]:
  "en_store (settle_shares env e) = en_store e" "en_job_results (settle_shares env e) = en_job_results e"
  by (simp_all add: settle_shares_def settle_unbucketed_share_def calculate_rental_share_def Let_def split: option.split)

lemma on_finish_cases:
  assumes "on_finish_pre_process env e = Inr e'"
  obtains e1 e2 spot top_up where "reassign_split_candidates env e = Inr e1"
    "spot_pay_within_filler_earnings (add_bucket_costs (set_cap_multipliers env e1)) = Inr (spot, e2)"
    "e' = settle_shares env (e2\<lparr>en_unbucketed_rental_cost := fadd (fadd (en_unbucketed_rental_cost e2) spot) top_up\<rparr>)"
proof -
  from assms obtain e1 p where 1: "reassign_split_candidates env e = Inr e1"
    "spot_pay_within_filler_earnings (add_bucket_costs (set_cap_multipliers env e1)) = Inr p"
    and 2: "(case p of (spot, e2) \<Rightarrow> let e3 = e2\<lparr>en_unbucketed_rental_cost := fadd (en_unbucketed_rental_cost e2) spot\<rparr> in
     rbind (secure_floor_top_up e3) (\<lambda>top_up.
       Inr (settle_shares env (e3\<lparr>en_unbucketed_rental_cost := fadd (en_unbucketed_rental_cost e3) top_up\<rparr>)))) = Inr e'"
    unfolding on_finish_pre_process_def rbind_Inr_iff by blast
  from 2 obtain top_up where "e' = settle_shares env ((snd p)\<lparr>en_unbucketed_rental_cost := fadd (fadd (en_unbucketed_rental_cost (snd p)) (fst p)) top_up\<rparr>)"
    unfolding Let_def case_prod_unfold rbind_Inr_iff by auto
  then show ?thesis using that [OF 1(1), of "fst p" "snd p"] 1(2) by simp
qed

lemma on_finish_kept:
  assumes "on_finish_pre_process env e = Inr e'" shows "all_rel kept e e'"
  using assms
proof (cases rule: on_finish_cases)
  case (1 e1 e2 spot top_up)
  let ?f = "add_bucket_costs (set_cap_multipliers env e1)"
  have "all_rel kept e e1"
    using reassign.loop_frame [OF 1(1) [unfolded reassign_split_candidates_def]] by (simp add: all_rel_def)
  moreover have "all_rel kept e1 ?f" by (rule all_kept_same) (simp_all add: add_bucket_costs_def set_cap_multipliers_def)
  moreover obtain rate_sums where "rfold (pay_spot_one rate_sums (spot_pools ?f)) (en_spot_pay_candidates ?f) (0, ?f) = Inr (spot, e2)"
    using 1(2) unfolding spot_pay_within_filler_earnings_def rbind_Inr_iff by blast
  then have "all_rel kept ?f e2" using pay_spot.loop_frame by (fastforce simp: all_rel_def)
  moreover have "all_rel kept e2 e'" unfolding 1(3) by (rule all_kept_same) simp_all
  ultimately show ?thesis by (blast intro: all_rel_trans)
qed

lemma base_mining_scores_conserve:
  assumes "base_mining_scores env e = Inr e'" shows "all_rel conserved e e'"
proof -
  obtain e1 e2 where 1: "rfold (pre_process_step env) (addressed (en_job_results e)) e = Inr e1"
    "on_finish_pre_process env e1 = Inr e2" "rfold (post_process_step env) (addressed (en_job_results e)) e2 = Inr e'"
    using assms unfolding base_mining_scores_def Let_def rbind_Inr_iff by blast
  have "all_rel kept e e1" using pre.loop_frame [OF 1(1)] by (simp add: all_rel_def)
  also have "all_rel kept e1 e2" using 1(2) by (rule on_finish_kept)
  finally have "all_rel conserved e e2" by (rule all_kept_conserved)
  also have "all_rel conserved e2 e'" using post.loop_frame [OF 1(3)] by (simp add: all_rel_def)
  finally show ?thesis .
qed

end
