(* ===== verification/Incentive_Progress_Proofs.thy ===== *)
theory Incentive_Progress_Proofs
  imports Incentive_Engine_Proofs Incentive_Samples
begin

text \<open>
  When a cycle completes: an exception anywhere in it costs every miner the weights. The fields the
  later phases read are set by the earlier ones, so only the score of a single result can stop a cycle,
  and the ways in which it does are stated here.
\<close>

section \<open>Fields that stay set\<close>

definition steady :: "job_result \<Rightarrow> job_result \<Rightarrow> bool" where
  "steady r r' \<longleftrightarrow> in_spot_pay_candidate (jr_inc r') = in_spot_pay_candidate (jr_inc r)
     \<and> in_eligible_for_rental_share (jr_inc r') = in_eligible_for_rental_share (jr_inc r)
     \<and> jr_gpu_model r' = jr_gpu_model r \<and> jr_gpu_splitting_min_count r' = jr_gpu_splitting_min_count r
     \<and> (in_effective_rate (jr_inc r) \<noteq> None \<longrightarrow> in_effective_rate (jr_inc r') \<noteq> None)
     \<and> (in_hourly_rate (jr_inc r) \<noteq> None \<longrightarrow> in_hourly_rate (jr_inc r') \<noteq> None)
     \<and> (in_sysbox_multiplier (jr_inc r) \<noteq> None \<longrightarrow> in_sysbox_multiplier (jr_inc r') \<noteq> None)
     \<and> (in_driver_multiplier (jr_inc r) \<noteq> None \<longrightarrow> in_driver_multiplier (jr_inc r') \<noteq> None)
     \<and> (in_count_bucket (jr_inc r) \<noteq> None \<longrightarrow> in_count_bucket (jr_inc r') \<noteq> None)
     \<and> (in_max_cap (jr_inc r) \<noteq> None \<longrightarrow> in_max_cap (jr_inc r') \<noteq> None)"

lemma steady_refl [simp]: "steady r r"
  by (simp add: steady_def)

lemma steady_trans [trans]: "steady r s \<Longrightarrow> steady s t \<Longrightarrow> steady r t"
  unfolding steady_def by metis

definition rated :: "job_result \<Rightarrow> bool" where
  "rated r \<longleftrightarrow> in_hourly_rate (jr_inc r) \<noteq> None \<and> in_sysbox_multiplier (jr_inc r) \<noteq> None \<and> in_driver_multiplier (jr_inc r) \<noteq> None"

definition bucketed :: "job_result \<Rightarrow> bool" where
  "bucketed r \<longleftrightarrow> rated r \<and> in_count_bucket (jr_inc r) \<noteq> None \<and> in_max_cap (jr_inc r) \<noteq> None"

text \<open>What post-processing needs of a result.\<close>

definition payable :: "job_result \<Rightarrow> bool" where
  "payable r \<longleftrightarrow> (in_spot_pay_candidate (jr_inc r) \<longrightarrow> in_effective_rate (jr_inc r) \<noteq> None)
     \<and> (in_eligible_for_rental_share (jr_inc r) \<and> \<not> in_spot_pay_candidate (jr_inc r)
         \<longrightarrow> bucketed r \<and> (\<exists>base. get_base_model_for_gpu (jr_gpu_model r) = Inr base))"

lemma steady_ready:
  assumes "steady r r'"
  shows "rated r \<Longrightarrow> rated r'" "bucketed r \<Longrightarrow> bucketed r'" "payable r \<Longrightarrow> payable r'"
  using assms unfolding steady_def payable_def bucketed_def rated_def by simp_all

lemma rfold_total:
  assumes "\<And>x s. x \<in> set xs \<Longrightarrow> I s \<Longrightarrow> \<exists>s'. f x s = Inr s' \<and> I s'" and "I s"
  shows "\<exists>s'. rfold f xs s = Inr s' \<and> I s'"
  using assms
proof (induction xs arbitrary: s)
  case (Cons x xs)
  from Cons.prems(1) [OF _ Cons.prems(2), of x] obtain t where t: "f x s = Inr t" "I t" by auto
  have "\<exists>s'. rfold f xs t = Inr s' \<and> I s'" by (rule Cons.IH [OF Cons.prems(1) t(2)]) simp_all
  then show ?case by (simp add: t(1))
qed simp

section \<open>Post-processing completes\<close>

lemma need_total: "x \<noteq> None \<Longrightarrow> need x = Inr (the x)"
  by (auto simp: need_def)

lemma post_process_spot_total:
  "in_effective_rate (jr_inc r) \<noteq> None \<Longrightarrow> \<exists>x r'. post_process_spot e r = Inr (x, r')"
  by (auto simp: post_process_spot_def need_def Let_def case_prod_unfold)

lemma post_process_idle_total:
  "bucketed r \<Longrightarrow> \<exists>x r'. post_process_idle env base e r = Inr (x, r')"
  by (auto simp: post_process_idle_def bucketed_def rated_def need_def Let_def case_prod_unfold)

lemma post_process_total:
  assumes "payable (obj e a)" shows "\<exists>e'. post_process_job_result env h a e = Inr e'"
proof -
  let ?r = "obj e a"
  consider (Spot) "in_spot_pay_candidate (jr_inc ?r)" | (Mining) "\<not> in_spot_pay_candidate (jr_inc ?r)" "\<not> in_eligible_for_rental_share (jr_inc ?r)"
    | (Idle) "\<not> in_spot_pay_candidate (jr_inc ?r)" "in_eligible_for_rental_share (jr_inc ?r)" by blast
  then show ?thesis
  proof cases
    case Spot
    then have "in_effective_rate (jr_inc ?r) \<noteq> None" using assms by (simp add: payable_def)
    then obtain x r' where "post_process_spot e ?r = Inr (x, r')" using post_process_spot_total by blast
    then show ?thesis using Spot by (simp add: post_process_job_result_def)
  next
    case Mining
    then show ?thesis by (simp add: post_process_job_result_def Let_def)
  next
    case Idle
    then have "bucketed ?r \<and> (\<exists>base. get_base_model_for_gpu (jr_gpu_model ?r) = Inr base)" using assms by (simp add: payable_def)
    then obtain base where b: "get_base_model_for_gpu (jr_gpu_model ?r) = Inr base" "bucketed ?r" by blast
    obtain x r' where "post_process_idle env base e ?r = Inr (x, r')" using post_process_idle_total [OF b(2)] by blast
    then show ?thesis using Idle b(1) by (simp add: post_process_job_result_def)
  qed
qed

lemma steady_record [simp]: "steady r (record_reason z r)"
  by (simp add: steady_def record_reason_def)

lemma steady_zero_factors: "steady r (record_zero_driver_and_sysbox_reasons d x r)"
  by (simp add: record_zero_driver_and_sysbox_reasons_def Let_def) (metis steady_record steady_trans)

lemma steady_explained: "steady r (explain_zero_effective_rate r)"
  unfolding explain_zero_effective_rate_def Let_def by (rule steady_trans [OF _ steady_zero_factors]) simp

lemma steady_post_spot:
  assumes "post_process_spot e r = Inr (x, r')" shows "steady r r'"
  using assms unfolding post_process_spot_def rbind_Inr_iff
  by (auto simp: steady_def pay_unbucketed_def set_cycle_formula_context_def set_incentive_def record_reason_def Let_def split: if_splits)

lemma steady_post_idle:
  assumes "post_process_idle env base e r = Inr (x, r')" shows "steady r r'"
proof -
  from assms obtain r2 where "r' = explain_zero_effective_rate r2" "steady r r2"
    unfolding post_process_idle_def rbind_Inr_iff Let_def
    by (elim exE conjE) (auto simp: steady_def pay_unbucketed_def set_cycle_formula_context_def set_incentive_def split: if_splits prod.splits)
  then show ?thesis using steady_trans [OF _ steady_explained] by simp
qed

lemma steady_frame_put: "steady (obj e a) r \<Longrightarrow> frame steady a e (put a r e)"
  by (rule frameI) (simp_all add: put_def)

lemma steady_frame_trans: "frame steady a e e' \<Longrightarrow> frame steady a e' e'' \<Longrightarrow> frame steady a e e''"
  by (erule frame_trans) (auto intro: steady_trans)

lemma steady_mining:
  "steady r (set_cycle_formula_context e (default_post_process share total_score r))"
  by (simp add: steady_def set_cycle_formula_context_def default_post_process_def Let_def split: option.split)

lemma steady_post_process:
  assumes "post_process_job_result env h a e = Inr e'" shows "frame steady a e e'"
proof -
  let ?r = "obj e a"
  consider (Spot) "in_spot_pay_candidate (jr_inc ?r)" | (Mining) "\<not> in_spot_pay_candidate (jr_inc ?r)" "\<not> in_eligible_for_rental_share (jr_inc ?r)"
    | (Idle) "\<not> in_spot_pay_candidate (jr_inc ?r)" "in_eligible_for_rental_share (jr_inc ?r)" by blast
  then show ?thesis
  proof cases
    case Spot
    then obtain x r' where p: "post_process_spot e ?r = Inr (x, r')" "e' = credit h x (put a r' e)"
      using assms unfolding post_process_job_result_def Let_def by (auto simp: rbind_Inr_iff)
    show ?thesis unfolding p(2) frame_credit by (rule steady_frame_put [OF steady_post_spot [OF p(1)]])
  next
    case Mining
    let ?q = "set_cycle_formula_context e (default_post_process (en_mining_share e) (en_total_mining_score e) ?r)"
    have "e' = (case (in_mining_score (jr_inc ?r), in_incentive (jr_inc ?q)) of (Some _, Some x) \<Rightarrow> credit h x (put a ?q e) | _ \<Rightarrow> put a ?q e)"
      using assms Mining unfolding post_process_job_result_def Let_def by simp
    then show ?thesis using steady_frame_put [OF steady_mining] by (simp add: frame_credit split: option.splits)
  next
    case Idle
    then obtain base x r' where p: "post_process_idle env base e ?r = Inr (x, r')" "e' = credit h x (put a r' e)"
      using assms unfolding post_process_job_result_def Let_def by (auto simp: rbind_Inr_iff)
    show ?thesis unfolding p(2) frame_credit by (rule steady_frame_put [OF steady_post_idle [OF p(1)]])
  qed
qed

lemma steady_split: "steady r (split_incentive_across_pools r)"
  by (simp add: steady_def split_incentive_across_pools_def set_incentive_split_def Let_def split: option.split)

lemma steady_post_process_step:
  assumes "post_process_step env c e = Inr e'" shows "frame steady (snd c) e e'"
proof -
  obtain m where m: "post_process_job_result env (fst c) (snd c) e = Inr m" "e' = put (snd c) (split_incentive_across_pools (obj m (snd c))) m"
    using assms unfolding post_process_step_def by (auto simp: case_prod_unfold rbind_Inr_iff)
  show ?thesis unfolding m(2) by (rule steady_frame_trans [OF steady_post_process [OF m(1)] steady_frame_put [OF steady_split]])
qed

lemma post_loop_total:
  assumes "\<forall>c \<in> set cs. payable (obj e (snd c))"
  shows "\<exists>e'. rfold (post_process_step env) cs e = Inr e'"
proof -
  let ?I = "\<lambda>e. \<forall>c \<in> set cs. payable (obj e (snd c))"
  have "\<exists>t. post_process_step env c s = Inr t \<and> ?I t" if c: "c \<in> set cs" and I: "?I s" for c s
  proof -
    have "payable (obj s (snd c))" using c I by blast
    then obtain m where "post_process_job_result env (fst c) (snd c) s = Inr m" using post_process_total by blast
    then obtain t where t: "post_process_step env c s = Inr t" by (simp add: post_process_step_def case_prod_unfold)
    have "steady (obj s b) (obj t b)" for b
      using steady_post_process_step [OF t] by (cases "b = snd c") (simp_all add: frame_def)
    then have "?I t" using I steady_ready(3) by blast
    with t show ?thesis by blast
  qed
  then show ?thesis using rfold_total [where I = ?I] assms by blast
qed

section \<open>The shares are settled\<close>

definition fallback_ready :: "incentive_env \<Rightarrow> engine \<Rightarrow> string \<times> nat \<Rightarrow> bool" where
  "fallback_ready env e c \<longleftrightarrow> bucketed (obj e (snd c)) \<and> jr_gpu_splitting_min_count (obj e (snd c)) \<noteq> None
     \<and> get_base_model_for_gpu (jr_gpu_model (obj e (snd c))) = Inr (fst c)
     \<and> (\<forall>b. in_count_bucket (jr_inc (obj e (snd c))) = Some b
         \<longrightarrow> dget (en_weighted_rate_sum_by_bucket e) (fst c, b) \<noteq> None \<and> 0 < bucket_cap (ie_config env) (fst c) b)"

definition candidates_ready :: "incentive_env \<Rightarrow> engine \<Rightarrow> bool" where
  "candidates_ready env e \<longleftrightarrow> (\<forall>c \<in> set (en_split_fallback_candidates e). fallback_ready env e c)
     \<and> (\<forall>c \<in> set (en_spot_pay_candidates e). in_effective_rate (jr_inc (obj e (snd c))) \<noteq> None)
     \<and> (\<forall>c \<in> set (en_secure_floor_candidates e). rated (obj e (snd c)))"

definition same_lists :: "engine \<Rightarrow> engine \<Rightarrow> bool" where
  "same_lists e e' \<longleftrightarrow> en_split_fallback_candidates e' = en_split_fallback_candidates e
     \<and> en_spot_pay_candidates e' = en_spot_pay_candidates e \<and> en_secure_floor_candidates e' = en_secure_floor_candidates e
     \<and> (\<forall>b. steady (obj e b) (obj e' b))"

lemma same_lists_refl [simp]: "same_lists e e"
  by (simp add: same_lists_def)

lemma same_lists_trans: "same_lists e f \<Longrightarrow> same_lists f g \<Longrightarrow> same_lists e g"
  unfolding same_lists_def by (metis steady_trans)

lemma weighted_rate_total: "rated r \<Longrightarrow> \<exists>w. weighted_rate r = Inr w"
  by (auto simp: weighted_rate_def rated_def need_def)

lemma move_bucket_sums:
  assumes "move_bucket src tgt n w e = Inr e'"
  shows "en_split_fallback_candidates e' = en_split_fallback_candidates e" "en_spot_pay_candidates e' = en_spot_pay_candidates e"
    "en_secure_floor_candidates e' = en_secure_floor_candidates e"
    "key = tgt \<or> dget (en_weighted_rate_sum_by_bucket e) key \<noteq> None \<Longrightarrow> dget (en_weighted_rate_sum_by_bucket e') key \<noteq> None"
  using assms unfolding move_bucket_def Let_def by (auto split: option.splits if_splits)

lemma reassign_total:
  assumes "fallback_ready env e c" shows "\<exists>e'. reassign_one env c e = Inr e'"
proof -
  obtain base a where c: "c = (base, a)" by (cases c)
  obtain src tgt where st: "in_count_bucket (jr_inc (obj e a)) = Some src" "jr_gpu_splitting_min_count (obj e a) = Some tgt"
    using assms by (auto simp: c fallback_ready_def bucketed_def)
  have r: "dget (en_weighted_rate_sum_by_bucket e) (base, src) \<noteq> None" "0 < bucket_cap (ie_config env) base src" "rated (obj e a)"
    using assms st by (simp_all add: c fallback_ready_def bucketed_def)
  obtain w where w: "weighted_rate (obj e a) = Inr w" using weighted_rate_total [OF r(3)] by blast
  obtain m where m: "move_bucket (base, src) (base, tgt) (jr_gpu_count (obj e a)) w e = Inr m"
    using r(1) by (auto simp: move_bucket_def Let_def)
  show ?thesis using r(2) by (simp add: c reassign_one_def st need_def w m Let_def)
qed

lemma reassign_keeps:
  assumes run: "reassign_one env c e = Inr e'" and ready: "fallback_ready env e c"
  shows "same_lists e e' \<and> (\<forall>d. fallback_ready env e d \<longrightarrow> fallback_ready env e' d)"
proof -
  obtain base a where c: "c = (base, a)" by (cases c)
  from run [unfolded c] show ?thesis
  proof (cases rule: reassign_one_cases)
    case (Moves src tgt w m)
    note keeps = move_bucket_keeps [OF Moves(6)] and sums = move_bucket_sums [OF Moves(6)]
    have obj: "obj m = obj e" using keeps(1) by (rule obj_same_store)
    have st: "steady (obj e b) (obj e' b)" for b
      unfolding Moves(7) obj_put obj by (simp add: steady_def)
    have lists: "same_lists e e'" using st sums(1-3) unfolding same_lists_def Moves(7) put_def by simp
    have sums': "en_weighted_rate_sum_by_bucket e' = en_weighted_rate_sum_by_bucket m" unfolding Moves(7) put_def by simp
    have ready': "fallback_ready env e' d" if d: "fallback_ready env e d" and cap: "0 < bucket_cap (ie_config env) base tgt" for d
    proof -
      have "dget (en_weighted_rate_sum_by_bucket e') (fst d, b) \<noteq> None \<and> 0 < bucket_cap (ie_config env) (fst d) b"
        if b: "in_count_bucket (jr_inc (obj e' (snd d))) = Some b" for b
      proof (cases "snd d = a \<and> a < length (en_store m)")
        case True
        then have "fst d = base" using d ready by (simp add: fallback_ready_def c)
        moreover have "b = tgt" using b True unfolding Moves(7) obj_put by simp
        ultimately show ?thesis using sums(4) cap unfolding sums' by simp
      next
        case False
        then have "in_count_bucket (jr_inc (obj e (snd d))) = Some b" using b unfolding Moves(7) obj_put obj by auto
        then show ?thesis using d sums(4) unfolding sums' fallback_ready_def by blast
      qed
      moreover have "jr_gpu_model (obj e' (snd d)) = jr_gpu_model (obj e (snd d))"
        "jr_gpu_splitting_min_count (obj e' (snd d)) = jr_gpu_splitting_min_count (obj e (snd d))"
        using st by (simp_all add: steady_def)
      moreover have "bucketed (obj e' (snd d))" using d steady_ready(2) [OF st] by (simp add: fallback_ready_def)
      ultimately show ?thesis using d by (simp add: fallback_ready_def)
    qed
    show ?thesis
    proof (cases "0 < bucket_cap (ie_config env) base tgt")
      case False
      then have "e' = e" using run Moves(1,2) by (simp add: c reassign_one_def need_def)
      then show ?thesis by simp
    qed (use lists ready' in blast)
  qed simp
qed

lemma reassign_loop_total:
  assumes "candidates_ready env e"
  shows "\<exists>e'. reassign_split_candidates env e = Inr e' \<and> same_lists e e'"
proof -
  let ?cs = "en_split_fallback_candidates e"
  let ?I = "\<lambda>s. same_lists e s \<and> (\<forall>c \<in> set ?cs. fallback_ready env s c)"
  let ?sorted = "sort_key (\<lambda>(base_model, a). ex_uuid (jr_executor_info (obj e a))) ?cs"
  have "\<exists>t. reassign_one env c s = Inr t \<and> ?I t" if c: "c \<in> set ?sorted" and I: "?I s" for c s
  proof -
    have r: "fallback_ready env s c" using c I by simp
    obtain t where t: "reassign_one env c s = Inr t" using reassign_total [OF r] by blast
    have "?I t" using reassign_keeps [OF t r] I same_lists_trans by blast
    with t show ?thesis by blast
  qed
  moreover have "?I e" using assms by (simp add: candidates_ready_def)
  ultimately show ?thesis unfolding reassign_split_candidates_def using rfold_total [where I = ?I and xs = ?sorted] by blast
qed

lemma same_lists_store:
  "en_store e' = en_store e \<Longrightarrow> en_split_fallback_candidates e' = en_split_fallback_candidates e
    \<Longrightarrow> en_spot_pay_candidates e' = en_spot_pay_candidates e \<Longrightarrow> en_secure_floor_candidates e' = en_secure_floor_candidates e
    \<Longrightarrow> same_lists e e'"
  using obj_same_store [of e' e] by (simp add: same_lists_def)

lemma same_lists_spot:
  assumes "same_lists e e'" "\<forall>c \<in> set (en_spot_pay_candidates e). in_effective_rate (jr_inc (obj e (snd c))) \<noteq> None"
    "c \<in> set (en_spot_pay_candidates e')"
  shows "in_effective_rate (jr_inc (obj e' (snd c))) \<noteq> None"
  using assms by (simp add: same_lists_def steady_def)

lemma spot_pay_total:
  assumes ready: "\<forall>c \<in> set (en_spot_pay_candidates e). in_effective_rate (jr_inc (obj e (snd c))) \<noteq> None"
  shows "\<exists>paid e'. spot_pay_within_filler_earnings e = Inr (paid, e') \<and> same_lists e e'"
proof -
  have "\<exists>d. spot_rate_sums e = Inr d \<and> True"
    unfolding spot_rate_sums_def using ready by (intro rfold_total) (auto simp: case_prod_unfold need_def)
  then obtain rate_sums where 1: "spot_rate_sums e = Inr rate_sums" by blast
  let ?I = "\<lambda>s. same_lists e (snd s)"
  have "\<exists>t. pay_spot_one rate_sums (spot_pools e) c s = Inr t \<and> ?I t" if c: "c \<in> set (en_spot_pay_candidates e)" and I: "?I s" for c s
  proof -
    have "in_effective_rate (jr_inc (obj (snd s) (snd c))) \<noteq> None"
      using same_lists_spot [OF I ready] I c by (simp add: same_lists_def)
    then obtain rate where rate: "in_effective_rate (jr_inc (obj (snd s) (snd c))) = Some rate" by blast
    let ?r = "upd_inc (\<lambda>i. i\<lparr>in_spot_pool_multiplier := Some (spot_multiplier (dget_or 0 (spot_pools e) (fst c)) (dget_or 0 rate_sums (fst c))),
      in_effective_rate := Some (fmul rate (spot_multiplier (dget_or 0 (spot_pools e) (fst c)) (dget_or 0 rate_sums (fst c))))\<rparr>) (obj (snd s) (snd c))"
    have "steady (obj (snd s) (snd c)) ?r" by (simp add: steady_def)
    then have "same_lists (snd s) (put (snd c) ?r (snd s))" by (simp add: same_lists_def obj_put) (simp add: put_def)
    then show ?thesis using rate same_lists_trans [OF I] by (simp add: pay_spot_one_def case_prod_unfold need_def Let_def)
  qed
  then have "\<exists>t. rfold (pay_spot_one rate_sums (spot_pools e)) (en_spot_pay_candidates e) (0, e) = Inr t \<and> ?I t"
    by (intro rfold_total) simp_all
  then show ?thesis by (auto simp: spot_pay_within_filler_earnings_def 1)
qed

lemma floor_total:
  assumes "\<forall>c \<in> set (en_secure_floor_candidates e). rated (obj e (snd c))"
  shows "\<exists>x. secure_floor_top_up e = Inr x"
proof -
  have "\<exists>x. secure_floor_top_up e = Inr x \<and> True"
    unfolding secure_floor_top_up_def using assms
    by (intro rfold_total) (auto simp: floor_top_up_of_def case_prod_unfold need_def rated_def Let_def)
  then show ?thesis by blast
qed

lemma finish_total:
  assumes "candidates_ready env e"
  shows "\<exists>e'. on_finish_pre_process env e = Inr e' \<and> (\<forall>b. steady (obj e b) (obj e' b))"
proof -
  obtain e1 where e1: "reassign_split_candidates env e = Inr e1" "same_lists e e1" using reassign_loop_total [OF assms] by blast
  let ?f = "add_bucket_costs (set_cap_multipliers env e1)"
  have "same_lists e1 ?f" by (rule same_lists_store) (simp_all add: add_bucket_costs_def set_cap_multipliers_def)
  then have f: "same_lists e ?f" using e1(2) same_lists_trans by blast
  then obtain paid e2 where e2: "spot_pay_within_filler_earnings ?f = Inr (paid, e2)" "same_lists ?f e2"
    using spot_pay_total [of ?f] same_lists_spot [OF f] assms unfolding candidates_ready_def by blast
  define e3 where "e3 = e2\<lparr>en_unbucketed_rental_cost := fadd (en_unbucketed_rental_cost e2) paid\<rparr>"
  have "same_lists e2 e3" by (rule same_lists_store) (simp_all add: e3_def)
  then have s3: "same_lists e e3" using f e2(2) same_lists_trans by blast
  have "\<forall>c \<in> set (en_secure_floor_candidates e3). rated (obj e3 (snd c))"
    using assms s3 steady_ready(1) unfolding candidates_ready_def same_lists_def by metis
  then obtain x where x: "secure_floor_top_up e3 = Inr x" using floor_total by blast
  let ?e' = "settle_shares env (e3\<lparr>en_unbucketed_rental_cost := fadd (en_unbucketed_rental_cost e3) x\<rparr>)"
  have "on_finish_pre_process env e = Inr ?e'"
    using e1(1) e2(1) x unfolding on_finish_pre_process_def e3_def by (simp add: Let_def)
  moreover have "obj ?e' = obj e3" by (rule obj_same_store) simp
  ultimately show ?thesis using s3 by (simp add: same_lists_def)
qed

section \<open>Pre-processing\<close>

lemma filler_upd_inc [simp]: "jr_filler_revenue_per_gpu_hour (upd_inc f r) = jr_filler_revenue_per_gpu_hour r"
  by (simp add: upd_inc_def)

lemma default_score_sets: "default_executor_score env total_map f r = Inr r' \<Longrightarrow> in_mining_score (jr_inc r') \<noteq> None"
  unfolding default_executor_score_def
  by (auto simp: set_mining_score_def scored_mining_def record_reason_def Let_def split: if_splits sum.splits prod.splits)

lemma settled_ready:
  assumes "settle_score env total_map base excluded spot s = Inr r'" "\<not> in_spot_pay_candidate (jr_inc (snd s))"
  shows "in_mining_score (jr_inc r') \<noteq> None" "in_spot_pay_candidate (jr_inc r') \<Longrightarrow> jr_filler_revenue_per_gpu_hour r' \<noteq> None"
  using assms default_score_sets [of env total_map _ "set_eligible False (snd s)" r']
    default_score_keeps(3) [of env total_map _ "set_eligible False (snd s)" r']
  by (auto simp: settle_score_def qualify_spot_node_by_the_secure_decision_def set_mining_score_def set_eligible_def
      set_spot_pay_candidate_def record_reason_def Let_def split: prod.splits if_splits)

lemma qualified_ready:
  assumes "\<not> in_spot_pay_candidate (jr_inc r)" "in_spot_pay_candidate (jr_inc (qualify_spot_node x r))"
  shows "jr_filler_revenue_per_gpu_hour (qualify_spot_node x r) \<noteq> None"
  using assms by (auto simp: qualify_spot_node_def set_mining_score_def set_eligible_def set_spot_pay_candidate_def record_reason_def
      Let_def split: if_splits)

lemma scored_ready:
  assumes run: "rental_executor_score env total_map r = Inr r'" and fresh: "\<not> in_spot_pay_candidate (jr_inc r)"
  shows "in_mining_score (jr_inc r') \<noteq> None
    \<and> (in_spot_pay_candidate (jr_inc r') \<longrightarrow> jr_filler_revenue_per_gpu_hour r' \<noteq> None)
    \<and> (in_eligible_for_rental_share (jr_inc r') \<longrightarrow> (\<exists>base. get_base_model_for_gpu (jr_gpu_model r) = Inr base \<and> in_program env base))"
  using run
proof (cases rule: rental_executor_score_cases)
  case Spot
  note q = spot_qualified [where x = "is_excluded env r" and r = "with_exclusions env r", folded Spot(2)]
  show ?thesis using q(2,3) qualified_ready [OF spot_fresh [OF fresh, of env], of "is_excluded env r", folded Spot(2)] by simp
next
  case Unknown
  show ?thesis unfolding Unknown(3) using spot_fresh [OF fresh, of env] by (simp add: set_mining_score_def set_eligible_def)
next
  case (Gates base s)
  note g = idle_pool_gates_step [OF Gates(2), unfolded gate_step_def fst_conv snd_conv]
  have "\<not> in_spot_pay_candidate (jr_inc (snd s))" using pay_view_fields(2) [OF conjunct1 [OF g]] spot_fresh [OF fresh] by simp
  note s = settled_ready [OF Gates(3) this]
  have "fst s \<Longrightarrow> in_program env base" using g by (simp add: idle_candidate_def)
  then show ?thesis using s settled(2) [OF Gates(3)] Gates(1) by simp
qed

definition flagged :: "incentive_env \<Rightarrow> string \<Rightarrow> job_result \<Rightarrow> job_result" where
  "flagged env hotkey r = r\<lparr>jr_is_hotkey_excluded_from_scoring :=
     (hotkey \<in> set (get_scoring_excluded_hotkeys (sg_burn (ie_set env)))
      \<or> hotkey \<in> set (hotkey_list (sg_idle_incentive_excluded_hotkeys (ie_set env))) \<and> \<not> jr_is_rented r)\<rparr>"

text \<open>A result that scoring does not raise on: it failed validation, or its model is known and its score is computed.\<close>

definition scorable :: "incentive_env \<Rightarrow> (string, int) dict \<Rightarrow> string \<Rightarrow> job_result \<Rightarrow> bool" where
  "scorable env total_map hotkey r \<longleftrightarrow> (is_successful r
     \<longrightarrow> \<not> isl (get_base_model_for_gpu (jr_gpu_model r))
       \<and> \<not> isl (rental_executor_score env total_map (snd (record_outdated_image_reason env (flagged env hotkey r)))))"

definition fresh_result :: "job_result \<Rightarrow> bool" where
  "fresh_result r \<longleftrightarrow> \<not> in_spot_pay_candidate (jr_inc r) \<and> \<not> in_eligible_for_rental_share (jr_inc r)"

text \<open>What a step adds to the candidates it found.\<close>

definition step_adds :: "incentive_env \<Rightarrow> nat \<Rightarrow> engine \<Rightarrow> engine \<Rightarrow> bool" where
  "step_adds env a e e' \<longleftrightarrow> en_total_gpu_model_count_map e' = en_total_gpu_model_count_map e \<and> payable (obj e' a)
     \<and> (\<forall>c \<in> set (en_split_fallback_candidates e'). c \<in> set (en_split_fallback_candidates e) \<or> snd c = a \<and> fallback_ready env e' c)
     \<and> (\<forall>c \<in> set (en_spot_pay_candidates e'). c \<in> set (en_spot_pay_candidates e) \<or> snd c = a \<and> in_effective_rate (jr_inc (obj e' a)) \<noteq> None)
     \<and> (\<forall>c \<in> set (en_secure_floor_candidates e'). c \<in> set (en_secure_floor_candidates e) \<or> snd c = a \<and> rated (obj e' a))
     \<and> (\<forall>key. dget (en_weighted_rate_sum_by_bucket e) key \<noteq> None \<longrightarrow> dget (en_weighted_rate_sum_by_bucket e') key \<noteq> None)"

lemma step_adds_nothing:
  assumes "payable r" "a < length (en_store e)" shows "step_adds env a e (put a r e)"
  using assms by (simp add: step_adds_def obj_put) (simp add: put_def)

lemma priced_fields:
  "in_hourly_rate (jr_inc (priced_spot_node env base r)) \<noteq> None" "in_sysbox_multiplier (jr_inc (priced_spot_node env base r)) \<noteq> None"
  "in_driver_multiplier (jr_inc (priced_spot_node env base r)) \<noteq> None"
  "jr_filler_revenue_per_gpu_hour (priced_spot_node env base r) = jr_filler_revenue_per_gpu_hour r"
  by (simp_all add: priced_spot_node_def set_idle_factors_def record_zero_driver_and_sysbox_reasons_def record_reason_def Let_def)

lemma price_spot_total:
  assumes base: "get_base_model_for_gpu (jr_gpu_model (obj e a)) = Inr base" and filler: "jr_filler_revenue_per_gpu_hour (obj e a) \<noteq> None"
    and spot: "in_spot_pay_candidate (jr_inc (obj e a))" and a: "a < length (en_store e)"
  shows "\<exists>e'. price_spot_node env a e = Inr e' \<and> step_adds env a e e'"
proof -
  let ?r = "priced_spot_node env base (obj e a)"
  obtain f h s d where f: "jr_filler_revenue_per_gpu_hour ?r = Some f" "in_hourly_rate (jr_inc ?r) = Some h"
    "in_sysbox_multiplier (jr_inc ?r) = Some s" "in_driver_multiplier (jr_inc ?r) = Some d"
    using priced_fields [of env base "obj e a"] filler by auto
  let ?q = "upd_inc (\<lambda>i. i\<lparr>in_effective_rate := Some (min (fmul FILLER_REVENUE_PAY_FACTOR f) (fmul (fmul h s) d))\<rparr>) ?r"
  let ?e = "put a ?q (e\<lparr>en_spot_pay_candidates := en_spot_pay_candidates e @ [(base, a)]\<rparr>)"
  have "price_spot_node env a e = Inr ?e" using base f by (simp add: price_spot_node_def spot_secure_rate_def need_def Let_def)
  moreover have "obj ?e a = ?q" using a by (simp add: obj_put)
  then have "step_adds env a e ?e"
  proof -
    have "in_spot_pay_candidate (jr_inc ?q)"
      using spot by (simp add: priced_spot_node_def set_idle_factors_def record_zero_driver_and_sysbox_reasons_def record_reason_def Let_def)
    then show ?thesis unfolding step_adds_def \<open>obj ?e a = ?q\<close> by (simp add: payable_def put_def)
  qed
  ultimately show ?thesis by blast
qed

lemma rated_idle_fields:
  assumes "r = rated_idle env base q"
  obtains bucket h x d where "in_count_bucket (jr_inc r) = Some bucket" "in_max_cap (jr_inc r) = Some (bucket_cap (ie_config env) base bucket)"
    "in_hourly_rate (jr_inc r) = Some h" "in_sysbox_multiplier (jr_inc r) = Some x" "in_driver_multiplier (jr_inc r) = Some d"
    "jr_gpu_model r = jr_gpu_model q" "in_spot_pay_candidate (jr_inc r) = in_spot_pay_candidate (jr_inc q)"
  using assms by (simp add: rated_idle_def set_idle_factors_def Let_def)

lemma count_idle_adds:
  assumes r: "bucketed r" "in_count_bucket (jr_inc r) = Some bucket" "0 < bucket_cap (ie_config env) base bucket"
    and base: "get_base_model_for_gpu (jr_gpu_model r) = Inr base" and spot: "\<not> in_spot_pay_candidate (jr_inc r)"
    and a: "a < length (en_store e)"
  shows "step_adds env a e (count_idle (base, bucket) a r w (put a r e))"
proof -
  let ?e = "count_idle (base, bucket) a r w (put a r e)"
  have obj: "obj ?e a = r" using a by (simp add: obj_def put_def)
  have sums: "dget (en_weighted_rate_sum_by_bucket ?e) key \<noteq> None \<longleftrightarrow> key = (base, bucket) \<or> dget (en_weighted_rate_sum_by_bucket e) key \<noteq> None" for key
    by (simp add: count_idle_def put_def)
  have ready: "fallback_ready env ?e (base, a)" if "falls_back r bucket"
  proof -
    have "jr_gpu_splitting_min_count r \<noteq> None" using that by (simp add: falls_back_def splits_def nonzero_def split: option.splits)
    then show ?thesis using r base sums by (simp add: fallback_ready_def obj)
  qed
  have "payable r" using r(1) base spot by (simp add: payable_def)
  then show ?thesis
    unfolding step_adds_def obj sums using ready r(1)
    by (auto simp: count_idle_def put_def bucketed_def split: if_splits)
qed

lemma account_idle_total:
  assumes base: "get_base_model_for_gpu (jr_gpu_model (obj e a)) = Inr base"
    and spot: "\<not> in_spot_pay_candidate (jr_inc (obj e a))" and a: "a < length (en_store e)"
  shows "\<exists>e'. account_idle env base a e = Inr e' \<and> step_adds env a e e'"
proof -
  let ?r = "rated_idle env base (obj e a)"
  obtain bucket h x d where f: "in_count_bucket (jr_inc ?r) = Some bucket" "in_max_cap (jr_inc ?r) = Some (bucket_cap (ie_config env) base bucket)"
    "in_hourly_rate (jr_inc ?r) = Some h" "in_sysbox_multiplier (jr_inc ?r) = Some x" "in_driver_multiplier (jr_inc ?r) = Some d"
    "jr_gpu_model ?r = jr_gpu_model (obj e a)" "in_spot_pay_candidate (jr_inc ?r) = in_spot_pay_candidate (jr_inc (obj e a))"
    by (rule rated_idle_fields [OF refl])
  have b: "bucketed ?r" using f by (simp add: bucketed_def rated_def)
  have m: "get_base_model_for_gpu (jr_gpu_model ?r) = Inr base" "\<not> in_spot_pay_candidate (jr_inc ?r)" unfolding f(6,7) by (fact base spot)+
  obtain w where w: "weighted_rate ?r = Inr w" using weighted_rate_total b by (auto simp only: bucketed_def)
  show ?thesis
  proof (cases "0 < h \<and> 0 < bucket_cap (ie_config env) base bucket")
    case True
    then have "account_idle env base a e = Inr (count_idle (base, bucket) a ?r w (put a ?r e))"
      by (simp add: account_idle_def f(1-3) need_def w Let_def)
    then show ?thesis using count_idle_adds [OF b f(1) conjunct2 [OF True] m a] by blast
  next
    case False
    then have "account_idle env base a e = Inr (put a ?r e)"
      by (simp only: account_idle_def f(1-3) need_def Let_def option.case rbind_Inr if_False)
    moreover have "payable ?r" using b m by (simp add: payable_def)
    ultimately show ?thesis using step_adds_nothing a by blast
  qed
qed

lemma step_adds_from:
  assumes "en_split_fallback_candidates d = en_split_fallback_candidates e" "en_spot_pay_candidates d = en_spot_pay_candidates e"
    "en_secure_floor_candidates d = en_secure_floor_candidates e" "en_total_gpu_model_count_map d = en_total_gpu_model_count_map e"
    "en_weighted_rate_sum_by_bucket d = en_weighted_rate_sum_by_bucket e" "step_adds env a d e'"
  shows "step_adds env a e e'"
  using assms by (simp add: step_adds_def)

lemma validation_failed_fields:
  "in_spot_pay_candidate (jr_inc (record_validation_failed_reason r)) = in_spot_pay_candidate (jr_inc r)"
  "in_eligible_for_rental_share (jr_inc (record_validation_failed_reason r)) = in_eligible_for_rental_share (jr_inc r)"
  "in_mining_score (jr_inc (record_validation_failed_reason r)) = in_mining_score (jr_inc r)"
  "jr_gpu_model (record_validation_failed_reason r) = jr_gpu_model r"
  "jr_filler_revenue_per_gpu_hour (record_validation_failed_reason r) = jr_filler_revenue_per_gpu_hour r"
  by (simp_all add: record_validation_failed_reason_def record_reason_def Let_def)

lemma flagged_fields:
  "is_successful (snd (record_outdated_image_reason env (flagged env h r))) = is_successful r"
  "jr_gpu_model (snd (record_outdated_image_reason env (flagged env h r))) = jr_gpu_model r"
  "fresh_result (snd (record_outdated_image_reason env (flagged env h r))) = fresh_result r"
  by (simp_all add: record_outdated_image_reason_def record_reason_def upd_inc_def flagged_def is_successful_def fresh_result_def)

lemma default_pre_process_total:
  assumes run: "rental_executor_score env (en_total_gpu_model_count_map e) (obj e a) = Inr r" and ms: "in_mining_score (jr_inc r) \<noteq> None"
    and a: "a < length (en_store e)"
  obtains d where "default_pre_process env a e = Inr d" "obj d a = record_validation_failed_reason r"
    "en_split_fallback_candidates d = en_split_fallback_candidates e" "en_spot_pay_candidates d = en_spot_pay_candidates e"
    "en_secure_floor_candidates d = en_secure_floor_candidates e" "en_total_gpu_model_count_map d = en_total_gpu_model_count_map e"
    "en_weighted_rate_sum_by_bucket d = en_weighted_rate_sum_by_bucket e" "length (en_store d) = length (en_store e)"
proof -
  obtain m where m: "in_mining_score (jr_inc r) = Some m" using ms by blast
  then have "need (in_mining_score (jr_inc (record_validation_failed_reason r))) = Inr m" by (simp add: need_def validation_failed_fields)
  then have "\<exists>d. default_pre_process env a e = Inr d \<and> obj d a = record_validation_failed_reason r
    \<and> en_split_fallback_candidates d = en_split_fallback_candidates e \<and> en_spot_pay_candidates d = en_spot_pay_candidates e
    \<and> en_secure_floor_candidates d = en_secure_floor_candidates e \<and> en_total_gpu_model_count_map d = en_total_gpu_model_count_map e
    \<and> en_weighted_rate_sum_by_bucket d = en_weighted_rate_sum_by_bucket e \<and> length (en_store d) = length (en_store e)"
    using a unfolding default_pre_process_def run Let_def by (simp add: obj_put) (simp add: put_def)
  then show ?thesis using that by (elim exE conjE) (rule that)
qed

lemma scored_step_total:
  assumes score: "rental_executor_score env (en_total_gpu_model_count_map e) (obj e a) = Inr r" and fresh: "fresh_result (obj e a)"
    and base: "get_base_model_for_gpu (jr_gpu_model (obj e a)) = Inr base" and a: "a < length (en_store e)"
  shows "\<exists>e'. rbind (default_pre_process env a e) (\<lambda>d. let r = obj d a in
        if in_spot_pay_candidate (jr_inc r) then price_spot_node env a d
        else rbind (get_base_model_for_gpu (jr_gpu_model r)) (\<lambda>base_model.
          if in_program env base_model \<and> in_eligible_for_rental_share (jr_inc r) then account_idle env base_model a d
          else Inr d)) = Inr e' \<and> step_adds env a e e'"
proof -
  have "\<not> in_spot_pay_candidate (jr_inc (obj e a))" using fresh by (simp add: fresh_result_def)
  note ready = scored_ready [OF score this]
  obtain d where d: "default_pre_process env a e = Inr d" "obj d a = record_validation_failed_reason r"
    and same: "en_split_fallback_candidates d = en_split_fallback_candidates e" "en_spot_pay_candidates d = en_spot_pay_candidates e"
    "en_secure_floor_candidates d = en_secure_floor_candidates e" "en_total_gpu_model_count_map d = en_total_gpu_model_count_map e"
    "en_weighted_rate_sum_by_bucket d = en_weighted_rate_sum_by_bucket e" "length (en_store d) = length (en_store e)"
    using default_pre_process_total [OF score conjunct1 [OF ready] a] .
  note from_d = step_adds_from [OF same(1-5)]
  have ad: "a < length (en_store d)" using a same(6) by simp
  have model: "jr_gpu_model r = jr_gpu_model (obj e a)" using kept_scored [OF score] by (simp add: kept_def conserved_def)
  have base_d: "get_base_model_for_gpu (jr_gpu_model (obj d a)) = Inr base" by (simp only: d(2) validation_failed_fields model base)
  show ?thesis
  proof (cases "in_spot_pay_candidate (jr_inc (obj d a))")
    case True
    then have "jr_filler_revenue_per_gpu_hour (obj d a) \<noteq> None" using conjunct1 [OF conjunct2 [OF ready]] by (simp only: d(2) validation_failed_fields simp_thms)
    then show ?thesis using price_spot_total [OF base_d _ True ad] from_d True by (simp add: d(1)) blast
  next
    case False
    show ?thesis
    proof (cases "in_program env base \<and> in_eligible_for_rental_share (jr_inc (obj d a))")
      case True
      then show ?thesis using account_idle_total [OF base_d False ad] from_d False base_d by (simp add: d(1)) blast
    next
      case no: False
      have "\<not> in_eligible_for_rental_share (jr_inc (obj d a))" using ready no base by (auto simp: d(2) validation_failed_fields)
      then have "payable (obj d a)" using False by (simp add: payable_def)
      then have "step_adds env a d d" by (simp add: step_adds_def)
      then show ?thesis using from_d False no base_d by (simp add: d(1)) blast
    qed
  qed
qed

lemma pre_step_total:
  assumes s: "scorable env (en_total_gpu_model_count_map e) h (obj e a)" and fresh: "fresh_result (obj e a)" and a: "a < length (en_store e)"
  shows "\<exists>e'. pre_process_step env (h, a) e = Inr e' \<and> step_adds env a e e'"
proof -
  let ?f = "flagged env h (obj e a)"
  let ?r = "snd (record_outdated_image_reason env ?f)"
  have step: "pre_process_step env (h, a) e = pre_process_job_result env a (put a ?f e)"
    by (simp add: pre_process_step_def flagged_def Let_def)
  have o: "obj (put a ?f e) a = ?f" "put a ?r (put a ?f e) = put a ?r e" using a by (simp_all add: obj_put) (simp add: put_def)
  show ?thesis
  proof (cases "is_successful (obj e a)")
    case False
    have "payable (record_validation_failed_reason ?r)"
      using fresh flagged_fields(3) [of env h "obj e a"] by (simp add: payable_def fresh_result_def validation_failed_fields)
    moreover have "pre_process_step env (h, a) e = Inr (put a (record_validation_failed_reason ?r) e)"
      unfolding step pre_process_job_result_def Let_def o(1) using False by (simp add: flagged_fields put_def)
    ultimately show ?thesis using step_adds_nothing a by blast
  next
    case True
    let ?e = "put a ?r e"
    have obj: "obj ?e a = ?r" using a by (simp add: obj_put)
    have same: "en_split_fallback_candidates ?e = en_split_fallback_candidates e" "en_spot_pay_candidates ?e = en_spot_pay_candidates e"
      "en_secure_floor_candidates ?e = en_secure_floor_candidates e" "en_total_gpu_model_count_map ?e = en_total_gpu_model_count_map e"
      "en_weighted_rate_sum_by_bucket ?e = en_weighted_rate_sum_by_bucket e" by (simp_all add: put_def)
    from s True obtain r base where r: "rental_executor_score env (en_total_gpu_model_count_map e) ?r = Inr r"
      and base: "get_base_model_for_gpu (jr_gpu_model (obj e a)) = Inr base"
      unfolding scorable_def by (metis isl_def sum.collapse(2))
    have "fresh_result (obj ?e a)" using fresh by (simp add: obj flagged_fields)
    moreover have "get_base_model_for_gpu (jr_gpu_model (obj ?e a)) = Inr base" by (simp only: obj flagged_fields base)
    moreover have "a < length (en_store ?e)" using a by simp
    ultimately obtain e' where "pre_process_step env (h, a) e = Inr e'" "step_adds env a ?e e'"
      using scored_step_total [where e = ?e and r = r and a = a and env = env and base = base] r True
      unfolding step pre_process_job_result_def Let_def o flagged_fields obj same by auto
    then show ?thesis using step_adds_from [OF same] by blast
  qed
qed

definition ready_upto :: "incentive_env \<Rightarrow> nat set \<Rightarrow> engine \<Rightarrow> bool" where
  "ready_upto env P e \<longleftrightarrow> candidates_ready env e \<and> (\<forall>a \<in> P. payable (obj e a))
     \<and> snd ` (set (en_split_fallback_candidates e) \<union> set (en_spot_pay_candidates e) \<union> set (en_secure_floor_candidates e)) \<subseteq> P"

lemma step_ready:
  assumes I: "ready_upto env P e" and adds: "step_adds env a e e'" and other: "\<And>b. b \<noteq> a \<Longrightarrow> obj e' b = obj e b" and new: "a \<notin> P"
  shows "ready_upto env (insert a P) e'"
proof -
  let ?old = "set (en_split_fallback_candidates e) \<union> set (en_spot_pay_candidates e) \<union> set (en_secure_floor_candidates e)"
  have old: "obj e' (snd c) = obj e (snd c)" if "c \<in> ?old" for c
    using that I new other unfolding ready_upto_def by (metis image_subset_iff)
  have "fallback_ready env e' c" if c: "c \<in> set (en_split_fallback_candidates e')" for c
  proof (cases "c \<in> set (en_split_fallback_candidates e)")
    case True
    then have "fallback_ready env e c" "obj e' (snd c) = obj e (snd c)" using I old by (simp_all add: ready_upto_def candidates_ready_def)
    then show ?thesis using adds unfolding fallback_ready_def step_adds_def by simp
  qed (use adds c in \<open>unfold step_adds_def, blast\<close>)
  moreover have "in_effective_rate (jr_inc (obj e' (snd c))) \<noteq> None" if c: "c \<in> set (en_spot_pay_candidates e')" for c
  proof (cases "c \<in> set (en_spot_pay_candidates e)")
    case True
    then have "in_effective_rate (jr_inc (obj e (snd c))) \<noteq> None" "obj e' (snd c) = obj e (snd c)"
      using I old by (simp_all add: ready_upto_def candidates_ready_def)
    then show ?thesis by simp
  next
    case False
    then have "snd c = a \<and> in_effective_rate (jr_inc (obj e' a)) \<noteq> None" using adds c unfolding step_adds_def by blast
    then show ?thesis by simp
  qed
  moreover have "rated (obj e' (snd c))" if c: "c \<in> set (en_secure_floor_candidates e')" for c
  proof (cases "c \<in> set (en_secure_floor_candidates e)")
    case True
    then have "rated (obj e (snd c))" "obj e' (snd c) = obj e (snd c)" using I old by (simp_all add: ready_upto_def candidates_ready_def)
    then show ?thesis by simp
  next
    case False
    then have "snd c = a \<and> rated (obj e' a)" using adds c unfolding step_adds_def by blast
    then show ?thesis by simp
  qed
  moreover have "payable (obj e' b)" if "b \<in> insert a P" for b
    using that I adds other [of b] by (cases "b = a") (simp_all add: step_adds_def ready_upto_def)
  moreover have "snd ` (set (en_split_fallback_candidates e') \<union> set (en_spot_pay_candidates e') \<union> set (en_secure_floor_candidates e')) \<subseteq> insert a P"
  proof -
    have "snd ` ?old \<subseteq> P" using I by (simp add: ready_upto_def)
    then show ?thesis using adds unfolding step_adds_def by blast
  qed
  ultimately show ?thesis by (simp add: ready_upto_def candidates_ready_def)
qed

lemma pre_loop_total:
  assumes "\<forall>(h, a) \<in> set cs. scorable env (en_total_gpu_model_count_map e) h (obj e a) \<and> fresh_result (obj e a) \<and> a < length (en_store e)"
    and "distinct (map snd cs)" "snd ` set cs \<inter> P = {}" "ready_upto env P e"
  shows "\<exists>e'. rfold (pre_process_step env) cs e = Inr e' \<and> ready_upto env (P \<union> snd ` set cs) e'"
  using assms
proof (induction cs arbitrary: e P)
  case (Cons c cs)
  obtain h a where c: "c = (h, a)" by (cases c)
  obtain t where t: "pre_process_step env (h, a) e = Inr t" "step_adds env a e t"
    using pre_step_total [of env e h a] Cons.prems(1) by (auto simp: c)
  have f: "frame kept a e t" using frame_pre_process_step [OF t(1)] by simp
  have other: "b \<noteq> a \<Longrightarrow> obj t b = obj e b" for b using f by (simp add: frame_def)
  have d: "distinct (map snd cs)" "a \<notin> snd ` set cs" using Cons.prems(2) by (simp_all add: c)
  have tm: "en_total_gpu_model_count_map t = en_total_gpu_model_count_map e" "length (en_store t) = length (en_store e)"
    using t(2) f by (simp_all add: step_adds_def frame_def)
  have new: "a \<notin> P" using Cons.prems(3) by (simp add: c)
  have later: "\<forall>(h, b) \<in> set cs. scorable env (en_total_gpu_model_count_map t) h (obj t b) \<and> fresh_result (obj t b) \<and> b < length (en_store t)"
  proof (intro ballI, clarify)
    fix h' b assume hb: "(h', b) \<in> set cs"
    then have "b \<noteq> a" using d(2) by force
    then show "scorable env (en_total_gpu_model_count_map t) h' (obj t b) \<and> fresh_result (obj t b) \<and> b < length (en_store t)"
      using Cons.prems(1) hb other tm by auto
  qed
  have "\<exists>e'. rfold (pre_process_step env) cs t = Inr e' \<and> ready_upto env (insert a P \<union> snd ` set cs) e'"
    by (rule Cons.IH [OF later d(1) _ step_ready [OF Cons.prems(4) t(2) other new]]) (use Cons.prems(3) d(2) in \<open>auto simp: c\<close>)
  then show ?case by (simp add: c t(1))
qed simp

lemma pre_step_needs_scorable:
  assumes run: "pre_process_step env (h, a) e = Inr e'" and a: "a < length (en_store e)"
  shows "scorable env (en_total_gpu_model_count_map e) h (obj e a)"
proof (cases "is_successful (obj e a)")
  case True
  let ?r = "snd (record_outdated_image_reason env (flagged env h (obj e a)))"
  let ?e = "put a ?r (put a (flagged env h (obj e a)) e)"
  have o: "obj (put a (flagged env h (obj e a)) e) a = flagged env h (obj e a)" "obj ?e a = ?r" using a by (simp_all add: obj_put)
  have tm: "en_total_gpu_model_count_map ?e = en_total_gpu_model_count_map e" by (simp add: put_def)
  obtain d where d: "default_pre_process env a ?e = Inr d"
    and rest: "(if in_spot_pay_candidate (jr_inc (obj d a)) then price_spot_node env a d
        else rbind (get_base_model_for_gpu (jr_gpu_model (obj d a))) (\<lambda>base.
          if in_program env base \<and> in_eligible_for_rental_share (jr_inc (obj d a)) then account_idle env base a d else Inr d)) = Inr e'"
    using run True unfolding pre_process_step_def prod.case Let_def flagged_def [symmetric] pre_process_job_result_def o flagged_fields
    by (auto simp only: rbind_Inr_iff simp_thms if_False)
  obtain r where r: "rental_executor_score env (en_total_gpu_model_count_map e) ?r = Inr r"
    using d unfolding default_pre_process_def rbind_Inr_iff o tm by blast
  have "frame kept a ?e d" using d by (rule frame_default_pre_process)
  then have "kept ?r (obj d a)" unfolding frame_def o(2) by blast
  then have model: "jr_gpu_model (obj d a) = jr_gpu_model (obj e a)" by (simp add: kept_def conserved_def flagged_fields)
  have "\<not> isl (get_base_model_for_gpu (jr_gpu_model (obj d a)))"
  proof (cases "get_base_model_for_gpu (jr_gpu_model (obj d a))")
    case (Inl x)
    have "rbind (Inl x) f \<noteq> Inr e'" for f :: "string \<Rightarrow> engine res" by (simp add: rbind_def)
    then show ?thesis using rest unfolding price_spot_node_def Inl by (simp only: split: if_splits)
  qed simp
  then show ?thesis using r by (simp add: scorable_def model)
qed (simp add: scorable_def)

lemma pre_loop_needs_scorable:
  assumes "rfold (pre_process_step env) cs e = Inr e'" "distinct (map snd cs)"
    and "\<forall>c \<in> set cs. fresh_result (obj e (snd c)) \<and> snd c < length (en_store e)" and "(h, a) \<in> set cs"
  shows "scorable env (en_total_gpu_model_count_map e) h (obj e a)"
  using assms
proof (induction cs arbitrary: e)
  case (Cons c cs)
  obtain t where t: "pre_process_step env c e = Inr t" "rfold (pre_process_step env) cs t = Inr e'"
    using Cons.prems(1) by (auto simp: rbind_Inr_iff)
  obtain k b where c: "c = (k, b)" by (cases c)
  have b: "fresh_result (obj e b)" "b < length (en_store e)" using Cons.prems(3) by (simp_all add: c)
  have first: "scorable env (en_total_gpu_model_count_map e) k (obj e b)" using pre_step_needs_scorable t(1) b(2) by (simp add: c)
  have "step_adds env b e t" using pre_step_total [OF first b] t(1) by (simp add: c)
  then have tm: "en_total_gpu_model_count_map t = en_total_gpu_model_count_map e" by (simp add: step_adds_def)
  have f: "frame kept b e t" using frame_pre_process_step [OF t(1)] by (simp add: c)
  have d: "distinct (map snd cs)" "b \<notin> snd ` set cs" using Cons.prems(2) by (simp_all add: c)
  have same: "obj t (snd x) = obj e (snd x)" "length (en_store t) = length (en_store e)" if "x \<in> set cs" for x
    using f d(2) imageI [OF that, of snd] by (auto simp: frame_def)
  show ?case
  proof (cases "(h, a) = c")
    case False
    then have ha: "(h, a) \<in> set cs" using Cons.prems(4) by simp
    have "scorable env (en_total_gpu_model_count_map t) h (obj t a)"
      by (rule Cons.IH [OF t(2) d(1) _ ha]) (use Cons.prems(3) same in simp)
    then show ?thesis using same(1) [OF ha] tm by simp
  qed (use first c in simp)
qed simp

section \<open>Completion of the cycle\<close>

lemma addressed_addresses:
  assumes "distinct_addresses jr" shows "distinct (map snd (addressed jr))" "snd ` set (addressed jr) = addresses jr"
proof -
  have "map snd (addressed jr) = concat (map snd jr)" by (simp add: addressed_def map_concat case_prod_unfold comp_def)
  then show "distinct (map snd (addressed jr))" "snd ` set (addressed jr) = addresses jr"
    using assms by (simp_all only: distinct_addresses_def set_map [symmetric] set_concat_snd)
qed

lemma completes_scorable:
  assumes run: "base_mining_scores env e = Inr e'" and valid: "distinct (map snd cs)" and cs: "cs = addressed (en_job_results e)"
    and ok: "\<forall>c \<in> set cs. fresh_result (obj e (snd c)) \<and> snd c < length (en_store e)"
  shows "\<forall>(h, a) \<in> set cs. scorable env (en_total_gpu_model_count_map e) h (obj e a)"
proof -
  obtain e1 where "rfold (pre_process_step env) cs e = Inr e1"
    using run unfolding base_mining_scores_def Let_def rbind_Inr_iff cs by blast
  then show ?thesis using pre_loop_needs_scorable valid ok by blast
qed

lemma scorable_completes:
  assumes s: "\<forall>(h, a) \<in> set cs. scorable env (en_total_gpu_model_count_map e) h (obj e a)"
    and d: "distinct (map snd cs)" and cs: "cs = addressed (en_job_results e)"
    and ok: "\<forall>c \<in> set cs. fresh_result (obj e (snd c)) \<and> snd c < length (en_store e)"
    and start: "en_split_fallback_candidates e = []" "en_spot_pay_candidates e = []" "en_secure_floor_candidates e = []"
  shows "\<exists>e'. base_mining_scores env e = Inr e'"
proof -
  have r: "ready_upto env {} e" using start by (simp add: ready_upto_def candidates_ready_def)
  have "\<forall>(h, a) \<in> set cs. scorable env (en_total_gpu_model_count_map e) h (obj e a) \<and> fresh_result (obj e a) \<and> a < length (en_store e)"
    using s ok by (simp only: case_prod_unfold) blast
  then obtain e1 where e1: "rfold (pre_process_step env) cs e = Inr e1" "ready_upto env (snd ` set cs) e1"
    using pre_loop_total [OF _ d _ r] by (simp only: Int_empty_right Un_empty_left) blast
  have "candidates_ready env e1" using e1(2) by (simp only: ready_upto_def)
  then obtain e2 where e2: "on_finish_pre_process env e1 = Inr e2" "\<forall>b. steady (obj e1 b) (obj e2 b)"
    using finish_total by blast
  have "\<forall>c \<in> set cs. payable (obj e2 (snd c))" using e1(2) e2(2) steady_ready(3) unfolding ready_upto_def by blast
  then obtain e3 where "rfold (post_process_step env) cs e2 = Inr e3" using post_loop_total by blast
  then show "\<exists>e'. base_mining_scores env e = Inr e'" using e1(1) e2(1) by (simp add: base_mining_scores_def Let_def cs)
qed

text \<open>
  Claim C33. A cycle completes exactly when each result that passed validation has a known GPU model and
  a score that does not raise: no field that a later phase reads is missing, no bucket is looked up that
  was not counted, and no division by zero happens, whatever the mix of spot, idle and rented nodes.
\<close>

theorem cycle_completes_iff_scorable:
  assumes valid: "distinct_addresses (en_job_results e)" "addresses (en_job_results e) \<subseteq> {..<length (en_store e)}"
    and fresh: "\<forall>a \<in> addresses (en_job_results e). fresh_result (obj e a)"
    and start: "en_split_fallback_candidates e = []" "en_spot_pay_candidates e = []" "en_secure_floor_candidates e = []"
  shows "(\<exists>e'. base_mining_scores env e = Inr e')
    \<longleftrightarrow> (\<forall>(h, a) \<in> set (addressed (en_job_results e)). scorable env (en_total_gpu_model_count_map e) h (obj e a))"
proof -
  let ?cs = "addressed (en_job_results e)"
  have d: "distinct (map snd ?cs)" using valid(1) by (rule addressed_addresses)
  have ok: "\<forall>c \<in> set ?cs. fresh_result (obj e (snd c)) \<and> snd c < length (en_store e)"
    using fresh valid(2) addressed_addresses(2) [OF valid(1)] by blast
  show ?thesis using completes_scorable [OF _ d refl ok] scorable_completes [OF _ d refl ok start] by blast
qed

text \<open>A miner with an idle node and a partially rented one.\<close>

definition sample_split_node :: job_result where
  "sample_split_node = (sample_node 1073741824)\<lparr>jr_gpu_count := 2, jr_is_rented := True, jr_rented_gpu_count := Some 1,
     jr_supports_gpu_splitting := True, jr_gpu_splitting_min_count := Some 1\<rparr>"

definition sample_engine :: engine where
  "sample_engine = new_engine sample_env [sample_node 1073741824, sample_split_node] [(''m'', [0, 1])] [(''NVIDIA B200'', 3)]"

lemma sample_scorable: "scorable sample_env [(''NVIDIA B200'', 3)] ''m'' (sample_node 1073741824)"
  by code_simp

lemma sample_split_scorable: "scorable sample_env [(''NVIDIA B200'', 3)] ''m'' (sample_split_node\<lparr>jr_gpu_count := 1\<rparr>)"
  by code_simp

lemma sample_free_scorable: "scorable sample_env [(''NVIDIA B200'', 3)] ''m'' (free_portion_of 1 sample_split_node)"
  by code_simp

lemma sample_whole_scorable: "scorable sample_env [(''NVIDIA B200'', 3)] ''m'' sample_split_node"
  by code_simp

text \<open>Two partially rented nodes apart, the scores of the miner's results do not raise; so its cycle completes.\<close>

lemma sample_engine_fields:
  "en_job_results sample_engine = [(''m'', [0, 1])]" "en_store sample_engine = [sample_node 1073741824, sample_split_node]"
  "en_total_gpu_model_count_map sample_engine = [(''NVIDIA B200'', 3)]" "en_split_fallback_candidates sample_engine = []"
  "en_spot_pay_candidates sample_engine = []" "en_secure_floor_candidates sample_engine = []" "en_miner_incentives sample_engine = []"
  by (simp_all add: sample_engine_def new_engine_def)

lemma sample_fresh: "fresh_result (sample_node n)" "fresh_result sample_split_node"
  by (simp_all add: fresh_result_def sample_node_def sample_split_node_def new_job_result_def no_incentive_def)

lemma sample_valid:
  "distinct_addresses (en_job_results sample_engine)" "addresses (en_job_results sample_engine) \<subseteq> {..<length (en_store sample_engine)}"
  "addressed (en_job_results sample_engine) = [(''m'', 0), (''m'', 1)]"
  by (auto simp: sample_engine_fields distinct_addresses_def addresses_def addressed_def)

lemma sample_cycle_completes: "\<exists>e'. base_mining_scores sample_env sample_engine = Inr e'"
  by (rule scorable_completes [OF _ _ refl])
    (simp_all add: addressed_def sample_engine_fields obj_def sample_scorable sample_whole_scorable sample_fresh)

theorem cycle_completes_iff_scorable_witness:
  "\<exists>e'. base_mining_scores sample_env sample_engine = Inr e'"
proof -
  have "\<forall>a \<in> addresses (en_job_results sample_engine). fresh_result (obj sample_engine a)"
    by (simp add: sample_engine_fields addresses_def obj_def sample_fresh)
  from cycle_completes_iff_scorable [OF sample_valid(1,2) this sample_engine_fields(4-6), of sample_env]
  show ?thesis using sample_scorable sample_whole_scorable by (simp add: addressed_def sample_engine_fields obj_def)
qed

text \<open>
  Claim C34. An excluded node whose GPU model is not in the table scores 0 without raising, as the comment
  in \<open>calculate_executor_score\<close> promises, and still stops the cycle: pre-processing looks its
  model up again, unguarded, and the \<open>KeyError\<close> costs every miner the weights.
\<close>

theorem excluded_unknown_model_stops_the_cycle:
  assumes r: "is_successful (obj e a)" "is_excluded env (flagged env h (obj e a))" "get_base_model_for_gpu (jr_gpu_model (obj e a)) = Inl KeyError"
    and ha: "(h, a) \<in> set (addressed (en_job_results e))"
    and valid: "distinct_addresses (en_job_results e)" "addresses (en_job_results e) \<subseteq> {..<length (en_store e)}"
    and fresh: "\<forall>a \<in> addresses (en_job_results e). fresh_result (obj e a)"
  shows "(\<exists>r'. rental_executor_score env total_map (flagged env h (obj e a)) = Inr r' \<and> in_mining_score (jr_inc r') = Some 0)
    \<and> \<not> (\<exists>e'. base_mining_scores env e = Inr e')"
proof
  let ?r = "flagged env h (obj e a)"
  have x: "(fst (record_outdated_image_reason env ?r) \<or> reasons_excluded_from_both_pools env ?r \<noteq> []) = True"
    using r(2) by (auto simp: is_excluded_def record_outdated_image_reason_def)
  have m: "get_base_model_for_gpu (jr_gpu_model ?r) = Inl KeyError" using r(3) by (simp add: flagged_def)
  note f = same_fields [OF with_exclusions_same [of ?r env]]
  show "\<exists>r'. rental_executor_score env total_map ?r = Inr r' \<and> in_mining_score (jr_inc r') = Some 0"
    unfolding rental_executor_score_def case_prod_unfold Let_def exclusions_after_outdated with_exclusions_def [symmetric] x f m
    by (simp add: spot_qualified) (simp add: set_mining_score_def)
next
  have "\<not> scorable env (en_total_gpu_model_count_map e) h (obj e a)" using r(1,3) by (simp add: scorable_def)
  moreover have "\<forall>c \<in> set (addressed (en_job_results e)). fresh_result (obj e (snd c)) \<and> snd c < length (en_store e)"
    using fresh valid(2) addressed_addresses(2) [OF valid(1)] by blast
  ultimately show "\<not> (\<exists>e'. base_mining_scores env e = Inr e')"
    using completes_scorable [OF _ addressed_addresses(1) [OF valid(1)] refl] ha by blast
qed

definition unknown_model_node :: job_result where
  "unknown_model_node = (sample_node 1073741824)\<lparr>jr_gpu_model := Some ''RETIRED'', jr_is_provider_banned := True\<rparr>"

theorem excluded_unknown_model_stops_the_cycle_witness:
  "\<not> (\<exists>e'. base_mining_scores sample_env (new_engine sample_env [unknown_model_node] [(''m'', [0])] []) = Inr e')"
proof -
  let ?e = "new_engine sample_env [unknown_model_node] [(''m'', [0])] []"
  have o: "obj ?e 0 = unknown_model_node" "en_job_results ?e = [(''m'', [0])]" "length (en_store ?e) = 1" by (simp_all add: obj_def new_engine_def)
  have s: "is_successful unknown_model_node" by code_simp
  have x: "reasons_excluded_from_both_pools sample_env (flagged sample_env ''m'' unknown_model_node) \<noteq> []" by code_simp
  have m: "get_base_model_for_gpu (jr_gpu_model unknown_model_node) = Inl KeyError" by code_simp
  have "fresh_result unknown_model_node" by (simp add: unknown_model_node_def fresh_result_def sample_node_def new_job_result_def no_incentive_def)
  then show ?thesis
    using excluded_unknown_model_stops_the_cycle [where e = ?e and a = 0 and h = "''m''" and env = sample_env] s x m
    by (simp add: o addressed_def distinct_addresses_def addresses_def is_excluded_def)
qed

lemma py_float_overflow:
  assumes "2 ^ 1024 \<le> n" shows "py_float (PInt n) = Inl OverflowError"
proof -
  have "fl (of_int 1 * 2 powi 1024) = of_int 1 * 2 powi 1024" by (rule fl_exact) simp_all
  then have b: "fl max_float_bound = max_float_bound" unfolding max_float_bound_def by (simp only: power_int_numeral of_int_1 mult_1)
  have "(of_int (2 ^ 1024) :: rat) \<le> of_int n" using assms by (simp only: of_int_le_iff)
  then have "max_float_bound \<le> of_int n" by (simp only: max_float_bound_def of_int_power of_int_numeral)
  then have "max_float_bound \<le> fl (of_int n)" using fl_mono [of max_float_bound "of_int n"] b by simp
  then have "max_float_bound \<le> \<bar>fl (of_int n)\<bar>" by linarith
  then show ?thesis by (simp add: py_float_def)
qed

lemma spec_before_disk_gate:
  "port_gate c s = Inr s1 \<Longrightarrow> jr_spec (snd s1) = jr_spec (snd s)"
  "jr_spec (snd (disk_remainder_gate c s)) = jr_spec (snd s)"
  "jr_spec (snd (soft_price_gate env c s)) = jr_spec (snd s)"
  by (auto simp: port_gate_def disk_remainder_gate_def soft_price_gate_def blocked_by_def record_reason_def upd_inc_def rbind_Inr_iff Let_def
      split: prod.splits option.splits if_splits)

lemma gates_need_disk:
  assumes "idle_pool_gates env base True s = Inr s'" shows "\<not> isl (insufficient_disk_of (snd s))"
proof -
  obtain s1 s2 where s: "port_gate True s = Inr s1" "disk_gate True (soft_price_gate env True (disk_remainder_gate True s1)) = Inr s2"
    using assms unfolding idle_pool_gates_def rbind_Inr_iff by blast
  have "jr_spec (snd (soft_price_gate env True (disk_remainder_gate True s1))) = jr_spec (snd s)"
    by (simp only: spec_before_disk_gate(2,3) spec_before_disk_gate(1) [OF s(1)])
  then have "insufficient_disk_of (snd (soft_price_gate env True (disk_remainder_gate True s1))) = insufficient_disk_of (snd s)"
    by (simp add: insufficient_disk_of_def)
  then show ?thesis using s(2) unfolding gates_as_gated(2) rbind_Inr_iff by auto
qed

lemma idle_needs_disk:
  assumes run: "rental_executor_score env total_map r = Inr r'" and base: "get_base_model_for_gpu (jr_gpu_model r) = Inr base"
    and idle: "idle_candidate env base r" "\<not> jr_is_spot r"
  shows "\<not> isl (insufficient_disk_of r)"
  using run
proof (cases rule: rental_executor_score_cases)
  case Spot
  then show ?thesis using idle(2) by (simp add: on_spot_pay_path_def)
next
  case Unknown
  then show ?thesis using base by simp
next
  case (Gates base' s)
  have "base' = base" using Gates(1) base by simp
  then have "\<not> isl (insufficient_disk_of (with_exclusions env r))" using gates_need_disk Gates(2) idle(1) by fastforce
  then show ?thesis by (simp add: measured_same [OF with_exclusions_same])
qed

definition reports_disk :: "job_result \<Rightarrow> int \<Rightarrow> bool" where
  "reports_disk r n \<longleftrightarrow> (\<exists>spec g gpus caps d. jr_spec r = Some spec \<and> pget spec ''gpu'' = PDict g \<and> pget g ''details'' = PList gpus
     \<and> gpu_capacities gpus = Inr caps \<and> pget spec ''hard_disk'' = PDict d \<and> pget d ''total'' = PInt n)"

lemma flagged_same:
  "jr_is_rented (flagged env h r) = jr_is_rented r" "jr_score (flagged env h r) = jr_score r" "jr_job_score (flagged env h r) = jr_job_score r"
  "jr_is_spot (flagged env h r) = jr_is_spot r" "jr_spec (flagged env h r) = jr_spec r" "jr_gpu_model (flagged env h r) = jr_gpu_model r"
  by (simp_all add: flagged_def)

lemma huge_disk_raises:
  assumes "reports_disk r n" "2 ^ 1024 \<le> n" shows "insufficient_disk_of r = Inl OverflowError"
proof -
  obtain spec g gpus caps d where s: "jr_spec r = Some spec" "pget spec ''gpu'' = PDict g" "pget g ''details'' = PList gpus"
    "gpu_capacities gpus = Inr caps" "pget spec ''hard_disk'' = PDict d" "pget d ''total'' = PInt n"
    using assms(1) unfolding reports_disk_def by blast
  have nz: "n \<noteq> 0" "spec \<noteq> []" "g \<noteq> []" "d \<noteq> []" using assms(2) s by (auto simp: pget_def)
  then have "vram_and_disk spec = Inl OverflowError"
    using s(4) py_float_overflow [OF assms(2)] by (simp add: vram_and_disk_def s(2,3,5,6) or_pv_def truthy_def get_attr_def py_iter_def)
  then show ?thesis using nz(2) by (cases spec) (simp_all add: insufficient_disk_of_def s(1) OverflowError_def)
qed

text \<open>
  Claim C35. One idle node that reports a disk beyond the range of floats stops the cycle for all: \<open>float\<close>
  raises \<open>OverflowError\<close>, which the handler in \<open>_insufficient_disk\<close> does not list although its comment
  says that raising there costs every miner the weights of the cycle.
\<close>

theorem oversized_disk_stops_the_cycle:
  assumes node: "is_successful (obj e a)" "reports_disk (obj e a) n" "2 ^ 1024 \<le> n" "\<not> jr_is_rented (obj e a)" "\<not> jr_is_spot (obj e a)"
    and program: "get_base_model_for_gpu (jr_gpu_model (obj e a)) = Inr base" "in_program env base"
    and ha: "(h, a) \<in> set (addressed (en_job_results e))"
    and valid: "distinct_addresses (en_job_results e)" "addresses (en_job_results e) \<subseteq> {..<length (en_store e)}"
    and fresh: "\<forall>a \<in> addresses (en_job_results e). fresh_result (obj e a)"
  shows "\<not> (\<exists>e'. base_mining_scores env e = Inr e')"
proof -
  let ?r = "snd (record_outdated_image_reason env (flagged env h (obj e a)))"
  note f = same_fields [OF outdated_same [of "flagged env h (obj e a)" env]]
  have "reports_disk ?r n" using node(2) by (simp only: reports_disk_def f flagged_same)
  then have "isl (insufficient_disk_of ?r)" using huge_disk_raises node(3) by simp
  moreover have "get_base_model_for_gpu (jr_gpu_model ?r) = Inr base" "idle_candidate env base ?r" "\<not> jr_is_spot ?r"
    using node(1,4,5) program by (simp_all only: idle_candidate_def is_successful_def f flagged_same simp_thms)
  ultimately have "\<not> scorable env (en_total_gpu_model_count_map e) h (obj e a)"
    using idle_needs_disk [of env "en_total_gpu_model_count_map e" ?r] node(1) unfolding scorable_def by (metis sum.collapse(2))
  moreover have "\<forall>c \<in> set (addressed (en_job_results e)). fresh_result (obj e (snd c)) \<and> snd c < length (en_store e)"
    using fresh valid(2) addressed_addresses(2) [OF valid(1)] by blast
  ultimately show ?thesis
    using completes_scorable [OF _ addressed_addresses(1) [OF valid(1)] refl] ha by blast
qed

theorem oversized_disk_stops_the_cycle_witness:
  "\<not> (\<exists>e'. base_mining_scores sample_env
      (new_engine sample_env [sample_node 1073741824, sample_node (2 ^ 1024)] [(''other'', [0]), (''m'', [1])] []) = Inr e')"
proof -
  let ?e = "new_engine sample_env [sample_node 1073741824, sample_node (2 ^ 1024)] [(''other'', [0]), (''m'', [1])] []"
  have "reports_disk (sample_node n) n" for n
  proof -
    have "gpu_capacities [PDict [(''capacity'', PInt 184320)]] = Inr [Fin 184320]" by code_simp
    moreover have "jr_spec (sample_node n) = Some (sample_spec n)" by (simp add: sample_node_def)
    moreover have "pget (sample_spec n) ''gpu'' = PDict [(''details'', PList [PDict [(''capacity'', PInt 184320)]])]"
      "pget [(''details'', PList [PDict [(''capacity'', PInt 184320)]])] ''details'' = PList [PDict [(''capacity'', PInt 184320)]]"
      "pget (sample_spec n) ''hard_disk'' = PDict [(''total'', PInt n)]" "pget [(''total'', PInt n)] ''total'' = PInt n"
      by (simp_all add: sample_spec_def pget_def dget_or_def)
    ultimately show ?thesis unfolding reports_disk_def by blast
  qed
  moreover have "is_successful (sample_node n)" "\<not> jr_is_rented (sample_node n)" "\<not> jr_is_spot (sample_node n)"
    "jr_gpu_model (sample_node n) = Some ''NVIDIA B200''" for n
    by (simp_all add: is_successful_def sample_node_def new_job_result_def)
  moreover have "get_base_model_for_gpu (Some ''NVIDIA B200'') = Inr ''B200''" "in_program sample_env ''B200''" by code_simp+
  ultimately show ?thesis
    using oversized_disk_stops_the_cycle [where e = ?e and a = 1 and h = "''m''" and env = sample_env and base = "''B200''" and n = "2 ^ 1024"]
    by (simp add: obj_def new_engine_def addressed_def distinct_addresses_def addresses_def sample_fresh del: power_numeral)
qed

end
