(* ===== verification/Incentive_Cycle_Proofs.thy ===== *)
theory Incentive_Cycle_Proofs
  imports Incentive_Progress_Proofs
begin

text \<open>
  Properties of a whole cycle: a partially rented node is split, scored in both pools and merged back
  without losing a GPU; miners are credited with what their results earned; reassignment respects
  the caps; the shares stay within the burn emission.
\<close>

section \<open>Splitting\<close>

definition portion_of :: "job_result list \<Rightarrow> job_result list \<Rightarrow> string \<times> nat \<times> nat \<Rightarrow> bool" where
  "portion_of store store' p \<longleftrightarrow> (\<exists>free.
     store' ! fst (snd p) = (store ! fst (snd p))\<lparr>jr_gpu_count := jr_gpu_count (store ! fst (snd p)) - free\<rparr>
     \<and> store' ! snd (snd p) = free_portion_of free (store ! fst (snd p)))"

text \<open>What the expansion of a list of addresses makes of the store: \<open>ps\<close> are the portions.\<close>

definition expanded :: "job_result list \<Rightarrow> nat set \<Rightarrow> split_portions \<Rightarrow> job_result list \<Rightarrow> bool" where
  "expanded store as ps store' \<longleftrightarrow>
     length store' = length store + length ps \<and> map (\<lambda>p. snd (snd p)) ps = [length store..<length store']
     \<and> (\<lambda>p. fst (snd p)) ` set ps \<subseteq> as \<and> distinct (map (\<lambda>p. fst (snd p)) ps)
     \<and> (\<forall>i < length store. i \<notin> (\<lambda>p. fst (snd p)) ` set ps \<longrightarrow> store' ! i = store ! i)
     \<and> (\<forall>p \<in> set ps. portion_of store store' p)"

lemma expanded_refl: "expanded store as [] store"
  by (simp add: expanded_def)

lemma expanded_append:
  assumes e1: "expanded s1 as ps s2" and e2: "expanded s2 bs qs s3" and disj: "as \<inter> bs = {}"
    and valid: "as \<subseteq> {..<length s1}" "bs \<subseteq> {..<length s1}"
  shows "expanded s1 (as \<union> bs) (ps @ qs) s3"
proof -
  let ?f = "\<lambda>p :: string \<times> nat \<times> nat. fst (snd p)"
  have l: "length s2 = length s1 + length ps" "length s3 = length s2 + length qs"
    and b: "map (\<lambda>p. snd (snd p)) ps = [length s1..<length s2]" "map (\<lambda>p. snd (snd p)) qs = [length s2..<length s3]"
    and sub: "?f ` set ps \<subseteq> as" "?f ` set qs \<subseteq> bs" and dist: "distinct (map ?f ps)" "distinct (map ?f qs)"
    and o1: "\<And>i. i < length s1 \<Longrightarrow> i \<notin> ?f ` set ps \<Longrightarrow> s2 ! i = s1 ! i"
    and o2: "\<And>i. i < length s2 \<Longrightarrow> i \<notin> ?f ` set qs \<Longrightarrow> s3 ! i = s2 ! i"
    using e1 e2 unfolding expanded_def by blast+
  have apart: "?f ` set ps \<inter> ?f ` set qs = {}" using sub disj by blast
  have ps_old: "s3 ! ?f p = s2 ! ?f p \<and> s3 ! snd (snd p) = s2 ! snd (snd p)" if p: "p \<in> set ps" for p
  proof -
    have "snd (snd p) \<in> set [length s1..<length s2]" unfolding b(1) [symmetric] using p by simp
    moreover have "?f p < length s1" "?f p \<in> ?f ` set ps" using p sub(1) valid(1) by auto
    moreover have "n \<in> ?f ` set qs \<Longrightarrow> n < length s1" for n using sub(2) valid(2) by auto
    ultimately show ?thesis using o2 apart l by (metis atLeastLessThan_iff atLeastLessThan_upt disjoint_iff leD less_le_trans le_add1)
  qed
  have qs_new: "s2 ! ?f q = s1 ! ?f q" if q: "q \<in> set qs" for q
    using o1 [of "?f q"] q sub(2) valid(2) apart by auto
  have "portion_of s1 s3 p" if "p \<in> set (ps @ qs)" for p
  proof (cases "p \<in> set ps")
    case True
    then show ?thesis using e1 ps_old [OF True] by (simp add: expanded_def portion_of_def)
  next
    case False
    then have q: "p \<in> set qs" using that by simp
    then have "portion_of s2 s3 p" using e2 by (simp add: expanded_def)
    then show ?thesis unfolding portion_of_def qs_new [OF q] .
  qed
  moreover have "\<forall>i < length s1. i \<notin> ?f ` set (ps @ qs) \<longrightarrow> s3 ! i = s1 ! i" using o1 o2 l by (auto simp: image_Un)
  moreover have "map (\<lambda>p. snd (snd p)) (ps @ qs) = [length s1..<length s3]"
    unfolding map_append b using l by (metis upt_add_eq_append le_add1)
  moreover have "distinct (map ?f (ps @ qs))" using dist apart by auto
  ultimately show ?thesis unfolding expanded_def using l sub by auto
qed

lemma expand_results_expanded:
  assumes "expand_results h as store = (added, ps, store')" "distinct as" "set as \<subseteq> {..<length store}"
  shows "expanded store (set as) ps store' \<and> added = map (\<lambda>p. snd (snd p)) ps \<and> (\<forall>p \<in> set ps. fst p = h)"
  using assms
proof (induction as arbitrary: store added ps)
  case Nil
  then show ?case by (simp add: expanded_refl)
next
  case (Cons a as)
  show ?case
  proof (cases "free_gpu_count_of_partially_rented_split (store ! a)")
    case None
    then have "expanded store (set as) ps store' \<and> added = map (\<lambda>p. snd (snd p)) ps \<and> (\<forall>p \<in> set ps. fst p = h)"
      using Cons.IH [of store added ps] Cons.prems by simp
    then show ?thesis unfolding expanded_def by (auto simp: subset_insertI2)
  next
    case (Some free)
    define s1 where "s1 = store[a := (store ! a)\<lparr>jr_gpu_count := jr_gpu_count (store ! a) - free\<rparr>] @ [free_portion_of free (store ! a)]"
    obtain added' ps' where rest: "expand_results h as s1 = (added', ps', store')"
      and res: "added = length store # added'" "ps = (h, a, length store) # ps'"
      using Cons.prems(1) Some by (auto simp: Let_def s1_def split: prod.splits)
    have a: "a < length store" "a \<notin> set as" using Cons.prems by auto
    have first: "expanded store {a} [(h, a, length store)] s1"
      using a by (auto simp: expanded_def portion_of_def s1_def nth_append nth_list_update upt_rec)
    have "expanded s1 (set as) ps' store' \<and> added' = map (\<lambda>p. snd (snd p)) ps' \<and> (\<forall>p \<in> set ps'. fst p = h)"
    proof (rule Cons.IH [OF rest])
      show "distinct as" using Cons.prems(2) by simp
      show "set as \<subseteq> {..<length s1}" using Cons.prems(3) by (auto simp: s1_def)
    qed
    then show ?thesis
      using expanded_append [OF first, of "set as" ps' store'] a Cons.prems(3) by (auto simp: res)
  qed
qed

text \<open>
  The whole expansion: every entry keeps its addresses and gets the addresses of its free portions
  behind them.
\<close>

lemma expand_all_expanded:
  assumes "expand_all jr store = (jr', ps, store')" "distinct_addresses jr" "addresses jr \<subseteq> {..<length store}"
    and n: "n \<le> length store" "addresses jr \<subseteq> {..<n}"
  shows "expanded store (addresses jr) ps store'
    \<and> map (\<lambda>(h, as). (h, filter (\<lambda>c. c < n) as)) jr' = jr
    \<and> (\<forall>(h, as) \<in> set jr'. \<forall>c \<in> set as. c < n \<or> (\<exists>a. (h, a, c) \<in> set ps))"
  using assms
proof (induction jr arbitrary: store jr' ps)
  case Nil
  then show ?case by (simp add: expanded_refl addresses_def)
next
  case (Cons entry jr)
  obtain h as where entry: "entry = (h, as)" by fastforce
  obtain added ps1 s1 where r1: "expand_results h as store = (added, ps1, s1)" by (cases "expand_results h as store")
  obtain jr2 ps2 where r2: "expand_all jr s1 = (jr2, ps2, store')" and res: "jr' = (h, as @ added) # jr2" "ps = ps1 @ ps2"
    using Cons.prems(1) r1 by (auto simp: entry split: prod.splits)
  have d: "distinct as" "set as \<inter> addresses jr = {}" "distinct_addresses jr" "set as \<subseteq> {..<length store}" "addresses jr \<subseteq> {..<length store}"
    "set as \<subseteq> {..<n}" "addresses jr \<subseteq> {..<n}"
    using Cons.prems(2,3,5) by (auto simp: entry distinct_addresses_def set_concat_snd [symmetric])
  have e1: "expanded store (set as) ps1 s1" and added: "added = map (\<lambda>p. snd (snd p)) ps1" and own: "\<forall>p \<in> set ps1. fst p = h"
    using expand_results_expanded [OF r1 d(1,4)] by blast+
  have l1: "length store \<le> length s1" "set added \<subseteq> {length store..}" using e1 by (auto simp: expanded_def added)
  then have ih: "expanded s1 (addresses jr) ps2 store'
    \<and> map (\<lambda>(h, as). (h, filter (\<lambda>c. c < n) as)) jr2 = jr
    \<and> (\<forall>(h, as) \<in> set jr2. \<forall>c \<in> set as. c < n \<or> (\<exists>a. (h, a, c) \<in> set ps2))"
    using Cons.IH [OF r2 d(3)] Cons.prems(4) d(5,7) by fastforce
  have "filter (\<lambda>c. c < n) as = as" using d(6) by (auto intro: filter_True)
  moreover have "filter (\<lambda>c. c < n) added = []" using l1(2) Cons.prems(4) by (auto intro!: filter_False)
  ultimately have "filter (\<lambda>c. c < n) (as @ added) = as" by simp
  moreover have "c < n \<or> (\<exists>a. (h, a, c) \<in> set ps1)" if "c \<in> set (as @ added)" for c using that d(6) own by (force simp: added)
  ultimately have restored: "map (\<lambda>(h, as). (h, filter (\<lambda>c. c < n) as)) jr' = entry # jr"
    and own_new: "\<And>c. c \<in> set (as @ added) \<Longrightarrow> c < n \<or> (\<exists>a. (h, a, c) \<in> set ps1)"
    using ih by (simp_all add: res entry)
  have later: "(k, cs) \<in> set jr2 \<Longrightarrow> c \<in> set cs \<Longrightarrow> c < n \<or> (\<exists>a. (k, a, c) \<in> set ps2)" for k cs c using ih by fast
  have "\<forall>(k, cs) \<in> set jr'. \<forall>c \<in> set cs. c < n \<or> (\<exists>a. (k, a, c) \<in> set ps)"
  proof (intro ballI, clarify)
    fix k cs c assume "(k, cs) \<in> set jr'" "c \<in> set cs" "\<nexists>a. (k, a, c) \<in> set ps"
    then show "c < n" using own_new [of c] later [of k cs c] by (auto simp: res)
  qed
  moreover have "expanded store (addresses (entry # jr)) ps store'"
    using expanded_append [OF e1 conjunct1 [OF ih] d(2,4,5)] by (simp add: res entry)
  ultimately show ?case using restored by blast
qed

section \<open>Merging\<close>

lemma merge_one:
  assumes "a < length (en_store e)" "a \<noteq> b"
  shows "jr_gpu_count (obj (merge_portions (h, a, b) e) a)
      = jr_gpu_count (obj e a) + (jr_gpu_count (obj e b) + jr_port_unpaid_gpu_count (obj e b))"
    "c \<noteq> a \<Longrightarrow> obj (merge_portions (h, a, b) e) c = obj e c"
    "length (en_store (merge_portions (h, a, b) e)) = length (en_store e)"
    "en_job_results (merge_portions (h, a, b) e)
      = map (\<lambda>(k, as). (k, if k = h then filter (\<lambda>c. c \<noteq> b) as else as)) (en_job_results e)"
proof -
  have o: "obj (en\<lparr>en_job_results := j\<rparr>) = obj en" for en j by (rule obj_same_store) simp
  show "jr_gpu_count (obj (merge_portions (h, a, b) e) a)
      = jr_gpu_count (obj e a) + (jr_gpu_count (obj e b) + jr_port_unpaid_gpu_count (obj e b))"
    using assms by (simp add: merge_portions_def Let_def o obj_put record_mixed_formula_inputs_def set_incentive_split_def)
  show "c \<noteq> a \<Longrightarrow> obj (merge_portions (h, a, b) e) c = obj e c" by (simp add: merge_portions_def Let_def o obj_put)
  show "length (en_store (merge_portions (h, a, b) e)) = length (en_store e)" by (simp add: merge_portions_def Let_def)
  show "en_job_results (merge_portions (h, a, b) e)
      = map (\<lambda>(k, as). (k, if k = h then filter (\<lambda>c. c \<noteq> b) as else as)) (en_job_results e)"
    by (simp add: merge_portions_def Let_def)
qed

lemma merge_all:
  assumes "distinct (map (\<lambda>p. fst (snd p)) ps)" "\<forall>p \<in> set ps. fst (snd p) < n \<and> n \<le> snd (snd p)" "n \<le> length (en_store e)"
  shows "(\<forall>c. c \<notin> (\<lambda>p. fst (snd p)) ` set ps \<longrightarrow> obj (fold merge_portions ps e) c = obj e c)
    \<and> (\<forall>p \<in> set ps. jr_gpu_count (obj (fold merge_portions ps e) (fst (snd p))) = jr_gpu_count (obj e (fst (snd p)))
        + (jr_gpu_count (obj e (snd (snd p))) + jr_port_unpaid_gpu_count (obj e (snd (snd p)))))
    \<and> en_job_results (fold merge_portions ps e)
      = map (\<lambda>(k, as). (k, filter (\<lambda>c. \<forall>a. (k, a, c) \<notin> set ps) as)) (en_job_results e)"
  using assms
proof (induction ps arbitrary: e)
  case (Cons p ps)
  obtain h a b where p: "p = (h, a, b)" by (cases p)
  have ab: "a < length (en_store e)" "a \<noteq> b" "a \<notin> (\<lambda>p. fst (snd p)) ` set ps" "n \<le> b" using Cons.prems by (auto simp: p)
  note one = merge_one [OF ab(1,2), where h = h]
  have same: "obj (merge_portions p e) c = obj e c" if "c \<noteq> a" for c using one(2) that by (simp add: p)
  have ih: "(\<forall>c. c \<notin> (\<lambda>p. fst (snd p)) ` set ps \<longrightarrow> obj (fold merge_portions ps (merge_portions p e)) c = obj (merge_portions p e) c)
    \<and> (\<forall>q \<in> set ps. jr_gpu_count (obj (fold merge_portions ps (merge_portions p e)) (fst (snd q))) = jr_gpu_count (obj (merge_portions p e) (fst (snd q)))
        + (jr_gpu_count (obj (merge_portions p e) (snd (snd q))) + jr_port_unpaid_gpu_count (obj (merge_portions p e) (snd (snd q)))))
    \<and> en_job_results (fold merge_portions ps (merge_portions p e))
      = map (\<lambda>(k, as). (k, filter (\<lambda>c. \<forall>a. (k, a, c) \<notin> set ps) as)) (en_job_results (merge_portions p e))"
    using Cons.prems one(3) by (intro Cons.IH) (simp_all add: p)
  have others: "fst (snd q) \<noteq> a \<and> snd (snd q) \<noteq> a" if "q \<in> set ps" for q using that ab Cons.prems(2) by (force simp: p)
  have "jr_gpu_count (obj (fold merge_portions (p # ps) e) (fst (snd q))) = jr_gpu_count (obj e (fst (snd q)))
        + (jr_gpu_count (obj e (snd (snd q))) + jr_port_unpaid_gpu_count (obj e (snd (snd q))))" if "q \<in> set (p # ps)" for q
  proof (cases "q \<in> set ps")
    case True
    then show ?thesis using ih others [OF True] same by simp
  next
    case False
    then have "q = p" using that by simp
    then show ?thesis using ih ab(3) one(1) by (simp add: p)
  qed
  moreover have "en_job_results (fold merge_portions (p # ps) e)
      = map (\<lambda>(k, as). (k, filter (\<lambda>c. \<forall>a. (k, a, c) \<notin> set (p # ps)) as)) (en_job_results e)"
  proof -
    have f: "filter (\<lambda>c. \<forall>a. (k, a, c) \<notin> set ps) (if k = h then filter (\<lambda>c. c \<noteq> b) as else as)
        = filter (\<lambda>c. \<forall>a. (k, a, c) \<notin> set (p # ps)) as" for k as
      by (cases "k = h") (auto simp: p filter_filter intro!: filter_cong)
    have "en_job_results (fold merge_portions (p # ps) e)
      = map (\<lambda>(k, as). (k, filter (\<lambda>c. \<forall>a. (k, a, c) \<notin> set ps) (if k = h then filter (\<lambda>c. c \<noteq> b) as else as))) (en_job_results e)"
      using ih one(4) by (simp add: p comp_def case_prod_unfold)
    then show ?thesis unfolding f .
  qed
  moreover have "\<forall>c. c \<notin> (\<lambda>p. fst (snd p)) ` set (p # ps) \<longrightarrow> obj (fold merge_portions (p # ps) e) c = obj e c"
    using ih same by (auto simp: p)
  ultimately show ?case by blast
qed simp

text \<open>
  Claim C28. Splitting the partially rented nodes, scoring both portions and merging them back gives
  every miner the results it had, and every result the GPUs it had, whatever the port and disk limits
  left unpaid in between.
\<close>

theorem cycle_conserves_results:
  assumes run: "calculate_mining_scores env e = Inr e'"
    and valid: "distinct_addresses (en_job_results e)" "addresses (en_job_results e) \<subseteq> {..<length (en_store e)}"
    and fresh: "\<forall>a \<in> addresses (en_job_results e). \<not> jr_is_split_remainder (obj e a) \<and> jr_port_unpaid_gpu_count (obj e a) = 0"
  shows "en_job_results e' = en_job_results e
    \<and> (\<forall>a \<in> addresses (en_job_results e). jr_gpu_count (obj e' a) = jr_gpu_count (obj e a))"
proof -
  let ?n = "length (en_store e)" and ?a = "\<lambda>p :: string \<times> nat \<times> nat. fst (snd p)"
  obtain jr ps store where ex: "expand_all (en_job_results e) (en_store e) = (jr, ps, store)" by (cases "expand_all (en_job_results e) (en_store e)")
  define e1 where "e1 = e\<lparr>en_job_results := jr, en_store := store\<rparr>"
  obtain e2 where base: "base_mining_scores env e1 = Inr e2" and e': "e' = fold merge_portions ps e2"
    using run ex unfolding calculate_mining_scores_def by (auto simp: rbind_Inr_iff e1_def)
  have x: "expanded (en_store e) (addresses (en_job_results e)) ps store"
    and old: "map (\<lambda>(h, as). (h, filter (\<lambda>c. c < ?n) as)) jr = en_job_results e"
    and new: "\<forall>(h, as) \<in> set jr. \<forall>c \<in> set as. c < ?n \<or> (\<exists>a. (h, a, c) \<in> set ps)"
    using expand_all_expanded [OF ex valid order_refl valid(2)] by blast+
  have k: "all_rel conserved e1 e2" using base by (rule base_mining_scores_conserve)
  have b: "snd (snd p) \<in> {?n..<length store}" if "p \<in> set ps" for p
  proof -
    have "snd (snd p) \<in> set (map (\<lambda>p. snd (snd p)) ps)" using that by simp
    then show ?thesis using x unfolding expanded_def by simp
  qed
  have ps: "distinct (map ?a ps)" "\<forall>p \<in> set ps. ?a p < ?n \<and> ?n \<le> snd (snd p)" "?n \<le> length (en_store e2)"
    using x valid(2) b k by (auto simp: expanded_def all_rel_def e1_def)
  note m = merge_all [OF ps, folded e']
  show ?thesis
  proof (intro conjI ballI)
    have "filter (\<lambda>c. \<forall>a. (h, a, c) \<notin> set ps) as = filter (\<lambda>c. c < ?n) as" if "(h, as) \<in> set jr" for h as
      using that new ps(2) by (force intro!: filter_cong)
    then have "map (\<lambda>(h, as). (h, filter (\<lambda>c. \<forall>a. (h, a, c) \<notin> set ps) as)) jr = map (\<lambda>(h, as). (h, filter (\<lambda>c. c < ?n) as)) jr"
      by (intro map_cong) auto
    then show "en_job_results e' = en_job_results e" using m k old by (simp add: all_rel_def e1_def)
  next
    fix a assume a: "a \<in> addresses (en_job_results e)"
    show "jr_gpu_count (obj e' a) = jr_gpu_count (obj e a)"
    proof (cases "a \<in> ?a ` set ps")
      case False
      have "obj e1 a = obj e a" using False a valid(2) x by (auto simp: obj_def e1_def expanded_def)
      then show ?thesis using False m k fresh a by (simp add: all_rel_def conserved_def)
    next
      case True
      then obtain h c where p: "(h, a, c) \<in> set ps" by force
      then obtain free where f: "obj e1 a = (obj e a)\<lparr>jr_gpu_count := jr_gpu_count (obj e a) - free\<rparr>"
        "obj e1 c = free_portion_of free (obj e a)"
        using x by (auto simp: expanded_def portion_of_def obj_def e1_def)
      have ka: "conserved (obj e1 a) (obj e2 a)" and kc: "conserved (obj e1 c) (obj e2 c)" using k by (simp_all add: all_rel_def)
      have "jr_gpu_count (obj e2 a) = jr_gpu_count (obj e a) - free"
        using ka fresh a by (simp add: conserved_def f(1))
      moreover have "jr_gpu_count (obj e2 c) + jr_port_unpaid_gpu_count (obj e2 c) = free"
        using kc fresh a by (simp add: conserved_def f(2) free_portion_of_def)
      moreover have "jr_gpu_count (obj e' a) = jr_gpu_count (obj e2 a) + (jr_gpu_count (obj e2 c) + jr_port_unpaid_gpu_count (obj e2 c))"
        using m p by force
      ultimately show ?thesis by simp
    qed
  qed
qed

lemma sample_expanded:
  "expand_all (en_job_results sample_engine) (en_store sample_engine)
    = ([(''m'', [0, 1, 2])], [(''m'', 1, 2)], [sample_node 1073741824, sample_split_node\<lparr>jr_gpu_count := 1\<rparr>, free_portion_of 1 sample_split_node])"
proof -
  have "free_gpu_count_of_partially_rented_split (sample_node 1073741824) = None" "free_gpu_count_of_partially_rented_split sample_split_node = Some 1"
    "jr_gpu_count sample_split_node = 2" by code_simp+
  then show ?thesis by (simp add: sample_engine_fields)
qed

lemma sample_fresh_portions: "fresh_result (sample_split_node\<lparr>jr_gpu_count := 1\<rparr>)" "fresh_result (free_portion_of 1 sample_split_node)"
  using sample_fresh(2) by (simp_all add: fresh_result_def free_portion_of_def)

lemma sample_run_completes: "\<exists>e'. calculate_mining_scores sample_env sample_engine = Inr e'"
proof -
  let ?e = "sample_engine\<lparr>en_job_results := [(''m'', [0, 1, 2])],
    en_store := [sample_node 1073741824, sample_split_node\<lparr>jr_gpu_count := 1\<rparr>, free_portion_of 1 sample_split_node]\<rparr>"
  have "\<exists>e'. base_mining_scores sample_env ?e = Inr e'"
    by (rule scorable_completes [OF _ _ refl])
      (simp_all add: addressed_def sample_engine_fields obj_def sample_scorable sample_split_scorable sample_free_scorable sample_fresh sample_fresh_portions)
  then show ?thesis by (auto simp: calculate_mining_scores_def sample_expanded)
qed

theorem cycle_conserves_results_witness:
  "\<exists>e'. calculate_mining_scores sample_env sample_engine = Inr e' \<and> en_job_results e' = [(''m'', [0, 1])]
     \<and> jr_gpu_count (obj e' 0) = 1 \<and> jr_gpu_count (obj e' 1) = 2"
proof -
  obtain e' where run: "calculate_mining_scores sample_env sample_engine = Inr e'" using sample_run_completes by blast
  have n: "\<not> jr_is_split_remainder (sample_node n) \<and> jr_port_unpaid_gpu_count (sample_node n) = 0 \<and> jr_gpu_count (sample_node n) = 1" for n
    by (simp add: sample_node_def new_job_result_def)
  have s: "\<not> jr_is_split_remainder sample_split_node \<and> jr_port_unpaid_gpu_count sample_split_node = 0 \<and> jr_gpu_count sample_split_node = 2"
    using n by (simp add: sample_split_node_def)
  have "\<forall>a \<in> addresses (en_job_results sample_engine). \<not> jr_is_split_remainder (obj sample_engine a) \<and> jr_port_unpaid_gpu_count (obj sample_engine a) = 0"
    using n s by (simp add: sample_engine_fields addresses_def obj_def)
  from cycle_conserves_results [OF run sample_valid(1,2) this] run n s show ?thesis
    by (simp add: sample_engine_fields addresses_def obj_def)
qed

section \<open>Credits\<close>

definition earned :: "job_result \<Rightarrow> rat list" where
  "earned r = (case in_incentive (jr_inc r) of None \<Rightarrow> [] | Some x \<Rightarrow> [x])"

abbreviation credit_of :: "engine \<Rightarrow> string \<Rightarrow> rat" where
  "credit_of e h \<equiv> dget_or 0 (en_miner_incentives e) h"

lemma put_credits [simp]: "en_miner_incentives (put a r e) = en_miner_incentives e"
  by (simp add: put_def)

lemma default_pre_credits: "default_pre_process env a e = Inr e' \<Longrightarrow> en_miner_incentives e' = en_miner_incentives e"
  unfolding default_pre_process_def rbind_Inr_iff Let_def by auto

lemma price_spot_credits: "price_spot_node env a e = Inr e' \<Longrightarrow> en_miner_incentives e' = en_miner_incentives e"
  unfolding price_spot_node_def rbind_Inr_iff Let_def by auto

lemma account_credits: "account_idle env base a e = Inr e' \<Longrightarrow> en_miner_incentives e' = en_miner_incentives e"
  by (erule account_idle_cases) simp_all

lemma pre_process_credits:
  assumes "pre_process_job_result env a e = Inr e'" shows "en_miner_incentives e' = en_miner_incentives e"
proof -
  define r1 where "r1 = snd (record_outdated_image_reason env (obj e a))"
  note start = assms [unfolded pre_process_job_result_def Let_def, folded r1_def]
  show ?thesis
  proof (cases "is_successful r1")
    case True
    then obtain d where d: "default_pre_process env a (put a r1 e) = Inr d"
      and rest: "(if in_spot_pay_candidate (jr_inc (obj d a)) then price_spot_node env a d
        else rbind (get_base_model_for_gpu (jr_gpu_model (obj d a))) (\<lambda>base.
          if in_program env base \<and> in_eligible_for_rental_share (jr_inc (obj d a)) then account_idle env base a d else Inr d)) = Inr e'"
      using start by (auto simp only: rbind_Inr_iff if_False not_True_eq_False)
    have "en_miner_incentives e' = en_miner_incentives d"
      using rest price_spot_credits [of env a d e'] account_credits [of env _ a d e'] by (auto simp: rbind_Inr_iff split: if_splits)
    then show ?thesis using default_pre_credits [OF d] by simp
  next
    case False
    then show ?thesis using start by auto
  qed
qed

lemma rfold_keeps:
  assumes "rfold f xs s = Inr s'" "\<And>x s s'. f x s = Inr s' \<Longrightarrow> g s' = g s" shows "g s' = g s"
  using assms(1)
proof (induction xs arbitrary: s)
  case (Cons x xs)
  then show ?case using assms(2) by (auto simp: rbind_Inr_iff)
qed simp

lemma pre_step_credits: "pre_process_step env c e = Inr e' \<Longrightarrow> en_miner_incentives e' = en_miner_incentives e"
  unfolding pre_process_step_def case_prod_unfold Let_def by (drule pre_process_credits) simp

lemma reassign_credits: "reassign_one env c e = Inr e' \<Longrightarrow> en_miner_incentives e' = en_miner_incentives e"
  by (cases c) (auto elim!: reassign_one_cases dest: move_bucket_keeps(3))

lemma on_finish_credits:
  assumes "on_finish_pre_process env e = Inr e'" shows "en_miner_incentives e' = en_miner_incentives e"
  using assms
proof (cases rule: on_finish_cases)
  case (1 e1 e2 spot top_up)
  let ?f = "add_bucket_costs (set_cap_multipliers env e1)"
  have "en_miner_incentives e1 = en_miner_incentives e"
    using 1(1) unfolding reassign_split_candidates_def by (rule rfold_keeps) (rule reassign_credits)
  moreover have "en_miner_incentives ?f = en_miner_incentives e1" by (simp add: add_bucket_costs_def set_cap_multipliers_def)
  moreover obtain rate_sums where "rfold (pay_spot_one rate_sums (spot_pools ?f)) (en_spot_pay_candidates ?f) (0, ?f) = Inr (spot, e2)"
    using 1(2) unfolding spot_pay_within_filler_earnings_def rbind_Inr_iff by blast
  then have "en_miner_incentives (snd (spot, e2)) = en_miner_incentives (snd (0 :: rat, ?f))"
    by (rule rfold_keeps) (auto simp: pay_spot_one_def rbind_Inr_iff case_prod_unfold Let_def)
  moreover have "en_miner_incentives e' = en_miner_incentives e2"
    unfolding 1(3) by (simp add: settle_shares_def settle_unbucketed_share_def calculate_rental_share_def Let_def split: option.split)
  ultimately show ?thesis by simp
qed

lemma earned_split:
  assumes "in_incentive (jr_inc r) = Some x" "is_float x"
  shows "in_incentive (jr_inc (split_incentive_across_pools r)) = Some x"
  using assms by (simp add: split_incentive_across_pools_def set_incentive_split_def Let_def fadd_def fsub_def is_float_def)

lemma fsum_from_append: "fsum_from acc (xs @ ys) = fsum_from (fsum_from acc xs) ys"
  by (induction xs arbitrary: acc) simp_all

lemma post_step_credit:
  assumes run: "post_process_step env (k, a) e = Inr e'" and a: "a < length (en_store e)" and fresh: "in_incentive (jr_inc (obj e a)) = None"
  shows "credit_of e' h = fsum_from (credit_of e h) (if k = h then earned (obj e' a) else [])"
proof -
  obtain m where m: "post_process_job_result env k a e = Inr m" "e' = put a (split_incentive_across_pools (obj m a)) m"
    using run unfolding post_process_step_def by (auto simp: rbind_Inr_iff)
  show ?thesis
    using m(1)
  proof (cases rule: post_process_cases)
    case (Paid x r')
    have "obj m a = r'" "length (en_store m) = length (en_store e)" using a unfolding Paid(1) by (simp_all add: obj_def credit_def put_def)
    then have "earned (obj e' a) = [x]" using a earned_split [OF Paid(3,4)] by (simp add: m(2) obj_put earned_def)
    moreover have "credit_of e' h = (if k = h then fadd (credit_of e h) x else credit_of e h)"
      unfolding m(2) Paid(1) by (auto simp: credit_def dget_or_def)
    ultimately show ?thesis by simp
  next
    case (Unpaid r')
    have "obj m a = r'" "length (en_store m) = length (en_store e)" using a unfolding Unpaid(1) by (simp_all add: obj_put)
    then have "earned (obj e' a) = []"
      using a Unpaid(4) fresh by (simp add: m(2) obj_put earned_def split_incentive_across_pools_def)
    then show ?thesis unfolding m(2) Unpaid(1) by simp
  qed
qed

lemma post_loop_credits:
  assumes "rfold (post_process_step env) cs e = Inr e'" "distinct (map snd cs)"
    "\<forall>c \<in> set cs. snd c < length (en_store e) \<and> in_incentive (jr_inc (obj e (snd c))) = None"
  shows "credit_of e' h = fsum_from (credit_of e h) (concat (map (\<lambda>c. if fst c = h then earned (obj e' (snd c)) else []) cs))"
  using assms
proof (induction cs arbitrary: e)
  case (Cons c cs)
  obtain k a where c: "c = (k, a)" by (cases c)
  obtain m where m: "post_process_step env (k, a) e = Inr m" "rfold (post_process_step env) cs m = Inr e'"
    using Cons.prems(1) by (auto simp: c rbind_Inr_iff)
  have f: "frame conserved a e m" using frame_post_process_step [OF m(1)] by simp
  have "\<forall>d \<in> set cs. snd d \<noteq> a" using Cons.prems(2) by (auto simp: c)
  then have rest: "\<forall>d \<in> set cs. snd d < length (en_store m) \<and> in_incentive (jr_inc (obj m (snd d))) = None"
    using Cons.prems(3) f by (simp add: frame_def)
  have "obj e' a = obj m a" using post.loop_frame [OF m(2)] Cons.prems(2) by (simp add: c)
  then show ?case
    using Cons.IH [OF m(2) _ rest] Cons.prems(2,3) post_step_credit [OF m(1), of h] by (simp add: c fsum_from_append)
qed simp

text \<open>
  Claim C29. After the two passes of a cycle a miner is credited with the float sum, in the order of
  its results, of the incentives its results carry; a result without an incentive is not counted.
\<close>

theorem miners_credited_with_their_results:
  assumes run: "base_mining_scores env e = Inr e'" and start: "en_miner_incentives e = []"
    and valid: "distinct_addresses (en_job_results e)" "addresses (en_job_results e) \<subseteq> {..<length (en_store e)}"
    and fresh: "\<forall>a \<in> addresses (en_job_results e). in_incentive (jr_inc (obj e a)) = None"
  shows "dget_or 0 (en_miner_incentives e') h
    = fsum (concat (map (\<lambda>(k, a). if k = h then earned (obj e' a) else []) (addressed (en_job_results e))))"
proof -
  let ?cs = "addressed (en_job_results e)"
  obtain e1 e2 where 1: "rfold (pre_process_step env) ?cs e = Inr e1" "on_finish_pre_process env e1 = Inr e2"
    "rfold (post_process_step env) ?cs e2 = Inr e'"
    using run unfolding base_mining_scores_def Let_def rbind_Inr_iff by blast
  have snds: "map snd ?cs = concat (map snd (en_job_results e))"
    by (simp add: addressed_def map_concat case_prod_unfold comp_def)
  have d: "distinct (map snd ?cs)" using valid(1) by (simp add: snds distinct_addresses_def)
  have own: "snd ` set ?cs = addresses (en_job_results e)" by (metis snds set_concat_snd set_map)
  have k: "all_rel kept e e2"
  proof -
    have "all_rel kept e e1" using pre.loop_frame [OF 1(1)] by (simp add: all_rel_def)
    also have "all_rel kept e1 e2" using 1(2) by (rule on_finish_kept)
    finally show ?thesis .
  qed
  have ready: "\<forall>c \<in> set ?cs. snd c < length (en_store e2) \<and> in_incentive (jr_inc (obj e2 (snd c))) = None"
  proof
    fix c assume "c \<in> set ?cs"
    then have "snd c \<in> addresses (en_job_results e)" using own by blast
    then show "snd c < length (en_store e2) \<and> in_incentive (jr_inc (obj e2 (snd c))) = None"
      using k valid(2) fresh by (auto simp: all_rel_def kept_def)
  qed
  have "en_miner_incentives e2 = []"
    using rfold_keeps [OF 1(1), where g = en_miner_incentives, OF pre_step_credits] on_finish_credits [OF 1(2)] start by simp
  then show ?thesis using post_loop_credits [OF 1(3) d ready, of h] by (simp add: fsum_def case_prod_unfold)
qed

lemma sample_unpaid: "in_incentive (jr_inc (sample_node n)) = None" "in_incentive (jr_inc sample_split_node) = None"
  by (simp_all add: sample_split_node_def sample_node_def new_job_result_def no_incentive_def)

theorem miners_credited_with_their_results_witness:
  "\<exists>e'. base_mining_scores sample_env sample_engine = Inr e'
     \<and> dget_or 0 (en_miner_incentives e') ''m'' = fsum (concat (map (\<lambda>(k, a). earned (obj e' a)) [(''m'', 0), (''m'', 1)]))"
proof -
  obtain e' where run: "base_mining_scores sample_env sample_engine = Inr e'"
    using sample_cycle_completes by blast
  have "\<forall>a \<in> addresses (en_job_results sample_engine). in_incentive (jr_inc (obj sample_engine a)) = None"
    by (simp add: sample_engine_fields addresses_def obj_def sample_unpaid)
  from miners_credited_with_their_results [OF run sample_engine_fields(7) sample_valid(1,2) this, of "''m''"] run
  show ?thesis by (simp add: sample_engine_fields addressed_def)
qed

section \<open>Caps and shares\<close>

lemma sum_dset:
  fixes d :: "('k, int) dict"
  assumes "is_dict d" shows "sum_list (map snd (dset k v d)) = sum_list (map snd d) - dget_or 0 d k + v"
  using assms by (induction d) (auto simp: is_dict_def dget_or_def map_of_eq_None_iff split: option.split)

definition count_of :: "engine \<Rightarrow> bucket_key \<Rightarrow> int" where
  "count_of e key = dget_or 0 (en_unrented_count_by_bucket e) key"

lemma reassign_one_counts:
  assumes run: "reassign_one env c e = Inr e'" and n: "0 \<le> jr_gpu_count (obj e (snd c))" and dict: "is_dict (en_unrented_count_by_bucket e)"
  shows "count_of e' key \<le> max (count_of e key) (bucket_cap (ie_config env) (fst key) (snd key))"
    "sum_list (map snd (en_unrented_count_by_bucket e')) = sum_list (map snd (en_unrented_count_by_bucket e))"
    "is_dict (en_unrented_count_by_bucket e')" "jr_gpu_count (obj e' b) = jr_gpu_count (obj e b)"
proof -
  obtain base a where c: "c = (base, a)" by (cases c)
  have "count_of e' key \<le> max (count_of e key) (bucket_cap (ie_config env) (fst key) (snd key))
    \<and> sum_list (map snd (en_unrented_count_by_bucket e')) = sum_list (map snd (en_unrented_count_by_bucket e))
    \<and> is_dict (en_unrented_count_by_bucket e') \<and> jr_gpu_count (obj e' b) = jr_gpu_count (obj e b)"
    using run unfolding c
  proof (cases rule: reassign_one_cases)
    case (Moves src tgt w m)
    let ?n = "jr_gpu_count (obj e a)" and ?d = "en_unrented_count_by_bucket e"
    have counts: "en_unrented_count_by_bucket e' = dset (base, tgt) (dget_or 0 ?d (base, tgt) + ?n) (dset (base, src) (dget_or 0 ?d (base, src) - ?n) ?d)"
      unfolding Moves(7) using move_bucket_keeps(4) [OF Moves(6)] by (simp add: put_def)
    have ne: "src \<noteq> tgt" using Moves(3,4) n by (auto simp: c)
    have "obj m = obj e" using move_bucket_keeps(1) [OF Moves(6)] by (rule obj_same_store)
    then have "jr_gpu_count (obj e' b) = jr_gpu_count (obj e b)" unfolding Moves(7) by (simp add: obj_put)
    moreover have "count_of e' key \<le> max (count_of e key) (bucket_cap (ie_config env) (fst key) (snd key))"
      using Moves(4) n ne by (auto simp: count_of_def counts c dget_or_def)
    ultimately show ?thesis using dict ne by (simp add: counts sum_dset is_dict_dset dget_or_def)
  qed (use dict in simp)
  then show "count_of e' key \<le> max (count_of e key) (bucket_cap (ie_config env) (fst key) (snd key))"
    "sum_list (map snd (en_unrented_count_by_bucket e')) = sum_list (map snd (en_unrented_count_by_bucket e))"
    "is_dict (en_unrented_count_by_bucket e')" "jr_gpu_count (obj e' b) = jr_gpu_count (obj e b)" by blast+
qed

lemma reassign_loop_counts:
  assumes "rfold (reassign_one env) cs e = Inr e'" "\<forall>c \<in> set cs. 0 \<le> jr_gpu_count (obj e (snd c))" "is_dict (en_unrented_count_by_bucket e)"
  shows "(\<forall>key. count_of e' key \<le> max (count_of e key) (bucket_cap (ie_config env) (fst key) (snd key)))
    \<and> sum_list (map snd (en_unrented_count_by_bucket e')) = sum_list (map snd (en_unrented_count_by_bucket e))"
  using assms
proof (induction cs arbitrary: e)
  case (Cons c cs)
  obtain m where m: "reassign_one env c e = Inr m" "rfold (reassign_one env) cs m = Inr e'"
    using Cons.prems(1) by (auto simp: rbind_Inr_iff)
  have n: "0 \<le> jr_gpu_count (obj e (snd c))" using Cons.prems(2) by simp
  note one = reassign_one_counts [OF m(1) n Cons.prems(3)]
  have ih: "(\<forall>key. count_of e' key \<le> max (count_of m key) (bucket_cap (ie_config env) (fst key) (snd key)))
    \<and> sum_list (map snd (en_unrented_count_by_bucket e')) = sum_list (map snd (en_unrented_count_by_bucket m))"
    using Cons.prems(2) by (intro Cons.IH [OF m(2) _ one(3)]) (simp add: one(4))
  have "count_of e' key \<le> max (count_of e key) (bucket_cap (ie_config env) (fst key) (snd key))" for key
    using one(1) [of key] spec [OF conjunct1 [OF ih], of key] by (simp add: le_max_iff_disj) linarith
  then show ?case using ih one(2) by simp
qed simp

text \<open>
  Claim C30. Moving split-capable nodes to their split tier fills no bucket beyond its cap (a bucket
  that was already over it does not grow) and moves GPUs without creating or losing any.
\<close>

theorem reassignment_respects_caps:
  assumes "reassign_split_candidates env e = Inr e'"
    and "\<forall>c \<in> set (en_split_fallback_candidates e). 0 \<le> jr_gpu_count (obj e (snd c))"
    and "is_dict (en_unrented_count_by_bucket e)"
  shows "(\<forall>key. dget_or 0 (en_unrented_count_by_bucket e') key
      \<le> max (dget_or 0 (en_unrented_count_by_bucket e) key) (bucket_cap (ie_config env) (fst key) (snd key)))
    \<and> sum_list (map snd (en_unrented_count_by_bucket e')) = sum_list (map snd (en_unrented_count_by_bucket e))"
  using reassign_loop_counts [OF assms(1) [unfolded reassign_split_candidates_def] _ assms(3)] assms(2) by (simp add: count_of_def)

text \<open>A crowded bucket of 8 and a node in it that fits the bucket of 1.\<close>

definition crowded_engine :: engine where
  "crowded_engine = (new_engine sample_env
      [upd_inc (\<lambda>i. i\<lparr>in_count_bucket := Some 8, in_hourly_rate := Some 4, in_sysbox_multiplier := Some 1, in_driver_multiplier := Some 1\<rparr>)
        ((sample_node 1)\<lparr>jr_gpu_count := 8, jr_supports_gpu_splitting := True, jr_gpu_splitting_min_count := Some 1\<rparr>)] [(''m'', [0])] [])
     \<lparr>en_split_fallback_candidates := [(''B200'', 0)], en_unrented_count_by_bucket := [((''B200'', 8), 72), ((''B200'', 1), 2)],
      en_weighted_rate_sum_by_bucket := [((''B200'', 8), 288), ((''B200'', 1), 8)]\<rparr>"

theorem reassignment_respects_caps_witness:
  "\<exists>e'. reassign_split_candidates sample_env crowded_engine = Inr e'
     \<and> en_unrented_count_by_bucket e' = [((''B200'', 8), 64), ((''B200'', 1), 10)]
     \<and> sum_list (map snd (en_unrented_count_by_bucket e')) = sum_list (map snd (en_unrented_count_by_bucket crowded_engine))"
proof -
  have ok: "(case reassign_split_candidates sample_env crowded_engine of Inl _ \<Rightarrow> False
      | Inr e \<Rightarrow> en_unrented_count_by_bucket e = [((''B200'', 8), 64), ((''B200'', 1), 10)])" by code_simp
  then obtain e' where e': "reassign_split_candidates sample_env crowded_engine = Inr e'"
    "en_unrented_count_by_bucket e' = [((''B200'', 8), 64), ((''B200'', 1), 10)]" by (simp split: sum.splits)
  have "\<forall>c \<in> set (en_split_fallback_candidates crowded_engine). 0 \<le> jr_gpu_count (obj crowded_engine (snd c))"
    "is_dict (en_unrented_count_by_bucket crowded_engine)"
    by (simp_all add: crowded_engine_def new_engine_def obj_def is_dict_def)
  from reassignment_respects_caps [OF e'(1) this] e' show ?thesis by blast
qed

lemma powi_minus_53: "(2::rat) powi (- 53) = 1 / 2 ^ 53"
  by (simp add: power_int_def power_divide)

lemma fl_low: "fl (1 / 2 ^ 53) = 1 / 2 ^ 53"
proof -
  have "fl (of_int 1 * 2 powi (- 53)) = of_int 1 * 2 powi (- 53)" by (rule fl_exact) simp_all
  then show ?thesis unfolding powi_minus_53 of_int_1 mult_1 .
qed

lemma fl_high: "fl (1 - 1 / 2 ^ 53) = 1 - 1 / 2 ^ 53"
proof -
  have "fl (of_int (2 ^ 53 - 1) * 2 powi (- 53)) = of_int (2 ^ 53 - 1) * 2 powi (- 53)" by (rule fl_exact) simp_all
  moreover have "of_int (2 ^ 53 - 1) * 2 powi (- 53) = (1 - 1 / 2 ^ 53 :: rat)" unfolding powi_minus_53 by (simp add: field_simps)
  ultimately show ?thesis by (simp only:)
qed

lemma cap_multiplier_bounds:
  assumes n: "0 < n" "n \<le> 2 ^ 53" and cap: "0 < max_cap"
  shows "0 < cap_multiplier n max_cap" "cap_multiplier n max_cap \<le> 1" "cap_multiplier n max_cap = 1 \<longleftrightarrow> n \<le> max_cap"
proof -
  let ?q = "of_int (min n max_cap) / of_int n :: rat"
  have one: "fl 1 = 1" using b64.one .
  have "(of_int n :: rat) \<le> of_int (2 ^ 53)" using n(2) by (simp only: of_int_le_iff)
  then have small: "(1 :: rat) / 2 ^ 53 \<le> 1 / of_int n" using n by (intro divide_left_mono) simp_all
  have "?q \<le> 1" using n by (simp add: divide_le_eq)
  from fl_mono [OF this] show "cap_multiplier n max_cap \<le> 1" by (simp only: one cap_multiplier_def)
  have "1 / of_int n \<le> ?q" using n cap by (intro divide_right_mono) simp_all
  from fl_mono [OF order_trans [OF small this]] have "1 / 2 ^ 53 \<le> cap_multiplier n max_cap" by (simp only: fl_low cap_multiplier_def)
  then show "0 < cap_multiplier n max_cap" by (rule less_le_trans [rotated]) simp
  show "cap_multiplier n max_cap = 1 \<longleftrightarrow> n \<le> max_cap"
  proof
    assume "n \<le> max_cap"
    then show "cap_multiplier n max_cap = 1" using n one by (simp add: cap_multiplier_def)
  next
    assume eq: "cap_multiplier n max_cap = 1"
    show "n \<le> max_cap"
    proof (rule ccontr)
      assume "\<not> n \<le> max_cap"
      then have "?q \<le> of_int (n - 1) / of_int n" using n by (intro divide_right_mono) simp_all
      also have "of_int (n - 1) / of_int n = (1 - 1 / of_int n :: rat)" using n by (simp add: diff_divide_distrib)
      also have "(1 - 1 / of_int n :: rat) \<le> 1 - 1 / 2 ^ 53" using small by (rule diff_left_mono)
      finally have "?q \<le> 1 - 1 / 2 ^ 53" .
      from fl_mono [OF this] have "cap_multiplier n max_cap \<le> 1 - 1 / 2 ^ 53" by (simp only: fl_high cap_multiplier_def)
      then show False using eq by simp
    qed
  qed
qed

lemma cap_fold:
  assumes "is_dict d" "dget d key = Some n"
  shows "dget (fold (\<lambda>(key, count) m. if P key count then dset key (f key count) m else m) d m0) key
    = (if P key n then Some (f key n) else dget m0 key)"
  using assms
proof (induction d arbitrary: m0)
  case (Cons kv d)
  obtain k c where kv: "kv = (k, c)" by (cases kv)
  have other: "dget (fold (\<lambda>(key, count) m. if P key count then dset key (f key count) m else m) d m) key = dget m key"
    if "key \<notin> fst ` set d" for m using that by (induction d arbitrary: m) (auto split: if_splits)
  show ?case
  proof (cases "k = key")
    case True
    then have "key \<notin> fst ` set d" "c = n" using Cons.prems by (auto simp: kv is_dict_def)
    then show ?thesis using True by (simp add: kv other)
  next
    case False
    then show ?thesis using Cons by (simp add: kv is_dict_def)
  qed
qed simp

text \<open>
  Claim C31. The cap multiplier of every counted bucket is a proper fraction: positive, at most 1, and
  exactly 1 when the bucket is within its cap, so dilution applies to overfull buckets only.
\<close>

theorem dilution_only_over_cap:
  assumes "is_dict (en_unrented_count_by_bucket e)" "dget (en_unrented_count_by_bucket e) key = Some n" "0 < n" "n \<le> 2 ^ 53"
    and "0 < bucket_cap (ie_config env) (fst key) (snd key)"
  shows "\<exists>m. dget (en_cap_multiplier_by_bucket (set_cap_multipliers env e)) key = Some m \<and> 0 < m \<and> m \<le> 1
    \<and> (m = 1 \<longleftrightarrow> n \<le> bucket_cap (ie_config env) (fst key) (snd key))"
  using cap_multiplier_bounds [OF assms(3,4,5)] assms(3,5)
    cap_fold [OF assms(1,2), where P = "\<lambda>key count. 0 < count \<and> 0 < bucket_cap (ie_config env) (fst key) (snd key)"
      and f = "\<lambda>key count. cap_multiplier count (bucket_cap (ie_config env) (fst key) (snd key))" and ?m0.0 = "en_cap_multiplier_by_bucket e"]
  by (simp add: set_cap_multipliers_def Let_def case_prod_unfold)

theorem dilution_only_over_cap_witness:
  "\<exists>m. dget (en_cap_multiplier_by_bucket (set_cap_multipliers sample_env
       (sample_engine\<lparr>en_unrented_count_by_bucket := [((''B200'', 1), 12)]\<rparr>))) (''B200'', 1) = Some m \<and> 0 < m \<and> m < 1"
proof -
  have cap: "bucket_cap (ie_config sample_env) ''B200'' 1 = 10" by code_simp
  have "is_dict [((''B200'', 1 :: int), 12 :: int)]" by (simp add: is_dict_def)
  then show ?thesis
    using dilution_only_over_cap [where e = "sample_engine\<lparr>en_unrented_count_by_bucket := [((''B200'', 1), 12)]\<rparr>"
        and key = "(''B200'', 1)" and n = 12 and env = sample_env] cap by force
qed

lemma settled_shares:
  "en_rental_share (settle_shares env x) \<le> en_total_burn_emission (settle_shares env x)
    \<and> en_unbucketed_share (settle_shares env x) \<le> fsub (en_total_burn_emission (settle_shares env x)) (en_rental_share (settle_shares env x))
    \<and> 0 \<le> en_burn_share (settle_shares env x)
    \<and> (en_unbucketed_share_raw (settle_shares env x) \<le> fsub (en_total_burn_emission (settle_shares env x)) (en_rental_share (settle_shares env x))
        \<longrightarrow> en_unbucketed_share (settle_shares env x) = en_unbucketed_share_raw (settle_shares env x))"
proof -
  obtain raw f where f: "calculate_rental_share env x = (raw, f)" by (cases "calculate_rental_share env x")
  let ?t = "en_total_burn_emission f" and ?u = "share_for_rental_cost (en_epoch_subnet_emission f) (en_unbucketed_rental_cost f)"
  have pos: "0 \<le> fsub ?t (min raw ?t)" by simp
  have fields: "en_total_burn_emission (settle_shares env x) = ?t" "en_rental_share (settle_shares env x) = min raw ?t"
    "en_unbucketed_share_raw (settle_shares env x) = ?u" "en_unbucketed_share (settle_shares env x) = min ?u (fsub ?t (min raw ?t))"
    "en_burn_share (settle_shares env x) = fsub (fsub ?t (min raw ?t)) (min ?u (fsub ?t (min raw ?t)))"
    using pos by (simp_all add: settle_shares_def settle_unbucketed_share_def f Let_def max_absorb2)
  show ?thesis unfolding fields by (simp add: min_absorb1)
qed

text \<open>
  Claim C32. Whatever the cycle costs, the rental share is at most the burn emission, spot pay and
  top-ups together are at most what the rental share leaves of it, and the burn share that remains is
  not negative.
\<close>

theorem shares_within_burn_emission:
  assumes "on_finish_pre_process env e = Inr e'"
  shows "en_rental_share e' \<le> en_total_burn_emission e'
    \<and> en_unbucketed_share e' \<le> fsub (en_total_burn_emission e') (en_rental_share e') \<and> 0 \<le> en_burn_share e'
    \<and> (en_unbucketed_share_raw e' \<le> fsub (en_total_burn_emission e') (en_rental_share e') \<longrightarrow> en_unbucketed_share e' = en_unbucketed_share_raw e')"
  using assms
proof (cases rule: on_finish_cases)
  case (1 e1 e2 spot top_up)
  define x where "x = e2\<lparr>en_unbucketed_rental_cost := fadd (fadd (en_unbucketed_rental_cost e2) spot) top_up\<rparr>"
  show ?thesis unfolding 1(3) x_def [symmetric] by (rule settled_shares)
qed

theorem shares_within_burn_emission_witness:
  "\<exists>e'. on_finish_pre_process sample_env sample_engine = Inr e' \<and> en_rental_share e' \<le> en_total_burn_emission e' \<and> 0 \<le> en_burn_share e'"
proof -
  have "candidates_ready sample_env sample_engine" by (simp add: candidates_ready_def sample_engine_fields)
  then obtain e' where "on_finish_pre_process sample_env sample_engine = Inr e'" using finish_total by blast
  then show ?thesis using shares_within_burn_emission [of sample_env sample_engine e'] by blast
qed

end
