(* ===== verification/Incentive_Snapshot.thy ===== *)
theory Incentive_Snapshot
  imports Incentive_Engine
begin

text \<open>
  Snapshot of an epoch and the estimate for a hypothetical executor (incentive/rental_price.py): the
  state the engine publishes, the engine seeded from it, and the estimate that runs the scoring
  pipeline on one made-up result.
\<close>

section \<open>Snapshot\<close>

record gpu_bucket_rental_state =
  gb_unrented_count :: int
  gb_max_cap :: int
  gb_cap_multiplier :: rat
  gb_weighted_rate_sum :: rat

record rental_price_snapshot =
  sn_epoch_subnet_emission :: rat
  sn_rental_share :: rat
  sn_burn_share :: rat
  sn_total_gpu_count :: int
  sn_total_mining_score :: rat
  sn_total_gpu_model_count_map :: "(string, int) dict"
  sn_total_rental_cost :: rat
  sn_by_bucket :: "(string, gpu_bucket_rental_state) dict"
  sn_unbucketed_rental_cost :: rat

text \<open>The separator is the middle dot.\<close>

definition bucket_sep :: char where "bucket_sep = char_of (183 :: nat)"

definition bucket_key_str :: "string \<Rightarrow> int \<Rightarrow> string" where
  "bucket_key_str base_model bucket = base_model @ [bucket_sep] @ str_of_int bucket"

definition counts_in_snapshot :: "incentive_env \<Rightarrow> job_result \<Rightarrow> bool" where
  "counts_in_snapshot env r \<longleftrightarrow> is_successful r \<and> \<not> (jr_is_spot r \<and> \<not> earns_spot_rental_incentive env r)
     \<and> \<not> is_missing_discord_after_cutoff env r"

definition snapshot_totals :: "incentive_env \<Rightarrow> job_result list \<Rightarrow> (string, int) dict" where
  "snapshot_totals env rs = fold (\<lambda>r d. case jr_gpu_model r of
      None \<Rightarrow> d | Some g \<Rightarrow> if counts_in_snapshot env r then dset g (dget_or 0 d g + jr_gpu_count r) d else d) rs []"

definition bucket_state :: "incentive_env \<Rightarrow> engine \<Rightarrow> bucket_key \<Rightarrow> int \<Rightarrow> gpu_bucket_rental_state" where
  "bucket_state env e key count =
     \<lparr> gb_unrented_count = count, gb_max_cap = bucket_cap (ie_config env) (fst key) (snd key),
       gb_cap_multiplier = dget_or 0 (en_cap_multiplier_by_bucket e) key,
       gb_weighted_rate_sum = dget_or 0 (en_weighted_rate_sum_by_bucket e) key \<rparr>"

definition get_snapshot :: "incentive_env \<Rightarrow> engine \<Rightarrow> rental_price_snapshot" where
  "get_snapshot env e =
     (let totals = snapshot_totals env (map (\<lambda>(_, a). obj e a) (addressed (en_job_results e))) in
      \<lparr> sn_epoch_subnet_emission = en_epoch_subnet_emission e, sn_rental_share = en_rental_share e,
        sn_burn_share = en_burn_share e, sn_total_gpu_count = sum_list (map snd totals),
        sn_total_mining_score = en_total_mining_score e, sn_total_gpu_model_count_map = totals,
        sn_total_rental_cost = en_total_rental_cost e,
        sn_by_bucket = fold (\<lambda>(key, count) d. dset (bucket_key_str (fst key) (snd key)) (bucket_state env e key count) d)
          (en_unrented_count_by_bucket e) [],
        sn_unbucketed_rental_cost = en_unbucketed_rental_cost e \<rparr>)"

section \<open>Seeding\<close>

text \<open>\<open>rsplit\<close> at the last separator and \<open>int\<close> of the rest; a key without a separator or with another bucket raises.\<close>

definition parse_bucket_key :: "string \<Rightarrow> bucket_key res" where
  "parse_bucket_key key = (case rcut bucket_sep key of
      None \<Rightarrow> Inl ValueError
    | Some (base_model, bucket) \<Rightarrow> (case parse_int bucket of None \<Rightarrow> Inl ValueError | Some b \<Rightarrow> Inr (base_model, b)))"

definition seed_bucket :: "string \<times> gpu_bucket_rental_state \<Rightarrow> engine \<Rightarrow> engine res" where
  "seed_bucket kv e = (let (key_str, state) = kv in
     rbind (parse_bucket_key key_str) (\<lambda>key.
       Inr (e\<lparr>en_unrented_count_by_bucket := dset key (gb_unrented_count state) (en_unrented_count_by_bucket e),
              en_weighted_rate_sum_by_bucket := dset key (gb_weighted_rate_sum state) (en_weighted_rate_sum_by_bucket e)\<rparr>)))"

definition seed_state_from_snapshot :: "rental_price_snapshot \<Rightarrow> engine \<Rightarrow> engine res" where
  "seed_state_from_snapshot sn e =
     rbind (rfold seed_bucket (sn_by_bucket sn) e) (\<lambda>e'.
       Inr (e'\<lparr>en_unbucketed_rental_cost := sn_unbucketed_rental_cost sn\<rparr>))"

definition seeded_engine :: "incentive_env \<Rightarrow> rental_price_snapshot \<Rightarrow> engine res" where
  "seeded_engine env sn =
     rbind (seed_state_from_snapshot sn (new_engine env [] [] (sn_total_gpu_model_count_map sn))) (\<lambda>e.
       Inr (e\<lparr>en_seeded := True, en_total_mining_score := sn_total_mining_score sn,
              en_epoch_subnet_emission := sn_epoch_subnet_emission sn\<rparr>))"

section \<open>Estimate\<close>

record executor_estimate_params =
  ep_gpu_model :: string
  ep_gpu_count :: int
  ep_is_rented :: bool
  ep_gpu_splitting :: bool
  ep_gpu_splitting_min_count :: "int option"
  ep_sysbox_runtime :: bool
  ep_collateral_deposited :: bool

text \<open>The result the estimate was computed on gives every field the reply copies from it.\<close>

datatype rental_price_estimate =
    Unavailable
  | NotEligible string
  | Estimated string rat job_result

definition fake_result :: "incentive_env \<Rightarrow> executor_estimate_params \<Rightarrow> job_result" where
  "fake_result env p =
     (new_job_result \<lparr> ex_uuid = ''estimate'', ex_address = ''0.0.0.0'', ex_port = 0, ex_ssh_username = [], ex_ssh_port = 0,
        ex_python_path = [], ex_root_dir = [], ex_port_range = None, ex_port_mappings = None, ex_price_per_gpu = None,
        ex_ssh_host_key = None, ex_tdx_quote = None, ex_nvidia_payload = None, ex_expected_ssh_host_key = None \<rparr>
        1 1 ''estimate'' [] [])
     \<lparr>jr_gpu_model := Some (ep_gpu_model p), jr_gpu_count := ep_gpu_count p, jr_is_rented := ep_is_rented p,
      jr_supports_gpu_splitting := ep_gpu_splitting p, jr_gpu_splitting_min_count := ep_gpu_splitting_min_count p,
      jr_collateral_deposited := ep_collateral_deposited p, jr_sysbox_runtime := ep_sysbox_runtime p,
      jr_nvidia_driver_version := sg_min_nvidia_driver_version (ie_set env)\<rparr>"

definition estimate_executor :: "incentive_env \<Rightarrow> bool \<Rightarrow> rental_price_snapshot \<Rightarrow> executor_estimate_params \<Rightarrow> rental_price_estimate res" where
  "estimate_executor env rtx_4090_48gb_enabled sn p =
     rbind (seeded_engine env sn) (\<lambda>e0.
       let model = ep_gpu_model p in
       if model = RTX_4090_48GB \<and> \<not> rtx_4090_48gb_enabled then Inr Unavailable
       else case dget BASE_GPU_MAP model of
           None \<Rightarrow> Inr (NotEligible model)
         | Some base_model \<Rightarrow>
             if \<not> ep_is_rented p \<and> \<not> has_positive_cap (dget_or [] (ic_max_unrented_gpus (ie_config env)) base_model)
             then Inr (NotEligible base_model)
             else let total_map = sn_total_gpu_model_count_map sn;
                      e = e0\<lparr>en_total_gpu_model_count_map := dset model (dget_or 0 total_map model + ep_gpu_count p) total_map,
                             en_store := [fake_result env p]\<rparr> in
               rbind (pre_process_job_result env 0 e) (\<lambda>e1.
               rbind (on_finish_pre_process env e1) (\<lambda>e2.
               rbind (post_process_job_result env ''estimate'' 0 e2) (\<lambda>e3.
                 let r = obj e3 0 in
                 Inr (Estimated base_model
                   (fmul (fmul (case in_incentive (jr_inc r) of None \<Rightarrow> 0 | Some x \<Rightarrow> x) (en_epoch_subnet_emission e3)) FIXED_RATIO) r)))))"

definition precompute_all_estimates :: "incentive_env \<Rightarrow> bool \<Rightarrow> rental_price_snapshot
    \<Rightarrow> (string \<times> rental_price_estimate \<times> rental_price_estimate \<times> rental_price_estimate) list res" where
  "precompute_all_estimates env rtx_4090_48gb_enabled sn =
     (let models = filter (\<lambda>m. rtx_4090_48gb_enabled \<or> m \<noteq> RTX_4090_48GB) (map fst BASE_GPU_MAP);
          params = (\<lambda>m n rented. \<lparr> ep_gpu_model = m, ep_gpu_count = n, ep_is_rented = rented, ep_gpu_splitting = False,
             ep_gpu_splitting_min_count = None, ep_sysbox_runtime = True, ep_collateral_deposited = True \<rparr>);
          estimate = estimate_executor env rtx_4090_48gb_enabled sn
      in rfold (\<lambda>m acc.
           rbind (estimate (params m 1 False)) (\<lambda>unrented.
           rbind (estimate (params m 1 True)) (\<lambda>rented.
           rbind (estimate (params m 8 False)) (\<lambda>unrented_8x.
             Inr (acc @ [(m, unrented, rented, unrented_8x)]))))) models [])"

end
