(* ===== verification/Cycle_Duplicates.thy ===== *)
theory Cycle_Duplicates
  imports Incentive_Rental "HOL-Library.Char_ord" "HOL-Library.Product_Lexorder"
begin

text \<open>
  The end of a cycle before the incentives (services/task/checks/duplicate_executor.py and
  \<open>settle_cycle_results\<close> of core/validator.py): a machine scored under several hotkeys keeps one
  score, a GPU scored under several executors of one miner keeps one score, and the scored GPUs are
  counted per model. A result is known by its hotkey and its position in the list of that hotkey,
  which stands for the identity of the object. \<open>shown\<close> is Python's \<open>str\<close> of a value that is not text.
\<close>

type_synonym cycle_results = "(string, job_result list) dict"
type_synonym copy = "string \<times> nat \<times> job_result"

definition CYCLE_CHECK_ID :: string where "CYCLE_CHECK_ID = ''executor.cycle.duplicate_across_miners''"

definition GPU_ALIAS_CHECK_ID :: string where "GPU_ALIAS_CHECK_ID = ''executor.cycle.gpu_alias_same_miner''"

definition MATCH_SSH_ENDPOINT :: string where "MATCH_SSH_ENDPOINT = ''ssh_endpoint''"

definition MATCH_EXECUTOR_UUID :: string where "MATCH_EXECUTOR_UUID = ''executor_uuid''"

definition MATCH_IP_PORT :: string where "MATCH_IP_PORT = ''ip_port''"

definition MATCH_GPU_UUID :: string where "MATCH_GPU_UUID = ''gpu_uuid''"

definition MATCH_SSH_HOST_KEY :: string where "MATCH_SSH_HOST_KEY = ''ssh_host_key''"

definition ACROSS_MINERS :: message_template where
  "ACROSS_MINERS = \<lparr> mt_event = ''Executor also scored under another miner this cycle'',
     mt_reason = ''EXECUTOR_DUPLICATE_ACROSS_MINERS'', mt_severity = ''warning'', mt_category = ''policy'',
     mt_impact = ''Score set to 0 for this cycle; the other miner keeps it'',
     mt_remediation = Some ''One machine earns under one miner per cycle. Register it under one miner only.'', mt_help_uri = None \<rparr>"

definition GPU_ALIAS :: message_template where
  "GPU_ALIAS = \<lparr> mt_event = ''GPU also reported by another executor of this miner this cycle'',
     mt_reason = ''EXECUTOR_GPU_ALIAS'', mt_severity = ''warning'', mt_category = ''policy'',
     mt_impact = ''Score set to 0 for this cycle; the other executor keeps it'',
     mt_remediation = Some ''Each physical GPU earns under one executor. Register every machine once.'', mt_help_uri = None \<rparr>"

definition DUPLICATE :: message_template where
  "DUPLICATE = \<lparr> mt_event = ''Duplicate executor registration'', mt_reason = ''EXECUTOR_DUPLICATE'', mt_severity = ''warning'',
     mt_category = ''policy'', mt_impact = ''Score set to 0; verification cleared'',
     mt_remediation = Some ''Ensure every executor has a unique UUID and deregister duplicates before retrying.'', mt_help_uri = None \<rparr>"

definition UNIQUE :: message_template where
  "UNIQUE = \<lparr> mt_event = ''Executor registration unique'', mt_reason = ''EXECUTOR_NOT_DUPLICATE'', mt_severity = ''info'',
     mt_category = ''policy'', mt_impact = ''Proceed'', mt_remediation = None, mt_help_uri = None \<rparr>"

definition DUPLICATED_MACHINE_SET :: string where "DUPLICATED_MACHINE_SET = ''duplicated_machines''"

text \<open>The check of the pipeline; \<open>sismember\<close> is the Redis call, which may raise.\<close>

definition duplicate_executor_check :: "(string \<Rightarrow> string \<Rightarrow> bool res) \<Rightarrow> pipeline_context \<Rightarrow> check_result res" where
  "duplicate_executor_check sismember ctx =
     (let uuid = ex_uuid (cx_executor ctx) in
      rbind (sismember DUPLICATED_MACHINE_SET (cx_miner_hotkey ctx @ '':'' @ uuid)) (\<lambda>is_duplicate.
        Inr (if is_duplicate
          then plain_result False
            (render_message DUPLICATE (Some ctx) ''executor.validate.duplicate'' (no_args\<lparr>ra_what :=
              [(''executor_uuid'', PStr uuid), (''miner_hotkey'', PStr (cx_miner_hotkey ctx))]\<rparr>))
            [U_clear_verified_job_info True]
          else plain_result True
            (render_message UNIQUE (Some ctx) ''executor.validate.duplicate'' (no_args\<lparr>ra_what := [(''executor_uuid'', PStr uuid)]\<rparr>))
            [])))"

record across_miners_duplicate =
  am_executor_uuid :: string
  am_hotkey :: string
  am_other_hotkeys :: "string list"
  am_matched_on :: string
  am_kept_by :: "string option"
  am_enforced :: bool

section \<open>What a result is matched on\<close>

definition address_key :: "job_result \<Rightarrow> string" where
  "address_key r = py_lower (py_strip (ex_address (jr_executor_info r)))"

definition ssh_endpoint :: "job_result \<Rightarrow> string" where
  "ssh_endpoint r = address_key r @ '':'' @ str_of_int (ex_ssh_port (jr_executor_info r))"

definition uuid_key :: "job_result \<Rightarrow> string" where
  "uuid_key r = py_lower (ex_uuid (jr_executor_info r))"

definition gpu_uuid_of :: "(pv \<Rightarrow> string) \<Rightarrow> pv \<Rightarrow> string option" where
  "gpu_uuid_of shown d = (case d of
      PDict entry \<Rightarrow> (let u = pget entry ''uuid'' in
        if truthy u then Some (case u of PStr s \<Rightarrow> s | _ \<Rightarrow> shown u) else None)
    | _ \<Rightarrow> None)"

definition gpu_uuids :: "(pv \<Rightarrow> string) \<Rightarrow> job_result \<Rightarrow> string list res" where
  "gpu_uuids shown r =
     (let spec = (case jr_spec r of None \<Rightarrow> [] | Some s \<Rightarrow> s) in
      rbind (get_attr (or_pv (pget spec ''gpu'') (PDict [])) ''details'') (\<lambda>details.
      rbind (py_iter (or_pv details (PList []))) (\<lambda>ds.
        Inr (sort (remdups (List.map_filter (gpu_uuid_of shown) ds))))))"

definition reported_keys :: "(pv \<Rightarrow> string) \<Rightarrow> job_result \<Rightarrow> (string \<times> string) list res" where
  "reported_keys shown r = rbind (gpu_uuids shown r) (\<lambda>us.
     Inr ([(MATCH_EXECUTOR_UUID, uuid_key r),
           (MATCH_IP_PORT, address_key r @ '':'' @ str_of_int (ex_port (jr_executor_info r)))]
          @ map (\<lambda>u. (MATCH_GPU_UUID, u)) us))"

definition scored_copies :: "cycle_results \<Rightarrow> copy list" where
  "scored_copies jr = concat (map (\<lambda>h. map (Pair h) (filter (\<lambda>(i, r). is_successful r) (enumerate 0 (dget_or [] jr h))))
     (sort (map fst jr)))"

text \<open>A \<open>defaultdict(list)\<close> filled in order.\<close>

definition group_by :: "('a \<Rightarrow> 'k) \<Rightarrow> 'a list \<Rightarrow> ('k, 'a list) dict" where
  "group_by f xs = fold (\<lambda>x d. dset (f x) (dget_or [] d (f x) @ [x]) d) xs []"

fun keyed :: "(job_result \<Rightarrow> 'k list res) \<Rightarrow> ('c \<times> job_result) list \<Rightarrow> ('k \<times> 'c \<times> job_result) list res" where
  "keyed f [] = Inr []"
| "keyed f ((c, r) # cs) = rbind (f r) (\<lambda>ks. rbind (keyed f cs) (\<lambda>rest. Inr (map (\<lambda>k. (k, c, r)) ks @ rest)))"

definition group_keyed :: "('k :: linorder \<times> 'c) list \<Rightarrow> ('k \<times> 'c list) list" where
  "group_keyed kcs = sort_key fst (map (\<lambda>(k, xs). (k, map snd xs)) (group_by fst kcs))"

section \<open>One hotkey per machine\<close>

definition py_min :: "string list \<Rightarrow> string" where
  "py_min xs = fold min (tl xs) (hd xs)"

definition keeper :: "(string, string) dict \<Rightarrow> copy list \<Rightarrow> string" where
  "keeper rental_hotkeys copies =
     (let hotkeys = map fst copies;
          rented_copies = filter (\<lambda>(h, i, r). jr_is_rented r) copies;
          holders = filter (\<lambda>h. h \<in> set hotkeys) (List.map_filter (\<lambda>(h, i, r). dget rental_hotkeys (uuid_key r)) rented_copies);
          rented = map fst rented_copies
      in py_min (if holders \<noteq> [] then holders else if rented \<noteq> [] then rented else hotkeys))"

text \<open>A copy that loses its score: who keeps it, whether it shares the keeper's row, the endpoint and the hotkeys.\<close>

record loser =
  lo_copy :: copy
  lo_kept_by :: string
  lo_shares_row :: bool
  lo_endpoint :: string
  lo_hotkeys :: "string list"

definition endpoint_losers :: "(string, string) dict \<Rightarrow> string \<times> copy list \<Rightarrow> loser list" where
  "endpoint_losers rental_hotkeys g =
     (let (endpoint, copies) = g; hotkeys = remdups (map fst copies) in
      if length hotkeys < 2 then []
      else let kept_by = keeper rental_hotkeys copies;
               kept_uuids = map (\<lambda>(h, i, r). uuid_key r) (filter (\<lambda>(h, i, r). h = kept_by) copies)
           in map (\<lambda>(h, i, r). \<lparr> lo_copy = (h, i, r), lo_kept_by = kept_by, lo_shares_row = uuid_key r \<in> set kept_uuids,
                     lo_endpoint = endpoint, lo_hotkeys = hotkeys \<rparr>)
                (filter (\<lambda>(h, i, r). h \<noteq> kept_by) copies))"

definition duplicate_of :: "string list \<Rightarrow> string \<Rightarrow> string option \<Rightarrow> copy \<Rightarrow> across_miners_duplicate" where
  "duplicate_of hotkeys matched_on kept_by c =
     (let (h, i, r) = c in
      \<lparr> am_executor_uuid = ex_uuid (jr_executor_info r), am_hotkey = h, am_other_hotkeys = sort (filter (\<lambda>k. k \<noteq> h) hotkeys),
        am_matched_on = matched_on, am_kept_by = kept_by, am_enforced = (kept_by \<noteq> None) \<rparr>)"

definition zeroed_duplicate :: "loser \<Rightarrow> job_result" where
  "zeroed_duplicate l =
     (let (h, i, r) = lo_copy l in
      r\<lparr>jr_score := 0, jr_job_score := 0, jr_failure_reason_code := Some (mt_reason ACROSS_MINERS),
        jr_validation_event := Some (render_message ACROSS_MINERS None CYCLE_CHECK_ID (no_args\<lparr>ra_what :=
          [(''executor_uuid'', PStr (ex_uuid (jr_executor_info r))), (''ssh_endpoint'', PStr (lo_endpoint l)),
           (''miner_hotkey'', PStr h), (''kept_by_hotkey'', PStr (lo_kept_by l))]\<rparr>)),
        jr_duplicate_kept_by := Some (lo_kept_by l), jr_duplicate_shares_kept_row := lo_shares_row l\<rparr>)"

definition set_result :: "string \<Rightarrow> nat \<Rightarrow> job_result \<Rightarrow> cycle_results \<Rightarrow> cycle_results" where
  "set_result h i r jr = map (\<lambda>(k, rs). (k, if k = h then rs[i := r] else rs)) jr"

definition zero_loser :: "loser \<Rightarrow> cycle_results \<Rightarrow> cycle_results" where
  "zero_loser l jr = set_result (fst (lo_copy l)) (fst (snd (lo_copy l))) (zeroed_duplicate l) jr"

text \<open>Matches on what the node reports are logged once per copy.\<close>

fun report_once :: "((string \<times> string) \<times> copy list) list \<Rightarrow> (string \<times> nat) list \<Rightarrow> across_miners_duplicate list" where
  "report_once [] seen = []"
| "report_once (((kind, v), copies) # gs) seen =
     (let hotkeys = remdups (map fst copies) in
      if length hotkeys < 2 \<or> length (remdups (map (\<lambda>(h, i, r). ssh_endpoint r) copies)) = 1 then report_once gs seen
      else let fresh = filter (\<lambda>(h, i, r). (h, i) \<notin> set seen) copies
           in map (duplicate_of hotkeys kind None) fresh @ report_once gs (map (\<lambda>(h, i, r). (h, i)) fresh @ seen))"

definition host_key_of :: "job_result \<Rightarrow> string" where
  "host_key_of r = py_strip (case ex_ssh_host_key (jr_executor_info r) of None \<Rightarrow> [] | Some k \<Rightarrow> k)"

definition host_key_duplicates :: "copy list \<Rightarrow> across_miners_duplicate list" where
  "host_key_duplicates scored =
     (let pinned = filter (\<lambda>(h, i, r). jr_ssh_host_key_verified r \<and> host_key_of r \<noteq> [] \<and> 0 < ex_ssh_port (jr_executor_info r)) scored;
          groups = sort_key fst (group_by (\<lambda>(h, i, r). host_key_of r) pinned)
      in concat (map (\<lambda>(k, copies). if length (remdups (map (\<lambda>(h, i, r). ssh_endpoint r) copies)) < 2 then []
           else map (duplicate_of (remdups (map fst copies)) MATCH_SSH_HOST_KEY None) copies) groups))"

definition reached :: "copy list \<Rightarrow> copy list" where
  "reached = filter (\<lambda>(h, i, r). 0 < ex_ssh_port (jr_executor_info r))"

definition losers :: "(string, string) dict \<Rightarrow> copy list \<Rightarrow> loser list" where
  "losers rental_hotkeys scored =
     concat (map (endpoint_losers rental_hotkeys) (group_by (\<lambda>(h, i, r). ssh_endpoint r) (reached scored)))"

definition keep_one_miner_per_executor ::
    "(pv \<Rightarrow> string) \<Rightarrow> (string, string) dict \<Rightarrow> cycle_results \<Rightarrow> (across_miners_duplicate list \<times> cycle_results) res" where
  "keep_one_miner_per_executor shown rental_hotkeys jr =
     (let scored = scored_copies jr; zeroed = losers rental_hotkeys scored in
      rbind (keyed (reported_keys shown) (map (\<lambda>(h, i, r). ((h, i), r)) scored)) (\<lambda>by_reported.
        Inr (map (\<lambda>l. duplicate_of (lo_hotkeys l) MATCH_SSH_ENDPOINT (Some (lo_kept_by l)) (lo_copy l)) zeroed
             @ report_once (group_keyed (map (\<lambda>(k, (h, i), r). (k, h, i, r)) by_reported)) []
             @ host_key_duplicates scored,
             fold zero_loser zeroed jr)))"

section \<open>One executor per GPU\<close>

text \<open>The first copy that is smallest: a rented one before others, then by executor.\<close>

definition alias_rank :: "nat \<times> job_result \<Rightarrow> bool \<times> string" where
  "alias_rank c = (\<not> jr_is_rented (snd c), uuid_key (snd c))"

definition alias_keeper :: "(nat \<times> job_result) list \<Rightarrow> nat \<times> job_result" where
  "alias_keeper copies = fold (\<lambda>c k. if alias_rank c < alias_rank k then c else k) (tl copies) (hd copies)"

definition zeroed_alias :: "string \<Rightarrow> string \<Rightarrow> nat \<times> job_result \<Rightarrow> job_result \<Rightarrow> job_result" where
  "zeroed_alias hotkey gpu kept r =
     r\<lparr>jr_score := 0, jr_job_score := 0, jr_failure_reason_code := Some (mt_reason GPU_ALIAS),
       jr_validation_event := Some (render_message GPU_ALIAS None GPU_ALIAS_CHECK_ID (no_args\<lparr>ra_what :=
         [(''executor_uuid'', PStr (ex_uuid (jr_executor_info r))),
          (''kept_by_executor_uuid'', PStr (ex_uuid (jr_executor_info (snd kept)))), (''gpu_uuid'', PStr gpu),
          (''miner_hotkey'', PStr hotkey)]\<rparr>))\<rparr>"

text \<open>The positions that lose their score with the result they end with, over the GPUs in order.\<close>

fun gpu_aliases :: "string \<Rightarrow> (string \<times> (nat \<times> job_result) list) list \<Rightarrow> nat list \<Rightarrow> (nat \<times> job_result) list" where
  "gpu_aliases hotkey [] seen = []"
| "gpu_aliases hotkey ((gpu, copies) # gs) seen =
     (if length (remdups (map (\<lambda>(i, r). uuid_key r) copies)) < 2 then gpu_aliases hotkey gs seen
      else let kept = alias_keeper copies;
               lost = filter (\<lambda>(i, r). i \<noteq> fst kept \<and> \<not> jr_is_rented r \<and> i \<notin> set seen) copies
           in map (\<lambda>(i, r). (i, zeroed_alias hotkey gpu kept r)) lost @ gpu_aliases hotkey gs (map fst lost @ seen))"

definition aliases_of_miner :: "(pv \<Rightarrow> string) \<Rightarrow> string \<Rightarrow> job_result list \<Rightarrow> (nat \<times> job_result) list res" where
  "aliases_of_miner shown hotkey rs =
     rbind (keyed (gpu_uuids shown) (filter (\<lambda>(i, r). is_successful r) (enumerate 0 rs))) (\<lambda>kcs.
       Inr (gpu_aliases hotkey (group_keyed kcs) []))"

text \<open>The results so far and the exception that ended the pass, if one did.\<close>

fun keep_gpus_of :: "(pv \<Rightarrow> string) \<Rightarrow> string list \<Rightarrow> cycle_results \<Rightarrow> cycle_results \<times> py_exc option" where
  "keep_gpus_of shown [] jr = (jr, None)"
| "keep_gpus_of shown (h # hs) jr =
     (case aliases_of_miner shown h (dget_or [] jr h) of
        Inl x \<Rightarrow> (jr, Some x)
      | Inr lost \<Rightarrow> keep_gpus_of shown hs (fold (\<lambda>(i, r). set_result h i r) lost jr))"

definition keep_one_executor_per_gpu :: "(pv \<Rightarrow> string) \<Rightarrow> cycle_results \<Rightarrow> cycle_results \<times> py_exc option" where
  "keep_one_executor_per_gpu shown jr = keep_gpus_of shown (sort (map fst jr)) jr"

section \<open>Settling the cycle\<close>

definition rental_hotkeys_of :: "rented_data option \<Rightarrow> (string, string) dict" where
  "rental_hotkeys_of rd = fold (\<lambda>(e, x). dset (py_lower e) (re_miner_hotkey x)) (case rd of None \<Rightarrow> [] | Some d \<Rightarrow> rd_executors d) []"

definition counts_in_tier :: "incentive_env \<Rightarrow> job_result \<Rightarrow> bool" where
  "counts_in_tier env r \<longleftrightarrow> (case jr_gpu_model r of None \<Rightarrow> False | Some m \<Rightarrow> m \<noteq> []) \<and> jr_gpu_count r \<noteq> 0
     \<and> (0 < jr_score r \<or> 0 < jr_job_score r) \<and> (\<not> jr_is_spot r \<or> earns_spot_rental_incentive env r)
     \<and> \<not> is_missing_discord_after_cutoff env r \<and> \<not> (jr_is_new_rentals_paused r \<and> \<not> jr_is_rented r) \<and> \<not> jr_is_in_maintenance r"

definition count_gpu :: "incentive_env \<Rightarrow> job_result \<Rightarrow> (string, int) dict \<Rightarrow> (string, int) dict" where
  "count_gpu env r d = (if counts_in_tier env r
     then case jr_gpu_model r of None \<Rightarrow> d | Some m \<Rightarrow> dset m (dget_or 0 d m + jr_gpu_count r) d else d)"

definition settle_cycle_results ::
    "incentive_env \<Rightarrow> (pv \<Rightarrow> string) \<Rightarrow> rented_data option \<Rightarrow> cycle_results \<Rightarrow> cycle_results \<times> (string, int) dict" where
  "settle_cycle_results env shown rented jr =
     (let settled = (case keep_one_miner_per_executor shown (rental_hotkeys_of rented) jr of
            Inl x \<Rightarrow> jr
          | Inr (ds, jr') \<Rightarrow> fst (keep_one_executor_per_gpu shown jr'))
      in (settled, fold (count_gpu env) (concat (map snd settled)) []))"

definition specs_to_publish :: "job_result list \<Rightarrow> job_result list" where
  "specs_to_publish = filter (\<lambda>r. \<not> jr_duplicate_shares_kept_row r \<and> \<not> jr_carried_for_renter_gpu_reset r)"

end
