(* ===== verification/Cycle_Duplicates_Proofs.thy ===== *)
theory Cycle_Duplicates_Proofs
  imports Cycle_Duplicates Incentive_Rental_Proofs Incentive_Samples
begin

text \<open>
  Correctness of the duplicate passes: a machine earns under one hotkey and under at least one, a GPU of
  one miner earns under one executor unless several rented ones report it, an unreadable scrape leaves
  all results as they are, and a chain of shared GPUs can leave a GPU without any executor that earns.
\<close>

section \<open>Groups and positions\<close>

lemma group_fold:
  "dget_or [] (fold (\<lambda>x d. dset (f x) (dget_or [] d (f x) @ [x]) d) xs d) k = dget_or [] d k @ filter (\<lambda>x. f x = k) xs
   \<and> fst ` set (fold (\<lambda>x d. dset (f x) (dget_or [] d (f x) @ [x]) d) xs d) = fst ` set d \<union> f ` set xs
   \<and> (is_dict d \<longrightarrow> is_dict (fold (\<lambda>x d. dset (f x) (dget_or [] d (f x) @ [x]) d) xs d))"
proof (induction xs arbitrary: d)
  case (Cons x xs)
  show ?case using Cons.IH [of "dset (f x) (dget_or [] d (f x) @ [x]) d"] by (auto simp: keys_dset)
qed simp

lemma in_dict_iff: "is_dict d \<Longrightarrow> (k, v) \<in> set d \<longleftrightarrow> dget d k = Some v"
  by (simp add: is_dict_def)

lemma in_group_by: "(k, cs) \<in> set (group_by f xs) \<longleftrightarrow> k \<in> f ` set xs \<and> cs = filter (\<lambda>x. f x = k) xs"
proof -
  have d: "is_dict (group_by f xs)" and keys: "fst ` set (group_by f xs) = f ` set xs"
    and get: "dget_or [] (group_by f xs) k = filter (\<lambda>x. f x = k) xs"
    using group_fold [of f xs "[]"] by (simp_all add: group_by_def)
  have "k \<in> f ` set xs \<longleftrightarrow> dget (group_by f xs) k \<noteq> None" by (simp only: dget_None_iff keys not_not)
  then show ?thesis using get unfolding in_dict_iff [OF d] by (auto simp: dget_or_def split: option.splits)
qed

lemma in_scored:
  "(h, i, r) \<in> set (scored_copies jr) \<longleftrightarrow>
     h \<in> fst ` set jr \<and> i < length (dget_or [] jr h) \<and> r = dget_or [] jr h ! i \<and> is_successful r"
  by (force simp: scored_copies_def in_set_enumerate_eq)

lemma in_reached: "(h, i, r) \<in> set (reached cs) \<longleftrightarrow> (h, i, r) \<in> set cs \<and> 0 < ex_ssh_port (jr_executor_info r)"
  by (simp add: reached_def)

lemma set_result_simps [simp]:
  "dget_or [] (set_result h i r jr) k = (if k = h then (dget_or [] jr k)[i := r] else dget_or [] jr k)"
  "fst ` set (set_result h i r jr) = fst ` set jr"
  "map fst (set_result h i r jr) = map fst jr"
proof -
  show "dget_or [] (set_result h i r jr) k = (if k = h then (dget_or [] jr k)[i := r] else dget_or [] jr k)"
    by (induction jr) (auto simp: set_result_def dget_or_def)
qed (force simp: set_result_def)+

text \<open>A list of writes at positions: each position holds one of its writes, or what it held before.\<close>

lemma writes_at:
  fixes pos :: "'w \<Rightarrow> string \<times> nat" and val :: "'w \<Rightarrow> job_result"
  defines "go \<equiv> fold (\<lambda>w. set_result (fst (pos w)) (snd (pos w)) (val w))"
  shows "fst ` set (go ws jr) = fst ` set jr" "map fst (go ws jr) = map fst jr"
    "length (dget_or [] (go ws jr) k) = length (dget_or [] jr k)"
    "j < length (dget_or [] jr k) \<Longrightarrow> (\<exists>w \<in> set ws. pos w = (k, j) \<and> dget_or [] (go ws jr) k ! j = val w)
       \<or> (k, j) \<notin> pos ` set ws \<and> dget_or [] (go ws jr) k ! j = dget_or [] jr k ! j"
proof -
  have keep: "fst ` set (go ws jr) = fst ` set jr \<and> map fst (go ws jr) = map fst jr \<and> length (dget_or [] (go ws jr) k) = length (dget_or [] jr k)"
    unfolding go_def by (induction ws arbitrary: jr) simp_all
  then show "fst ` set (go ws jr) = fst ` set jr" "map fst (go ws jr) = map fst jr"
    "length (dget_or [] (go ws jr) k) = length (dget_or [] jr k)" by simp_all
  show "(\<exists>w \<in> set ws. pos w = (k, j) \<and> dget_or [] (go ws jr) k ! j = val w)
       \<or> (k, j) \<notin> pos ` set ws \<and> dget_or [] (go ws jr) k ! j = dget_or [] jr k ! j" if "j < length (dget_or [] jr k)"
    using that unfolding go_def
  proof (induction ws arbitrary: jr)
    case (Cons w ws)
    let ?jr = "set_result (fst (pos w)) (snd (pos w)) (val w) jr"
    have "j < length (dget_or [] ?jr k)" using Cons.prems by (cases "k = fst (pos w)") simp_all
    note ih = Cons.IH [OF this]
    have "dget_or [] ?jr k ! j = (if pos w = (k, j) then val w else dget_or [] jr k ! j)"
      using Cons.prems by (cases "pos w") (auto simp: nth_list_update)
    then show ?case using ih by (cases "pos w = (k, j)") (auto split: if_splits)
  qed simp
qed

section \<open>One hotkey per machine\<close>

abbreviation endpoint_of :: "copy \<Rightarrow> string" where
  "endpoint_of c \<equiv> ssh_endpoint (snd (snd c))"

definition same_machine :: "copy list \<Rightarrow> string \<Rightarrow> copy list" where
  "same_machine scored e = filter (\<lambda>c. endpoint_of c = e) (reached scored)"

lemma py_min_in: "xs \<noteq> [] \<Longrightarrow> py_min xs \<in> set xs"
proof -
  have "fold min ys x \<in> insert x (set ys)" for ys :: "string list" and x
    by (induction ys arbitrary: x) (auto simp: min_def)
  then show "xs \<noteq> [] \<Longrightarrow> py_min xs \<in> set xs" by (cases xs) (simp_all add: py_min_def)
qed

lemma keeper_in: "cs \<noteq> [] \<Longrightarrow> keeper rental cs \<in> fst ` set cs"
proof -
  assume ne: "cs \<noteq> []"
  let ?rented = "filter (\<lambda>(h, i, r). jr_is_rented r) cs"
  let ?holders = "filter (\<lambda>h. h \<in> set (map fst cs)) (List.map_filter (\<lambda>(h, i, r). dget rental (uuid_key r)) ?rented)"
  have "set ?holders \<subseteq> fst ` set cs" "set (map fst ?rented) \<subseteq> fst ` set cs" by auto
  then show ?thesis
    using py_min_in [of ?holders] py_min_in [of "map fst ?rented"] py_min_in [of "map fst cs"] ne
    unfolding keeper_def Let_def by (auto split: if_splits)
qed

lemma lost_copies:
  "map lo_copy (endpoint_losers rental (e, cs)) = (if length (remdups (map fst cs)) < 2 then [] else filter (\<lambda>c. fst c \<noteq> keeper rental cs) cs)"
  by (simp add: endpoint_losers_def Let_def case_prod_unfold comp_def)

lemma endpoint_groups:
  "(e, cs) \<in> set (group_by (\<lambda>(h, i, r). ssh_endpoint r) (reached scored)) \<longleftrightarrow> cs = same_machine scored e \<and> cs \<noteq> []"
proof -
  have "e \<in> (\<lambda>(h, i, r). ssh_endpoint r) ` set (reached scored) \<longleftrightarrow> same_machine scored e \<noteq> []"
    by (auto simp: same_machine_def filter_empty_conv case_prod_unfold image_iff)
  then show ?thesis unfolding in_group_by by (auto simp: same_machine_def case_prod_unfold)
qed

lemma in_losers_iff:
  "c \<in> lo_copy ` set (losers rental scored) \<longleftrightarrow> (let m = same_machine scored (endpoint_of c) in
     c \<in> set m \<and> \<not> length (remdups (map fst m)) < 2 \<and> fst c \<noteq> keeper rental m)"
proof -
  have "c \<in> lo_copy ` set (losers rental scored) \<longleftrightarrow> (\<exists>e cs. (e, cs) \<in> set (group_by (\<lambda>(h, i, r). ssh_endpoint r) (reached scored))
      \<and> c \<in> set (map lo_copy (endpoint_losers rental (e, cs))))"
    unfolding losers_def set_concat set_map image_UN by auto
  also have "\<dots> \<longleftrightarrow> (\<exists>e. c \<in> set (same_machine scored e) \<and> \<not> length (remdups (map fst (same_machine scored e))) < 2
      \<and> fst c \<noteq> keeper rental (same_machine scored e))"
    unfolding endpoint_groups lost_copies by (auto split: if_splits)
  also have "\<dots> \<longleftrightarrow> (let m = same_machine scored (endpoint_of c) in
     c \<in> set m \<and> \<not> length (remdups (map fst m)) < 2 \<and> fst c \<noteq> keeper rental m)"
    by (auto simp: same_machine_def Let_def)
  finally show ?thesis .
qed

lemma in_losers:
  "l \<in> set (losers rental scored) \<Longrightarrow>
     lo_copy l \<in> set (same_machine scored (endpoint_of (lo_copy l)))
     \<and> fst (lo_copy l) \<noteq> keeper rental (same_machine scored (endpoint_of (lo_copy l)))"
  using in_losers_iff [of "lo_copy l" rental scored] by (simp add: Let_def)

lemma two_hotkeys_lose:
  assumes c: "c \<in> set (same_machine scored e)" and d: "d \<in> set (same_machine scored e)" "fst c \<noteq> fst d"
    and k: "fst c \<noteq> keeper rental (same_machine scored e)"
  shows "c \<in> lo_copy ` set (losers rental scored)"
proof -
  have "{fst c, fst d} \<subseteq> fst ` set (same_machine scored e)" using c d by blast
  then have "card {fst c, fst d} \<le> card (fst ` set (same_machine scored e))" by (simp add: card_mono)
  then have "\<not> length (remdups (map fst (same_machine scored e))) < 2" using d(2) by (simp add: length_remdups_card_conv)
  moreover have "endpoint_of c = e" using c by (simp add: same_machine_def)
  ultimately show ?thesis unfolding in_losers_iff Let_def using c k by simp
qed

lemma zeroed_duplicate_fails: "\<not> is_successful (zeroed_duplicate l)"
  by (simp add: zeroed_duplicate_def is_successful_def case_prod_unfold Let_def)

lemma standing_copies:
  assumes "keep_one_miner_per_executor shown rental jr = Inr (ds, jr')"
  shows "c \<in> set (scored_copies jr') \<longleftrightarrow> c \<in> set (scored_copies jr) \<and> c \<notin> lo_copy ` set (losers rental (scored_copies jr))"
proof -
  let ?ls = "losers rental (scored_copies jr)" and ?pos = "\<lambda>l. (fst (lo_copy l), fst (snd (lo_copy l)))"
  obtain h i r where c: "c = (h, i, r)" by (cases c)
  have jr': "jr' = fold (\<lambda>l. set_result (fst (?pos l)) (snd (?pos l)) (zeroed_duplicate l)) ?ls jr"
    using assms unfolding keep_one_miner_per_executor_def Let_def rbind_Inr_iff zero_loser_def fst_conv snd_conv by auto
  note w = writes_at [where pos = ?pos and val = zeroed_duplicate and ws = ?ls and jr = jr, folded jr']
  have own: "lo_copy l = (h, i, dget_or [] jr h ! i)" if l: "l \<in> set ?ls" "?pos l = (h, i)" for l
  proof -
    have "lo_copy l \<in> set (scored_copies jr)" using in_losers [OF l(1)] by (auto simp: same_machine_def reached_def)
    moreover obtain r' where "lo_copy l = (h, i, r')" using l(2) by (cases "lo_copy l") simp
    ultimately show ?thesis by (simp add: in_scored)
  qed
  show ?thesis
  proof (cases "i < length (dget_or [] jr h)")
    case True
    from w(4) [OF this] show ?thesis
    proof (elim disjE bexE conjE)
      fix l assume l: "l \<in> set ?ls" "?pos l = (h, i)" "dget_or [] jr' h ! i = zeroed_duplicate l"
      then have "c \<notin> set (scored_copies jr')" unfolding c in_scored using zeroed_duplicate_fails by auto
      moreover have "c \<in> set (scored_copies jr) \<Longrightarrow> c \<in> lo_copy ` set ?ls" unfolding c in_scored using own [OF l(1,2)] l(1) by force
      ultimately show ?thesis by blast
    next
      assume n: "(h, i) \<notin> ?pos ` set ?ls" "dget_or [] jr' h ! i = dget_or [] jr h ! i"
      have "c \<notin> lo_copy ` set ?ls"
      proof
        assume "c \<in> lo_copy ` set ?ls"
        then obtain l where l: "l \<in> set ?ls" "lo_copy l = (h, i, r)" unfolding c by (metis imageE)
        then have "?pos l = (h, i)" by simp
        then show False using n(1) imageI [OF l(1), of ?pos] by simp
      qed
      then show ?thesis unfolding c in_scored by (simp add: w(1,3) n(2))
    qed
  next
    case False
    then show ?thesis unfolding c in_scored by (simp add: w(1,3))
  qed
qed

text \<open>
  Claim C36. After the pass over the hotkeys every machine that earned still earns, under exactly one hotkey:
  two standing copies on one SSH endpoint have the same hotkey, each endpoint keeps a standing copy,
  no result starts to earn, and one that the validator did not log in for keeps its score.
\<close>

theorem one_hotkey_per_machine:
  assumes "keep_one_miner_per_executor shown rental jr = Inr (ds, jr')"
  shows "set (scored_copies jr') \<subseteq> set (scored_copies jr)
    \<and> (\<forall>c \<in> set (reached (scored_copies jr')). \<forall>d \<in> set (reached (scored_copies jr')). endpoint_of c = endpoint_of d \<longrightarrow> fst c = fst d)
    \<and> endpoint_of ` set (reached (scored_copies jr')) = endpoint_of ` set (reached (scored_copies jr))
    \<and> set (scored_copies jr) - set (reached (scored_copies jr)) \<subseteq> set (scored_copies jr')"
proof -
  let ?ls = "losers rental (scored_copies jr)"
  note st = standing_copies [OF assms]
  have reach: "c \<in> set (reached (scored_copies jr')) \<longleftrightarrow> c \<in> set (reached (scored_copies jr)) \<and> c \<notin> lo_copy ` set ?ls" for c
    by (cases c) (auto simp: in_reached st)
  have machine: "c \<in> set (same_machine (scored_copies jr) e) \<longleftrightarrow> c \<in> set (reached (scored_copies jr)) \<and> endpoint_of c = e" for c e
    by (simp add: same_machine_def)
  have one: "fst c = fst d" if c: "c \<in> set (reached (scored_copies jr'))" and d: "d \<in> set (reached (scored_copies jr'))"
    and e: "endpoint_of c = endpoint_of d" for c d
  proof (rule ccontr)
    assume ne: "fst c \<noteq> fst d"
    have in_m: "c \<in> set (same_machine (scored_copies jr) (endpoint_of d))" "d \<in> set (same_machine (scored_copies jr) (endpoint_of d))"
      using c d e unfolding reach machine by simp_all
    have "c \<notin> lo_copy ` set ?ls" "d \<notin> lo_copy ` set ?ls" using c d unfolding reach by simp_all
    then have "fst c = keeper rental (same_machine (scored_copies jr) (endpoint_of d))"
      "fst d = keeper rental (same_machine (scored_copies jr) (endpoint_of d))"
      using two_hotkeys_lose [OF in_m ne] two_hotkeys_lose [OF in_m(2,1) ne [symmetric]] by blast+
    then show False using ne by simp
  qed
  have some: "endpoint_of c \<in> endpoint_of ` set (reached (scored_copies jr'))" if c: "c \<in> set (reached (scored_copies jr))" for c
  proof -
    let ?m = "same_machine (scored_copies jr) (endpoint_of c)"
    have "?m \<noteq> []" using c machine by (metis empty_iff empty_set)
    then obtain d where d: "d \<in> set ?m" "fst d = keeper rental ?m" using keeper_in by (metis imageE)
    have "d \<notin> lo_copy ` set ?ls"
    proof
      assume "d \<in> lo_copy ` set ?ls"
      then obtain l where l: "l \<in> set ?ls" "lo_copy l = d" by blast
      have "endpoint_of d = endpoint_of c" using d(1) machine by simp
      then show False using in_losers [OF l(1)] d(2) unfolding l(2) by simp
    qed
    then have "d \<in> set (reached (scored_copies jr'))" using d(1) unfolding machine reach by simp
    then show ?thesis using d(1) unfolding machine by (metis image_eqI)
  qed
  have other: "c \<in> set (scored_copies jr')" if c: "c \<in> set (scored_copies jr)" "c \<notin> set (reached (scored_copies jr))" for c
    unfolding st using c in_losers [of _ rental "scored_copies jr"] by (force simp: same_machine_def)
  show ?thesis
  proof (intro conjI ballI impI)
    show "set (scored_copies jr') \<subseteq> set (scored_copies jr)" using st by blast
    show "fst c = fst d" if "c \<in> set (reached (scored_copies jr'))" "d \<in> set (reached (scored_copies jr'))" "endpoint_of c = endpoint_of d" for c d
      using that by (rule one)
    show "endpoint_of ` set (reached (scored_copies jr')) = endpoint_of ` set (reached (scored_copies jr))" using some reach by blast
    show "set (scored_copies jr) - set (reached (scored_copies jr)) \<subseteq> set (scored_copies jr')" using other by blast
  qed
qed

section \<open>One executor per GPU\<close>

lemma in_group_keyed: "(k, cs) \<in> set (group_keyed kcs) \<longleftrightarrow> k \<in> fst ` set kcs \<and> cs = map snd (filter (\<lambda>x. fst x = k) kcs)"
proof -
  have "(k, cs) \<in> set (group_keyed kcs) \<longleftrightarrow> (\<exists>xs. (k, xs) \<in> set (group_by fst kcs) \<and> cs = map snd xs)"
    unfolding group_keyed_def set_sort by auto
  then show ?thesis unfolding in_group_by by blast
qed

lemma keyed_iff:
  "keyed f cs = Inr kcs \<Longrightarrow> ((k, c, r) \<in> set kcs \<longleftrightarrow> (c, r) \<in> set cs \<and> (\<exists>ks. f r = Inr ks \<and> k \<in> set ks)) \<and> (\<forall>(c, r) \<in> set cs. \<exists>ks. f r = Inr ks)"
proof (induction f cs arbitrary: kcs rule: keyed.induct)
  case (2 f c' r' cs)
  then obtain ks rest where p: "f r' = Inr ks" "keyed f cs = Inr rest" "kcs = map (\<lambda>k. (k, c', r')) ks @ rest"
    by (auto simp: rbind_Inr_iff)
  show ?case using "2.IH" [OF p(2)] p(1,3) by auto
qed simp

lemma zeroed_alias_fails: "\<not> is_successful (zeroed_alias h g k r)"
  by (simp add: zeroed_alias_def is_successful_def)

lemma alias_keeper_least:
  "cs \<noteq> [] \<Longrightarrow> alias_keeper cs \<in> set cs \<and> (\<forall>c \<in> set cs. alias_rank (alias_keeper cs) \<le> alias_rank c)"
proof -
  have "let k = fold (\<lambda>c k. if alias_rank c < alias_rank k then c else k) ys x in
      k \<in> insert x (set ys) \<and> (\<forall>c \<in> insert x (set ys). alias_rank k \<le> alias_rank c)" for ys x
  proof (induction ys arbitrary: x)
    case (Cons y ys)
    show ?case using Cons.IH [of "if alias_rank y < alias_rank x then y else x"]
      by (cases "alias_rank y < alias_rank x") (auto simp: Let_def not_less intro: order_trans)
  qed simp
  then show "cs \<noteq> [] \<Longrightarrow> alias_keeper cs \<in> set cs \<and> (\<forall>c \<in> set cs. alias_rank (alias_keeper cs) \<le> alias_rank c)"
    by (cases cs) (simp_all add: alias_keeper_def Let_def)
qed

definition shared :: "(nat \<times> job_result) list \<Rightarrow> bool" where
  "shared cs \<longleftrightarrow> \<not> length (remdups (map (\<lambda>(i, r). uuid_key r) cs)) < 2"

lemma alias_written:
  "(i, z) \<in> set (gpu_aliases h gs seen) \<Longrightarrow> \<not> is_successful z \<and> (\<exists>g cs r. (g, cs) \<in> set gs \<and> (i, r) \<in> set cs \<and> \<not> jr_is_rented r)"
proof (induction h gs seen rule: gpu_aliases.induct)
  case (2 h g cs gs seen)
  let ?lost = "filter (\<lambda>(i, r). i \<noteq> fst (alias_keeper cs) \<and> \<not> jr_is_rented r \<and> i \<notin> set seen) cs"
  show ?case
  proof (cases "length (remdups (map (\<lambda>(i, r). uuid_key r) cs)) < 2")
    case True
    then show ?thesis using "2.IH"(1) "2.prems" by (simp only: gpu_aliases.simps if_True) (metis list.set_intros(2))
  next
    case False
    have "(i, z) \<in> (\<lambda>(i, r). (i, zeroed_alias h g (alias_keeper cs) r)) ` set ?lost \<or> (i, z) \<in> set (gpu_aliases h gs (map fst ?lost @ seen))"
      using "2.prems" False by (simp only: gpu_aliases.simps if_False Let_def set_append set_map Un_iff)
    then show ?thesis
    proof
      assume "(i, z) \<in> (\<lambda>(i, r). (i, zeroed_alias h g (alias_keeper cs) r)) ` set ?lost"
      then obtain r where "z = zeroed_alias h g (alias_keeper cs) r" "(i, r) \<in> set cs" "\<not> jr_is_rented r" by auto
      then show ?thesis using zeroed_alias_fails by (metis list.set_intros(1))
    next
      assume "(i, z) \<in> set (gpu_aliases h gs (map fst ?lost @ seen))"
      then show ?thesis using "2.IH"(2) [OF False refl refl] by (metis list.set_intros(2))
    qed
  qed
qed simp

lemma alias_lost:
  assumes "(g, cs) \<in> set gs" "shared cs" "(i, r) \<in> set cs" "i \<noteq> fst (alias_keeper cs)" "\<not> jr_is_rented r" "i \<notin> set seen"
  shows "i \<in> fst ` set (gpu_aliases h gs seen)"
  using assms
proof (induction h gs seen rule: gpu_aliases.induct)
  case (2 h g' cs' gs seen)
  let ?lost = "filter (\<lambda>(i, r). i \<noteq> fst (alias_keeper cs') \<and> \<not> jr_is_rented r \<and> i \<notin> set seen) cs'"
  show ?case
  proof (cases "shared cs'")
    case False
    then have "(g, cs) \<in> set gs" using "2.prems"(1,2) by auto
    moreover have "length (remdups (map (\<lambda>(i, r). uuid_key r) cs')) < 2" using False by (simp add: shared_def)
    ultimately show ?thesis using "2.IH"(1) "2.prems"(2-) by simp
  next
    case True
    have e: "fst ` set (gpu_aliases h ((g', cs') # gs) seen) = fst ` set ?lost \<union> fst ` set (gpu_aliases h gs (map fst ?lost @ seen))"
      using True unfolding shared_def by (simp add: Let_def image_Un image_image case_prod_unfold)
    show ?thesis
    proof (cases "i \<in> fst ` set ?lost")
      case False
      then have "(g, cs) \<noteq> (g', cs')" using "2.prems" by force
      then have "(g, cs) \<in> set gs" using "2.prems"(1) by auto
      moreover have "i \<notin> set (map fst ?lost @ seen)" using False "2.prems"(6) by simp
      ultimately show ?thesis using "2.IH"(2) [OF True [unfolded shared_def] refl refl] "2.prems"(2-5) unfolding e by blast
    qed (simp only: e Un_iff simp_thms)
  qed
qed simp

definition share_gpu :: "(pv \<Rightarrow> string) \<Rightarrow> job_result \<Rightarrow> job_result \<Rightarrow> bool" where
  "share_gpu shown a b \<longleftrightarrow> (case (gpu_uuids shown a, gpu_uuids shown b) of (Inr us, Inr vs) \<Rightarrow> set us \<inter> set vs \<noteq> {} | _ \<Rightarrow> False)"

text \<open>What the pass owes to the results of one hotkey.\<close>

definition gpus_once :: "(pv \<Rightarrow> string) \<Rightarrow> job_result list \<Rightarrow> job_result list \<Rightarrow> bool" where
  "gpus_once shown rs rs' \<longleftrightarrow> length rs' = length rs
     \<and> (\<forall>i < length rs. rs' ! i = rs ! i \<or> \<not> jr_is_rented (rs ! i) \<and> \<not> is_successful (rs' ! i))
     \<and> (\<forall>i < length rs. \<forall>j < length rs. is_successful (rs' ! i) \<and> is_successful (rs' ! j) \<and> share_gpu shown (rs' ! i) (rs' ! j)
          \<longrightarrow> uuid_key (rs' ! i) = uuid_key (rs' ! j) \<or> jr_is_rented (rs' ! i) \<and> jr_is_rented (rs' ! j))"

lemma shared_keeper:
  assumes "(i, a) \<in> set cs" "(j, b) \<in> set cs" "uuid_key a \<noteq> uuid_key b"
  shows "shared cs" and "a' = a \<Longrightarrow> alias_keeper cs = (i, a') \<Longrightarrow> jr_is_rented b \<Longrightarrow> jr_is_rented a"
proof -
  have "{uuid_key a, uuid_key b} \<subseteq> (\<lambda>(i, r). uuid_key r) ` set cs" using assms by force
  then have "card {uuid_key a, uuid_key b} \<le> card ((\<lambda>(i, r). uuid_key r) ` set cs)" by (simp add: card_mono)
  then show "shared cs" unfolding shared_def using assms(3) by (simp add: length_remdups_card_conv)
  assume k: "a' = a" "alias_keeper cs = (i, a')" "jr_is_rented b"
  have "cs \<noteq> []" using assms(1) by auto
  then have "alias_rank (i, a) \<le> alias_rank (j, b)" using alias_keeper_least [of cs] assms(2) k(1,2) by auto
  then show "jr_is_rented a" using k(3) by (simp add: alias_rank_def less_eq_prod_def)
qed

lemma alias_step:
  assumes lost: "aliases_of_miner shown h (dget_or [] jr h) = Inr lost" and jr1: "jr1 = fold (\<lambda>(i, r). set_result h i r) lost jr"
  shows "map fst jr1 = map fst jr" "k \<noteq> h \<Longrightarrow> dget_or [] jr1 k = dget_or [] jr k" "gpus_once shown (dget_or [] jr h) (dget_or [] jr1 h)"
proof -
  let ?rs = "dget_or [] jr h" and ?rs' = "dget_or [] jr1 h"
  let ?scored = "filter (\<lambda>(i, r). is_successful r) (enumerate 0 ?rs)"
  have e: "jr1 = fold (\<lambda>w. set_result (fst (h, fst w)) (snd (h, fst w)) (snd w)) lost jr" unfolding jr1 by (simp add: case_prod_unfold)
  note w = writes_at [where pos = "\<lambda>w. (h, fst w)" and val = snd and ws = lost and jr = jr, folded e]
  show "map fst jr1 = map fst jr" by (rule w(2))
  show "k \<noteq> h \<Longrightarrow> dget_or [] jr1 k = dget_or [] jr k" using w(3,4) [where k = k] by (intro nth_equalityI) auto
  obtain kcs where kcs: "keyed (gpu_uuids shown) ?scored = Inr kcs" "lost = gpu_aliases h (group_keyed kcs) []"
    using lost unfolding aliases_of_miner_def by (auto simp: rbind_Inr_iff)
  have group: "(i, r) \<in> set cs \<longleftrightarrow> i < length ?rs \<and> r = ?rs ! i \<and> is_successful r \<and> (\<exists>us. gpu_uuids shown r = Inr us \<and> g \<in> set us)"
    if "cs = map snd (filter (\<lambda>x. fst x = g) kcs)" for g cs i r
  proof -
    have "(i, r) \<in> set cs \<longleftrightarrow> (g, i, r) \<in> set kcs" unfolding that by force
    then show ?thesis using keyed_iff [OF kcs(1), of g i r] by (auto simp: in_set_enumerate_eq)
  qed
  have own: "\<not> is_successful z \<and> \<not> jr_is_rented (?rs ! i)" if lz: "(i, z) \<in> set lost" for i z
  proof -
    obtain g cs r where r: "(g, cs) \<in> set (group_keyed kcs)" "(i, r) \<in> set cs" "\<not> jr_is_rented r" and "\<not> is_successful z"
      using alias_written [OF lz [unfolded kcs(2)]] by blast
    moreover have "r = ?rs ! i" using group r(1,2) unfolding in_group_keyed by blast
    ultimately show ?thesis by simp
  qed
  have at: "?rs' ! i = ?rs ! i \<and> i \<notin> fst ` set lost \<or> \<not> jr_is_rented (?rs ! i) \<and> \<not> is_successful (?rs' ! i)" if "i < length ?rs" for i
    using w(4) [OF that] own by force
  have pair: "uuid_key (?rs ! i) = uuid_key (?rs ! j) \<or> jr_is_rented (?rs ! i)"
    if i: "i < length ?rs" "is_successful (?rs ! i)" "i \<notin> fst ` set lost" and j: "j < length ?rs" "is_successful (?rs ! j)" "j \<notin> fst ` set lost"
      and sh: "share_gpu shown (?rs ! i) (?rs ! j)" for i j
  proof (rule ccontr)
    assume neg: "\<not> ?thesis"
    obtain us vs g where g: "gpu_uuids shown (?rs ! i) = Inr us" "gpu_uuids shown (?rs ! j) = Inr vs" "g \<in> set us" "g \<in> set vs"
      using sh unfolding share_gpu_def by (auto split: sum.splits)
    define cs where "cs = map snd (filter (\<lambda>x. fst x = g) kcs)"
    have ij: "(i, ?rs ! i) \<in> set cs" "(j, ?rs ! j) \<in> set cs" using group [OF cs_def] i j g by blast+
    have gr: "(g, cs) \<in> set (group_keyed kcs)" unfolding in_group_keyed using ij(1) cs_def by force
    have two: "shared cs" using shared_keeper(1) [OF ij] neg by blast
    have ki: "i = fst (alias_keeper cs)" using alias_lost [OF gr two ij(1), where seen = "[]" and h = h] i(3) neg kcs(2) by auto
    have "alias_keeper cs \<in> set cs" using alias_keeper_least [of cs] ij(1) by force
    then have k: "alias_keeper cs = (i, ?rs ! i)" using group [OF cs_def] ki by (metis prod.collapse)
    have "\<not> jr_is_rented (?rs ! j)" using shared_keeper(2) [OF ij _ refl k] neg by blast
    moreover have "i \<noteq> j" using neg by blast
    ultimately show False using alias_lost [OF gr two ij(2), where seen = "[]" and h = h] j(3) ki kcs(2) by auto
  qed
  show "gpus_once shown ?rs ?rs'" unfolding gpus_once_def
  proof (intro conjI allI impI)
    show "length ?rs' = length ?rs" by (rule w(3))
    show "?rs' ! i = ?rs ! i \<or> \<not> jr_is_rented (?rs ! i) \<and> \<not> is_successful (?rs' ! i)" if "i < length ?rs" for i using at [OF that] by blast
    fix i j assume i: "i < length ?rs" and j: "j < length ?rs"
      and s: "is_successful (?rs' ! i) \<and> is_successful (?rs' ! j) \<and> share_gpu shown (?rs' ! i) (?rs' ! j)"
    have st: "?rs' ! i = ?rs ! i" "i \<notin> fst ` set lost" "?rs' ! j = ?rs ! j" "j \<notin> fst ` set lost" using at [OF i] at [OF j] s by blast+
    have sym: "share_gpu shown (?rs ! j) (?rs ! i)" using s unfolding st share_gpu_def by (auto split: sum.splits)
    show "uuid_key (?rs' ! i) = uuid_key (?rs' ! j) \<or> jr_is_rented (?rs' ! i) \<and> jr_is_rented (?rs' ! j)"
      using pair [OF i _ st(2) j _ st(4)] pair [OF j _ st(4) i _ st(2) sym] s unfolding st(1,3) by metis
  qed
qed

lemma keep_gpus_of_each:
  "keep_gpus_of shown hs jr = (jr', None) \<Longrightarrow> distinct hs \<Longrightarrow> map fst jr' = map fst jr
     \<and> (if h \<in> set hs then gpus_once shown (dget_or [] jr h) (dget_or [] jr' h) else dget_or [] jr' h = dget_or [] jr h)"
proof (induction shown hs jr rule: keep_gpus_of.induct)
  case (2 shown k hs jr)
  then obtain lost where lost: "aliases_of_miner shown k (dget_or [] jr k) = Inr lost" by (cases "aliases_of_miner shown k (dget_or [] jr k)") auto
  define jr1 where "jr1 = fold (\<lambda>(i, r). set_result k i r) lost jr"
  note st = alias_step [OF lost jr1_def]
  have "keep_gpus_of shown hs jr1 = (jr', None)" "distinct hs" "k \<notin> set hs" using "2.prems" lost by (simp_all add: jr1_def)
  note ih = "2.IH" [OF lost, folded jr1_def, OF this(1,2)] this(3)
  show ?case
  proof (cases "h = k")
    case True
    then show ?thesis using ih st(1,3) by simp
  next
    case False
    then show ?thesis using ih st(1) st(2) [OF False] by (cases "h \<in> set hs") simp_all
  qed
qed simp

text \<open>
  Claim C37. When the pass over the GPUs ends, two executors of one hotkey that still earn and report a
  common GPU are the same executor, or both are rented; it changes no rented result, every result it changes stops earning,
  and no result is added or moved.
\<close>

theorem one_executor_per_gpu:
  assumes "is_dict jr" and "keep_one_executor_per_gpu shown jr = (jr', None)"
  shows "map fst jr' = map fst jr \<and> (\<forall>h \<in> set (map fst jr). gpus_once shown (dget_or [] jr h) (dget_or [] jr' h))"
proof -
  have "distinct (sort (map fst jr))" using assms(1) by (simp add: is_dict_def)
  then show ?thesis
    using keep_gpus_of_each [OF assms(2) [unfolded keep_one_executor_per_gpu_def], of h for h] by (simp split: if_splits)
qed

section \<open>Settling the cycle\<close>

lemma keyed_total: "(\<exists>kcs. keyed f cs = Inr kcs) \<longleftrightarrow> (\<forall>(c, r) \<in> set cs. \<exists>ks. f r = Inr ks)"
proof (induction f cs rule: keyed.induct)
  case (2 f c r cs)
  then show ?case by (auto simp: rbind_Inr_iff)
qed simp

definition readable :: "(pv \<Rightarrow> string) \<Rightarrow> job_result list \<Rightarrow> bool" where
  "readable shown rs \<longleftrightarrow> (\<forall>r \<in> set rs. is_successful r \<longrightarrow> (\<exists>us. gpu_uuids shown r = Inr us))"

lemma aliases_of_readable: "readable shown rs \<Longrightarrow> \<exists>lost. aliases_of_miner shown h rs = Inr lost"
proof -
  assume "readable shown rs"
  then have "\<forall>(i, r) \<in> set (filter (\<lambda>(i, r). is_successful r) (enumerate 0 rs)). \<exists>us. gpu_uuids shown r = Inr us"
    by (auto simp: readable_def in_set_enumerate_eq)
  then obtain kcs where "keyed (gpu_uuids shown) (filter (\<lambda>(i, r). is_successful r) (enumerate 0 rs)) = Inr kcs"
    using keyed_total [of "gpu_uuids shown"] by blast
  then show ?thesis by (simp add: aliases_of_miner_def)
qed

lemma keep_gpus_of_readable:
  "distinct hs \<Longrightarrow> \<forall>h \<in> set hs. readable shown (dget_or [] jr h) \<Longrightarrow> snd (keep_gpus_of shown hs jr) = None"
proof (induction shown hs jr rule: keep_gpus_of.induct)
  case (2 shown k hs jr)
  obtain lost where lost: "aliases_of_miner shown k (dget_or [] jr k) = Inr lost" using aliases_of_readable "2.prems"(2) by (metis list.set_intros(1))
  define jr1 where "jr1 = fold (\<lambda>(i, r). set_result k i r) lost jr"
  have "dget_or [] jr1 h = dget_or [] jr h" if "h \<in> set hs" for h
    using alias_step(2) [OF lost jr1_def, of h] "2.prems"(1) that by auto
  then have "snd (keep_gpus_of shown hs jr1) = None" using "2.IH" [OF lost] "2.prems" by (simp add: jr1_def)
  then show ?case using lost by (simp add: jr1_def)
qed simp

lemma scored_of_hotkey: "r \<in> set (dget_or [] jr h) \<Longrightarrow> is_successful r \<Longrightarrow> \<exists>i. (h, i, r) \<in> set (scored_copies jr)"
proof -
  assume r: "r \<in> set (dget_or [] jr h)" "is_successful r"
  then have "dget jr h \<noteq> None" by (cases "dget jr h") (simp_all add: dget_or_def)
  then have "h \<in> fst ` set jr" by (simp only: dget_None_iff not_not)
  then show ?thesis using r unfolding in_scored by (metis in_set_conv_nth)
qed

lemma read_once:
  assumes "is_dict jr" and ok: "keep_one_miner_per_executor shown rental jr = Inr (ds, jr1)"
  shows "map fst jr1 = map fst jr" and "snd (keep_one_executor_per_gpu shown jr1) = None"
proof -
  have jr1: "jr1 = fold (\<lambda>l. set_result (fst (fst (lo_copy l), fst (snd (lo_copy l)))) (snd (fst (lo_copy l), fst (snd (lo_copy l)))) (zeroed_duplicate l))
      (losers rental (scored_copies jr)) jr"
    and "\<exists>kcs. keyed (reported_keys shown) (map (\<lambda>(h, i, r). ((h, i), r)) (scored_copies jr)) = Inr kcs"
    using ok unfolding keep_one_miner_per_executor_def Let_def rbind_Inr_iff zero_loser_def fst_conv snd_conv by auto
  then have all: "\<exists>ks. reported_keys shown r = Inr ks" if "(h, i, r) \<in> set (scored_copies jr)" for h i r
    using that unfolding keyed_total by force
  show keys: "map fst jr1 = map fst jr" unfolding jr1 by (rule writes_at(2))
  have "\<exists>us. gpu_uuids shown r = Inr us" if r: "(h, i, r) \<in> set (scored_copies jr1)" for h i r
    using all [of h i r] standing_copies [OF ok] r unfolding reported_keys_def by (auto simp: rbind_Inr_iff)
  then have "readable shown (dget_or [] jr1 h)" for h
    unfolding readable_def using scored_of_hotkey by blast
  moreover have "distinct (sort (map fst jr1))" using assms(1) by (simp add: is_dict_def keys)
  ultimately show "snd (keep_one_executor_per_gpu shown jr1) = None"
    unfolding keep_one_executor_per_gpu_def using keep_gpus_of_readable by blast
qed

lemma counted:
  "dget_or 0 (fold (count_gpu env) rs d) m = dget_or 0 d m
     + sum_list (map jr_gpu_count (filter (\<lambda>r. counts_in_tier env r \<and> jr_gpu_model r = Some m) rs))"
proof (induction rs arbitrary: d)
  case (Cons r rs)
  have "dget_or 0 (count_gpu env r d) m = dget_or 0 d m + (if counts_in_tier env r \<and> jr_gpu_model r = Some m then jr_gpu_count r else 0)"
    by (auto simp: count_gpu_def split: option.splits)
  then show ?case using Cons.IH by simp
qed simp

text \<open>
  Claim C38. Settling a cycle is all or nothing: the results stay as they are when a scrape cannot be read, and otherwise
  both duplicate passes run to their end. The GPUs counted for a model are those of the settled results of that
  model that count in its tier.
\<close>

theorem settling_is_all_or_nothing:
  assumes "is_dict jr" and "settle_cycle_results env shown rented jr = (jr', counts)"
  shows "(case keep_one_miner_per_executor shown (rental_hotkeys_of rented) jr of
            Inl x \<Rightarrow> jr' = jr
          | Inr (ds, jr1) \<Rightarrow> keep_one_executor_per_gpu shown jr1 = (jr', None))
    \<and> dget_or 0 counts m = sum_list (map jr_gpu_count (filter (\<lambda>r. counts_in_tier env r \<and> jr_gpu_model r = Some m) (concat (map snd jr'))))"
proof -
  have settled: "jr' = (case keep_one_miner_per_executor shown (rental_hotkeys_of rented) jr of Inl x \<Rightarrow> jr
      | Inr (ds, jr1) \<Rightarrow> fst (keep_one_executor_per_gpu shown jr1))" "counts = fold (count_gpu env) (concat (map snd jr')) []"
    using assms(2) unfolding settle_cycle_results_def Let_def by auto
  show ?thesis
  proof (intro conjI)
    show "case keep_one_miner_per_executor shown (rental_hotkeys_of rented) jr of
            Inl x \<Rightarrow> jr' = jr
          | Inr (ds, jr1) \<Rightarrow> keep_one_executor_per_gpu shown jr1 = (jr', None)"
      using settled(1) read_once(2) [OF assms(1)] by (simp add: prod_eq_iff split: sum.splits prod.splits)
  qed (simp add: settled(2) counted)
qed

section \<open>Concrete cycles\<close>

definition shown_none :: "pv \<Rightarrow> string" where "shown_none v = []"

definition node_with :: "string \<Rightarrow> string \<Rightarrow> string list \<Rightarrow> job_result" where
  "node_with uuid address gpus = (sample_node 0)
     \<lparr>jr_executor_info := sample_node_info\<lparr>ex_uuid := uuid, ex_address := address, ex_port := 80\<rparr>,
      jr_spec := Some [(''gpu'', PDict [(''details'', PList (map (\<lambda>g. PDict [(''uuid'', PStr g)]) gpus))])]\<rparr>"

definition twice_listed :: cycle_results where
  "twice_listed = [(''hk2'', [node_with ''a'' ''10.0.0.1 '' [''g1'']]), (''hk1'', [node_with ''b'' ''10.0.0.1'' [''g1''], node_with ''c'' ''10.0.0.2'' [''g1'']])]"

theorem one_hotkey_per_machine_witness:
  "\<exists>ds jr'. keep_one_miner_per_executor shown_none [] twice_listed = Inr (ds, jr')
     \<and> set (scored_copies jr') \<subseteq> set (scored_copies twice_listed) \<and> length (scored_copies twice_listed) = 3 \<and> length (scored_copies jr') = 2"
proof -
  have "case keep_one_miner_per_executor shown_none [] twice_listed of Inl x \<Rightarrow> False
     | Inr (ds, jr') \<Rightarrow> length (scored_copies twice_listed) = 3 \<and> length (scored_copies jr') = 2" by code_simp
  then obtain ds jr' where "keep_one_miner_per_executor shown_none [] twice_listed = Inr (ds, jr')"
    "length (scored_copies twice_listed) = 3" "length (scored_copies jr') = 2" by (auto split: sum.splits)
  then show ?thesis using one_hotkey_per_machine by blast
qed

definition chained :: cycle_results where
  "chained = [(''hk'', [node_with ''a'' ''10.0.0.1'' [''g1''], node_with ''b'' ''10.0.0.2'' [''g1'', ''g2''], node_with ''c'' ''10.0.0.3'' [''g2'']])]"

theorem one_executor_per_gpu_witness:
  "\<exists>jr'. keep_one_executor_per_gpu shown_none chained = (jr', None) \<and> gpus_once shown_none (dget_or [] chained ''hk'') (dget_or [] jr' ''hk'')
     \<and> length (scored_copies jr') < length (scored_copies chained)"
proof -
  have "case keep_one_executor_per_gpu shown_none chained of (jr', e) \<Rightarrow> e = None \<and> length (scored_copies jr') < length (scored_copies chained)"
    by code_simp
  then obtain jr' where r: "keep_one_executor_per_gpu shown_none chained = (jr', None)" "length (scored_copies jr') < length (scored_copies chained)"
    by auto
  have "is_dict chained" "''hk'' \<in> set (map fst chained)" by (simp_all add: chained_def is_dict_def)
  then show ?thesis using one_executor_per_gpu [OF _ r(1)] r by blast
qed

theorem settling_is_all_or_nothing_witness:
  "\<exists>jr' counts. settle_cycle_results sample_env shown_none None chained = (jr', counts)
     \<and> (case keep_one_miner_per_executor shown_none (rental_hotkeys_of None) chained of Inl x \<Rightarrow> jr' = chained
        | Inr (ds, jr1) \<Rightarrow> keep_one_executor_per_gpu shown_none jr1 = (jr', None)) \<and> length (scored_copies jr') = 1"
proof -
  have "length (scored_copies (fst (settle_cycle_results sample_env shown_none None chained))) = 1" by code_simp
  moreover obtain jr' counts where "settle_cycle_results sample_env shown_none None chained = (jr', counts)" by fastforce
  moreover have "is_dict chained" by (simp add: chained_def is_dict_def)
  ultimately show ?thesis using settling_is_all_or_nothing by fastforce
qed


end
