(* ===== verification/Spec2Isabelle.thy ===== *)
theory Spec2Isabelle
  imports Ssh_Runner Pipeline_Proofs Gpu_Proofs Ports_Proofs Score Availability_Proofs
    Weights_Proofs Incentive_Config_Proofs Incentive_Cycle_Proofs Incentive_Snapshot
    Cycle_Duplicates_Proofs
begin

text \<open>
  Verification of the lium validator (\<open>src/neurons/validators/src\<close>).

  \<^bold>\<open>The program.\<close> A cycle of the validator runs a pipeline of checks on every executor of every
  miner, turns each run into a job result with scores and availability errors, silences errors that
  are the validator's own outage, settles machines and GPUs that are listed twice, and pays the
  results of the cycle: rented nodes from the mining pool, idle nodes from the rental share, spot nodes
  and floor top-ups from the rest of the burn. The incentives become weights, from which burn slots and
  the referral pool are served.

  \<^bold>\<open>The theories.\<close>
  \<^item> \<open>Lium_Prelude\<close>, \<open>Py_Float\<close>, \<open>Py_Value\<close>, \<open>Py_Number\<close>, \<open>Py_Json\<close>: exceptions and results, Python
    dictionaries (locale \<open>keyed_store\<close>, interpreted as \<open>py_dict\<close>), string operations, binary64
    floats as rationals with the rounding function \<open>fl\<close> (locale \<open>rounding\<close>, interpreted as \<open>b64\<close>),
    dynamic values, \<open>float()\<close>, and \<open>json.loads\<close> with the length of the text as fuel, which bounds the
    number of values it can hold.
  \<^item> \<open>Ssh_Runner\<close>: services/task/runner.py, the retry loop.
  \<^item> \<open>Rented_Data\<close>, \<open>Validation_Model\<close>: the backend's reply, executors, image policy, events and
    messages (compute_requests.py, validator_requests.py, executor_image_policy.py, messages.py).
  \<^item> \<open>Pipeline\<close>, \<open>Pipeline_Proofs\<close>: services/task/pipeline.py. A context record is threaded through
    checks; a parallel stage is a step relation on its lanes, and the proofs show that every
    interleaving gives the result of running the lanes in turn, that merging lanes commutes, and
    that a fatal failure ends the run.
  \<^item> \<open>Gpu_Tables\<close>, \<open>Gpu_Proofs\<close>: gpu_spec_table.py, gpu_reference_table.py, gpu_precheck.py.
  \<^item> \<open>Ports\<close>, \<open>Ports_Proofs\<close>: port_utils.py, port_selector.py, checks/port_count.py, rental_owner.py.
  \<^item> \<open>Score\<close>: score_calculator.py, checks/score.py, checks/finalize.py.
  \<^item> \<open>Job_Result\<close>, \<open>Availability\<close>, \<open>Availability_Proofs\<close>: services/task/models.py and availability.py.
  \<^item> \<open>Incentive_Config\<close>, \<open>Incentive_Config_Proofs\<close>: incentive/config.py and utils.get_hourly_rate; the
    shipped tables are valid.
  \<^item> \<open>Weights\<close>, \<open>Weights_Proofs\<close>: burn_service.py and the weights of default.py.
  \<^item> \<open>Incentive_Default\<close>, \<open>Incentive_Rental\<close>, \<open>Incentive_Engine\<close>, \<open>Incentive_Snapshot\<close>: default.py, base.py,
    eligibility.py and rental_price.py. Results live in a store and are referred to by address,
    because the engine's candidate lists share them with the miners' lists and a partially rented
    node adds a result. \<open>Incentive_Rental_Proofs\<close> shows who is excluded, who is eligible and that
    nobody is paid from two pools. \<open>Incentive_Engine_Proofs\<close> has the loops of the engine as instances of
    one locale (\<open>result_loop\<close>: a step touches the result at its own address only);
    \<open>Incentive_Progress_Proofs\<close> shows when a cycle completes and which results stop it;
    \<open>Incentive_Cycle_Proofs\<close> shows that a cycle loses no GPU and no result, what a miner is credited
    with, and the bounds of caps and shares. \<open>Incentive_Samples\<close> holds the concrete inputs of the
    witnesses.
  \<^item> \<open>Cycle_Duplicates\<close>, \<open>Cycle_Duplicates_Proofs\<close>: checks/duplicate_executor.py and
    \<open>settle_cycle_results\<close> of core/validator.py, which run between the pipelines and the incentives. A
    result is known by its hotkey and its position. A machine earns under exactly one hotkey, two executors
    of one hotkey that share a GPU do not both earn unless both are rented, settling is all or
    nothing, and a chain of shared GPUs can leave a GPU that earns nowhere.

  \<^bold>\<open>Inputs.\<close> The network, the clock, Redis, the shared configuration, prices and the outcome of each
  SSH attempt are arguments. Settings read from the environment are records.

  \<^bold>\<open>Not modelled.\<close> The structured logs and the text of the miner-facing lines (only their reason
  codes); container lifecycle, miner connections, hardware validation back ends, GPU maintenance, the
  scrape, the miner and the executor: they are I/O on remote machines.
\<close>

end
